(* ===== verification/Prelude.thy ===== *)
theory Prelude
  imports Main
begin

text \<open>
  Shared vocabulary of the development. Python strings are sequences of code points; the
  model reads an Isabelle \<open>char\<close> as a Latin-1 code point (0 to 255), so that the accented
  capitals the date parser names (E acute 0xC9, U circumflex 0xDB, C cedilla 0xC7 and so on)
  are single characters as they are in Python. The character classes below are those of
  Python 3's \<open>re\<close> module and \<open>str\<close> methods restricted to that range:
  \<^item> \<open>py_isspace\<close>: \<open>\s\<close> and \<open>str.isspace\<close> (tab to carriage return, the four information
    separators 0x1C to 0x1F, space, NEL 0x85, no-break space 0xA0);
  \<^item> \<open>py_isdigit\<close>: \<open>\d\<close> (Unicode decimal digits: only 0 to 9 in this range);
  \<^item> \<open>py_isword\<close>: \<open>\w\<close> (\<open>str.isalnum\<close> or underscore: ASCII letters and digits,
    the Latin-1 letters, the ordinal indicators, the superscript digits, the vulgar
    fractions and the micro sign);
  \<^item> \<open>py_upper\<close>: \<open>str.upper\<close>; the sharp s becomes the two letters SS as in Python.
    Python maps y with diaeresis (0xFF) and the micro sign (0xB5) to code points outside
    Latin-1; the model leaves them unchanged. Both forms are word characters and no later
    stage of the parser tells them apart.
  It also holds the generic model of \<open>re.sub\<close> (a left-to-right scan for leftmost,
  non-overlapping matches) that every regular-expression substitution of the source is
  an instance of.
\<close>

named_theorems py_chars "classification of concrete characters"

section \<open>Character classes\<close>

type_synonym pystr = string

definition cp :: "char \<Rightarrow> nat" where
  "cp c = of_char c"

definition py_isspace :: "char \<Rightarrow> bool" where
  "py_isspace c \<longleftrightarrow> (let n = cp c in
     (9 \<le> n \<and> n \<le> 13) \<or> (28 \<le> n \<and> n \<le> 32) \<or> n = 133 \<or> n = 160)"

definition py_isdigit :: "char \<Rightarrow> bool" where
  "py_isdigit c \<longleftrightarrow> (let n = cp c in 48 \<le> n \<and> n \<le> 57)"

definition py_isalnum :: "char \<Rightarrow> bool" where
  "py_isalnum c \<longleftrightarrow> (let n = cp c in
     (48 \<le> n \<and> n \<le> 57) \<or> (65 \<le> n \<and> n \<le> 90) \<or> (97 \<le> n \<and> n \<le> 122) \<or>
     n = 170 \<or> n = 178 \<or> n = 179 \<or> n = 181 \<or> n = 185 \<or> n = 186 \<or>
     (188 \<le> n \<and> n \<le> 190) \<or> (192 \<le> n \<and> n \<le> 214) \<or> (216 \<le> n \<and> n \<le> 246) \<or>
     (248 \<le> n \<and> n \<le> 255))"

definition py_isword :: "char \<Rightarrow> bool" where
  "py_isword c \<longleftrightarrow> py_isalnum c \<or> c = CHR ''_''"

text \<open>The regular-expression word boundary \<open>\b\<close> between a previous and a next character
  (\<open>None\<close> at either end of the string).\<close>

definition py_boundary :: "char option \<Rightarrow> char option \<Rightarrow> bool" where
  "py_boundary p n \<longleftrightarrow> (case p of None \<Rightarrow> False | Some c \<Rightarrow> py_isword c) \<noteq>
                       (case n of None \<Rightarrow> False | Some c \<Rightarrow> py_isword c)"

text \<open>\<open>$\<close> without MULTILINE: the end of the string, or just before a final newline.\<close>

definition py_at_end :: "pystr \<Rightarrow> bool" where
  "py_at_end rest \<longleftrightarrow> rest = [] \<or> rest = [CHR 0x0A]"

definition py_upper_char :: "char \<Rightarrow> pystr" where
  "py_upper_char c = (let n = cp c in
     if (97 \<le> n \<and> n \<le> 122) \<or> (224 \<le> n \<and> n \<le> 254 \<and> n \<noteq> 247) then [char_of (n - 32)]
     else if n = 223 then ''SS''
     else [c])"

definition py_upper :: "pystr \<Rightarrow> pystr" where
  "py_upper s = concat (map py_upper_char s)"

definition py_strip :: "pystr \<Rightarrow> pystr" where
  "py_strip s = rev (dropWhile py_isspace (rev (dropWhile py_isspace s)))"

section \<open>The scan of re.sub\<close>

text \<open>
  A matcher is tried at one position: it sees the character before the position (for
  \<open>\b\<close>) and the rest of the string (for \<open>$\<close>), and returns the replacement and the
  number of characters the match consumes. \<open>re_sub\<close> is \<open>re.sub(pattern, repl, s)\<close>:
  at each position it tries the pattern; on a match it emits the replacement and goes on
  after the match, otherwise it copies one character. Every pattern of the source matches
  at least one character, so a match of length 0 is never produced; the scan treats it as
  no match.
\<close>

type_synonym matcher = "char option \<Rightarrow> pystr \<Rightarrow> (pystr \<times> nat) option"

function re_sub :: "matcher \<Rightarrow> char option \<Rightarrow> pystr \<Rightarrow> pystr" where
  "re_sub m p [] = []"
| "re_sub m p (c # cs) =
     (case m p (c # cs) of
        Some (r, k) \<Rightarrow>
          if 0 < k then r @ re_sub m (Some ((c # cs) ! (k - 1))) (drop k (c # cs))
          else c # re_sub m (Some c) cs
      | None \<Rightarrow> c # re_sub m (Some c) cs)"
  by pat_completeness auto
termination
  by (relation "measure (\<lambda>(m, p, s). length s)") auto

text \<open>\<open>str.replace(old, new)\<close> with a non-empty \<open>old\<close> is the same scan with a literal
  pattern.\<close>

definition lit_match :: "pystr \<Rightarrow> pystr \<Rightarrow> matcher" where
  "lit_match old new p s = (if old \<noteq> [] \<and> take (length old) s = old
                            then Some (new, length old) else None)"

definition str_replace :: "pystr \<Rightarrow> pystr \<Rightarrow> pystr \<Rightarrow> pystr" where
  "str_replace old new s = re_sub (lit_match old new) None s"

section \<open>Decimal numerals\<close>

definition digit_val :: "char \<Rightarrow> nat" where
  "digit_val c = cp c - 48"

text \<open>\<open>int(s)\<close> on a string of digits, possibly with surrounding blanks (\<open>int\<close> strips them).\<close>

definition py_int :: "pystr \<Rightarrow> nat" where
  "py_int s = foldl (\<lambda>acc c. 10 * acc + digit_val c) 0 (filter py_isdigit s)"

definition digit_char :: "nat \<Rightarrow> char" where
  "digit_char n = char_of (48 + n)"

text \<open>Zero-padded decimal rendering to a fixed width, as \<open>%02d\<close> and \<open>%04d\<close> print.\<close>

fun pad_digits :: "nat \<Rightarrow> nat \<Rightarrow> pystr" where
  "pad_digits 0 n = []"
| "pad_digits (Suc w) n = pad_digits w (n div 10) @ [digit_char (n mod 10)]"

section \<open>Python string methods and dicts\<close>

text \<open>\<open>str.lower\<close> on Latin-1: the ASCII and the Latin-1 capitals (not the multiplication
  sign 0xD7) move up by 32.\<close>

definition py_lower_char :: "char \<Rightarrow> char" where
  "py_lower_char c = (let n = cp c in
     if (65 \<le> n \<and> n \<le> 90) \<or> (192 \<le> n \<and> n \<le> 222 \<and> n \<noteq> 215) then char_of (n + 32) else c)"

definition py_lower :: "pystr \<Rightarrow> pystr" where
  "py_lower s = map py_lower_char s"

text \<open>\<open>str.strip(chars)\<close>: drop the characters of a set from both ends.\<close>

definition py_strip_chars :: "char list \<Rightarrow> pystr \<Rightarrow> pystr" where
  "py_strip_chars cs s = rev (dropWhile (\<lambda>c. c \<in> set cs) (rev (dropWhile (\<lambda>c. c \<in> set cs) s)))"

definition py_startswith :: "pystr \<Rightarrow> pystr \<Rightarrow> bool" where
  "py_startswith s p \<longleftrightarrow> take (length p) s = p"

definition py_endswith :: "pystr \<Rightarrow> pystr \<Rightarrow> bool" where
  "py_endswith s p \<longleftrightarrow> length p \<le> length s \<and> drop (length s - length p) s = p"

text \<open>\<open>str.split(sep)\<close> with a one-character separator: the pieces between the
  separators, empty pieces included; the empty string splits into one empty piece.\<close>

fun py_split :: "char \<Rightarrow> pystr \<Rightarrow> pystr list" where
  "py_split c [] = [[]]"
| "py_split c (x # xs) = (if x = c then [] # py_split c xs
                          else (let r = py_split c xs in (x # hd r) # tl r))"

text \<open>\<open>sep.join(parts)\<close>.\<close>

fun py_join :: "pystr \<Rightarrow> pystr list \<Rightarrow> pystr" where
  "py_join sep [] = []"
| "py_join sep [x] = x"
| "py_join sep (x # y # ys) = x @ sep @ py_join sep (y # ys)"

text \<open>A Python dict is an association list in insertion order: assigning an existing key
  replaces its value in place, a new key goes to the end; \<open>dict.update\<close> assigns the
  other dict's entries in its order.\<close>

type_synonym ('k, 'v) pydict = "('k \<times> 'v) list"

definition dict_set :: "('k, 'v) pydict \<Rightarrow> 'k \<Rightarrow> 'v \<Rightarrow> ('k, 'v) pydict" where
  "dict_set d k v = (if k \<in> fst ` set d then map (\<lambda>(k', v'). if k' = k then (k', v) else (k', v')) d
                     else d @ [(k, v)])"

definition dict_update :: "('k, 'v) pydict \<Rightarrow> ('k, 'v) pydict \<Rightarrow> ('k, 'v) pydict" where
  "dict_update d e = foldl (\<lambda>acc (k, v). dict_set acc k v) d e"

definition dict_del :: "('k, 'v) pydict \<Rightarrow> 'k \<Rightarrow> ('k, 'v) pydict" where
  "dict_del d k = filter (\<lambda>(k', v). k' \<noteq> k) d"

section \<open>Lemmas\<close>

subsection \<open>Concrete characters\<close>

text \<open>The classes evaluate on a character literal (a \<open>Char\<close> term) and nowhere else, so
  that \<open>simp\<close> decides them on literals and leaves variables to the lemmas below.\<close>

lemma py_classes_Char [simp, py_chars]:
  fixes b0 b1 b2 b3 b4 b5 b6 b7 :: bool
  defines "c \<equiv> Char b0 b1 b2 b3 b4 b5 b6 b7"
  shows "py_isspace c = (let n = cp c in
           (9 \<le> n \<and> n \<le> 13) \<or> (28 \<le> n \<and> n \<le> 32) \<or> n = 133 \<or> n = 160)"
    and "py_isdigit c = (let n = cp c in 48 \<le> n \<and> n \<le> 57)"
    and "py_isword c = (py_isalnum c \<or> c = CHR ''_'')"
    and "py_isalnum c = (let n = cp c in
           (48 \<le> n \<and> n \<le> 57) \<or> (65 \<le> n \<and> n \<le> 90) \<or> (97 \<le> n \<and> n \<le> 122) \<or>
           n = 170 \<or> n = 178 \<or> n = 179 \<or> n = 181 \<or> n = 185 \<or> n = 186 \<or>
           (188 \<le> n \<and> n \<le> 190) \<or> (192 \<le> n \<and> n \<le> 214) \<or> (216 \<le> n \<and> n \<le> 246) \<or>
           (248 \<le> n \<and> n \<le> 255))"
    and "py_upper_char c = (let n = cp c in
           if (97 \<le> n \<and> n \<le> 122) \<or> (224 \<le> n \<and> n \<le> 254 \<and> n \<noteq> 247) then [char_of (n - 32)]
           else if n = 223 then ''SS'' else [c])"
    and "cp c = of_char c"
  unfolding c_def
  by (simp_all only: py_isspace_def py_isdigit_def py_isword_def py_isalnum_def
      py_upper_char_def cp_def)

text \<open>A computed character (\<open>char_of n\<close>) is compared with a literal by its code.\<close>

lemma char_of_eq_lit [simp]:
  "(char_of (n::nat) = c) \<longleftrightarrow> n mod 256 = of_char c"
  "(c = char_of (n::nat)) \<longleftrightarrow> n mod 256 = of_char c"
proof -
  show 1: "(char_of (n::nat) = c) \<longleftrightarrow> n mod 256 = of_char c"
    by (simp add: char_of_eq_iff take_bit_eq_mod)
  show "(c = char_of (n::nat)) \<longleftrightarrow> n mod 256 = of_char c"
    using 1 by auto
qed

subsection \<open>Digits\<close>

lemma digit_val_Char [simp]:
  "digit_val (Char b0 b1 b2 b3 b4 b5 b6 b7) = of_char (Char b0 b1 b2 b3 b4 b5 b6 b7) - 48"
  by (simp only: digit_val_def cp_def)

lemma digit_val_lt: "py_isdigit c \<Longrightarrow> digit_val c < 10"
  unfolding py_isdigit_def digit_val_def Let_def by arith

lemma digit_classes [simp]:
  assumes "py_isdigit c"
  shows "py_isword c" and "py_isalnum c" and "\<not> py_isspace c" and "py_upper_char c = [c]"
  using assms
  by (auto simp: py_isdigit_def py_isword_def py_isalnum_def py_isspace_def
      py_upper_char_def Let_def)

lemma digit_neq [simp]:
  "py_isdigit c \<Longrightarrow> \<not> py_isdigit x \<Longrightarrow> (c = x) = False"
  "py_isdigit c \<Longrightarrow> \<not> py_isdigit x \<Longrightarrow> (x = c) = False"
  by auto

lemma digit_char_digit [simp]: "k < 10 \<Longrightarrow> py_isdigit (digit_char k)"
  by (simp add: digit_char_def py_isdigit_def cp_def)

lemma digit_val_digit_char [simp]: "k < 10 \<Longrightarrow> digit_val (digit_char k) = k"
  by (simp add: digit_char_def digit_val_def cp_def)

lemma digit_char_simps [simp]:
  "digit_char 0 = CHR ''0''" "digit_char 1 = CHR ''1''" "digit_char 2 = CHR ''2''"
  "digit_char 3 = CHR ''3''" "digit_char 4 = CHR ''4''" "digit_char 5 = CHR ''5''"
  "digit_char 6 = CHR ''6''" "digit_char 7 = CHR ''7''" "digit_char 8 = CHR ''8''"
  "digit_char 9 = CHR ''9''" "digit_char (Suc 0) = CHR ''1''"
  by (simp_all add: digit_char_def)

subsection \<open>Zero-padded numerals\<close>

lemma length_pad_digits [simp]: "length (pad_digits w n) = w"
  by (induction w arbitrary: n) auto

lemma pad_digits_digits: "c \<in> set (pad_digits w n) \<Longrightarrow> py_isdigit c"
  by (induction w arbitrary: n) auto

lemma py_int_snoc_digit:
  "py_isdigit c \<Longrightarrow> py_int (xs @ [c]) = 10 * py_int xs + digit_val c"
  by (simp add: py_int_def)

lemma py_int_pad_digits: "py_int (pad_digits w n) = n mod 10 ^ w"
proof (induction w arbitrary: n)
  case 0
  then show ?case by (simp add: py_int_def)
next
  case (Suc w)
  have "py_int (pad_digits (Suc w) n) = 10 * (n div 10 mod 10 ^ w) + n mod 10"
    by (simp add: py_int_snoc_digit Suc.IH)
  also have "\<dots> = n mod (10 * 10 ^ w)"
    by (simp add: mod_mult2_eq)
  finally show ?case by simp
qed

lemma py_int_pad_digits_exact: "n < 10 ^ w \<Longrightarrow> py_int (pad_digits w n) = n"
  by (simp add: py_int_pad_digits)

lemma pad_digits_2:
  "pad_digits 2 n = [digit_char (n div 10 mod 10), digit_char (n mod 10)]"
  by (simp add: numeral_2_eq_2)

lemma pad_digits_Nil_iff [simp]: "pad_digits w n = [] \<longleftrightarrow> w = 0"
  by (cases w) simp_all

lemma pad_digits_4:
  "pad_digits 4 n = [digit_char (n div 1000 mod 10), digit_char (n div 100 mod 10),
                     digit_char (n div 10 mod 10), digit_char (n mod 10)]"
proof -
  have "(4::nat) = Suc (Suc 2)"
    by simp
  then have "pad_digits 4 n = pad_digits 2 (n div 10 div 10) @ [digit_char (n div 10 mod 10), digit_char (n mod 10)]"
    by (simp only: pad_digits.simps append_assoc append_Cons append_Nil)
  moreover have "n div 10 div 10 div 10 = n div 1000" "n div 10 div 10 = n div 100"
    by (simp_all add: div_mult2_eq [symmetric])
  ultimately show ?thesis
    by (simp add: pad_digits_2)
qed

lemma pad_digits_2_eq:
  assumes "d < 100" "m < 100"
  shows "pad_digits 2 d = pad_digits 2 m \<longleftrightarrow> d = m"
proof
  assume eq: "pad_digits 2 d = pad_digits 2 m"
  have "py_int (pad_digits 2 d) = d"
    using assms(1) py_int_pad_digits_exact [of d 2] by simp
  moreover have "py_int (pad_digits 2 m) = m"
    using assms(2) py_int_pad_digits_exact [of m 2] by simp
  ultimately show "d = m"
    using eq by metis
qed simp

subsection \<open>Scans that find nothing\<close>

text \<open>\<open>re.sub\<close> leaves a string unchanged when its pattern matches at no position.\<close>

lemma re_sub_no_match:
  assumes "\<And>q k. k < length s \<Longrightarrow> m q (drop k s) = None"
  shows "re_sub m p s = s"
  using assms
proof (induction s arbitrary: p)
  case Nil
  then show ?case by simp
next
  case (Cons c cs)
  have "m p (c # cs) = None"
    using Cons.prems [of 0 p] by simp
  moreover have "re_sub m (Some c) cs = cs"
    using Cons.prems [of "Suc k" for k] by (intro Cons.IH) auto
  ultimately show ?case by simp
qed

text \<open>The same for a matcher that never fires on strings over an alphabet.\<close>

lemma re_sub_no_match_on:
  assumes none: "\<And>q t. t \<noteq> [] \<Longrightarrow> set t \<subseteq> A \<Longrightarrow> m q t = None" and s: "set s \<subseteq> A"
  shows "re_sub m p s = s"
proof (rule re_sub_no_match)
  fix q k assume k: "k < length s"
  have "drop k s \<noteq> []"
    using k by simp
  moreover have "set (drop k s) \<subseteq> A"
    using set_drop_subset [of k s] s by (rule order_trans)
  ultimately show "m q (drop k s) = None"
    by (rule none)
qed

lemma py_upper_id: "(\<And>c. c \<in> set s \<Longrightarrow> py_upper_char c = [c]) \<Longrightarrow> py_upper s = s"
  by (induction s) (auto simp: py_upper_def)

lemma py_strip_id:
  assumes "\<And>c. c \<in> set s \<Longrightarrow> \<not> py_isspace c"
  shows "py_strip s = s"
proof -
  have "dropWhile py_isspace s = s"
    using assms by (cases s) auto
  moreover have "dropWhile py_isspace (rev s) = rev s"
    using assms by (cases "rev s") (auto simp: dropWhile_eq_self_iff dest: arg_cong [of _ _ set])
  ultimately show ?thesis
    by (simp add: py_strip_def)
qed

subsection \<open>String methods\<close>

lemma py_lower_Char [simp, py_chars]:
  "py_lower_char (Char b0 b1 b2 b3 b4 b5 b6 b7) = (let n = cp (Char b0 b1 b2 b3 b4 b5 b6 b7) in
     if (65 \<le> n \<and> n \<le> 90) \<or> (192 \<le> n \<and> n \<le> 222 \<and> n \<noteq> 215) then char_of (n + 32)
     else Char b0 b1 b2 b3 b4 b5 b6 b7)"
  by (simp only: py_lower_char_def)

lemma py_split_not_Nil [simp]: "py_split c s \<noteq> []"
  by (induction s) (auto simp: Let_def)

lemma py_join_split: "py_join [c] (py_split c s) = s"
proof (induction s)
  case Nil
  then show ?case by simp
next
  case (Cons x xs)
  then show ?case
    by (cases "py_split c xs" rule: list.exhaust; cases "tl (py_split c xs)") (auto simp: Let_def)
qed

lemma py_split_no_sep: "c \<notin> set s \<Longrightarrow> py_split c s = [s]"
  by (induction s) (auto simp: Let_def)

lemma str_replace_single: "str_replace [c] r s = concat (map (\<lambda>x. if x = c then r else [x]) s)"
proof -
  have "re_sub (lit_match [c] r) p s = concat (map (\<lambda>x. if x = c then r else [x]) s)" for p
    by (induction s arbitrary: p) (auto simp: lit_match_def)
  then show ?thesis
    by (simp add: str_replace_def)
qed

lemma py_strip_trailing_space:
  assumes "xs \<noteq> []" "\<not> py_isspace (hd xs)" "\<not> py_isspace (last xs)" "\<forall>c\<in>set ys. py_isspace c"
  shows "py_strip (xs @ ys) = xs"
proof -
  have "dropWhile py_isspace (xs @ ys) = xs @ ys"
    using assms(1,2) by (cases xs) auto
  moreover have "dropWhile py_isspace (rev ys @ rev xs) = rev xs"
    using assms(1,3,4) by (cases "rev xs") (auto simp: dropWhile_append)
  ultimately show ?thesis
    by (simp add: py_strip_def)
qed

subsection \<open>Dicts\<close>

lemma map_of_map_value:
  "map_of (map (\<lambda>(k', v'). if k' = k then (k', v) else (k', v')) d) =
   (\<lambda>x. if x = k then (if k \<in> fst ` set d then Some v else None) else map_of d x)"
  by (induction d) (auto simp: fun_eq_iff)

lemma map_of_dict_set [simp]: "map_of (dict_set d k v) = (map_of d)(k \<mapsto> v)"
proof (cases "k \<in> fst ` set d")
  case True
  then show ?thesis
    by (simp add: dict_set_def map_of_map_value fun_eq_iff)
next
  case False
  then have "map_of d k = None"
    by (simp add: map_of_eq_None_iff)
  with False show ?thesis
    by (simp add: dict_set_def fun_eq_iff map_add_def split: option.splits)
qed

lemma keys_dict_set [simp]: "fst ` set (dict_set d k v) = insert k (fst ` set d)"
  by (force simp: dict_set_def image_iff)

lemma map_fst_map_value:
  "map fst (map (\<lambda>(k', v'). if k' = k then (k', v) else (k', v')) d) = map fst d"
  by (induction d) auto

lemma distinct_dict_set: "distinct (map fst d) \<Longrightarrow> distinct (map fst (dict_set d k v))"
  using map_fst_map_value [of k v d] by (auto simp: dict_set_def simp del: map_map)

lemma map_of_dict_update [simp]: "map_of (dict_update d e) = map_of d ++ map_of (rev e)"
proof (induction e arbitrary: d)
  case Nil
  then show ?case by (simp add: dict_update_def)
next
  case (Cons a e)
  obtain k v where a: "a = (k, v)"
    by (cases a)
  have "dict_update d (a # e) = dict_update (dict_set d k v) e"
    by (simp add: dict_update_def a)
  with Cons show ?case
    by (simp add: a map_add_def fun_eq_iff map_of_append split: option.splits)
qed

lemma map_of_dict_del [simp]: "map_of (dict_del d k) = (map_of d)(k := None)"
  by (induction d) (auto simp: dict_del_def fun_eq_iff)
end
