(* ===== verification/DateNormalize.thy ===== *)
theory DateNormalize
  imports Prelude
begin

text \<open>
  The normalisation half of \<open>DateField.to_python\<close> (src/fields.py, lines 223 to 255):
  seven rewrites applied in the source's order to the raw string before any format is
  tried. Each regular-expression substitution is an instance of \<open>re_sub\<close> with a matcher
  that decides the pattern at one position; the locale month table is a list of
  \<open>str.replace\<close> calls in the dictionary's insertion order.
\<close>

section \<open>The matchers\<close>

text \<open>\<open>re.sub(r'(\b19\b|\b20\b) (\d{2})$', r'\1\2', value)\<close> (line 223): a century token
  19 or 20 at a word boundary, one space, two digits, then the end of the string.\<close>

definition glued_year_match :: matcher where
  "glued_year_match p s = (case s of
     a # b # sp # d1 # d2 # rest \<Rightarrow>
       if ([a, b] = ''19'' \<or> [a, b] = ''20'') \<and> py_boundary p (Some a) \<and> sp = CHR '' '' \<and>
          py_isdigit d1 \<and> py_isdigit d2 \<and> py_at_end rest
       then Some ([a, b, d1, d2], 5) else None
   | _ \<Rightarrow> None)"

text \<open>The letters of the class of upper-case letters of line 226 that lie in
  the model's alphabet: A to Z, C cedilla (0xC7), O diaeresis (0xD6) and U diaeresis
  (0xDC). The class is case-sensitive: the pattern is compiled without IGNORECASE.\<close>

definition month_letter :: "char \<Rightarrow> bool" where
  "month_letter c \<longleftrightarrow> (let n = cp c in (65 \<le> n \<and> n \<le> 90) \<or> n = 199 \<or> n = 214 \<or> n = 220)"

text \<open>\<open>' (?P<local_month>...{3})/(?P<english_month>...{3}) '\<close> replaced by
  \<open>' \2 '\<close> (lines 226 and 227).\<close>

definition dual_month_match :: matcher where
  "dual_month_match p s = (case s of
     sp1 # a1 # a2 # a3 # sl # b1 # b2 # b3 # sp2 # rest \<Rightarrow>
       if sp1 = CHR '' '' \<and> list_all month_letter [a1, a2, a3] \<and> sl = CHR ''/'' \<and>
          list_all month_letter [b1, b2, b3] \<and> sp2 = CHR '' ''
       then Some ([CHR '' '', b1, b2, b3, CHR '' ''], 9) else None
   | _ \<Rightarrow> None)"

text \<open>\<open>[^\w\s./-]|\.$\<close> replaced by a space (line 230): any character that is neither a
  word character, whitespace, dot, slash nor dash; or a dot at the end.\<close>

definition cleanup_match :: matcher where
  "cleanup_match p s = (case s of
     [] \<Rightarrow> None
   | c # rest \<Rightarrow>
       if \<not> (py_isword c \<or> py_isspace c \<or> c \<in> set ''./-'') then Some ('' '', 1)
       else if c = CHR ''.'' \<and> py_at_end rest then Some ('' '', 1)
       else None)"

text \<open>\<open>\s\s+\<close> replaced by one space (line 231): a run of two or more whitespace characters,
  taken greedily. A single tab or other lone whitespace character is left as it is.\<close>

definition ws_run_match :: matcher where
  "ws_run_match p s = (let w = takeWhile py_isspace s in
     if 2 \<le> length w then Some ('' '', length w) else None)"

text \<open>\<open>\b(\d+)(?:ST|ND|RD|TH)\b\<close> replaced by the digits (line 234). The digit run is
  maximal: a shorter run would leave a digit where the suffix must start.\<close>

definition ordinal_suffixes :: "pystr list" where
  "ordinal_suffixes = [''ST'', ''ND'', ''RD'', ''TH'']"

definition ordinal_match :: matcher where
  "ordinal_match p s = (let ds = takeWhile py_isdigit s; n = length ds; t = drop n s in
     if 0 < n \<and> py_boundary p (Some (hd s)) \<and> take 2 t \<in> set ordinal_suffixes \<and>
        py_boundary (Some (t ! 1)) (if length t \<le> 2 then None else Some (t ! 2))
     then Some (ds, n + 2) else None)"

text \<open>The locale month table of lines 236 to 250, in the dictionary's insertion order (the
  commented-out identity entries are not in the dictionary). Keys and values as the
  source writes them: F E-acute V, A O U-circumflex, D E-acute C.\<close>

definition month_aliases :: "(pystr \<times> pystr) list" where
  "month_aliases =
     [([CHR ''F'', CHR 0xC9, CHR ''V''], ''FEB''),
      (''AVR'', ''APR''),
      (''MAI'', ''MAY''),
      (''JUI'', ''JUN''),
      ([CHR ''A'', CHR ''O'', CHR 0xDB], ''AUG''),
      ([CHR ''D'', CHR 0xC9, CHR ''C''], ''DEC'')]"

text \<open>\<open>\b(\w+)\b/\b\1\b\<close> replaced by the word (line 255): a word, a slash and the same
  word again. The word run is maximal, since a shorter one is followed by a word
  character where \<open>\b\<close> must hold.\<close>

definition dup_match :: matcher where
  "dup_match p s = (let w = takeWhile py_isword s; n = length w; t = drop n s in
     if 0 < n \<and> py_boundary p (Some (hd s)) \<and> t \<noteq> [] \<and> hd t = CHR ''/'' \<and>
        take n (tl t) = w \<and> length (tl t) \<ge> n \<and>
        py_boundary (Some (last w)) (if length (tl t) = n then None else Some (tl t ! n))
     then Some (w, 2 * n + 1) else None)"

section \<open>The pipeline\<close>

definition glue_year :: "pystr \<Rightarrow> pystr" where
  "glue_year v = re_sub glued_year_match None v"

definition collapse_dual_month :: "pystr \<Rightarrow> pystr" where
  "collapse_dual_month v = re_sub dual_month_match None v"

text \<open>Lines 230 and 231: the character cleanup, \<open>upper()\<close>, the whitespace collapse and
  \<open>strip()\<close>.\<close>

definition clean_upper :: "pystr \<Rightarrow> pystr" where
  "clean_upper v = py_strip (re_sub ws_run_match None (py_upper (re_sub cleanup_match None v)))"

definition strip_ordinals :: "pystr \<Rightarrow> pystr" where
  "strip_ordinals v = re_sub ordinal_match None v"

definition replace_month_aliases :: "pystr \<Rightarrow> pystr" where
  "replace_month_aliases v = fold (\<lambda>(k, m) w. str_replace k m w) month_aliases v"

definition collapse_dup_token :: "pystr \<Rightarrow> pystr" where
  "collapse_dup_token v = re_sub dup_match None v"

definition normalize_date :: "pystr \<Rightarrow> pystr" where
  "normalize_date v = collapse_dup_token (replace_month_aliases (strip_ordinals
                   (clean_upper (collapse_dual_month (glue_year v)))))"

section \<open>Numeric strings\<close>

text \<open>Strings of digits and the separators dash, dot and slash: the alphabet of the
  numeric formats. On them no rewrite but the duplicate-token collapse can fire.\<close>

definition numeric_char :: "char \<Rightarrow> bool" where
  "numeric_char c \<longleftrightarrow> py_isdigit c \<or> c \<in> set ''-./''"

lemma numeric_char_not [simp]:
  assumes "numeric_char c"
  shows "\<not> py_isspace c" and "\<not> month_letter c" and "py_upper_char c = [c]"
    and "py_isdigit c \<or> py_isword c \<or> c \<in> set ''-./''"
  using assms
  by (auto simp: numeric_char_def month_letter_def py_isdigit_def py_isspace_def Let_def)

lemma numeric_char_neq_letter:
  assumes "numeric_char c" and "\<not> numeric_char x"
  shows "c \<noteq> x"
  using assms by auto

lemma glued_year_match_numeric:
  "set t \<subseteq> {c. numeric_char c} \<Longrightarrow> glued_year_match q t = None"
  by (auto simp: glued_year_match_def numeric_char_def split: list.splits)

lemma dual_month_match_numeric:
  "set t \<subseteq> {c. numeric_char c} \<Longrightarrow> dual_month_match q t = None"
  by (auto simp: dual_month_match_def numeric_char_def split: list.splits)

lemma ws_run_match_numeric:
  "t \<noteq> [] \<Longrightarrow> set t \<subseteq> {c. numeric_char c} \<Longrightarrow> ws_run_match q t = None"
  by (cases t) (auto simp: ws_run_match_def)

lemma ordinal_match_numeric:
  "set t \<subseteq> {c. numeric_char c} \<Longrightarrow> ordinal_match q t = None"
proof -
  assume t: "set t \<subseteq> {c. numeric_char c}"
  have letters: "\<forall>u\<in>set ordinal_suffixes. \<exists>x\<in>set u. \<not> numeric_char x"
    by (simp add: ordinal_suffixes_def numeric_char_def)
  have "take 2 (drop n t) \<notin> set ordinal_suffixes" for n
  proof
    assume "take 2 (drop n t) \<in> set ordinal_suffixes"
    with letters obtain x where "x \<in> set (take 2 (drop n t))" and "\<not> numeric_char x"
      by blast
    with t show False
      using set_take_subset [of 2 "drop n t"] set_drop_subset [of n t] by auto
  qed
  then show ?thesis
    by (simp add: ordinal_match_def Let_def)
qed

lemma lit_match_numeric:
  assumes "set t \<subseteq> {c. numeric_char c}" and "k \<noteq> []" and "\<not> numeric_char (hd k)"
  shows "lit_match k v q t = None"
proof -
  have "take (length k) t \<noteq> k"
  proof
    assume eq: "take (length k) t = k"
    then have "hd k \<in> set t"
      using assms(2) set_take_subset [of "length k" t] by (metis hd_in_set subsetD)
    with assms(1,3) show False by auto
  qed
  then show ?thesis
    by (simp add: lit_match_def)
qed

lemma str_replace_numeric:
  assumes "set s \<subseteq> {c. numeric_char c}" and "k \<noteq> []" and "\<not> numeric_char (hd k)"
  shows "str_replace k v s = s"
  unfolding str_replace_def using assms
  by (intro re_sub_no_match_on [where A = "{c. numeric_char c}"] lit_match_numeric) auto

lemma replace_month_aliases_numeric:
  "set s \<subseteq> {c. numeric_char c} \<Longrightarrow> replace_month_aliases s = s"
  by (simp add: replace_month_aliases_def month_aliases_def str_replace_numeric numeric_char_def)

lemma cleanup_match_numeric:
  assumes s: "set s \<subseteq> {c. numeric_char c}" and last: "s = [] \<or> last s \<noteq> CHR ''.''"
    and k: "k < length s"
  shows "cleanup_match q (drop k s) = None"
proof -
  have ds: "drop k s = s ! k # drop (Suc k) s"
    using k by (simp add: Cons_nth_drop_Suc)
  have nk: "numeric_char (s ! k)"
    using s k nth_mem by blast
  have "\<not> py_at_end (drop (Suc k) s)" if dot: "s ! k = CHR ''.''"
  proof
    assume "py_at_end (drop (Suc k) s)"
    then consider "drop (Suc k) s = []" | "drop (Suc k) s = [CHR 0x0A]"
      by (auto simp: py_at_end_def)
    then show False
    proof cases
      case 1
      then have "k = length s - 1" using k by simp
      moreover have "s \<noteq> []" using k by auto
      ultimately show False using dot last by (simp add: last_conv_nth)
    next
      case 2
      then have "CHR 0x0A \<in> set s"
        using set_drop_subset [of "Suc k" s] by auto
      with s show False by (auto simp: numeric_char_def)
    qed
  qed
  then show ?thesis
    using nk by (auto simp: cleanup_match_def ds numeric_char_def)
qed

theorem normalize_numeric:
  assumes s: "set s \<subseteq> {c. numeric_char c}" and last: "s = [] \<or> last s \<noteq> CHR ''.''"
  shows "normalize_date s = collapse_dup_token s"
proof -
  have g: "glue_year s = s"
    unfolding glue_year_def using s by (intro re_sub_no_match_on) (auto intro: glued_year_match_numeric)
  have d: "collapse_dual_month s = s"
    unfolding collapse_dual_month_def using s
    by (intro re_sub_no_match_on) (auto intro: dual_month_match_numeric)
  have c: "re_sub cleanup_match None s = s"
    using cleanup_match_numeric [OF s last] by (intro re_sub_no_match) auto
  have w: "re_sub ws_run_match None s = s"
    using s by (intro re_sub_no_match_on [where A = "{c. numeric_char c}"] ws_run_match_numeric)
  have up: "py_upper s = s"
    using s by (intro py_upper_id) auto
  have u: "clean_upper s = s"
    using s by (simp add: clean_upper_def c up w) (intro py_strip_id, auto)
  have o: "strip_ordinals s = s"
    unfolding strip_ordinals_def using s
    by (intro re_sub_no_match_on) (auto intro: ordinal_match_numeric)
  show ?thesis
    using s by (simp add: normalize_date_def g d u o replace_month_aliases_numeric)
qed

lemma collapse_dup_token_no_slash:
  "CHR ''/'' \<notin> set s \<Longrightarrow> collapse_dup_token s = s"
proof -
  assume ns: "CHR ''/'' \<notin> set s"
  have "dup_match q (drop k s) = None" for q k
  proof -
    let ?t = "drop (length (takeWhile py_isword (drop k s))) (drop k s)"
    have "?t = [] \<or> hd ?t \<noteq> CHR ''/''"
    proof (cases "?t = []")
      case False
      then have "hd ?t \<in> set s"
        by (meson hd_in_set in_set_dropD)
      with ns show ?thesis by auto
    qed simp
    then show ?thesis
      by (auto simp: dup_match_def Let_def)
  qed
  then show ?thesis
    unfolding collapse_dup_token_def by (intro re_sub_no_match) auto
qed

end
