(* ===== verification/Strptime.thy ===== *)
theory Strptime
  imports Prelude
begin

text \<open>
  \<open>datetime.strptime(value, fmt).date()\<close> (src/fields.py, line 259) as CPython's
  \<open>_strptime\<close> computes it in the C locale:
  \<^item> \<open>compile_format\<close> is \<open>TimeRE.pattern\<close>: a run of whitespace in the format becomes
    \<open>\s+\<close>, a directive becomes its regular expression, any other character matches
    itself; the expression is compiled with IGNORECASE;
  \<^item> \<open>re_items\<close> lists every way the expression matches a prefix of the input, in the
    order in which the backtracking engine of \<open>re\<close> tries them (alternatives left to
    right, \<open>\s+\<close> longest first); \<open>regex_match\<close>, \<open>re.match\<close>, takes the first;
  \<^item> \<open>strptime\<close> raises when there is no match or when the match leaves characters
    over ("unconverted data remains"), converts the groups (\<open>%y\<close> with the POSIX pivot:
    00 to 68 in the 2000s, 69 to 99 in the 1900s), and raises when
    \<open>datetime_date(year, month, day)\<close> does.
  Only the six directives the source's formats use are modelled (\<open>%d %m %y %Y %b %B\<close>).
\<close>

section \<open>Calendar dates\<close>

record date =
  year :: nat
  month :: nat
  day :: nat

definition is_leap :: "nat \<Rightarrow> bool" where
  "is_leap y \<longleftrightarrow> y mod 4 = 0 \<and> (y mod 100 \<noteq> 0 \<or> y mod 400 = 0)"

definition days_in_month :: "nat \<Rightarrow> nat \<Rightarrow> nat" where
  "days_in_month y m =
     (if m = 2 then (if is_leap y then 29 else 28)
      else if m \<in> {4, 6, 9, 11} then 30 else 31)"

text \<open>The checks of the \<open>datetime.date\<close> constructor: \<open>MINYEAR = 1\<close>, \<open>MAXYEAR = 9999\<close>.\<close>

definition valid_date :: "nat \<Rightarrow> nat \<Rightarrow> nat \<Rightarrow> bool" where
  "valid_date y m d \<longleftrightarrow> 1 \<le> y \<and> y \<le> 9999 \<and> 1 \<le> m \<and> m \<le> 12 \<and>
                        1 \<le> d \<and> d \<le> days_in_month y m"

definition mk_date :: "nat \<Rightarrow> nat \<Rightarrow> nat \<Rightarrow> date" where
  "mk_date y m d = \<lparr>year = y, month = m, day = d\<rparr>"

section \<open>Compiled formats\<close>

datatype directive = Dir_d | Dir_m | Dir_y | Dir_Y | Dir_b | Dir_B

datatype atom = Ch char | Rng char char | Dgt

datatype fmt_item = Dir directive | WS | Lit char

definition directive_of :: "char \<Rightarrow> directive option" where
  "directive_of c =
     (if c = CHR ''d'' then Some Dir_d else if c = CHR ''m'' then Some Dir_m
      else if c = CHR ''y'' then Some Dir_y else if c = CHR ''Y'' then Some Dir_Y
      else if c = CHR ''b'' then Some Dir_b else if c = CHR ''B'' then Some Dir_B
      else None)"

function compile_format :: "pystr \<Rightarrow> fmt_item list option" where
  "compile_format [] = Some []"
| "compile_format (c # cs) =
     (if c = CHR ''%'' then
        (case cs of
           [] \<Rightarrow> None
         | d # rest \<Rightarrow>
             (case directive_of d of
                None \<Rightarrow> None
              | Some dir \<Rightarrow> map_option (Cons (Dir dir)) (compile_format rest)))
      else if py_isspace c then map_option (Cons WS) (compile_format (dropWhile py_isspace cs))
      else map_option (Cons (Lit c)) (compile_format cs))"
  by pat_completeness auto
termination
  by (relation "measure length") (auto simp: le_imp_less_Suc length_dropWhile_le)

text \<open>\<open>LocaleTime\<close> in the C locale: the month names lowered, index 0 empty.\<close>

definition a_month :: "pystr list" where
  "a_month = ['''', ''jan'', ''feb'', ''mar'', ''apr'', ''may'', ''jun'', ''jul'', ''aug'',
              ''sep'', ''oct'', ''nov'', ''dec'']"

definition f_month :: "pystr list" where
  "f_month = ['''', ''january'', ''february'', ''march'', ''april'', ''may'', ''june'',
              ''july'', ''august'', ''september'', ''october'', ''november'', ''december'']"

text \<open>\<open>TimeRE.__seqToRE\<close> sorts the names by length, longest first, keeping the order of
  names of equal length.\<close>

fun ins_longest_first :: "pystr \<Rightarrow> pystr list \<Rightarrow> pystr list" where
  "ins_longest_first x [] = [x]"
| "ins_longest_first x (y # ys) =
     (if length y < length x then x # y # ys else y # ins_longest_first x ys)"

definition sort_longest_first :: "pystr list \<Rightarrow> pystr list" where
  "sort_longest_first xs = foldl (\<lambda>acc x. ins_longest_first x acc) [] xs"

definition seq_to_re :: "pystr list \<Rightarrow> atom list list" where
  "seq_to_re names = map (map Ch) (sort_longest_first names)"

text \<open>The alternatives of each directive's expression, in the order of the source
  (\<open>_strptime.TimeRE.__init__\<close>):
  \<^item> \<open>%d\<close>: \<open>3[0-1]|[1-2]\d|0[1-9]|[1-9]| [1-9]\<close>
  \<^item> \<open>%m\<close>: \<open>1[0-2]|0[1-9]|[1-9]\<close>
  \<^item> \<open>%y\<close>: \<open>\d\d\<close>, \<open>%Y\<close>: \<open>\d\d\d\d\<close>
  \<^item> \<open>%b\<close>, \<open>%B\<close>: the abbreviated and the full month names.\<close>

definition dir_alts :: "directive \<Rightarrow> atom list list" where
  "dir_alts d = (case d of
     Dir_d \<Rightarrow> [[Ch (CHR ''3''), Rng (CHR ''0'') (CHR ''1'')], [Rng (CHR ''1'') (CHR ''2''), Dgt],
               [Ch (CHR ''0''), Rng (CHR ''1'') (CHR ''9'')], [Rng (CHR ''1'') (CHR ''9'')],
               [Ch (CHR '' ''), Rng (CHR ''1'') (CHR ''9'')]]
   | Dir_m \<Rightarrow> [[Ch (CHR ''1''), Rng (CHR ''0'') (CHR ''2'')], [Ch (CHR ''0''), Rng (CHR ''1'') (CHR ''9'')],
               [Rng (CHR ''1'') (CHR ''9'')]]
   | Dir_y \<Rightarrow> [[Dgt, Dgt]]
   | Dir_Y \<Rightarrow> [[Dgt, Dgt, Dgt, Dgt]]
   | Dir_b \<Rightarrow> seq_to_re (tl a_month)
   | Dir_B \<Rightarrow> seq_to_re (tl f_month))"

section \<open>Matching\<close>

definition ascii_lower :: "char \<Rightarrow> char" where
  "ascii_lower c = (let n = cp c in if 65 \<le> n \<and> n \<le> 90 then char_of (n + 32) else c)"

text \<open>IGNORECASE: a literal character matches its other case. The literals of the
  expressions are ASCII, and no Latin-1 character folds onto an ASCII letter.\<close>

definition ci_eq :: "char \<Rightarrow> char \<Rightarrow> bool" where
  "ci_eq c x \<longleftrightarrow> ascii_lower c = ascii_lower x"

fun atom_ok :: "atom \<Rightarrow> char \<Rightarrow> bool" where
  "atom_ok (Ch c) x = ci_eq c x"
| "atom_ok (Rng lo hi) x = (cp lo \<le> cp x \<and> cp x \<le> cp hi)"
| "atom_ok Dgt x = py_isdigit x"

text \<open>An alternative is a fixed sequence of one-character atoms: it either matches the
  next characters or not; on success the rest of the input is returned.\<close>

fun match_alt :: "atom list \<Rightarrow> pystr \<Rightarrow> pystr option" where
  "match_alt [] s = Some s"
| "match_alt (a # as) [] = None"
| "match_alt (a # as) (x # xs) = (if atom_ok a x then match_alt as xs else None)"

type_synonym groups = "(directive \<times> pystr) list"

fun re_items :: "fmt_item list \<Rightarrow> pystr \<Rightarrow> (groups \<times> pystr) list" where
  "re_items [] s = [([], s)]"
| "re_items (Lit c # is) s =
     (case s of [] \<Rightarrow> [] | x # s' \<Rightarrow> if ci_eq c x then re_items is s' else [])"
| "re_items (WS # is) s =
     concat (map (\<lambda>k. re_items is (drop k s))
                 (rev [1..<Suc (length (takeWhile py_isspace s))]))"
| "re_items (Dir d # is) s =
     concat (map (\<lambda>a. case match_alt a s of
                         None \<Rightarrow> []
                       | Some s' \<Rightarrow> map (\<lambda>(gs, r). ((d, take (length s - length s') s) # gs, r))
                                       (re_items is s'))
                 (dir_alts d))"

definition regex_match :: "fmt_item list \<Rightarrow> pystr \<Rightarrow> (groups \<times> pystr) option" where
  "regex_match is s = (case re_items is s of [] \<Rightarrow> None | r # _ \<Rightarrow> Some r)"

section \<open>From groups to a date\<close>

definition index_of :: "'a list \<Rightarrow> 'a \<Rightarrow> nat" where
  "index_of xs x = length (takeWhile (\<lambda>y. y \<noteq> x) xs)"

definition yy_year :: "nat \<Rightarrow> nat" where
  "yy_year v = (if v \<le> 68 then v + 2000 else v + 1900)"

text \<open>The loop over \<open>found_dict\<close> in \<open>_strptime\<close>: year unset, month and day 1.\<close>

fun apply_group :: "nat option \<times> nat \<times> nat \<Rightarrow> directive \<times> pystr \<Rightarrow> nat option \<times> nat \<times> nat" where
  "apply_group (y, m, d) (Dir_y, t) = (Some (yy_year (py_int t)), m, d)"
| "apply_group (y, m, d) (Dir_Y, t) = (Some (py_int t), m, d)"
| "apply_group (y, m, d) (Dir_m, t) = (y, py_int t, d)"
| "apply_group (y, m, d) (Dir_b, t) = (y, index_of a_month (map ascii_lower t), d)"
| "apply_group (y, m, d) (Dir_B, t) = (y, index_of f_month (map ascii_lower t), d)"
| "apply_group (y, m, d) (Dir_d, t) = (y, m, py_int t)"

definition group_fields :: "groups \<Rightarrow> nat \<times> nat \<times> nat" where
  "group_fields gs = (case foldl apply_group (None, 1, 1) gs of
     (y, m, d) \<Rightarrow> (case y of None \<Rightarrow> 1900 | Some v \<Rightarrow> v, m, d))"

datatype strptime_error = BadDirective | NoMatch | Unconverted pystr | OutOfRange

definition strptime :: "pystr \<Rightarrow> pystr \<Rightarrow> strptime_error + date" where
  "strptime s fmt = (case compile_format fmt of
     None \<Rightarrow> Inl BadDirective
   | Some is \<Rightarrow>
       (case regex_match is s of
          None \<Rightarrow> Inl NoMatch
        | Some (gs, rest) \<Rightarrow>
            if rest \<noteq> [] then Inl (Unconverted rest)
            else (case group_fields gs of
                    (y, m, d) \<Rightarrow> if valid_date y m d then Inr (mk_date y m d) else Inl OutOfRange)))"

section \<open>Lemmas\<close>

text \<open>Formats are compiled once, by the lemmas of their users; the recursive equation is
  not unfolded by default.\<close>

declare compile_format.simps [simp del]

lemma ascii_lower_Char [simp]:
  "ascii_lower (Char b0 b1 b2 b3 b4 b5 b6 b7) =
     (let n = cp (Char b0 b1 b2 b3 b4 b5 b6 b7) in
      if 65 \<le> n \<and> n \<le> 90 then char_of (n + 32) else Char b0 b1 b2 b3 b4 b5 b6 b7)"
  by (simp only: ascii_lower_def)

text \<open>The alternatives of each directive, with the month lists already sorted as
  \<open>__seqToRE\<close> sorts them.\<close>

lemma sorted_a_month: "sort_longest_first (tl a_month) = tl a_month"
  by (simp add: a_month_def sort_longest_first_def)

lemma sorted_f_month:
  "sort_longest_first (tl f_month) =
     [''september'', ''february'', ''november'', ''december'', ''january'', ''october'',
      ''august'', ''march'', ''april'', ''june'', ''july'', ''may'']"
  by (simp add: f_month_def sort_longest_first_def)

lemma dir_alts_b:
  "dir_alts Dir_b = map (map Ch) [''jan'', ''feb'', ''mar'', ''apr'', ''may'', ''jun'', ''jul'',
                                  ''aug'', ''sep'', ''oct'', ''nov'', ''dec'']"
  by (simp add: dir_alts_def seq_to_re_def sorted_a_month) (simp add: a_month_def)

lemma dir_alts_B:
  "dir_alts Dir_B = map (map Ch) [''september'', ''february'', ''november'', ''december'',
                        ''january'', ''october'', ''august'', ''march'', ''april'', ''june'',
                        ''july'', ''may'']"
  by (simp add: dir_alts_def seq_to_re_def sorted_f_month)

lemmas dir_alts_simps [simp] =
  dir_alts_def [of Dir_d, simplified] dir_alts_def [of Dir_m, simplified]
  dir_alts_def [of Dir_y, simplified] dir_alts_def [of Dir_Y, simplified]
  dir_alts_b dir_alts_B

lemma digit_ascii_lower [simp]: "py_isdigit c \<Longrightarrow> ascii_lower c = c"
  by (simp add: ascii_lower_def py_isdigit_def Let_def)

text \<open>Whatever \<open>strptime\<close> returns is a date the \<open>datetime.date\<close> constructor accepts.\<close>

lemma strptime_valid:
  "strptime s fmt = Inr d \<Longrightarrow> valid_date (year d) (month d) (day d)"
  by (auto simp: strptime_def mk_date_def split: option.splits prod.splits if_splits)

subsection \<open>Matching numeric fields\<close>

lemma match_alt_Some:
  "match_alt a s = Some s' \<Longrightarrow> s' = drop (length a) s"
  by (induction a s rule: match_alt.induct) (auto split: if_splits)

lemma re_items_WS_nospace:
  "(\<And>c. c \<in> set s \<Longrightarrow> \<not> py_isspace c) \<Longrightarrow> re_items (WS # is) s = []"
  by (cases s) auto

text \<open>An expression that starts with a directive followed by \<open>\s+\<close> never matches a
  string without whitespace, whichever alternative the directive takes.\<close>

lemma re_items_Dir_WS_nospace:
  assumes "\<And>c. c \<in> set s \<Longrightarrow> \<not> py_isspace c"
  shows "re_items (Dir d # WS # is) s = []"
proof -
  have "(case match_alt a s of None \<Rightarrow> []
         | Some s' \<Rightarrow> map (\<lambda>(gs, r). ((d, take (length s - length s') s) # gs, r))
                        (re_items (WS # is) s')) = []" for a
  proof (cases "match_alt a s")
    case (Some s')
    then have "s' = drop (length a) s"
      by (rule match_alt_Some)
    then have "re_items (WS # is) s' = []"
      using assms by (intro re_items_WS_nospace) (auto dest: in_set_dropD)
    with Some show ?thesis by simp
  qed simp
  then show ?thesis
    by (simp add: concat_eq_Nil_conv)
qed

text \<open>\<open>%Y\<close> has one alternative, four digits.\<close>

lemma re_items_Y4:
  assumes "py_isdigit a" "py_isdigit b" "py_isdigit c" "py_isdigit e"
  shows "re_items (Dir Dir_Y # is) (a # b # c # e # r) =
    map (\<lambda>(gs, x). ((Dir_Y, [a, b, c, e]) # gs, x)) (re_items is r)"
  using assms by simp

text \<open>On a zero-padded month 01 to 12 the first alternative that matches takes both
  digits, so the first match through \<open>%m\<close> continues with the first match of the rest.\<close>

lemma re_items_m_pad:
  assumes "1 \<le> m" "m \<le> 12"
  shows "\<exists>ys. re_items (Dir Dir_m # is) (pad_digits 2 m @ r) =
    map (\<lambda>(gs, x). ((Dir_m, pad_digits 2 m) # gs, x)) (re_items is r) @ ys"
proof -
  have "m = 1 \<or> m = 2 \<or> m = 3 \<or> m = 4 \<or> m = 5 \<or> m = 6 \<or> m = 7 \<or> m = 8 \<or> m = 9 \<or> m = 10 \<or> m = 11 \<or> m = 12"
    using assms by arith
  then show ?thesis
    by (elim disjE) (simp_all add: pad_digits_2 ci_eq_def)
qed

text \<open>The same for a zero-padded day 01 to 31 through \<open>%d\<close>.\<close>

lemma re_items_d_pad:
  assumes "1 \<le> d" "d \<le> 31"
  shows "\<exists>ys. re_items (Dir Dir_d # is) (pad_digits 2 d @ r) =
    map (\<lambda>(gs, x). ((Dir_d, pad_digits 2 d) # gs, x)) (re_items is r) @ ys"
proof -
  have "d = 1 \<or> d = 2 \<or> d = 3 \<or> d = 4 \<or> d = 5 \<or> d = 6 \<or> d = 7 \<or> d = 8 \<or> d = 9 \<or> d = 10 \<or> d = 11 \<or> d = 12 \<or> d = 13 \<or> d = 14 \<or> d = 15 \<or> d = 16 \<or> d = 17 \<or> d = 18 \<or> d = 19 \<or> d = 20 \<or> d = 21 \<or> d = 22 \<or> d = 23 \<or> d = 24 \<or> d = 25 \<or> d = 26 \<or> d = 27 \<or> d = 28 \<or> d = 29 \<or> d = 30 \<or> d = 31"
    using assms by arith
  then show ?thesis
    by (elim disjE) (simp_all add: pad_digits_2 ci_eq_def)
qed

subsection \<open>Separators\<close>

text \<open>The separators slash, dot and dash are matched only by a literal of the format: no
  directive alternative starts with one and \<open>\s+\<close> does not take one. So a format with
  more literal occurrences of a separator than the string has never matches.\<close>

lemma ci_eq_sep:
  assumes "c \<in> {CHR ''/'', CHR ''.'', CHR ''-''}"
  shows "ci_eq c x \<longleftrightarrow> x = c"
  using assms by (auto simp: ci_eq_def ascii_lower_def Let_def cp_def)

lemma match_alt_sep:
  assumes "c \<in> {CHR ''/'', CHR ''.'', CHR ''-''}" "a \<in> set (dir_alts d)"
  shows "match_alt a (c # s) = None"
  using assms by (cases d) (auto simp: ci_eq_def)

lemma count_list_drop: "count_list (drop k xs) x \<le> count_list xs x"
  by (induction xs arbitrary: k) (auto simp: drop_Cons split: nat.splits intro: le_SucI)

lemma re_items_sep:
  assumes "c \<in> {CHR ''/'', CHR ''.'', CHR ''-''}"
  shows "count_list s c < count_list its (Lit c) \<Longrightarrow> re_items its s = []"
proof (induction its s rule: re_items.induct)
  case (1 s)
  then show ?case by simp
next
  case (2 c' its s)
  then show ?case
    using ci_eq_sep [OF assms] by (cases s) (auto split: if_splits)
next
  case (3 its s)
  then show ?case
    using count_list_drop [of _ s c] by (fastforce simp: concat_eq_Nil_conv intro: le_less_trans)
next
  case (4 d its s)
  have "re_items its s' = []" if "a \<in> set (dir_alts d)" "match_alt a s = Some s'" for a s'
    using 4 that match_alt_Some [OF that(2)] count_list_drop [of "length a" s c] by auto
  then show ?case
    by (auto simp: concat_eq_Nil_conv split: option.splits)
qed
end
