(* ===== verification/DateField.thy ===== *)
theory DateField
  imports DateNormalize Strptime
begin

text \<open>
  \<open>DateField.to_python\<close> (src/fields.py, lines 202 to 263): values that are already
  \<open>None\<close> or a date pass through; a string is normalised and then tried against the
  thirteen formats in order, the first that \<open>strptime\<close> accepts giving the result;
  when all raise \<open>ValueError\<close>, a \<open>ValidationError\<close> names the normalised string. Any
  other value makes the first \<open>re.sub\<close> raise \<open>TypeError\<close>.
\<close>

datatype py_value = PyNone | PyDate date | PyStr pystr | PyOther

datatype field_error = ValidationError pystr | TypeError

definition date_formats :: "pystr list" where
  "date_formats =
     [''%d %b %y'', ''%d %B %y'', ''%d %b %Y'', ''%d %B %Y'', ''%B %d %Y'', ''%Y-%m-%d'',
      ''%d.%m.%Y'', ''%d/%m/%Y'', ''%d/%m/%y'', ''%y%m%d'', ''%Y-%m'', ''%y-%m'', ''%Y'']"

text \<open>The loop of lines 257 to 261: \<open>ValueError\<close> moves on to the next format.\<close>

fun try_formats :: "pystr list \<Rightarrow> pystr \<Rightarrow> date option" where
  "try_formats [] v = None"
| "try_formats (f # fs) v = (case strptime v f of Inr d \<Rightarrow> Some d | Inl _ \<Rightarrow> try_formats fs v)"

definition not_recognized :: "pystr \<Rightarrow> pystr" where
  "not_recognized v = ''Date format for '' @ [CHR 0x27] @ v @ [CHR 0x27] @ '' not recognized''"

definition date_to_python :: "py_value \<Rightarrow> field_error + py_value" where
  "date_to_python x = (case x of
     PyNone \<Rightarrow> Inr PyNone
   | PyDate d \<Rightarrow> Inr (PyDate d)
   | PyStr s \<Rightarrow>
       (let v = normalize_date s in
        case try_formats date_formats v of
          Some d \<Rightarrow> Inr (PyDate d)
        | None \<Rightarrow> Inl (ValidationError (not_recognized v)))
   | PyOther \<Rightarrow> Inl TypeError)"

section \<open>The format loop\<close>

lemma try_formats_Some:
  "try_formats fs v = Some d \<longleftrightarrow>
     (\<exists>pre f post. fs = pre @ f # post \<and> (\<forall>g\<in>set pre. \<exists>e. strptime v g = Inl e) \<and>
        strptime v f = Inr d)"
proof (induction fs)
  case Nil
  then show ?case by simp
next
  case (Cons f fs)
  show ?case
  proof
    assume run: "try_formats (f # fs) v = Some d"
    show "\<exists>pre g post. f # fs = pre @ g # post \<and> (\<forall>h\<in>set pre. \<exists>e. strptime v h = Inl e) \<and>
            strptime v g = Inr d"
    proof (cases "strptime v f")
      case (Inl e)
      with run Cons.IH obtain pre g post where "fs = pre @ g # post"
        and "\<forall>h\<in>set pre. \<exists>e. strptime v h = Inl e" and "strptime v g = Inr d"
        by auto
      with Inl show ?thesis
        by (intro exI [of _ "f # pre"] exI [of _ g] exI [of _ post]) auto
    next
      case (Inr d')
      with run show ?thesis
        by (intro exI [of _ "[]"] exI [of _ f] exI [of _ fs]) auto
    qed
  next
    assume "\<exists>pre g post. f # fs = pre @ g # post \<and> (\<forall>h\<in>set pre. \<exists>e. strptime v h = Inl e) \<and>
              strptime v g = Inr d"
    then obtain pre g post where split: "f # fs = pre @ g # post"
      and fails: "\<forall>h\<in>set pre. \<exists>e. strptime v h = Inl e" and hit: "strptime v g = Inr d"
      by blast
    show "try_formats (f # fs) v = Some d"
    proof (cases pre)
      case Nil
      with split hit show ?thesis by simp
    next
      case (Cons h pre')
      with split fails have "strptime v f \<noteq> Inr d'" for d'
        by auto
      moreover from Cons split fails hit have "try_formats fs v = Some d"
        using Cons.IH by auto
      ultimately show ?thesis
        by (cases "strptime v f") auto
    qed
  qed
qed

lemma try_formats_None:
  "try_formats fs v = None \<longleftrightarrow> (\<forall>f\<in>set fs. \<exists>e. strptime v f = Inl e)"
  by (induction fs) (auto split: sum.splits)

lemma date_to_python_PyStr:
  "date_to_python (PyStr s) = (case try_formats date_formats (normalize_date s) of
     Some d \<Rightarrow> Inr (PyDate d) | None \<Rightarrow> Inl (ValidationError (not_recognized (normalize_date s))))"
  by (simp add: date_to_python_def Let_def)

section \<open>Runs on the inputs the spec names\<close>

text \<open>Kernel evaluations of the whole pipeline (normalisation and the format loop).\<close>

lemma run_14_feb_24: "date_to_python (PyStr ''14 FEB 24'') = Inr (PyDate (mk_date 2024 2 14))"
  by code_simp

lemma run_25_10_2019: "date_to_python (PyStr ''25.10.2019'') = Inr (PyDate (mk_date 2019 10 25))"
  by code_simp

lemma run_july_6_1997: "date_to_python (PyStr ''JULY 6 1997'') = Inr (PyDate (mk_date 1997 7 6))"
  by code_simp

lemma run_1st_jan_2000: "date_to_python (PyStr ''1ST JAN 2000'') = Inr (PyDate (mk_date 2000 1 1))"
  by code_simp

lemma run_18_abr_apr_2027:
  "date_to_python (PyStr ''18 ABR/APR 2027'') = Inr (PyDate (mk_date 2027 4 18))"
  by code_simp

lemma run_banana:
  "date_to_python (PyStr ''banana'') = Inl (ValidationError (not_recognized ''BANANA''))"
  by code_simp

lemma run_31_feb_2024:
  "date_to_python (PyStr ''31 FEB 2024'') = Inl (ValidationError (not_recognized ''31 FEB 2024''))"
  by code_simp

lemma run_010100:
  "date_to_python (PyStr ''010100'') = Inl (ValidationError (not_recognized ''010100''))"
  by code_simp

lemma run_990101: "date_to_python (PyStr ''990101'') = Inr (PyDate (mk_date 1999 1 1))"
  by code_simp

section \<open>Symbolic runs\<close>

lemma compile_d_b_y:
  "compile_format ''%d %b %y'' = Some [Dir Dir_d, WS, Dir Dir_b, WS, Dir Dir_y]"
  by (simp add: compile_format.simps directive_of_def)

lemma normalize_day_mon_yy:
  assumes "py_isdigit d1" and "py_isdigit d2"
  shows "normalize_date (''14 FEB '' @ [d1, d2]) = ''14 FEB '' @ [d1, d2]"
  using assms
  by (simp add: normalize_date_def glue_year_def glued_year_match_def py_boundary_def
      py_at_end_def collapse_dual_month_def dual_month_match_def clean_upper_def
      cleanup_match_def ws_run_match_def py_upper_def py_strip_def strip_ordinals_def
      ordinal_match_def ordinal_suffixes_def replace_month_aliases_def month_aliases_def
      str_replace_def lit_match_def collapse_dup_token_def dup_match_def)

lemma strptime_day_mon_yy:
  assumes "py_isdigit d1" and "py_isdigit d2"
  shows "strptime (''14 FEB '' @ [d1, d2]) ''%d %b %y'' =
           Inr (mk_date (yy_year (10 * digit_val d1 + digit_val d2)) 2 14)"
proof -
  have "strptime (''14 FEB '' @ [d1, d2]) ''%d %b %y'' =
          Inr (mk_date (yy_year (10 * digit_val d1 + digit_val d2)) (Suc (Suc 0)) 14)"
    using assms digit_val_lt [OF assms(1)] digit_val_lt [OF assms(2)]
    by (simp add: strptime_def compile_d_b_y regex_match_def ci_eq_def group_fields_def
        py_int_def index_of_def a_month_def yy_year_def valid_date_def days_in_month_def)
  then show ?thesis
    by (simp add: numeral_2_eq_2)
qed

section \<open>Properties of the parser\<close>

text \<open>C1. First match wins: a string parses to a date exactly when some format of the
  list accepts the normalised string, every earlier format raises, and that format's
  date is the result. The order of \<open>date_formats\<close> decides between readings.\<close>

theorem date_to_python_first_match:
  "date_to_python (PyStr s) = Inr (PyDate d) \<longleftrightarrow>
   (\<exists>pre f post. date_formats = pre @ f # post \<and>
      (\<forall>g\<in>set pre. \<exists>e. strptime (normalize_date s) g = Inl e) \<and>
      strptime (normalize_date s) f = Inr d)"
proof -
  have "date_to_python (PyStr s) = Inr (PyDate d) \<longleftrightarrow>
        try_formats date_formats (normalize_date s) = Some d"
    by (simp add: date_to_python_PyStr split: option.split)
  also have "\<dots> \<longleftrightarrow> (\<exists>pre f post. date_formats = pre @ f # post \<and>
      (\<forall>g\<in>set pre. \<exists>e. strptime (normalize_date s) g = Inl e) \<and>
      strptime (normalize_date s) f = Inr d)"
    by (rule try_formats_Some)
  finally show ?thesis .
qed

theorem date_to_python_first_match_witness:
  "\<exists>pre f post. date_formats = pre @ f # post \<and>
      list_all (\<lambda>g. isl (strptime (normalize_date ''25.10.2019'') g)) pre \<and>
      strptime (normalize_date ''25.10.2019'') f = Inr (mk_date 2019 10 25)"
proof -
  obtain pre f post where "date_formats = pre @ f # post"
    and "\<forall>g\<in>set pre. \<exists>e. strptime (normalize_date ''25.10.2019'') g = Inl e"
    and "strptime (normalize_date ''25.10.2019'') f = Inr (mk_date 2019 10 25)"
    using date_to_python_first_match [of "''25.10.2019''" "mk_date 2019 10 25"] run_25_10_2019
    by blast
  then show ?thesis
    by (intro exI [of _ pre] exI [of _ f] exI [of _ post]) (auto simp: list_all_iff)
qed

text \<open>Every date the parser returns is a calendar date: year 1 to 9999, month 1 to
  12, day within the month of that year (leap years included).\<close>

theorem date_to_python_valid:
  "date_to_python (PyStr s) = Inr (PyDate d) \<Longrightarrow> valid_date (year d) (month d) (day d)"
  by (auto simp: date_to_python_first_match dest: strptime_valid)

theorem date_to_python_valid_witness: "valid_date 2024 2 14"
  using date_to_python_valid [OF run_14_feb_24] by (simp add: mk_date_def)

text \<open>C3. A string the parser rejects raises \<open>ValidationError\<close> naming the normalised
  string, and only when every one of the thirteen formats raised; a string never gets
  any other error.\<close>

theorem date_to_python_error:
  "date_to_python (PyStr s) = Inl e \<Longrightarrow>
   e = ValidationError (not_recognized (normalize_date s)) \<and>
   (\<forall>f\<in>set date_formats. \<exists>err. strptime (normalize_date s) f = Inl err)"
  by (auto simp: date_to_python_PyStr try_formats_None [symmetric] split: option.splits)

theorem date_to_python_error_witness:
  "ValidationError (not_recognized ''BANANA'') =
     ValidationError (not_recognized (normalize_date ''banana'')) \<and>
   list_all (\<lambda>f. isl (strptime (normalize_date ''banana'') f)) date_formats"
  using date_to_python_error [OF run_banana] by (auto simp: list_all_iff)

text \<open>The accepted scenarios of the spec: \<open>14 FEB 24\<close>, \<open>25.10.2019\<close>,
  \<open>JULY 6 1997\<close>, \<open>1ST JAN 2000\<close> and \<open>18 ABR/APR 2027\<close> give the dates the spec
  names.\<close>

theorem spec_scenarios_accepted:
  "date_to_python (PyStr ''14 FEB 24'') = Inr (PyDate (mk_date 2024 2 14)) \<and>
   date_to_python (PyStr ''25.10.2019'') = Inr (PyDate (mk_date 2019 10 25)) \<and>
   date_to_python (PyStr ''JULY 6 1997'') = Inr (PyDate (mk_date 1997 7 6)) \<and>
   date_to_python (PyStr ''1ST JAN 2000'') = Inr (PyDate (mk_date 2000 1 1)) \<and>
   date_to_python (PyStr ''18 ABR/APR 2027'') = Inr (PyDate (mk_date 2027 4 18))"
  by (intro conjI run_14_feb_24 run_25_10_2019 run_july_6_1997 run_1st_jan_2000
      run_18_abr_apr_2027)

text \<open>The rejected scenarios of the spec raise the same error: \<open>banana\<close> (no format
  matches) and \<open>31 FEB 2024\<close> (a format matches but February has no 31st) both give
  \<open>ValidationError\<close> with the normalised text; the code has no separate
  out-of-range failure.\<close>

theorem spec_scenarios_rejected:
  "date_to_python (PyStr ''banana'') = Inl (ValidationError (not_recognized ''BANANA'')) \<and>
   date_to_python (PyStr ''31 FEB 2024'') =
     Inl (ValidationError (not_recognized ''31 FEB 2024''))"
  by (intro conjI run_banana run_31_feb_2024)

text \<open>C6. The two-digit year pivot is that of \<open>strptime\<close>'s \<open>%y\<close>: a year token
  00 to 68 is read as 2000 to 2068 and 69 to 99 as 1969 to 1999, for every pair of
  digits. (The spec states a pivot of 49/50.)\<close>

theorem two_digit_year_pivot:
  assumes "py_isdigit d1" and "py_isdigit d2"
  shows "date_to_python (PyStr (''14 FEB '' @ [d1, d2])) =
           Inr (PyDate (mk_date (let n = 10 * digit_val d1 + digit_val d2 in
                                 if n \<le> 68 then 2000 + n else 1900 + n) 2 14))"
proof -
  have "try_formats date_formats (''14 FEB '' @ [d1, d2]) =
          Some (mk_date (yy_year (10 * digit_val d1 + digit_val d2)) 2 14)"
    using strptime_day_mon_yy [OF assms] by (simp add: date_formats_def)
  then show ?thesis
    using normalize_day_mon_yy [OF assms]
    by (simp add: date_to_python_PyStr yy_year_def Let_def add.commute)
qed

theorem two_digit_year_pivot_witness:
  "date_to_python (PyStr ''14 FEB 68'') = Inr (PyDate (mk_date 2068 2 14)) \<and>
   date_to_python (PyStr ''14 FEB 69'') = Inr (PyDate (mk_date 1969 2 14))"
  using two_digit_year_pivot [of "CHR ''6''" "CHR ''8''"] two_digit_year_pivot [of "CHR ''6''" "CHR ''9''"]
  by simp

text \<open>The spec's own pivot examples for \<open>YYMMDD\<close>: \<open>990101\<close> is 1 January 1999,
  but \<open>010100\<close>, for which the spec expects the year 2001, is rejected: its day field
  00 matches no alternative of \<open>%d\<close>, and no later format consumes all six digits.\<close>

theorem yymmdd_spec_examples:
  "date_to_python (PyStr ''990101'') = Inr (PyDate (mk_date 1999 1 1)) \<and>
   date_to_python (PyStr ''010100'') = Inl (ValidationError (not_recognized ''010100''))"
  by (intro conjI run_990101 run_010100)

end
