(* ===== verification/DateRoundtrip.thy ===== *)
theory DateRoundtrip
  imports DateField
begin

text \<open>
  Dates written back as strings, the way the spec's examples write them: ISO
  \<open>YYYY-MM-DD\<close>, dotted \<open>DD.MM.YYYY\<close> and slashed \<open>DD/MM/YYYY\<close>, all fields zero-padded.
  The theorems run \<open>DateField.to_python\<close> on them symbolically: the normalisation leaves
  them unchanged (except the slash collapse), the formats before the one that fits fail
  and that one gives the date back.
\<close>

definition iso_date :: "nat \<Rightarrow> nat \<Rightarrow> nat \<Rightarrow> pystr" where
  "iso_date y m d = pad_digits 4 y @ ''-'' @ pad_digits 2 m @ ''-'' @ pad_digits 2 d"

definition dotted_date :: "nat \<Rightarrow> nat \<Rightarrow> nat \<Rightarrow> pystr" where
  "dotted_date y m d = pad_digits 2 d @ ''.'' @ pad_digits 2 m @ ''.'' @ pad_digits 4 y"

definition slash_date :: "nat \<Rightarrow> nat \<Rightarrow> nat \<Rightarrow> pystr" where
  "slash_date y m d = pad_digits 2 d @ ''/'' @ pad_digits 2 m @ ''/'' @ pad_digits 4 y"

text \<open>\<open>YYMMDD\<close>: two digits each of the year (its last two), the month and the day.\<close>

definition yymmdd_date :: "nat \<Rightarrow> nat \<Rightarrow> nat \<Rightarrow> pystr" where
  "yymmdd_date y m d = pad_digits 2 y @ pad_digits 2 m @ pad_digits 2 d"

section \<open>Formats and fields\<close>

lemma compile_date_formats:
  "compile_format ''%d %b %y'' = Some [Dir Dir_d, WS, Dir Dir_b, WS, Dir Dir_y]"
  "compile_format ''%d %B %y'' = Some [Dir Dir_d, WS, Dir Dir_B, WS, Dir Dir_y]"
  "compile_format ''%d %b %Y'' = Some [Dir Dir_d, WS, Dir Dir_b, WS, Dir Dir_Y]"
  "compile_format ''%d %B %Y'' = Some [Dir Dir_d, WS, Dir Dir_B, WS, Dir Dir_Y]"
  "compile_format ''%B %d %Y'' = Some [Dir Dir_B, WS, Dir Dir_d, WS, Dir Dir_Y]"
  "compile_format ''%Y-%m-%d'' = Some [Dir Dir_Y, Lit CHR ''-'', Dir Dir_m, Lit CHR ''-'', Dir Dir_d]"
  "compile_format ''%d.%m.%Y'' = Some [Dir Dir_d, Lit CHR ''.'', Dir Dir_m, Lit CHR ''.'', Dir Dir_Y]"
  "compile_format ''%d/%m/%Y'' = Some [Dir Dir_d, Lit CHR ''/'', Dir Dir_m, Lit CHR ''/'', Dir Dir_Y]"
  "compile_format ''%d/%m/%y'' = Some [Dir Dir_d, Lit CHR ''/'', Dir Dir_m, Lit CHR ''/'', Dir Dir_y]"
  "compile_format ''%y%m%d'' = Some [Dir Dir_y, Dir Dir_m, Dir Dir_d]"
  "compile_format ''%Y-%m'' = Some [Dir Dir_Y, Lit CHR ''-'', Dir Dir_m]"
  "compile_format ''%y-%m'' = Some [Dir Dir_y, Lit CHR ''-'', Dir Dir_m]"
  "compile_format ''%Y'' = Some [Dir Dir_Y]"
  by (simp_all add: compile_format.simps directive_of_def)

lemma days_in_month_le: "days_in_month y m \<le> 31"
  by (simp add: days_in_month_def)

lemma strptime_nomatch:
  "compile_format fmt = Some is \<Longrightarrow> re_items is s = [] \<Longrightarrow> strptime s fmt = Inl NoMatch"
  by (simp add: strptime_def regex_match_def)

lemma try_formats_skip:
  "list_all (\<lambda>f. isl (strptime v f)) pre \<Longrightarrow> try_formats (pre @ fs) v = try_formats fs v"
  by (induction pre) (auto split: sum.splits)

lemma strptime_ws:
  "compile_format fmt = Some (Dir g # WS # its) \<Longrightarrow> (\<And>c. c \<in> set s \<Longrightarrow> \<not> py_isspace c) \<Longrightarrow>
   strptime s fmt = Inl NoMatch"
  by (rule strptime_nomatch) (auto intro: re_items_Dir_WS_nospace)

lemma strptime_sep:
  "c \<in> {CHR ''/'', CHR ''.'', CHR ''-''} \<Longrightarrow> compile_format fmt = Some its \<Longrightarrow>
   count_list s c < count_list its (Lit c) \<Longrightarrow> strptime s fmt = Inl NoMatch"
  by (rule strptime_nomatch) (auto intro: re_items_sep)

lemma count_list_pad_sep [simp]:
  "c \<in> {CHR ''/'', CHR ''.'', CHR ''-''} \<Longrightarrow> count_list (pad_digits w n) c = 0"
  by (auto simp: count_list_0_iff dest: pad_digits_digits)

lemma strptime_first:
  assumes "compile_format fmt = Some is" "re_items is s = (gs, []) # xs"
    "group_fields gs = (y, m, d)" "valid_date y m d"
  shows "strptime s fmt = Inr (mk_date y m d)"
  using assms by (simp add: strptime_def regex_match_def)

lemma re_items_Y_pad:
  "re_items (Dir Dir_Y # is) (pad_digits 4 y @ r) =
     map (\<lambda>(gs, x). ((Dir_Y, pad_digits 4 y) # gs, x)) (re_items is r)"
  unfolding pad_digits_4 append_Cons append_Nil by (rule re_items_Y4) simp_all

lemma re_items_Lit_same: "re_items (Lit c # its) (c # s) = re_items its s"
  by (simp add: ci_eq_def)

lemma valid_date_bounds:
  "valid_date y m d \<Longrightarrow> 1 \<le> m \<and> m \<le> 12 \<and> 1 \<le> d \<and> d \<le> 31 \<and> y < 10 ^ 4"
  using days_in_month_le [of y m] by (auto simp: valid_date_def)

lemma group_fields_pad:
  assumes "valid_date y m d"
  shows "group_fields [(Dir_Y, pad_digits 4 y), (Dir_m, pad_digits 2 m), (Dir_d, pad_digits 2 d)] = (y, m, d)"
    and "group_fields [(Dir_d, pad_digits 2 d), (Dir_m, pad_digits 2 m), (Dir_Y, pad_digits 4 y)] = (y, m, d)"
  using valid_date_bounds [OF assms] by (simp_all add: group_fields_def py_int_pad_digits_exact)

lemma pad_nospace: "c \<in> set (pad_digits w n) \<Longrightarrow> \<not> py_isspace c"
  by (auto dest: pad_digits_digits)

section \<open>Normalisation of padded numeric dates\<close>

lemma normalize_padded:
  assumes "set s \<subseteq> {c. numeric_char c}" "s \<noteq> []" "py_isdigit (last s)"
  shows "normalize_date s = collapse_dup_token s"
  using assms by (intro normalize_numeric) auto

lemma numeric_pad: "set (pad_digits w n) \<subseteq> {c. numeric_char c}"
  by (auto simp: numeric_char_def dest: pad_digits_digits)

lemma last_pad_digit: "0 < w \<Longrightarrow> py_isdigit (last (pad_digits w n))"
  by (cases w) simp_all

lemma collapse_dup_slash_digits:
  assumes "py_isdigit a" "py_isdigit b" "py_isdigit c" "py_isdigit e"
    "py_isdigit w" "py_isdigit x" "py_isdigit z" "py_isdigit v"
  shows "collapse_dup_token [a, b, CHR ''/'', c, e, CHR ''/'', w, x, z, v] =
    (if [a, b] = [c, e] then [a, b, CHR ''/'', w, x, z, v] else [a, b, CHR ''/'', c, e, CHR ''/'', w, x, z, v])"
  using assms by (simp add: collapse_dup_token_def dup_match_def py_boundary_def Let_def)

lemma collapse_slash_date:
  "collapse_dup_token (slash_date y m d) =
     (if pad_digits 2 d = pad_digits 2 m then pad_digits 2 d @ ''/'' @ pad_digits 4 y else slash_date y m d)"
  unfolding slash_date_def pad_digits_2 [of d] pad_digits_2 [of m] pad_digits_4
  by (simp add: collapse_dup_slash_digits)

section \<open>The format loop on padded dates\<close>

lemma first_five_fail:
  "(\<And>c. c \<in> set s \<Longrightarrow> \<not> py_isspace c) \<Longrightarrow> list_all (\<lambda>f. isl (strptime s f)) (take 5 date_formats)"
  using strptime_ws [OF compile_date_formats(1)] strptime_ws [OF compile_date_formats(2)]
    strptime_ws [OF compile_date_formats(3)] strptime_ws [OF compile_date_formats(4)]
    strptime_ws [OF compile_date_formats(5)]
  by (simp add: date_formats_def)

lemma try_formats_at:
  assumes "list_all (\<lambda>f. isl (strptime s f)) (take k date_formats)" "k < length date_formats"
    "strptime s (date_formats ! k) = Inr r"
  shows "try_formats date_formats s = Some r"
proof -
  have "date_formats = take k date_formats @ date_formats ! k # drop (Suc k) date_formats"
    using assms(2) by (simp add: id_take_nth_drop)
  then have "try_formats date_formats s = try_formats (date_formats ! k # drop (Suc k) date_formats) s"
    using try_formats_skip [OF assms(1)] by metis
  with assms(3) show ?thesis
    by simp
qed


section \<open>Matches of the padded shapes\<close>

lemma re_items_dotted:
  assumes "valid_date y m d"
  shows "\<exists>xs. re_items [Dir Dir_d, Lit CHR ''.'', Dir Dir_m, Lit CHR ''.'', Dir Dir_Y] (dotted_date y m d) =
    ([(Dir_d, pad_digits 2 d), (Dir_m, pad_digits 2 m), (Dir_Y, pad_digits 4 y)], []) # xs"
proof -
  from valid_date_bounds [OF assms] have m: "1 \<le> m" "m \<le> 12" and d: "1 \<le> d" "d \<le> 31"
    by auto
  obtain ys where ys: "re_items [Dir Dir_d, Lit CHR ''.'', Dir Dir_m, Lit CHR ''.'', Dir Dir_Y]
      (pad_digits 2 d @ CHR ''.'' # pad_digits 2 m @ CHR ''.'' # pad_digits 4 y) =
      map (\<lambda>(gs, x). ((Dir_d, pad_digits 2 d) # gs, x))
        (re_items [Lit CHR ''.'', Dir Dir_m, Lit CHR ''.'', Dir Dir_Y] (CHR ''.'' # pad_digits 2 m @ CHR ''.'' # pad_digits 4 y)) @ ys"
    using re_items_d_pad [OF d] by blast
  obtain zs where zs: "re_items [Dir Dir_m, Lit CHR ''.'', Dir Dir_Y] (pad_digits 2 m @ CHR ''.'' # pad_digits 4 y) =
      map (\<lambda>(gs, x). ((Dir_m, pad_digits 2 m) # gs, x)) (re_items [Lit CHR ''.'', Dir Dir_Y] (CHR ''.'' # pad_digits 4 y)) @ zs"
    using re_items_m_pad [OF m] by blast
  have yy: "re_items [Dir Dir_Y] (pad_digits 4 y) = map (\<lambda>(gs, x). ((Dir_Y, pad_digits 4 y) # gs, x)) (re_items [] [])"
    using re_items_Y_pad [of "[]" y "[]"] by (simp only: append_Nil2)
  have "re_items [Dir Dir_d, Lit CHR ''.'', Dir Dir_m, Lit CHR ''.'', Dir Dir_Y] (dotted_date y m d) =
      map (\<lambda>(gs, x). ((Dir_d, pad_digits 2 d) # gs, x))
        (map (\<lambda>(gs, x). ((Dir_m, pad_digits 2 m) # gs, x))
          (map (\<lambda>(gs, x). ((Dir_Y, pad_digits 4 y) # gs, x)) [([], [])]) @ zs) @ ys"
    by (simp only: dotted_date_def append_Cons append_Nil ys re_items_Lit_same zs yy re_items.simps(1))
  then show ?thesis
    by simp
qed

lemma re_items_slash:
  assumes "valid_date y m d"
  shows "\<exists>xs. re_items [Dir Dir_d, Lit CHR ''/'', Dir Dir_m, Lit CHR ''/'', Dir Dir_Y] (slash_date y m d) =
    ([(Dir_d, pad_digits 2 d), (Dir_m, pad_digits 2 m), (Dir_Y, pad_digits 4 y)], []) # xs"
proof -
  from valid_date_bounds [OF assms] have m: "1 \<le> m" "m \<le> 12" and d: "1 \<le> d" "d \<le> 31"
    by auto
  obtain ys where ys: "re_items [Dir Dir_d, Lit CHR ''/'', Dir Dir_m, Lit CHR ''/'', Dir Dir_Y]
      (pad_digits 2 d @ CHR ''/'' # pad_digits 2 m @ CHR ''/'' # pad_digits 4 y) =
      map (\<lambda>(gs, x). ((Dir_d, pad_digits 2 d) # gs, x))
        (re_items [Lit CHR ''/'', Dir Dir_m, Lit CHR ''/'', Dir Dir_Y] (CHR ''/'' # pad_digits 2 m @ CHR ''/'' # pad_digits 4 y)) @ ys"
    using re_items_d_pad [OF d] by blast
  obtain zs where zs: "re_items [Dir Dir_m, Lit CHR ''/'', Dir Dir_Y] (pad_digits 2 m @ CHR ''/'' # pad_digits 4 y) =
      map (\<lambda>(gs, x). ((Dir_m, pad_digits 2 m) # gs, x)) (re_items [Lit CHR ''/'', Dir Dir_Y] (CHR ''/'' # pad_digits 4 y)) @ zs"
    using re_items_m_pad [OF m] by blast
  have yy: "re_items [Dir Dir_Y] (pad_digits 4 y) = map (\<lambda>(gs, x). ((Dir_Y, pad_digits 4 y) # gs, x)) (re_items [] [])"
    using re_items_Y_pad [of "[]" y "[]"] by (simp only: append_Nil2)
  have "re_items [Dir Dir_d, Lit CHR ''/'', Dir Dir_m, Lit CHR ''/'', Dir Dir_Y] (slash_date y m d) =
      map (\<lambda>(gs, x). ((Dir_d, pad_digits 2 d) # gs, x))
        (map (\<lambda>(gs, x). ((Dir_m, pad_digits 2 m) # gs, x))
          (map (\<lambda>(gs, x). ((Dir_Y, pad_digits 4 y) # gs, x)) [([], [])]) @ zs) @ ys"
    by (simp only: slash_date_def append_Cons append_Nil ys re_items_Lit_same zs yy re_items.simps(1))
  then show ?thesis
    by simp
qed

section \<open>Padded dates through the whole field\<close>

lemma padded_nospace:
  "c \<in> set (iso_date y m d) \<Longrightarrow> \<not> py_isspace c"
  "c \<in> set (dotted_date y m d) \<Longrightarrow> \<not> py_isspace c"
  "c \<in> set (slash_date y m d) \<Longrightarrow> \<not> py_isspace c"
  "c \<in> set (pad_digits 2 d @ ''/'' @ pad_digits 4 y) \<Longrightarrow> \<not> py_isspace c"
  by (auto simp: iso_date_def dotted_date_def slash_date_def dest: pad_nospace)

lemma normalize_iso_date: "normalize_date (iso_date y m d) = iso_date y m d"
proof -
  have "normalize_date (iso_date y m d) = collapse_dup_token (iso_date y m d)"
    by (rule normalize_padded)
      (auto simp: iso_date_def numeric_char_def last_pad_digit dest: pad_digits_digits)
  moreover have "CHR ''/'' \<notin> set (iso_date y m d)"
    by (auto simp: iso_date_def dest: pad_digits_digits)
  ultimately show ?thesis
    by (simp add: collapse_dup_token_no_slash)
qed

lemma normalize_dotted_date: "normalize_date (dotted_date y m d) = dotted_date y m d"
proof -
  have "normalize_date (dotted_date y m d) = collapse_dup_token (dotted_date y m d)"
    by (rule normalize_padded)
      (auto simp: dotted_date_def numeric_char_def last_pad_digit dest: pad_digits_digits)
  moreover have "CHR ''/'' \<notin> set (dotted_date y m d)"
    by (auto simp: dotted_date_def dest: pad_digits_digits)
  ultimately show ?thesis
    by (simp add: collapse_dup_token_no_slash)
qed

lemma normalize_slash_date:
  "normalize_date (slash_date y m d) =
     (if pad_digits 2 d = pad_digits 2 m then pad_digits 2 d @ ''/'' @ pad_digits 4 y else slash_date y m d)"
proof -
  have "normalize_date (slash_date y m d) = collapse_dup_token (slash_date y m d)"
    by (rule normalize_padded)
      (auto simp: slash_date_def numeric_char_def last_pad_digit dest: pad_digits_digits)
  then show ?thesis
    by (simp add: collapse_slash_date)
qed

lemma re_items_iso:
  assumes "valid_date y m d"
  shows "\<exists>xs. re_items [Dir Dir_Y, Lit CHR ''-'', Dir Dir_m, Lit CHR ''-'', Dir Dir_d] (iso_date y m d) =
    ([(Dir_Y, pad_digits 4 y), (Dir_m, pad_digits 2 m), (Dir_d, pad_digits 2 d)], []) # xs"
proof -
  from valid_date_bounds [OF assms] have m: "1 \<le> m" "m \<le> 12" and d: "1 \<le> d" "d \<le> 31"
    by auto
  obtain ys where ys: "re_items [Dir Dir_d] (pad_digits 2 d) =
      map (\<lambda>(gs, x). ((Dir_d, pad_digits 2 d) # gs, x)) (re_items [] []) @ ys"
    using re_items_d_pad [OF d, of "[]" "[]"] unfolding append_Nil2 by blast
  obtain zs where zs: "re_items [Dir Dir_m, Lit CHR ''-'', Dir Dir_d] (pad_digits 2 m @ CHR ''-'' # pad_digits 2 d) =
      map (\<lambda>(gs, x). ((Dir_m, pad_digits 2 m) # gs, x)) (re_items [Lit CHR ''-'', Dir Dir_d] (CHR ''-'' # pad_digits 2 d)) @ zs"
    using re_items_m_pad [OF m] by blast
  have "re_items [Dir Dir_Y, Lit CHR ''-'', Dir Dir_m, Lit CHR ''-'', Dir Dir_d] (iso_date y m d) =
      map (\<lambda>(gs, x). ((Dir_Y, pad_digits 4 y) # gs, x))
        (map (\<lambda>(gs, x). ((Dir_m, pad_digits 2 m) # gs, x))
          (map (\<lambda>(gs, x). ((Dir_d, pad_digits 2 d) # gs, x)) [([], [])] @ ys) @ zs)"
    by (simp only: iso_date_def append_Cons append_Nil re_items_Y_pad re_items_Lit_same zs ys re_items.simps(1))
  then show ?thesis
    by simp
qed

lemma iso_date_parse:
  assumes "valid_date y m d"
  shows "try_formats date_formats (iso_date y m d) = Some (mk_date y m d)"
proof -
  obtain xs where hit: "re_items [Dir Dir_Y, Lit CHR ''-'', Dir Dir_m, Lit CHR ''-'', Dir Dir_d] (iso_date y m d) =
    ([(Dir_Y, pad_digits 4 y), (Dir_m, pad_digits 2 m), (Dir_d, pad_digits 2 d)], []) # xs"
    using re_items_iso [OF assms] by blast
  have "strptime (iso_date y m d) ''%Y-%m-%d'' = Inr (mk_date y m d)"
    using compile_date_formats(6) hit group_fields_pad(1) [OF assms] assms by (rule strptime_first)
  with first_five_fail [OF padded_nospace(1)] show ?thesis
    by (intro try_formats_at [of _ 5]) (simp_all add: date_formats_def)
qed

lemma dotted_date_parse:
  assumes "valid_date y m d"
  shows "try_formats date_formats (dotted_date y m d) = Some (mk_date y m d)"
proof -
  obtain xs where hit: "re_items [Dir Dir_d, Lit CHR ''.'', Dir Dir_m, Lit CHR ''.'', Dir Dir_Y] (dotted_date y m d) =
    ([(Dir_d, pad_digits 2 d), (Dir_m, pad_digits 2 m), (Dir_Y, pad_digits 4 y)], []) # xs"
    using re_items_dotted [OF assms] by blast
  have "strptime (dotted_date y m d) ''%d.%m.%Y'' = Inr (mk_date y m d)"
    using compile_date_formats(7) hit group_fields_pad(2) [OF assms] assms by (rule strptime_first)
  moreover have "strptime (dotted_date y m d) ''%Y-%m-%d'' = Inl NoMatch"
    by (rule strptime_sep [where c = "CHR ''-''", OF _ compile_date_formats(6)]) (simp_all add: dotted_date_def)
  ultimately show ?thesis
    using first_five_fail [OF padded_nospace(2)]
    by (intro try_formats_at [of _ 6]) (simp_all add: date_formats_def)
qed

lemma slash_date_parse_distinct:
  assumes "valid_date y m d" "d \<noteq> m"
  shows "try_formats date_formats (slash_date y m d) = Some (mk_date y m d)"
proof -
  obtain xs where hit: "re_items [Dir Dir_d, Lit CHR ''/'', Dir Dir_m, Lit CHR ''/'', Dir Dir_Y] (slash_date y m d) =
    ([(Dir_d, pad_digits 2 d), (Dir_m, pad_digits 2 m), (Dir_Y, pad_digits 4 y)], []) # xs"
    using re_items_slash [OF assms(1)] by blast
  have "strptime (slash_date y m d) ''%d/%m/%Y'' = Inr (mk_date y m d)"
    using compile_date_formats(8) hit group_fields_pad(2) [OF assms(1)] assms(1) by (rule strptime_first)
  moreover have "strptime (slash_date y m d) ''%Y-%m-%d'' = Inl NoMatch"
    by (rule strptime_sep [where c = "CHR ''-''", OF _ compile_date_formats(6)]) (simp_all add: slash_date_def)
  moreover have "strptime (slash_date y m d) ''%d.%m.%Y'' = Inl NoMatch"
    by (rule strptime_sep [where c = "CHR ''.''", OF _ compile_date_formats(7)]) (simp_all add: slash_date_def)
  ultimately show ?thesis
    using first_five_fail [OF padded_nospace(3)]
    by (intro try_formats_at [of _ 7]) (simp_all add: date_formats_def)
qed

text \<open>The collapsed form \<open>DD/YYYY\<close> fits no format: the ones with dashes or dots lack
  their separator, the slashed ones need a second slash, and \<open>%y%m%d\<close> and \<open>%Y\<close> stop
  at the slash.\<close>

lemma collapsed_slash_rejected:
  "try_formats date_formats (pad_digits 2 d @ ''/'' @ pad_digits 4 y) = None"
proof -
  let ?s = "pad_digits 2 d @ ''/'' @ pad_digits 4 y"
  have ws: "strptime ?s f = Inl NoMatch" if "compile_format f = Some (Dir g # WS # its)" for f g its
    using that padded_nospace(4) by (rule strptime_ws)
  have dash: "strptime ?s f = Inl NoMatch" if "compile_format f = Some its" "0 < count_list its (Lit CHR ''-'')" for f its
    using that by (intro strptime_sep [where c = "CHR ''-''"]) simp_all
  have dot: "strptime ?s ''%d.%m.%Y'' = Inl NoMatch"
    by (rule strptime_sep [where c = "CHR ''.''", OF _ compile_date_formats(7)]) simp_all
  have slash: "strptime ?s f = Inl NoMatch" if "compile_format f = Some its" "1 < count_list its (Lit CHR ''/'')" for f its
    using that by (intro strptime_sep [where c = "CHR ''/''"]) simp_all
  have y2: "strptime ?s ''%y%m%d'' = Inl NoMatch"
    by (rule strptime_nomatch [OF compile_date_formats(10)]) (simp add: pad_digits_2 ci_eq_def)
  have y4: "strptime ?s ''%Y'' = Inl NoMatch"
    by (rule strptime_nomatch [OF compile_date_formats(13)]) (simp add: pad_digits_2)
  have "\<forall>f\<in>set date_formats. \<exists>e. strptime ?s f = Inl e"
    using ws [OF compile_date_formats(1)] ws [OF compile_date_formats(2)] ws [OF compile_date_formats(3)]
      ws [OF compile_date_formats(4)] ws [OF compile_date_formats(5)]
      dash [OF compile_date_formats(6)] dot slash [OF compile_date_formats(8)] slash [OF compile_date_formats(9)]
      y2 dash [OF compile_date_formats(11)] dash [OF compile_date_formats(12)] y4
    by (simp add: date_formats_def)
  then show ?thesis
    by (simp add: try_formats_None)
qed

subsection \<open>Two-digit years\<close>

text \<open>A valid date stays valid when its year is replaced by the one \<open>%y\<close> reads from its last
  two digits: the leap years agree, and 00 is read as 2000, a leap year.\<close>

lemma is_leap_century_shift:
  assumes "is_leap y"
  shows "is_leap (yy_year (y mod 100))"
proof (cases "y mod 100 = 0")
  case True
  then show ?thesis
    by (simp add: yy_year_def is_leap_def)
next
  case False
  obtain c :: nat where c: "yy_year (y mod 100) = y mod 100 + 100 * c" "c = 19 \<or> c = 20"
  proof (cases "y mod 100 \<le> 68")
    case True
    then show ?thesis using that [of 20] by (simp add: yy_year_def)
  next
    case False
    then show ?thesis using that [of 19] by (simp add: yy_year_def)
  qed
  have "y mod 100 mod 4 = y mod 4"
    by (simp add: mod_mod_cancel)
  moreover have "y mod 100 + 100 * c = y mod 100 + 4 * (25 * c)"
    by simp
  ultimately have "(y mod 100 + 100 * c) mod 4 = 0"
    using assms by (simp only: mod_mult_self2) (simp add: is_leap_def)
  moreover have "(y mod 100 + 100 * c) mod 100 \<noteq> 0"
    using False by (simp only: mod_mult_self2) simp
  ultimately show ?thesis
    by (simp add: is_leap_def c(1))
qed

lemma valid_date_yy_year:
  "valid_date y m d \<Longrightarrow> valid_date (yy_year (y mod 100)) m d"
proof -
  have "days_in_month y m \<le> days_in_month (yy_year (y mod 100)) m"
    using is_leap_century_shift [of y] by (simp add: days_in_month_def)
  moreover have "1 \<le> yy_year (y mod 100) \<and> yy_year (y mod 100) \<le> 9999"
  proof -
    have "y mod 100 < 100"
      by simp
    then show ?thesis
      unfolding yy_year_def by (cases "y mod 100 \<le> 68") simp_all
  qed
  ultimately show "valid_date y m d \<Longrightarrow> valid_date (yy_year (y mod 100)) m d"
    unfolding valid_date_def by linarith
qed

lemma re_items_y_pad:
  "re_items (Dir Dir_y # is) (pad_digits 2 y @ r) =
     map (\<lambda>(gs, x). ((Dir_y, pad_digits 2 y) # gs, x)) (re_items is r)"
  unfolding pad_digits_2 by simp


section \<open>The six-digit shape\<close>

lemma normalize_yymmdd_date: "normalize_date (yymmdd_date y m d) = yymmdd_date y m d"
proof -
  have "normalize_date (yymmdd_date y m d) = collapse_dup_token (yymmdd_date y m d)"
    by (rule normalize_padded)
      (auto simp: yymmdd_date_def numeric_char_def last_pad_digit dest: pad_digits_digits)
  moreover have "CHR ''/'' \<notin> set (yymmdd_date y m d)"
    by (auto simp: yymmdd_date_def dest: pad_digits_digits)
  ultimately show ?thesis
    by (simp add: collapse_dup_token_no_slash)
qed

lemma yymmdd_nospace: "c \<in> set (yymmdd_date y m d) \<Longrightarrow> \<not> py_isspace c"
  by (auto simp: yymmdd_date_def dest: pad_nospace)

lemma yymmdd_date_parse:
  assumes "valid_date y m d"
  shows "try_formats date_formats (yymmdd_date y m d) = Some (mk_date (yy_year (y mod 100)) m d)"
proof -
  from valid_date_bounds [OF assms] have m: "1 \<le> m" "m \<le> 12" and d: "1 \<le> d" "d \<le> 31"
    by auto
  obtain ys where ys: "re_items [Dir Dir_d] (pad_digits 2 d) =
      map (\<lambda>(gs, x). ((Dir_d, pad_digits 2 d) # gs, x)) (re_items [] []) @ ys"
    using re_items_d_pad [OF d, of "[]" "[]"] unfolding append_Nil2 by blast
  obtain zs where zs: "re_items [Dir Dir_m, Dir Dir_d] (pad_digits 2 m @ pad_digits 2 d) =
      map (\<lambda>(gs, x). ((Dir_m, pad_digits 2 m) # gs, x)) (re_items [Dir Dir_d] (pad_digits 2 d)) @ zs"
    using re_items_m_pad [OF m] by blast
  have hit: "re_items [Dir Dir_y, Dir Dir_m, Dir Dir_d] (yymmdd_date y m d) =
      ([(Dir_y, pad_digits 2 y), (Dir_m, pad_digits 2 m), (Dir_d, pad_digits 2 d)], []) #
        map (\<lambda>(gs, x). ((Dir_y, pad_digits 2 y) # gs, x))
          (map (\<lambda>(gs, x). ((Dir_m, pad_digits 2 m) # gs, x)) ys @ zs)"
    by (simp only: yymmdd_date_def re_items_y_pad zs ys re_items.simps(1)) simp
  have g: "group_fields [(Dir_y, pad_digits 2 y), (Dir_m, pad_digits 2 m), (Dir_d, pad_digits 2 d)] =
      (yy_year (y mod 100), m, d)"
    using m d by (simp add: group_fields_def py_int_pad_digits)
  have "strptime (yymmdd_date y m d) ''%y%m%d'' = Inr (mk_date (yy_year (y mod 100)) m d)"
    using compile_date_formats(10) hit g valid_date_yy_year [OF assms] by (rule strptime_first)
  moreover have "strptime (yymmdd_date y m d) ''%Y-%m-%d'' = Inl NoMatch"
    by (rule strptime_sep [where c = "CHR ''-''", OF _ compile_date_formats(6)]) (simp_all add: yymmdd_date_def)
  moreover have "strptime (yymmdd_date y m d) ''%d.%m.%Y'' = Inl NoMatch"
    by (rule strptime_sep [where c = "CHR ''.''", OF _ compile_date_formats(7)]) (simp_all add: yymmdd_date_def)
  moreover have "strptime (yymmdd_date y m d) ''%d/%m/%Y'' = Inl NoMatch"
    by (rule strptime_sep [where c = "CHR ''/''", OF _ compile_date_formats(8)]) (simp_all add: yymmdd_date_def)
  moreover have "strptime (yymmdd_date y m d) ''%d/%m/%y'' = Inl NoMatch"
    by (rule strptime_sep [where c = "CHR ''/''", OF _ compile_date_formats(9)]) (simp_all add: yymmdd_date_def)
  ultimately show ?thesis
    using first_five_fail [OF yymmdd_nospace]
    by (intro try_formats_at [of _ 9]) (simp_all add: date_formats_def)
qed

section \<open>Round trips\<close>

text \<open>C8. Round trip of the ISO shape: every valid date written \<open>YYYY-MM-DD\<close> with
  zero-padded fields is parsed by \<open>DateField.to_python\<close> back to that date (format 6).\<close>

theorem iso_roundtrip:
  assumes "valid_date y m d"
  shows "date_to_python (PyStr (iso_date y m d)) = Inr (PyDate (mk_date y m d))"
  using iso_date_parse [OF assms] by (simp add: date_to_python_PyStr normalize_iso_date)

theorem iso_roundtrip_witness:
  "valid_date 2018 10 25 \<and>
   date_to_python (PyStr (iso_date 2018 10 25)) = Inr (PyDate (mk_date 2018 10 25))"
proof -
  have v: "valid_date 2018 10 25"
    by (simp add: valid_date_def days_in_month_def)
  show ?thesis
    using v iso_roundtrip [OF v] by simp
qed

text \<open>C9. Round trip of the dotted shape: every valid date written \<open>DD.MM.YYYY\<close> is
  parsed back to that date (format 7; format 6 fails on the missing dash).\<close>

theorem dotted_roundtrip:
  assumes "valid_date y m d"
  shows "date_to_python (PyStr (dotted_date y m d)) = Inr (PyDate (mk_date y m d))"
  using dotted_date_parse [OF assms] by (simp add: date_to_python_PyStr normalize_dotted_date)

theorem dotted_roundtrip_witness:
  "valid_date 2019 10 25 \<and>
   date_to_python (PyStr (dotted_date 2019 10 25)) = Inr (PyDate (mk_date 2019 10 25))"
proof -
  have v: "valid_date 2019 10 25"
    by (simp add: valid_date_def days_in_month_def)
  show ?thesis
    using v dotted_roundtrip [OF v] by simp
qed

text \<open>C10. The slashed shape \<open>DD/MM/YYYY\<close> round-trips exactly when day and month differ.
  When they are equal the duplicate-token rule \<open>\b(\w+)\b/\b\1\b\<close>, meant for month
  names such as \<open>APR/APR\<close>, also collapses the two numbers, and the collapsed
  \<open>DD/YYYY\<close> is rejected: \<open>05/05/2024\<close> raises a \<open>ValidationError\<close>.\<close>

theorem slash_date_dup_rejected:
  assumes "valid_date y m d"
  shows "date_to_python (PyStr (slash_date y m d)) =
    (if d = m then Inl (ValidationError (not_recognized (pad_digits 2 d @ ''/'' @ pad_digits 4 y)))
     else Inr (PyDate (mk_date y m d)))"
proof (cases "d = m")
  case True
  then show ?thesis
    using collapsed_slash_rejected [of m y] normalize_slash_date [of y m m]
    by (simp add: date_to_python_PyStr)
next
  case False
  moreover have "d < 100" "m < 100"
    using valid_date_bounds [OF assms] by simp_all
  ultimately show ?thesis
    using slash_date_parse_distinct [OF assms False]
    by (simp add: date_to_python_PyStr normalize_slash_date pad_digits_2_eq)
qed

theorem slash_date_dup_rejected_witness:
  "valid_date 2024 5 5 \<and>
   date_to_python (PyStr (slash_date 2024 5 5)) = Inl (ValidationError (not_recognized ''05/2024''))"
proof -
  have v: "valid_date 2024 5 5"
    by (simp add: valid_date_def days_in_month_def)
  show ?thesis
    using v slash_date_dup_rejected [OF v] by (simp add: pad_digits_2 pad_digits_4)
qed

text \<open>C7. Round trip of the six-digit shape \<open>YYMMDD\<close> (format 10, after the nine formats
  with whitespace or separators fail): every valid date written with the last two digits of
  its year is parsed back to that date with the year that \<open>%y\<close> reads, 2000 to 2068 for
  00 to 68 and 1969 to 1999 for 69 to 99; a year outside 1969 to 2068 comes back a century
  off.\<close>

theorem yymmdd_roundtrip:
  assumes "valid_date y m d"
  shows "date_to_python (PyStr (yymmdd_date y m d)) =
    Inr (PyDate (mk_date (if y mod 100 \<le> 68 then 2000 + y mod 100 else 1900 + y mod 100) m d))"
  using yymmdd_date_parse [OF assms]
  by (simp add: date_to_python_PyStr normalize_yymmdd_date yy_year_def add.commute)

theorem yymmdd_roundtrip_witness:
  "valid_date 1999 1 1 \<and> date_to_python (PyStr (yymmdd_date 1999 1 1)) = Inr (PyDate (mk_date 1999 1 1)) \<and>
   valid_date 2024 2 29 \<and> date_to_python (PyStr (yymmdd_date 2024 2 29)) = Inr (PyDate (mk_date 2024 2 29)) \<and>
   valid_date 1950 6 30 \<and> date_to_python (PyStr (yymmdd_date 1950 6 30)) = Inr (PyDate (mk_date 2050 6 30))"
proof -
  have v: "valid_date 1999 1 1" "valid_date 2024 2 29" "valid_date 1950 6 30"
    by (simp_all add: valid_date_def days_in_month_def is_leap_def)
  show ?thesis
    using v yymmdd_roundtrip [OF v(1)] yymmdd_roundtrip [OF v(2)] yymmdd_roundtrip [OF v(3)] by simp
qed

end
