(* ===== verification/TextFields.thy ===== *)
theory TextFields
  imports Prelude
begin

text \<open>
  The string-valued fields of src/fields.py: the quote and parenthesis stripping of
  \<open>AdvancedCharField\<close> and \<open>CharField\<close> and their \<open>clean\<close>, \<open>GenderField.to_python\<close> and
  \<open>CountryField.clean\<close>. Django's own \<open>Field.clean\<close> (conversion and validators) and the
  country table of django_countries are not part of the repository: they enter as
  function parameters, \<open>super_clean\<close> and \<open>alpha2\<close>.
\<close>

section \<open>Values handed to a field\<close>

text \<open>A field sees a string, \<open>None\<close>, or some other Python object.\<close>

datatype 'a field_input = FStr pystr | FNone | FObj 'a

section \<open>Quotes and parentheses\<close>

text \<open>One \<open>if (s.startswith(a) and s.endswith(b)): s = s[1:]; s = s[:-1]\<close> block.\<close>

definition strip_enclosing :: "char \<Rightarrow> char \<Rightarrow> pystr \<Rightarrow> pystr" where
  "strip_enclosing a b s = (if py_startswith s [a] \<and> py_endswith s [b] then butlast (drop 1 s) else s)"

text \<open>\<open>AdvancedCharField.remove_quotes_and_parentheses\<close> (lines 105 to 118): single quotes,
  then parentheses, then double quotes, each stripped once, then newlines become spaces.\<close>

definition remove_quotes_and_parentheses :: "pystr \<Rightarrow> pystr" where
  "remove_quotes_and_parentheses s =
     (let s1 = strip_enclosing (CHR 0x27) (CHR 0x27) s;
          s2 = strip_enclosing (CHR ''('') (CHR '')'') s1;
          s3 = strip_enclosing (CHR 0x22) (CHR 0x22) s2
      in str_replace [CHR 0x0A] '' '' s3)"

text \<open>\<open>CharField.remove_quotes_and_parentheses\<close> (lines 150 to 163), a second copy.\<close>

definition char_remove_quotes_and_parentheses :: "pystr \<Rightarrow> pystr" where
  "char_remove_quotes_and_parentheses s =
     (let s1 = strip_enclosing (CHR 0x27) (CHR 0x27) s;
          s2 = strip_enclosing (CHR ''('') (CHR '')'') s1;
          s3 = strip_enclosing (CHR 0x22) (CHR 0x22) s2
      in str_replace [CHR 0x0A] '' '' s3)"

text \<open>\<open>clean\<close> of both classes: strings are stripped, then Django's \<open>clean\<close> runs.\<close>

definition advanced_char_clean ::
  "('a field_input \<Rightarrow> 'e + 'b) \<Rightarrow> 'a field_input \<Rightarrow> 'e + 'b" where
  "advanced_char_clean super_clean v =
     super_clean (case v of FStr s \<Rightarrow> FStr (remove_quotes_and_parentheses s) | _ \<Rightarrow> v)"

definition char_clean :: "('a field_input \<Rightarrow> 'e + 'b) \<Rightarrow> 'a field_input \<Rightarrow> 'e + 'b" where
  "char_clean super_clean v =
     super_clean (case v of FStr s \<Rightarrow> FStr (char_remove_quotes_and_parentheses s) | _ \<Rightarrow> v)"

section \<open>GenderField\<close>

definition gender_choices :: "(pystr \<times> pystr) list" where
  "gender_choices = [(''U'', ''Unknown''), (''M'', ''Male''), (''F'', ''Female''), (''O'', ''Other'')]"

text \<open>The loop of \<open>to_python\<close> over the pieces: the first piece that names a sex
  decides, otherwise \<open>UNKNOWN\<close>.\<close>

fun gender_scan :: "pystr list \<Rightarrow> pystr" where
  "gender_scan [] = ''U''"
| "gender_scan (v # vs) =
     (if v \<in> set [''m'', ''male'', ''man'', ''boy''] then ''M''
      else if v \<in> set [''f'', ''female'', ''woman'', ''girl''] then ''F''
      else gender_scan vs)"

datatype py_error = AttributeError

text \<open>\<open>GenderField.to_python\<close> (lines 300 to 311); a value that is neither \<open>None\<close> nor a
  string has no \<open>strip\<close>.\<close>

definition gender_to_python :: "'a field_input \<Rightarrow> py_error + pystr option" where
  "gender_to_python v = (case v of
     FNone \<Rightarrow> Inr None
   | FStr s \<Rightarrow> Inr (Some (gender_scan (py_split (CHR ''/'') (py_lower (py_strip s)))))
   | FObj _ \<Rightarrow> Inl AttributeError)"

section \<open>CountryField\<close>

text \<open>\<open>CountryField.clean\<close> (lines 28 to 36): the stripped upper-case string is looked up in
  the field's mapping (falling back to itself) and then, if django_countries knows it, replaced
  by its alpha-2 code (\<open>alpha2\<close> returns \<open>None\<close> where the library raises \<open>KeyError\<close>).\<close>

definition country_clean ::
  "(pystr, pystr) pydict \<Rightarrow> (pystr \<Rightarrow> pystr option) \<Rightarrow> ('a field_input \<Rightarrow> 'e + 'b) \<Rightarrow>
   'a field_input \<Rightarrow> 'e + 'b" where
  "country_clean mapping alpha2 super_clean v =
     super_clean (case v of
       FStr s \<Rightarrow>
         (let k = py_upper (py_strip s);
              m = (case map_of mapping k of Some x \<Rightarrow> x | None \<Rightarrow> k)
          in FStr (case alpha2 m of Some c \<Rightarrow> c | None \<Rightarrow> m))
     | _ \<Rightarrow> v)"

section \<open>Lemmas\<close>

lemma str_replace_char: "str_replace [c] [d] s = map (\<lambda>x. if x = c then d else x) s"
  by (induction s) (simp_all add: str_replace_single)

lemma inner_Suc:
  "butlast (drop 1 (take (length s - 2 * k) (drop k s))) = take (length s - 2 * Suc k) (drop (Suc k) s)"
proof (rule nth_equalityI)
  show "length (butlast (drop 1 (take (length s - 2 * k) (drop k s)))) =
        length (take (length s - 2 * Suc k) (drop (Suc k) s))"
    by simp
next
  fix i
  assume "i < length (butlast (drop 1 (take (length s - 2 * k) (drop k s))))"
  then show "butlast (drop 1 (take (length s - 2 * k) (drop k s))) ! i =
             take (length s - 2 * Suc k) (drop (Suc k) s) ! i"
    by (simp add: nth_butlast)
qed

text \<open>Stripping one pair off the infix that \<open>k\<close> strips left leaves it or the next infix.\<close>

lemma strip_enclosing_inner:
  "\<exists>j. j \<le> Suc k \<and> strip_enclosing a b (take (length s - 2 * k) (drop k s)) =
          take (length s - 2 * j) (drop j s)"
proof (cases "py_startswith (take (length s - 2 * k) (drop k s)) [a] \<and>
              py_endswith (take (length s - 2 * k) (drop k s)) [b]")
  case True
  then show ?thesis
    using inner_Suc [of s k] by (intro exI [of _ "Suc k"]) (simp add: strip_enclosing_def)
next
  case False
  then have "strip_enclosing a b (take (length s - 2 * k) (drop k s)) = take (length s - 2 * k) (drop k s)"
    unfolding strip_enclosing_def by presburger
  then show ?thesis
    by (intro exI [of _ k]) simp
qed

lemma char_remove_quotes_eq: "char_remove_quotes_and_parentheses s = remove_quotes_and_parentheses s"
  by (simp add: char_remove_quotes_and_parentheses_def remove_quotes_and_parentheses_def)

lemma char_clean_eq: "char_clean = advanced_char_clean"
  by (simp add: fun_eq_iff char_clean_def advanced_char_clean_def char_remove_quotes_eq
      split: field_input.splits)

lemma gender_scan_code: "gender_scan vs \<in> {''M'', ''F'', ''U''}"
  by (induction vs) auto

section \<open>Properties\<close>

text \<open>C11. Cleaning a string for \<open>AdvancedCharField\<close> (and \<open>CharField\<close>) only cuts
  characters off the two ends, the same number at each end and at most three, and turns
  every newline into a space: the interior of the string is never changed.\<close>

theorem remove_quotes_shape:
  "\<exists>k. k \<le> 3 \<and> remove_quotes_and_parentheses s =
         map (\<lambda>x. if x = CHR 0x0A then CHR '' '' else x) (take (length s - 2 * k) (drop k s))"
proof -
  have s0: "s = take (length s - 2 * 0) (drop 0 s)"
    by simp
  obtain j1 where j1: "j1 \<le> 1" "strip_enclosing (CHR 0x27) (CHR 0x27) s = take (length s - 2 * j1) (drop j1 s)"
    using strip_enclosing_inner [where a = "CHR 0x27" and b = "CHR 0x27" and s = s and k = 0] s0 by auto
  obtain j2 where j2: "j2 \<le> Suc j1"
    "strip_enclosing (CHR ''('') (CHR '')'') (take (length s - 2 * j1) (drop j1 s)) = take (length s - 2 * j2) (drop j2 s)"
    using strip_enclosing_inner [where a = "CHR ''(''" and b = "CHR '')''" and s = s and k = j1] by auto
  obtain j3 where j3: "j3 \<le> Suc j2"
    "strip_enclosing (CHR 0x22) (CHR 0x22) (take (length s - 2 * j2) (drop j2 s)) = take (length s - 2 * j3) (drop j3 s)"
    using strip_enclosing_inner [where a = "CHR 0x22" and b = "CHR 0x22" and s = s and k = j2] by auto
  have "j3 \<le> 3"
    using j1(1) j2(1) j3(1) by arith
  moreover have "remove_quotes_and_parentheses s =
      map (\<lambda>x. if x = CHR 0x0A then CHR '' '' else x) (take (length s - 2 * j3) (drop j3 s))"
    by (simp add: remove_quotes_and_parentheses_def Let_def j1(2) j2(2) j3(2) str_replace_char)
  ultimately show ?thesis
    by blast
qed

text \<open>The pairs are tested one after the other and on the whole string, not for
  balance: \<open>('x')\<close> keeps its quotes (they are tested before the parentheses), and
  \<open>'a' and 'b'\<close> loses its first and last quote, leaving \<open>a' and 'b\<close>.\<close>

theorem remove_quotes_examples:
  "remove_quotes_and_parentheses [CHR ''('', CHR 0x27, CHR ''x'', CHR 0x27, CHR '')''] = [CHR 0x27, CHR ''x'', CHR 0x27] \<and>
   remove_quotes_and_parentheses [CHR 0x27, CHR ''('', CHR ''x'', CHR '')'', CHR 0x27] = ''x'' \<and>
   remove_quotes_and_parentheses ([CHR 0x27, CHR ''a'', CHR 0x27] @ '' and '' @ [CHR 0x27, CHR ''b'', CHR 0x27]) =
     [CHR ''a'', CHR 0x27] @ '' and '' @ [CHR 0x27, CHR ''b''] \<and>
   remove_quotes_and_parentheses (''a'' @ [CHR 0x0A] @ ''b'') = ''a b''"
  by (simp add: remove_quotes_and_parentheses_def strip_enclosing_def py_startswith_def
      py_endswith_def str_replace_char)

text \<open>\<open>GenderField.to_python\<close> returns \<open>None\<close> for \<open>None\<close> and otherwise one of the
  codes \<open>M\<close>, \<open>F\<close>, \<open>U\<close> of \<open>GENDER_CHOICES\<close>; the fourth choice \<open>O\<close> (Other) is never
  produced.\<close>

theorem gender_to_python_code:
  assumes "gender_to_python v = Inr (Some g)"
  shows "g \<in> {''M'', ''F'', ''U''} \<and> g \<in> fst ` set gender_choices \<and> g \<noteq> ''O''"
proof -
  obtain s where "g = gender_scan (py_split (CHR ''/'') (py_lower (py_strip s)))"
    using assms by (cases v) (auto simp: gender_to_python_def)
  then show ?thesis
    using gender_scan_code [of "py_split (CHR ''/'') (py_lower (py_strip s))"]
    by (auto simp: gender_choices_def)
qed

theorem gender_to_python_code_witness:
  "gender_to_python (FStr ''Male'' :: unit field_input) = Inr (Some ''M'') \<and>
   ''M'' \<in> {''M'', ''F'', ''U''} \<and> ''M'' \<in> fst ` set gender_choices \<and> ''M'' \<noteq> ''O''"
proof -
  have run: "gender_to_python (FStr ''Male'' :: unit field_input) = Inr (Some ''M'')"
    by (simp add: gender_to_python_def py_lower_def py_strip_def)
  show ?thesis
    using run gender_to_python_code [OF run] by simp
qed

text \<open>Runs of \<open>GenderField.to_python\<close>: case and surrounding whitespace do not matter
  and the first piece of a slashed value decides; but the pieces are not stripped, so
  \<open>male / female\<close> is \<open>U\<close>, and \<open>other\<close> is \<open>U\<close> as well.\<close>

theorem gender_examples:
  "gender_to_python (FStr ''Male'' :: unit field_input) = Inr (Some ''M'') \<and>
   gender_to_python (FStr '' FEMALE '' :: unit field_input) = Inr (Some ''F'') \<and>
   gender_to_python (FStr ''f/m'' :: unit field_input) = Inr (Some ''F'') \<and>
   gender_to_python (FStr ''x/boy'' :: unit field_input) = Inr (Some ''M'') \<and>
   gender_to_python (FStr ''other'' :: unit field_input) = Inr (Some ''U'') \<and>
   gender_to_python (FStr ''male / female'' :: unit field_input) = Inr (Some ''U'') \<and>
   gender_to_python (FNone :: unit field_input) = Inr None \<and>
   gender_to_python (FObj () :: unit field_input) = Inl AttributeError"
  by (simp add: gender_to_python_def py_lower_def py_strip_def)

end
