(* ===== verification/DecimalField.thy ===== *)
theory DecimalField
  imports Prelude
begin

text \<open>
  \<open>DecimalField.to_python\<close> (src/fields.py, lines 55 to 84). A \<open>Decimal\<close> passes through;
  a string is stripped of the characters \<open>. , ' "\<close>, space and the curly double quotes
  U+201C and U+201D (which lie outside the Latin-1 alphabet of the model, so that no modelled
  string contains them), then tested against the German pattern
  \<open>^\d{1,3}(\.\d{3})*(,\d{1,2})?$\<close> and, failing that, the English pattern
  \<open>^\d{1,3}(,\d{3})*(\.\d{1,2})?$\<close>. A match is rewritten into Python's decimal syntax and
  converted; anything else goes to Django's \<open>DecimalField.to_python\<close>, a parameter here.
  \<open>Decimal\<close> values are kept as coefficient and number of fraction digits, the way
  \<open>decimal.Decimal\<close> keeps \<open>1.50\<close> apart from \<open>1.5\<close>.
\<close>

record decimal =
  coefficient :: nat
  frac_digits :: nat

datatype 'a decimal_input = DecVal decimal | DecStr pystr | DecOther 'a

datatype 'e decimal_error = InvalidDecimal pystr | SuperError 'e

section \<open>The two patterns\<close>

text \<open>The optional fraction \<open>(,\d{1,2})?\<close> followed by \<open>$\<close> (the end, or a final newline).
  The digit run is read greedily; backtracking to one digit would leave a digit before \<open>$\<close>,
  so the maximal run decides.\<close>

definition num_tail :: "char \<Rightarrow> pystr \<Rightarrow> bool" where
  "num_tail dec r \<longleftrightarrow> py_at_end r \<or>
     (case r of [] \<Rightarrow> False
      | c # r' \<Rightarrow> c = dec \<and> (let ds = takeWhile py_isdigit r' in
                    1 \<le> length ds \<and> length ds \<le> 2 \<and> py_at_end (drop (length ds) r')))"

text \<open>The group repetition \<open>(\.\d{3})*\<close> then the tail, with the backtracking of the
  greedy star: one more group first, otherwise stop here.\<close>

fun num_groups :: "char \<Rightarrow> char \<Rightarrow> pystr \<Rightarrow> bool" where
  "num_groups sep dec (c # d1 # d2 # d3 # r) \<longleftrightarrow>
     (c = sep \<and> py_isdigit d1 \<and> py_isdigit d2 \<and> py_isdigit d3 \<and> num_groups sep dec r) \<or>
     num_tail dec (c # d1 # d2 # d3 # r)"
| "num_groups sep dec r \<longleftrightarrow> num_tail dec r"

text \<open>\<open>re.match\<close> of \<open>^\d{1,3}...\<close>: three, two or one leading digits.\<close>

definition num_format :: "char \<Rightarrow> char \<Rightarrow> pystr \<Rightarrow> bool" where
  "num_format sep dec s \<longleftrightarrow> (let n = length (takeWhile py_isdigit s) in
     (3 \<le> n \<and> num_groups sep dec (drop 3 s)) \<or> (2 \<le> n \<and> num_groups sep dec (drop 2 s)) \<or>
     (1 \<le> n \<and> num_groups sep dec (drop 1 s)))"

definition german_format :: "pystr \<Rightarrow> bool" where
  "german_format s \<longleftrightarrow> num_format (CHR ''.'') (CHR '','') s"

definition english_format :: "pystr \<Rightarrow> bool" where
  "english_format s \<longleftrightarrow> num_format (CHR '','') (CHR ''.'') s"

section \<open>decimal.Decimal on the strings the patterns produce\<close>

text \<open>\<open>Decimal(str)\<close> for the syntax \<open>digits[.digits]\<close> with surrounding whitespace, the only
  shape the two rewrites below produce; \<open>None\<close> stands for \<open>InvalidOperation\<close> on other
  strings.\<close>

definition py_decimal :: "pystr \<Rightarrow> decimal option" where
  "py_decimal s = (let t = py_strip s; i = takeWhile py_isdigit t; r = drop (length i) t in
     if i = [] then None
     else if r = [] then Some \<lparr>coefficient = py_int i, frac_digits = 0\<rparr>
     else if hd r = CHR ''.'' \<and> tl r \<noteq> [] \<and> (\<forall>c\<in>set (tl r). py_isdigit c)
       then Some \<lparr>coefficient = py_int (i @ tl r), frac_digits = length (tl r)\<rparr>
     else None)"

text \<open>The number of digits after the decimal mark \<open>dec\<close>, zero when there is none.\<close>

definition frac_len :: "char \<Rightarrow> pystr \<Rightarrow> nat" where
  "frac_len dec t = (case dropWhile (\<lambda>c. c \<noteq> dec) t of [] \<Rightarrow> 0
                     | _ # r \<Rightarrow> length (takeWhile py_isdigit r))"

section \<open>to_python\<close>

definition decimal_strip_chars :: "char list" where
  "decimal_strip_chars = [CHR ''.'', CHR '','', CHR 0x27, CHR 0x22, CHR '' '']"

definition convert_decimal :: "pystr \<Rightarrow> 'e decimal_error + decimal" where
  "convert_decimal u = (case py_decimal u of Some d \<Rightarrow> Inr d | None \<Rightarrow> Inl (InvalidDecimal u))"

definition decimal_to_python ::
  "('a decimal_input \<Rightarrow> 'e + decimal) \<Rightarrow> 'a decimal_input \<Rightarrow> 'e decimal_error + decimal" where
  "decimal_to_python super_to_python v = (case v of
     DecVal d \<Rightarrow> Inr d
   | DecStr s \<Rightarrow>
       (let t = py_strip_chars decimal_strip_chars s in
        if german_format t then convert_decimal (str_replace '','' ''.'' (str_replace ''.'' '''' t))
        else if english_format t then convert_decimal (str_replace '','' '''' t)
        else map_sum SuperError id (super_to_python (DecStr t)))
   | DecOther x \<Rightarrow> map_sum SuperError id (super_to_python (DecOther x)))"

section \<open>Lemmas\<close>

lemma num_tail_shape:
  assumes "num_tail dec r"
  shows "py_at_end r \<or> (\<exists>ds nl. r = dec # ds @ nl \<and> 1 \<le> length ds \<and> length ds \<le> 2 \<and>
                          (\<forall>c\<in>set ds. py_isdigit c) \<and> py_at_end nl)"
proof (cases "py_at_end r")
  case False
  with assms obtain r' where r: "r = dec # r'"
    and ds: "1 \<le> length (takeWhile py_isdigit r')" "length (takeWhile py_isdigit r') \<le> 2"
    "py_at_end (drop (length (takeWhile py_isdigit r')) r')"
    by (cases r) (auto simp: num_tail_def Let_def)
  have "r' = takeWhile py_isdigit r' @ drop (length (takeWhile py_isdigit r')) r'"
    by (metis append_take_drop_id takeWhile_eq_take)
  with r ds show ?thesis
    by (metis set_takeWhileD)
qed simp

lemma num_groups_shape:
  "num_groups sep dec r \<Longrightarrow> \<exists>g f. r = g @ f \<and> (\<forall>c\<in>set g. py_isdigit c \<or> c = sep) \<and> num_tail dec f"
proof (induction sep dec r rule: num_groups.induct)
  case (1 sep dec c d1 d2 d3 r)
  show ?case
  proof (cases "c = sep \<and> py_isdigit d1 \<and> py_isdigit d2 \<and> py_isdigit d3 \<and> num_groups sep dec r")
    case True
    with "1.IH" obtain g f where "r = g @ f" "\<forall>c\<in>set g. py_isdigit c \<or> c = sep" "num_tail dec f"
      by blast
    with True show ?thesis
      by (intro exI [of _ "c # d1 # d2 # d3 # g"] exI [of _ f]) auto
  next
    case False
    with "1.prems" show ?thesis
      by (intro exI [of _ "[]"] exI [of _ "c # d1 # d2 # d3 # r"]) auto
  qed
qed (auto intro: exI [of _ "[]"])

lemma num_format_shape:
  assumes "num_format sep dec s"
  shows "\<exists>g f. s = g @ f \<and> g \<noteq> [] \<and> py_isdigit (hd g) \<and> (\<forall>c\<in>set g. py_isdigit c \<or> c = sep) \<and>
           num_tail dec f"
proof -
  have "\<exists>k. 1 \<le> k \<and> k \<le> length (takeWhile py_isdigit s) \<and> num_groups sep dec (drop k s)"
    using assms unfolding num_format_def Let_def
  proof (elim disjE conjE)
    assume "3 \<le> length (takeWhile py_isdigit s)" "num_groups sep dec (drop 3 s)"
    then show ?thesis by (intro exI [of _ 3]) simp
  next
    assume "2 \<le> length (takeWhile py_isdigit s)" "num_groups sep dec (drop 2 s)"
    then show ?thesis by (intro exI [of _ 2]) simp
  next
    assume "1 \<le> length (takeWhile py_isdigit s)" "num_groups sep dec (drop 1 s)"
    then show ?thesis by (intro exI [of _ 1]) simp
  qed
  then obtain k where k: "1 \<le> k" "k \<le> length (takeWhile py_isdigit s)" "num_groups sep dec (drop k s)"
    by blast
  obtain g f where gf: "drop k s = g @ f" "\<forall>c\<in>set g. py_isdigit c \<or> c = sep" "num_tail dec f"
    using num_groups_shape [OF k(3)] by blast
  have tk: "take k s = take k (takeWhile py_isdigit s)"
    using k(2) by (metis min.absorb1 take_take takeWhile_eq_take)
  then have digits: "\<forall>c\<in>set (take k s). py_isdigit c"
    by (metis in_set_takeD set_takeWhileD)
  have ne: "take k s \<noteq> []"
    using k(1,2) by (metis Suc_le_eq le_zero_eq length_0_conv length_takeWhile_le less_le_trans
      not_one_le_zero take_eq_Nil)
  show ?thesis
  proof (intro exI conjI)
    show "s = (take k s @ g) @ f"
      using gf(1) by (metis append_assoc append_take_drop_id)
    show "take k s @ g \<noteq> []"
      using ne by simp
    show "py_isdigit (hd (take k s @ g))"
      using ne digits hd_in_set [OF ne] by (simp add: hd_append)
    show "\<forall>c\<in>set (take k s @ g). py_isdigit c \<or> c = sep"
      using digits gf(2) by auto
  qed (rule gf(3))
qed

lemma digits_ne_ends:
  assumes "xs \<noteq> []" "\<forall>c\<in>set xs. py_isdigit c"
  shows "\<not> py_isspace (hd xs)" "\<not> py_isspace (last xs)"
  using assms hd_in_set [OF assms(1)] last_in_set [OF assms(1)] by auto

lemma py_decimal_int:
  assumes "D \<noteq> []" "\<forall>c\<in>set D. py_isdigit c" "py_at_end nl"
  shows "py_decimal (D @ nl) = Some \<lparr>coefficient = py_int D, frac_digits = 0\<rparr>"
proof -
  have st: "py_strip (D @ nl) = D"
    using assms digits_ne_ends [OF assms(1,2)] by (intro py_strip_trailing_space) (auto simp: py_at_end_def)
  moreover have tw: "takeWhile py_isdigit D = D"
    using assms(2) by simp
  ultimately show ?thesis
    using assms(1) by (simp add: py_decimal_def Let_def st tw)
qed

lemma py_decimal_frac:
  assumes "D \<noteq> []" "\<forall>c\<in>set D. py_isdigit c" "ds \<noteq> []" "\<forall>c\<in>set ds. py_isdigit c" "py_at_end nl"
  shows "py_decimal (D @ CHR ''.'' # ds @ nl) = Some \<lparr>coefficient = py_int (D @ ds), frac_digits = length ds\<rparr>"
proof -
  have st: "py_strip ((D @ CHR ''.'' # ds) @ nl) = D @ CHR ''.'' # ds"
    using assms digits_ne_ends [OF assms(1,2)] digits_ne_ends [OF assms(3,4)]
    by (intro py_strip_trailing_space) (auto simp: py_at_end_def)
  have tw: "takeWhile py_isdigit (D @ CHR ''.'' # ds) = D"
    using assms(2) by (simp add: takeWhile_append)
  show ?thesis
    using assms(1,3,4) by (simp add: py_decimal_def Let_def st [simplified] tw)
qed

lemma rw_digits:
  assumes "\<forall>c\<in>set g. py_isdigit c \<or> c = sep" "\<not> py_isdigit sep" "\<not> py_isdigit dec"
  shows "concat (map (\<lambda>x. if x = sep then [] else if x = dec then ''.'' else [x]) g) =
         filter py_isdigit g"
  using assms by (induction g) auto

lemma rw_at_end:
  fixes sep dec :: char
  assumes "\<not> py_isdigit dec" "sep \<noteq> CHR 0x0A" "dec \<noteq> CHR 0x0A" "py_at_end f"
  shows "concat (map (\<lambda>x. if x = sep then [] else if x = dec then ''.'' else [x]) f) = f"
  using assms by (auto simp: py_at_end_def)

lemma at_end_no_dec:
  fixes sep dec :: char
  assumes "dec \<noteq> CHR 0x0A" "py_at_end f"
  shows "dropWhile (\<lambda>c. c \<noteq> dec) f = []" "filter py_isdigit f = []"
  using assms by (auto simp: py_at_end_def)

lemma no_dec_in_groups:
  assumes "\<forall>c\<in>set g. py_isdigit c \<or> c = sep" "\<not> py_isdigit dec" "sep \<noteq> dec"
  shows "dec \<notin> set g"
  using assms by auto

lemma decimal_rewrite_int:
  fixes sep dec :: char
  defines "rw \<equiv> \<lambda>x. if x = sep then [] else if x = dec then ''.'' else [x]"
  assumes shape: "g \<noteq> []" "py_isdigit (hd g)" "\<forall>c\<in>set g. py_isdigit c \<or> c = sep" "py_at_end f"
    and chars: "\<not> py_isdigit sep" "\<not> py_isdigit dec" "sep \<noteq> dec" "sep \<noteq> CHR 0x0A" "dec \<noteq> CHR 0x0A"
  shows "py_decimal (concat (map rw (g @ f))) =
           Some \<lparr>coefficient = py_int (g @ f), frac_digits = frac_len dec (g @ f)\<rparr>"
proof -
  have rg: "concat (map rw g) = filter py_isdigit g"
    unfolding rw_def using shape(3) chars(1,2) by (rule rw_digits)
  have rf: "concat (map rw f) = f"
    unfolding rw_def using chars(2,4,5) shape(4) by (rule rw_at_end)
  have D: "filter py_isdigit g \<noteq> []" "\<forall>c\<in>set (filter py_isdigit g). py_isdigit c"
    using shape(1,2) by (cases g; simp)+
  have dec: "py_decimal (filter py_isdigit g @ f) = Some \<lparr>coefficient = py_int (filter py_isdigit g), frac_digits = 0\<rparr>"
    using D shape(4) by (rule py_decimal_int)
  have pi: "py_int (g @ f) = py_int (filter py_isdigit g)"
    using at_end_no_dec(2) [OF chars(5) shape(4)] by (simp add: py_int_def)
  have ng: "\<forall>x\<in>set g. x \<noteq> dec"
    using no_dec_in_groups [OF shape(3) chars(2,3)] by blast
  have fl: "frac_len dec (g @ f) = 0"
    by (simp add: frac_len_def dropWhile_append ng at_end_no_dec(1) [OF chars(5) shape(4)])
  show ?thesis
    by (simp only: map_append concat_append rg rf dec pi fl)
qed

lemma decimal_rewrite_frac:
  fixes sep dec :: char
  defines "rw \<equiv> \<lambda>x. if x = sep then [] else if x = dec then ''.'' else [x]"
  assumes shape: "g \<noteq> []" "py_isdigit (hd g)" "\<forall>c\<in>set g. py_isdigit c \<or> c = sep"
    "ds \<noteq> []" "\<forall>c\<in>set ds. py_isdigit c" "py_at_end nl"
    and chars: "\<not> py_isdigit sep" "\<not> py_isdigit dec" "sep \<noteq> dec" "sep \<noteq> CHR 0x0A" "dec \<noteq> CHR 0x0A"
  shows "py_decimal (concat (map rw (g @ dec # ds @ nl))) =
           Some \<lparr>coefficient = py_int (g @ dec # ds @ nl), frac_digits = frac_len dec (g @ dec # ds @ nl)\<rparr>"
proof -
  have rg: "concat (map rw g) = filter py_isdigit g"
    unfolding rw_def using shape(3) chars(1,2) by (rule rw_digits)
  have rn: "concat (map rw nl) = nl"
    unfolding rw_def using chars(2,4,5) shape(6) by (rule rw_at_end)
  have rds: "concat (map rw ds) = ds"
    unfolding rw_def using shape(5) chars(1,2) rw_digits [of ds sep dec] by simp
  have rdec: "rw dec = ''.''"
    using chars(3) by (simp add: rw_def)
  have D: "filter py_isdigit g \<noteq> []" "\<forall>c\<in>set (filter py_isdigit g). py_isdigit c"
    using shape(1,2) by (cases g; simp)+
  have dec: "py_decimal (filter py_isdigit g @ CHR ''.'' # ds @ nl) =
      Some \<lparr>coefficient = py_int (filter py_isdigit g @ ds), frac_digits = length ds\<rparr>"
    using D shape(4,5,6) by (rule py_decimal_frac)
  have fds: "filter py_isdigit ds = ds"
    using shape(5) by simp
  have fdg: "filter py_isdigit (filter py_isdigit g) = filter py_isdigit g"
    by simp
  have pi: "py_int (g @ dec # ds @ nl) = py_int (filter py_isdigit g @ ds)"
    by (simp add: py_int_def chars(2) fds fdg at_end_no_dec(2) [OF chars(5) shape(6)])
  have ng: "\<forall>x\<in>set g. x \<noteq> dec"
    using no_dec_in_groups [OF shape(3) chars(2,3)] by blast
  have tw: "takeWhile py_isdigit (ds @ nl) = ds"
    using shape(5,6) by (auto simp: py_at_end_def takeWhile_append)
  have fl: "frac_len dec (g @ dec # ds @ nl) = length ds"
    by (simp add: frac_len_def dropWhile_append ng tw)
  show ?thesis
    by (simp only: map_append concat_append list.map concat.simps rg rn rds rdec dec pi fl
        append_Cons append_Nil append_assoc)
qed

lemma decimal_rewrite:
  fixes sep dec :: char
  assumes "num_format sep dec s"
    and chars: "\<not> py_isdigit sep" "\<not> py_isdigit dec" "sep \<noteq> dec" "sep \<noteq> CHR 0x0A" "dec \<noteq> CHR 0x0A"
  shows "py_decimal (concat (map (\<lambda>x. if x = sep then [] else if x = dec then ''.'' else [x]) s)) =
           Some \<lparr>coefficient = py_int s, frac_digits = frac_len dec s\<rparr>"
proof -
  obtain g f where gf: "s = g @ f" "g \<noteq> []" "py_isdigit (hd g)" "\<forall>c\<in>set g. py_isdigit c \<or> c = sep"
    "num_tail dec f"
    using num_format_shape [OF assms(1)] by blast
  from num_tail_shape [OF gf(5)] show ?thesis
  proof (elim disjE exE conjE)
    assume "py_at_end f"
    from decimal_rewrite_int [OF gf(2,3,4) this chars] show ?thesis
      by (simp only: gf(1))
  next
    fix ds nl
    assume fr: "f = dec # ds @ nl" "1 \<le> length ds" "length ds \<le> 2" "\<forall>c\<in>set ds. py_isdigit c"
      "py_at_end nl"
    then have "ds \<noteq> []"
      by auto
    from decimal_rewrite_frac [OF gf(2,3,4) this fr(4,5) chars] show ?thesis
      by (simp only: gf(1) fr(1))
  qed
qed

lemma german_rewrite:
  "str_replace '','' ''.'' (str_replace ''.'' '''' t) =
   concat (map (\<lambda>x. if x = CHR ''.'' then [] else if x = CHR '','' then ''.'' else [x]) t)"
  by (induction t) (simp_all add: str_replace_single)

lemma english_rewrite:
  "str_replace '','' '''' t =
   concat (map (\<lambda>x. if x = CHR '','' then [] else if x = CHR ''.'' then ''.'' else [x]) t)"
  by (induction t) (simp_all add: str_replace_single)

lemma decimal_to_python_recognised:
  assumes "t = py_strip_chars decimal_strip_chars s" "german_format t \<or> english_format t"
  shows "decimal_to_python super_to_python (DecStr s) =
    Inr \<lparr>coefficient = py_int t, frac_digits = frac_len (if german_format t then CHR '','' else CHR ''.'') t\<rparr>"
proof (cases "german_format t")
  case True
  have "py_decimal (str_replace '','' ''.'' (str_replace ''.'' '''' t)) =
      Some \<lparr>coefficient = py_int t, frac_digits = frac_len (CHR '','') t\<rparr>"
    unfolding german_rewrite using True by (intro decimal_rewrite) (simp_all add: german_format_def)
  with True assms(1) show ?thesis
    by (simp add: decimal_to_python_def convert_decimal_def Let_def)
next
  case False
  with assms(2) have e: "english_format t"
    by simp
  have "py_decimal (str_replace '','' '''' t) =
      Some \<lparr>coefficient = py_int t, frac_digits = frac_len (CHR ''.'') t\<rparr>"
    unfolding english_rewrite using e by (intro decimal_rewrite) (simp_all add: english_format_def)
  with False e assms(1) show ?thesis
    by (simp add: decimal_to_python_def convert_decimal_def Let_def)
qed

section \<open>Properties\<close>

text \<open>C15. A string that, stripped of the edge characters, is in the German or the English
  format converts to the Decimal whose digits are all the digits of the string and whose
  exponent is minus the number of digits after the decimal mark (the comma for the German
  format, which is tried first, the point for the English one).\<close>

theorem decimal_to_python_format:
  assumes "t = py_strip_chars decimal_strip_chars s" "german_format t \<or> english_format t"
  shows "decimal_to_python super_to_python (DecStr s) =
    Inr \<lparr>coefficient = py_int t, frac_digits = frac_len (if german_format t then CHR '','' else CHR ''.'') t\<rparr>"
  using assms by (rule decimal_to_python_recognised)

theorem decimal_to_python_format_witness:
  "''1.234,56'' = py_strip_chars decimal_strip_chars '' 1.234,56.'' \<and>
   (german_format ''1.234,56'' \<or> english_format ''1.234,56'') \<and>
   decimal_to_python (\<lambda>v. Inl () :: unit + decimal) (DecStr '' 1.234,56.'') =
     Inr \<lparr>coefficient = 123456, frac_digits = 2\<rparr>"
proof -
  have t: "''1.234,56'' = py_strip_chars decimal_strip_chars '' 1.234,56.''"
    by (simp add: py_strip_chars_def decimal_strip_chars_def)
  have g: "german_format ''1.234,56''"
    by (simp add: german_format_def num_format_def num_tail_def py_at_end_def)
  have "decimal_to_python (\<lambda>v. Inl () :: unit + decimal) (DecStr '' 1.234,56.'') =
      Inr \<lparr>coefficient = py_int ''1.234,56'',
           frac_digits = frac_len (if german_format ''1.234,56'' then CHR '','' else CHR ''.'') ''1.234,56''\<rparr>"
    using decimal_to_python_format [OF t disjI1 [OF g]] .
  then show ?thesis
    by (simp add: g t [symmetric] py_int_def frac_len_def numeral_2_eq_2)
qed

text \<open>C16. The \<open>except InvalidOperation\<close> branches are dead code: \<open>to_python\<close> never raises
  its own \<open>Invalid decimal value\<close> error, whatever the input; failures can only come from
  Django's \<open>DecimalField.to_python\<close>.\<close>

theorem decimal_to_python_no_invalid:
  "decimal_to_python super_to_python v \<noteq> Inl (InvalidDecimal u)"
proof (cases v)
  case (DecStr s)
  let ?t = "py_strip_chars decimal_strip_chars s"
  show ?thesis
  proof (cases "german_format ?t \<or> english_format ?t")
    case True
    with DecStr show ?thesis
      by (simp add: decimal_to_python_recognised)
  next
    case False
    with DecStr show ?thesis
      by (cases "super_to_python (DecStr ?t)") (simp_all add: decimal_to_python_def Let_def)
  qed
next
  case (DecOther x)
  then show ?thesis
    by (cases "super_to_python (DecOther x)") (simp_all add: decimal_to_python_def)
qed (simp add: decimal_to_python_def)

text \<open>Runs: both formats with thousands separators and decimals convert; \<open>12.50\<close>
  keeps its two fraction digits. An English decimal with three fraction digits is read as
  a German thousands group: \<open>0.125\<close> becomes 125 and \<open>1.234\<close> becomes 1234; \<open>1234\<close>
  matches neither pattern and goes to Django.\<close>

theorem decimal_examples:
  "decimal_to_python (\<lambda>v. Inl () :: unit + decimal) (DecStr ''1.234,56'') = Inr \<lparr>coefficient = 123456, frac_digits = 2\<rparr> \<and>
   decimal_to_python (\<lambda>v. Inl () :: unit + decimal) (DecStr ''1,234.56'') = Inr \<lparr>coefficient = 123456, frac_digits = 2\<rparr> \<and>
   decimal_to_python (\<lambda>v. Inl () :: unit + decimal) (DecStr ''12.50'') = Inr \<lparr>coefficient = 1250, frac_digits = 2\<rparr> \<and>
   decimal_to_python (\<lambda>v. Inl () :: unit + decimal) (DecStr ''0.125'') = Inr \<lparr>coefficient = 125, frac_digits = 0\<rparr> \<and>
   decimal_to_python (\<lambda>v. Inl () :: unit + decimal) (DecStr ''1.234'') = Inr \<lparr>coefficient = 1234, frac_digits = 0\<rparr> \<and>
   decimal_to_python (\<lambda>v. Inl () :: unit + decimal) (DecStr ''1234'') = Inl (SuperError ()) \<and>
   decimal_to_python (\<lambda>v. Inl () :: unit + decimal) (DecVal \<lparr>coefficient = 15, frac_digits = 1\<rparr>) =
     Inr \<lparr>coefficient = 15, frac_digits = 1\<rparr>"
  by (simp add: decimal_to_python_def py_strip_chars_def decimal_strip_chars_def german_format_def
     english_format_def num_format_def num_tail_def py_at_end_def convert_decimal_def py_decimal_def
     str_replace_def lit_match_def py_strip_def py_int_def)

end
