(* ===== verification/Reporter.thy ===== *)
theory Reporter
  imports Prelude "HOL-Library.Multiset"
begin

text \<open>
  \<open>ActionResultReporter\<close> (src/admin/action_result_reporter.py) and the admin action that
  \<open>make_action\<close> builds around a model method (src/admin/install.py, lines 12 to 32). The
  reporter's state is its three record lists; the messages it adds to the request are an
  explicit list of (level, HTML text) pairs in the order of \<open>request._messages.add\<close>.
  \<open>str(record)\<close> is a parameter \<open>rstr\<close>; \<open>repr(error)\<close> is carried by the outcome of the
  method. Django's \<open>escape\<close> is modelled from its documentation (the five characters
  \<open>& < > " '\<close>); the logger calls only write to the log and are left out.
\<close>

section \<open>Formatting helpers\<close>

text \<open>\<open>str(n)\<close> of a natural number.\<close>

fun nat_str :: "nat \<Rightarrow> pystr" where
  "nat_str n = (if n < 10 then [digit_char n] else nat_str (n div 10) @ [digit_char (n mod 10)])"

declare nat_str.simps [simp del]

text \<open>\<open>str.capitalize\<close>: the first character in title case (the sharp s becomes \<open>Ss\<close>), the
  rest in lower case.\<close>

definition py_capitalize :: "pystr \<Rightarrow> pystr" where
  "py_capitalize s = (case s of [] \<Rightarrow> []
     | c # cs \<Rightarrow> (if cp c = 223 then ''Ss'' else py_upper_char c) @ py_lower cs)"

text \<open>\<open>django.utils.html.escape\<close>.\<close>

definition html_escape_char :: "char \<Rightarrow> pystr" where
  "html_escape_char c = (if c = CHR ''&'' then ''&amp;'' else if c = CHR ''<'' then ''&lt;''
     else if c = CHR ''>'' then ''&gt;'' else if c = CHR 0x22 then ''&quot;''
     else if c = CHR 0x27 then ''&#x27;'' else [c])"

definition html_escape :: "pystr \<Rightarrow> pystr" where
  "html_escape s = concat (map html_escape_char s)"

section \<open>The reporter\<close>

text \<open>A warning carries the failed fields as (field, value, reasons) triples.\<close>

type_synonym 'v failed_field = "pystr \<times> 'v \<times> pystr list"

record ('r, 'v) reporter =
  success_records :: "'r list"
  warning_records :: "('r \<times> 'v failed_field list) list"
  failed_records :: "('r \<times> pystr) list"

definition reporter_init :: "('r, 'v) reporter" where
  "reporter_init = \<lparr>success_records = [], warning_records = [], failed_records = []\<rparr>"

definition add_success :: "('r, 'v) reporter \<Rightarrow> 'r \<Rightarrow> ('r, 'v) reporter" where
  "add_success rep record = rep\<lparr>success_records := success_records rep @ [record]\<rparr>"

definition add_warning :: "('r, 'v) reporter \<Rightarrow> 'r \<Rightarrow> 'v failed_field list \<Rightarrow> ('r, 'v) reporter" where
  "add_warning rep record failed_fields =
     rep\<lparr>warning_records := warning_records rep @ [(record, failed_fields)]\<rparr>"

text \<open>\<open>add_failure\<close> stores \<open>repr(error)\<close>.\<close>

definition add_failure :: "('r, 'v) reporter \<Rightarrow> 'r \<Rightarrow> pystr \<Rightarrow> ('r, 'v) reporter" where
  "add_failure rep record error_repr = rep\<lparr>failed_records := failed_records rep @ [(record, error_repr)]\<rparr>"

datatype msg_level = SUCCESS | WARNING | ERROR

definition format_message :: "nat \<Rightarrow> pystr \<Rightarrow> pystr" where
  "format_message n base_message =
     (if n = 1 then base_message @ '' for <strong>1 record</strong>''
      else base_message @ '' for <strong>'' @ nat_str n @ '' records</strong>'')"

definition success_message :: "('r \<Rightarrow> pystr) \<Rightarrow> pystr \<Rightarrow> 'r list \<Rightarrow> pystr" where
  "success_message rstr action_label recs =
     (let m = format_message (length recs) (action_label @ '' was successful'') in
      if length recs = 1 then m @ '': '' @ rstr (hd recs) @ ''.'' else m)"

definition warning_entry :: "('r \<Rightarrow> pystr) \<Rightarrow> 'r \<times> 'v failed_field list \<Rightarrow> pystr" where
  "warning_entry rstr w = (case w of (record, failed_fields) \<Rightarrow>
     rstr record @ '': '' @ (if 1 < length failed_fields then ''<br />'' else []) @
     concat (map (\<lambda>(field, value, reason).
                   ''Field <em>'' @ field @ ''</em>: '' @ html_escape (py_join '', '' reason) @ ''<br />'')
                 failed_fields))"

definition warning_message :: "('r \<Rightarrow> pystr) \<Rightarrow> pystr \<Rightarrow> ('r \<times> 'v failed_field list) list \<Rightarrow> pystr" where
  "warning_message rstr action_label ws =
     format_message (length ws) (action_label @ '' completed with warnings'') @ '':<br />'' @
     concat (map (warning_entry rstr) ws)"

definition failure_message :: "('r \<Rightarrow> pystr) \<Rightarrow> pystr \<Rightarrow> ('r \<times> pystr) list \<Rightarrow> pystr" where
  "failure_message rstr action_label fs =
     format_message (length fs) (action_label @ '' failed'') @ '':<br />'' @
     concat (map (\<lambda>(record, error). rstr record @ '': '' @ html_escape error @ ''<br />'') fs)"

text \<open>\<open>generate_message\<close>: up to three messages, appended to the request's messages.\<close>

definition generate_message ::
  "('r \<Rightarrow> pystr) \<Rightarrow> ('r, 'v) reporter \<Rightarrow> pystr \<Rightarrow> (msg_level \<times> pystr) list \<Rightarrow> (msg_level \<times> pystr) list" where
  "generate_message rstr rep action_label msgs =
     (let label = ''<strong>'' @ py_capitalize action_label @ ''</strong>'' in
      msgs @
      (if success_records rep \<noteq> [] then [(SUCCESS, success_message rstr label (success_records rep))] else []) @
      (if warning_records rep \<noteq> [] then [(WARNING, warning_message rstr label (warning_records rep))] else []) @
      (if failed_records rep \<noteq> [] then [(ERROR, failure_message rstr label (failed_records rep))] else []))"

section \<open>The generated admin action\<close>

text \<open>What calling the model method does: it raises (with the exception's \<open>repr\<close>), returns
  a dict with a \<open>warnings\<close> entry, or returns anything else.\<close>

datatype 'v outcome = is_raise: Raises pystr | is_warn: ReturnsWarnings "'v failed_field list" | ReturnsOther

definition action_step :: "('r \<Rightarrow> 'v outcome) \<Rightarrow> ('r, 'v) reporter \<Rightarrow> 'r \<Rightarrow> ('r, 'v) reporter" where
  "action_step method rep obj = (case method obj of
     Raises e \<Rightarrow> add_failure rep obj e
   | ReturnsWarnings w \<Rightarrow> add_warning rep obj w
   | ReturnsOther \<Rightarrow> add_success rep obj)"

definition run_action :: "('r \<Rightarrow> 'v outcome) \<Rightarrow> 'r list \<Rightarrow> ('r, 'v) reporter" where
  "run_action method queryset = foldl (action_step method) reporter_init queryset"

definition make_action ::
  "('r \<Rightarrow> pystr) \<Rightarrow> ('r \<Rightarrow> 'v outcome) \<Rightarrow> pystr \<Rightarrow> 'r list \<Rightarrow>
   (msg_level \<times> pystr) list \<Rightarrow> (msg_level \<times> pystr) list" where
  "make_action rstr method description queryset msgs =
     generate_message rstr (run_action method queryset) description msgs"

section \<open>Lemmas\<close>

lemma action_step_fields [simp]:
  "success_records (action_step m rep o') = success_records rep @ (if m o' = ReturnsOther then [o'] else [])"
  "warning_records (action_step m rep o') = warning_records rep @
     (case m o' of ReturnsWarnings w \<Rightarrow> [(o', w)] | _ \<Rightarrow> [])"
  "failed_records (action_step m rep o') = failed_records rep @
     (case m o' of Raises e \<Rightarrow> [(o', e)] | _ \<Rightarrow> [])"
  by (cases "m o'"; simp add: action_step_def add_success_def add_warning_def add_failure_def)+

lemma foldl_action_step:
  "foldl (action_step m) rep qs =
     \<lparr>success_records = success_records rep @ [o'\<leftarrow>qs. m o' = ReturnsOther],
      warning_records = warning_records rep @
        concat (map (\<lambda>o'. case m o' of ReturnsWarnings w \<Rightarrow> [(o', w)] | _ \<Rightarrow> []) qs),
      failed_records = failed_records rep @
        concat (map (\<lambda>o'. case m o' of Raises e \<Rightarrow> [(o', e)] | _ \<Rightarrow> []) qs)\<rparr>"
proof (induction qs arbitrary: rep)
  case Nil
  then show ?case by simp
next
  case (Cons a qs)
  then show ?case by simp
qed

lemma map_fst_outcomes:
  "map fst (concat (map (\<lambda>o'. case m o' of ReturnsWarnings w \<Rightarrow> [(o', w)] | _ \<Rightarrow> []) qs)) =
     filter (is_warn \<circ> m) qs"
  "map fst (concat (map (\<lambda>o'. case m o' of Raises e \<Rightarrow> [(o', e)] | _ \<Rightarrow> []) qs)) =
     filter (is_raise \<circ> m) qs"
  by (induction qs) (auto split: outcome.splits)

lemma outcome_other_iff: "(x = ReturnsOther) \<longleftrightarrow> \<not> is_warn x \<and> \<not> is_raise x"
  by (cases x) simp_all

section \<open>Properties\<close>

text \<open>C18. The loop of the generated action sorts the queryset into the reporter's three
  lists by the outcome of the method, keeping the queryset's order: the successes are the
  objects whose method returned something other than a warnings dict, the warnings pair each
  such object with its failed fields, the failures pair each object whose method raised with
  the exception's repr.\<close>

theorem run_action_partition:
  "run_action m qs =
     \<lparr>success_records = [o'\<leftarrow>qs. m o' = ReturnsOther],
      warning_records = concat (map (\<lambda>o'. case m o' of ReturnsWarnings w \<Rightarrow> [(o', w)] | _ \<Rightarrow> []) qs),
      failed_records = concat (map (\<lambda>o'. case m o' of Raises e \<Rightarrow> [(o', e)] | _ \<Rightarrow> []) qs)\<rparr>"
  by (simp add: run_action_def foldl_action_step reporter_init_def)

text \<open>Every object of the queryset is reported exactly once: the multiset of the
  objects in the three lists is the queryset's.\<close>

theorem run_action_reports_each_once:
  "mset (success_records (run_action m qs)) + mset (map fst (warning_records (run_action m qs))) +
   mset (map fst (failed_records (run_action m qs))) = mset qs"
proof -
  have "mset [o'\<leftarrow>qs. m o' = ReturnsOther] + mset (filter (is_warn \<circ> m) qs) + mset (filter (is_raise \<circ> m) qs) =
        mset qs"
  proof (induction qs)
    case (Cons a qs)
    then show ?case
      by (cases "m a") simp_all
  qed simp
  then show ?thesis
    by (simp add: run_action_def foldl_action_step reporter_init_def map_fst_outcomes)
qed

text \<open>C20. The generated action adds at most three messages, in the order success, warning,
  error, and a level exactly when some object of the queryset had that outcome.\<close>

theorem make_action_levels:
  "map fst (make_action rstr m description qs msgs) =
     map fst msgs @ (if list_ex (\<lambda>o'. m o' = ReturnsOther) qs then [SUCCESS] else []) @
     (if list_ex (is_warn \<circ> m) qs then [WARNING] else []) @
     (if list_ex (is_raise \<circ> m) qs then [ERROR] else [])"
proof -
  have "(concat (map (\<lambda>o'. case m o' of ReturnsWarnings w \<Rightarrow> [(o', w)] | _ \<Rightarrow> []) qs) \<noteq> []) =
        list_ex (is_warn \<circ> m) qs"
    "(concat (map (\<lambda>o'. case m o' of Raises e \<Rightarrow> [(o', e)] | _ \<Rightarrow> []) qs) \<noteq> []) =
        list_ex (is_raise \<circ> m) qs"
    "([o'\<leftarrow>qs. m o' = ReturnsOther] \<noteq> []) = list_ex (\<lambda>o'. m o' = ReturnsOther) qs"
    by (induction qs) (auto split: outcome.splits)
  then show ?thesis
    by (simp add: make_action_def generate_message_def run_action_def foldl_action_step reporter_init_def
        Let_def)
qed

text \<open>The messages of the generated action on concrete runs: one success names the
  record, two are counted; warnings list each field with its escaped reasons; the
  exception's repr is escaped, but \<open>str(record)\<close> (and the field name) goes into the
  \<open>mark_safe\<close> HTML unescaped, so a record whose text is \<open><b>A</b>\<close> is rendered as markup.\<close>

theorem make_action_examples:
  "make_action id (\<lambda>o'. if o' = ''B'' then Raises ''ValueError(<x>)'' else (ReturnsOther :: unit outcome))
     ''publish now'' [''<b>A</b>'', ''B''] [] =
   [(SUCCESS, ''<strong>Publish now</strong> was successful for <strong>1 record</strong>: <b>A</b>.''),
    (ERROR, ''<strong>Publish now</strong> failed for <strong>1 record</strong>:<br />B: ValueError(&lt;x&gt;)<br />'')] \<and>
   make_action id (\<lambda>o'. (ReturnsOther :: unit outcome)) ''archive'' [''A'', ''C''] [] =
   [(SUCCESS, ''<strong>Archive</strong> was successful for <strong>2 records</strong>'')] \<and>
   make_action id (\<lambda>o'. ReturnsWarnings [(''email'', (), [''invalid'', ''<empty>''])])
     ''import'' [''R''] [] =
   [(WARNING, ''<strong>Import</strong> completed with warnings for <strong>1 record</strong>:<br />R: Field <em>email</em>: invalid, &lt;empty&gt;<br />'')]"
  by (simp add: make_action_def generate_message_def run_action_def foldl_action_step reporter_init_def
      success_message_def warning_message_def warning_entry_def failure_message_def format_message_def
      py_capitalize_def py_lower_def html_escape_def html_escape_char_def nat_str.simps digit_char_def
      Let_def)

end
