(* ===== verification/AdminInstall.thy ===== *)
theory AdminInstall
  imports Reporter
begin

text \<open>
  Registration of the generated admin classes: the \<open>admin_action\<close> decorator of
  src/base.py (lines 14 to 21), which marks a model method, and \<open>install()\<close> of
  src/admin/install.py (lines 34 to 70), which builds one \<open>ModelAdmin\<close> subclass per model of
  the configured apps and appends an action for every marked method to the class's
  \<open>actions\<close> list. \<open>AdminClass.actions\<close> is an attribute lookup: it finds the Admin stub's own
  \<open>actions\<close> list if the stub defines one, and otherwise the single list object
  \<open>BaseModelAdmin.actions\<close> that every other generated class inherits. The lists are
  therefore kept in an explicit store indexed by the list object, so that appending through
  one class is seen by every class that shares the object.
\<close>

section \<open>The decorator\<close>

text \<open>The attributes of a function object that the admin code reads.\<close>

record func_info =
  func_name :: pystr
  is_admin_action :: bool
  action_description :: "pystr option"

definition default_description :: "pystr \<Rightarrow> pystr" where
  "default_description name = py_capitalize (str_replace ''_'' '' '' name)"

text \<open>\<open>func._admin_action_description = description or func.__name__...\<close>: \<open>None\<close> and the
  empty string both fall back to the name.\<close>

definition admin_action :: "pystr option \<Rightarrow> func_info \<Rightarrow> func_info" where
  "admin_action description f =
     f\<lparr>is_admin_action := True,
       action_description := Some (case description of
         Some d \<Rightarrow> if d = [] then default_description (func_name f) else d
       | None \<Rightarrow> default_description (func_name f))\<rparr>"

section \<open>install()\<close>

text \<open>An action appended by \<open>install\<close>: \<open>make_action(model, attr_name, description)\<close>.\<close>

record admin_action_ref =
  act_model :: pystr
  act_method :: pystr
  act_description :: pystr

datatype attr_val = ActionList "admin_action_ref list" | OtherAttr

text \<open>A model as \<open>install\<close> sees it: its name, the attributes of its \<open>Admin\<close> stub
  (\<open>None\<close> when it has none) and the members of its class dict in definition order.\<close>

record model_info =
  model_name :: pystr
  admin_stub :: "(pystr \<times> attr_val) list option"
  members :: "(pystr \<times> func_info) list"

text \<open>The list objects: the one of \<open>BaseModelAdmin\<close> and the one of each stub that defines
  \<open>actions\<close>.\<close>

datatype list_obj = BaseActions | StubActions pystr

record install_state =
  heap :: "list_obj \<Rightarrow> admin_action_ref list"
  registry :: "(pystr \<times> list_obj) list"

definition stub_attrs :: "(pystr \<times> attr_val) list \<Rightarrow> (pystr \<times> attr_val) list" where
  "stub_attrs stub = [(n, v) \<leftarrow> stub. \<not> py_startswith n ''_'']"

definition model_actions :: "model_info \<Rightarrow> admin_action_ref list" where
  "model_actions m =
     [\<lparr>act_model = model_name m, act_method = an,
       act_description = (case action_description f of Some d \<Rightarrow> d | None \<Rightarrow> default_description an)\<rparr>.
      (an, f) \<leftarrow> members m, is_admin_action f]"

text \<open>One model of the loop. Without an \<open>actions\<close> entry in the stub the new actions go
  to the inherited \<open>BaseModelAdmin.actions\<close>; with a list they go to that list; with any
  other value \<open>append\<close> raises \<open>AttributeError\<close> (\<open>None\<close>), which \<open>install\<close> does not
  catch, unless the model has no marked method (the registered class then has no list the
  model adds to, recorded as an empty stub list).\<close>

definition install_model :: "install_state \<Rightarrow> model_info \<Rightarrow> install_state option" where
  "install_model st m = (case admin_stub m of
     None \<Rightarrow> Some st
   | Some stub \<Rightarrow>
       (case map_of (stub_attrs stub) ''actions'' of
          None \<Rightarrow> Some (st\<lparr>heap := (heap st)(BaseActions := heap st BaseActions @ model_actions m),
                           registry := registry st @ [(model_name m, BaseActions)]\<rparr>)
        | Some (ActionList xs) \<Rightarrow>
            Some (st\<lparr>heap := (heap st)(StubActions (model_name m) := xs @ model_actions m),
                     registry := registry st @ [(model_name m, StubActions (model_name m))]\<rparr>)
        | Some OtherAttr \<Rightarrow>
            (if model_actions m = [] then
               Some (st\<lparr>heap := (heap st)(StubActions (model_name m) := []),
                        registry := registry st @ [(model_name m, StubActions (model_name m))]\<rparr>)
             else None)))"

fun install_models :: "install_state \<Rightarrow> model_info list \<Rightarrow> install_state option" where
  "install_models st [] = Some st"
| "install_models st (m # ms) = (case install_model st m of None \<Rightarrow> None | Some st' \<Rightarrow> install_models st' ms)"

text \<open>The apps of \<open>INSTALLED_ULTRA_APPS\<close> with their models; \<open>None\<close> is an app label
  whose \<open>get_app_config\<close> raises \<open>LookupError\<close> and is skipped.\<close>

fun install :: "install_state \<Rightarrow> (pystr \<times> model_info list option) list \<Rightarrow> install_state option" where
  "install st [] = Some st"
| "install st ((label, None) # apps) = install st apps"
| "install st ((label, Some ms) # apps) = (case install_models st ms of None \<Rightarrow> None | Some st' \<Rightarrow> install st' apps)"

text \<open>What the registered admin of a model shows: the current contents of its list.\<close>

definition registered_actions :: "install_state \<Rightarrow> pystr \<Rightarrow> admin_action_ref list option" where
  "registered_actions st name = map_option (heap st) (map_of (registry st) name)"

text \<open>A model whose \<open>Admin\<close> stub does not define \<open>actions\<close> (such as the \<open>class Admin:
  pass\<close> that every \<open>BaseModel\<close> inherits).\<close>

definition plain_stub :: "model_info \<Rightarrow> bool" where
  "plain_stub m \<longleftrightarrow> (case admin_stub m of None \<Rightarrow> False
                       | Some stub \<Rightarrow> map_of (stub_attrs stub) ''actions'' = None)"

section \<open>Lemmas\<close>

lemma install_model_plain:
  "plain_stub m \<Longrightarrow> install_model st m =
     Some (st\<lparr>heap := (heap st)(BaseActions := heap st BaseActions @ model_actions m),
              registry := registry st @ [(model_name m, BaseActions)]\<rparr>)"
  by (auto simp: plain_stub_def install_model_def split: option.splits)

lemma install_models_plain:
  assumes "list_all plain_stub ms"
  shows "\<exists>st'. install_models st ms = Some st' \<and>
           heap st' = (heap st)(BaseActions := heap st BaseActions @ concat (map model_actions ms)) \<and>
           registry st' = registry st @ map (\<lambda>m. (model_name m, BaseActions)) ms"
  using assms
proof (induction ms arbitrary: st)
  case Nil
  then show ?case by simp
next
  case (Cons m ms)
  let ?st1 = "st\<lparr>heap := (heap st)(BaseActions := heap st BaseActions @ model_actions m),
                 registry := registry st @ [(model_name m, BaseActions)]\<rparr>"
  from Cons.prems have m: "install_model st m = Some ?st1"
    by (simp add: install_model_plain)
  from Cons.prems have "list_all plain_stub ms"
    by simp
  from Cons.IH [OF this, of ?st1] obtain st' where "install_models ?st1 ms = Some st'"
    "heap st' = (heap ?st1)(BaseActions := heap ?st1 BaseActions @ concat (map model_actions ms))"
    "registry st' = registry ?st1 @ map (\<lambda>m. (model_name m, BaseActions)) ms"
    by blast
  with m show ?case
    by (simp add: fun_eq_iff)
qed

lemma map_of_all_base:
  "x \<in> fst ` set (map (\<lambda>m. (model_name m, BaseActions)) ms) \<Longrightarrow>
   map_of (map (\<lambda>m. (model_name m, BaseActions)) ms) x = Some BaseActions"
  by (induction ms) auto

section \<open>Properties\<close>

text \<open>C22. The generated admin classes share one \<open>actions\<close> list: when \<open>install\<close> registers
  models whose stubs define no \<open>actions\<close>, \<open>AdminClass.actions.append\<close> appends to the
  inherited \<open>BaseModelAdmin.actions\<close>, so the admin of each of them ends up offering the
  actions of all of them, its own and every other model's.\<close>

theorem install_shares_actions:
  assumes "list_all plain_stub ms" "registry st = []" "m \<in> set ms"
  shows "\<exists>st'. install_models st ms = Some st' \<and>
           registered_actions st' (model_name m) = Some (heap st BaseActions @ concat (map model_actions ms))"
proof -
  have "model_name m \<in> fst ` set (map (\<lambda>m. (model_name m, BaseActions)) ms)"
    using assms(3) by force
  moreover obtain st' where "install_models st ms = Some st'"
    "heap st' = (heap st)(BaseActions := heap st BaseActions @ concat (map model_actions ms))"
    "registry st' = registry st @ map (\<lambda>m. (model_name m, BaseActions)) ms"
    using install_models_plain [OF assms(1)] by blast
  ultimately show ?thesis
    using assms(2) by (simp add: registered_actions_def map_of_all_base)
qed

theorem install_shares_actions_witness:
  "list_all plain_stub
     [\<lparr>model_name = ''Invoice'', admin_stub = Some [],
       members = [(''send_mail'', admin_action None \<lparr>func_name = ''send_mail'', is_admin_action = False,
                                                     action_description = None\<rparr>)]\<rparr>,
      \<lparr>model_name = ''Customer'', admin_stub = Some [(''list_display'', OtherAttr)], members = []\<rparr>] \<and>
   registry \<lparr>heap = (\<lambda>_. []), registry = []\<rparr> = [] \<and>
   \<lparr>model_name = ''Customer'', admin_stub = Some [(''list_display'', OtherAttr)], members = []\<rparr> \<in> set
     [\<lparr>model_name = ''Invoice'', admin_stub = Some [],
       members = [(''send_mail'', admin_action None \<lparr>func_name = ''send_mail'', is_admin_action = False,
                                                     action_description = None\<rparr>)]\<rparr>,
      \<lparr>model_name = ''Customer'', admin_stub = Some [(''list_display'', OtherAttr)], members = []\<rparr>] \<and>
   (\<exists>st'. install_models \<lparr>heap = (\<lambda>_. []), registry = []\<rparr>
      [\<lparr>model_name = ''Invoice'', admin_stub = Some [],
        members = [(''send_mail'', admin_action None \<lparr>func_name = ''send_mail'', is_admin_action = False,
                                                      action_description = None\<rparr>)]\<rparr>,
       \<lparr>model_name = ''Customer'', admin_stub = Some [(''list_display'', OtherAttr)], members = []\<rparr>] = Some st' \<and>
    registered_actions st' ''Customer'' =
      Some [\<lparr>act_model = ''Invoice'', act_method = ''send_mail'', act_description = ''Send mail''\<rparr>])"
proof -
  let ?A = "\<lparr>model_name = ''Invoice'', admin_stub = Some [],
       members = [(''send_mail'', admin_action None \<lparr>func_name = ''send_mail'', is_admin_action = False,
                                                     action_description = None\<rparr>)]\<rparr>"
  let ?B = "\<lparr>model_name = ''Customer'', admin_stub = Some [(''list_display'', OtherAttr)], members = []\<rparr>"
  let ?st0 = "\<lparr>heap = (\<lambda>_. []), registry = []\<rparr>"
  have p: "list_all plain_stub [?A, ?B]"
    by (simp add: plain_stub_def stub_attrs_def py_startswith_def admin_action_def)
  have r0: "registry ?st0 = []" and b: "?B \<in> set [?A, ?B]"
    by simp_all
  obtain st' where i: "install_models ?st0 [?A, ?B] = Some st'"
    and r: "registered_actions st' (model_name ?B) = Some (heap ?st0 BaseActions @ concat (map model_actions [?A, ?B]))"
    using install_shares_actions [OF p r0 b] by blast
  have ma: "heap ?st0 BaseActions @ concat (map model_actions [?A, ?B]) =
      [\<lparr>act_model = ''Invoice'', act_method = ''send_mail'', act_description = ''Send mail''\<rparr>]"
    by (simp add: model_actions_def admin_action_def default_description_def py_capitalize_def py_lower_def
        str_replace_single)
  show ?thesis
    using p r0 b i r unfolding ma by auto
qed

text \<open>A run of \<open>install\<close> on one app with three models and one unknown app label: the
  decorated \<open>send_mail\<close> of \<open>Invoice\<close> gets the description \<open>Send mail\<close> from its name and
  shows up in the admin of \<open>Customer\<close>, which defines no action; \<open>Order\<close>, whose stub has
  its own \<open>actions\<close> list, keeps it apart and gets its decorated \<open>archive\<close> with the given
  description; the unknown app is skipped.\<close>

theorem install_example:
  "(case install \<lparr>heap = (\<lambda>_. []), registry = []\<rparr>
       [(''shop'', Some
          [\<lparr>model_name = ''Invoice'', admin_stub = Some [],
            members = [(''send_mail'', admin_action None \<lparr>func_name = ''send_mail'', is_admin_action = False,
                                                          action_description = None\<rparr>)]\<rparr>,
           \<lparr>model_name = ''Customer'', admin_stub = Some [(''list_display'', OtherAttr)], members = []\<rparr>,
           \<lparr>model_name = ''Order'', admin_stub = Some [(''actions'', ActionList []), (''_hidden'', OtherAttr)],
            members = [(''archive'', admin_action (Some ''Archive now'') \<lparr>func_name = ''archive'',
                          is_admin_action = False, action_description = None\<rparr>)]\<rparr>]),
        (''missing'', None)] of
     None \<Rightarrow> False
   | Some st \<Rightarrow>
       registered_actions st ''Invoice'' =
         Some [\<lparr>act_model = ''Invoice'', act_method = ''send_mail'', act_description = ''Send mail''\<rparr>] \<and>
       registered_actions st ''Customer'' =
         Some [\<lparr>act_model = ''Invoice'', act_method = ''send_mail'', act_description = ''Send mail''\<rparr>] \<and>
       registered_actions st ''Order'' =
         Some [\<lparr>act_model = ''Order'', act_method = ''archive'', act_description = ''Archive now''\<rparr>])"
  by (simp add: install_model_def stub_attrs_def py_startswith_def model_actions_def admin_action_def
      default_description_def py_capitalize_def py_lower_def str_replace_single registered_actions_def)

end
