(* ===== verification/AdminFields.thy ===== *)
theory AdminFields
  imports Reporter "HOL-Library.Char_ord" "HOL-Library.List_Lexorder"
begin

text \<open>
  The field lists of the generated admin (src/admin/base.py): \<open>AutoFieldsetsMixin.get_fieldsets\<close>,
  which groups the editable fields by the longest common underscore prefix that at least
  \<open>min_group_size\<close> fields share, and the list methods of \<open>BaseModelAdmin\<close>. A model's
  \<open>_meta\<close> enters as two lists of fields: \<open>get_fields()\<close> (every field, reverse relations
  included, in its order) and \<open>fields\<close> (the concrete forward fields, in theirs). A
  \<open>Counter\<close> is a dict whose missing keys read as 0; a \<open>defaultdict(list)\<close> a dict whose
  missing keys read as the empty list.
\<close>

record field =
  fname :: pystr
  editable :: bool
  auto_created :: bool

section \<open>get_fieldsets\<close>

definition prefix_separator :: pystr where
  "prefix_separator = ''_''"

definition min_group_size :: nat where
  "min_group_size = 3"

definition counter_get :: "(pystr, nat) pydict \<Rightarrow> pystr \<Rightarrow> nat" where
  "counter_get c k = (case map_of c k of Some n \<Rightarrow> n | None \<Rightarrow> 0)"

definition counter_incr :: "(pystr, nat) pydict \<Rightarrow> pystr \<Rightarrow> (pystr, nat) pydict" where
  "counter_incr c k = dict_set c k (counter_get c k + 1)"

text \<open>Step 1: every proper prefix of every name is counted once per name.\<close>

definition name_parts :: "pystr \<Rightarrow> pystr list" where
  "name_parts name = py_split (CHR ''_'') name"

definition proper_prefixes :: "pystr \<Rightarrow> pystr list" where
  "proper_prefixes name = (let parts = name_parts name in
     map (\<lambda>i. py_join prefix_separator (take i parts)) [1..<length parts])"

definition prefix_counts :: "pystr list \<Rightarrow> (pystr, nat) pydict" where
  "prefix_counts names = foldl (\<lambda>c name. foldl counter_incr c (proper_prefixes name)) [] names"

text \<open>Step 2: the longest prefix, the whole name included, whose count reaches the group
  size (the loop \<open>for i in range(len(parts), 0, -1)\<close> with its \<open>break\<close>).\<close>

fun longest_valid :: "(pystr, nat) pydict \<Rightarrow> pystr list \<Rightarrow> nat \<Rightarrow> pystr option" where
  "longest_valid c parts 0 = None"
| "longest_valid c parts (Suc i) = (let p = py_join prefix_separator (take (Suc i) parts) in
     if min_group_size \<le> counter_get c p then Some p else longest_valid c parts i)"

definition field_to_prefix :: "pystr list \<Rightarrow> (pystr, pystr option) pydict" where
  "field_to_prefix names = (let c = prefix_counts names in
     foldl (\<lambda>d name. dict_set d name (longest_valid c (name_parts name) (length (name_parts name)))) [] names)"

definition lookup_prefix :: "(pystr, pystr option) pydict \<Rightarrow> pystr \<Rightarrow> pystr option" where
  "lookup_prefix d name = (case map_of d name of Some p \<Rightarrow> p | None \<Rightarrow> None)"

text \<open>Step 3: the names of each group in \<open>field_names\<close> order (key \<open>None\<close> included).\<close>

definition group_get :: "(pystr option, pystr list) pydict \<Rightarrow> pystr option \<Rightarrow> pystr list" where
  "group_get g k = (case map_of g k of Some xs \<Rightarrow> xs | None \<Rightarrow> [])"

definition grouped :: "pystr list \<Rightarrow> (pystr, pystr option) pydict \<Rightarrow> (pystr option, pystr list) pydict" where
  "grouped names ftp =
     foldl (\<lambda>g name. let k = lookup_prefix ftp name in dict_set g k (group_get g k @ [name])) [] names"

text \<open>Step 4, the loop over \<open>_meta.fields\<close>: its state is the fieldsets so far, the general
  fields and the set \<open>used\<close>. A group is emitted when the loop meets its first member; a name
  without group goes to the general fields. \<open>if group\<close> tests the prefix string, so the empty
  prefix counts as no group.\<close>

record fs_state =
  fieldsets :: "(pystr \<times> pystr list) list"
  general_fields :: "pystr list"
  used :: "pystr set"

definition truthy_group :: "pystr option \<Rightarrow> bool" where
  "truthy_group g \<longleftrightarrow> (case g of None \<Rightarrow> False | Some p \<Rightarrow> p \<noteq> [])"

definition group_title :: "pystr option \<Rightarrow> pystr" where
  "group_title grp = py_capitalize (str_replace prefix_separator '' '' (the grp))"

definition fieldset_step ::
  "pystr list \<Rightarrow> (pystr, pystr option) pydict \<Rightarrow> (pystr option, pystr list) pydict \<Rightarrow> fs_state \<Rightarrow> pystr \<Rightarrow> fs_state" where
  "fieldset_step names ftp g st n =
     (if n \<notin> set names \<or> n \<in> used st then st
      else (let grp = lookup_prefix ftp n in
        if truthy_group grp \<and> hd (group_get g grp) = n then
          st\<lparr>fieldsets := fieldsets st @ [(group_title grp, group_get g grp)],
             used := used st \<union> set (group_get g grp)\<rparr>
        else if \<not> truthy_group grp then
          st\<lparr>general_fields := general_fields st @ [n], used := insert n (used st)\<rparr>
        else st))"

definition field_names :: "field list \<Rightarrow> pystr list" where
  "field_names all_fields = [fname f. f \<leftarrow> all_fields, editable f \<and> \<not> auto_created f]"

definition get_fieldsets :: "field list \<Rightarrow> field list \<Rightarrow> (pystr \<times> pystr list) list" where
  "get_fieldsets all_fields meta_fields =
     (let names = field_names all_fields; ftp = field_to_prefix names; g = grouped names ftp;
          st = foldl (fieldset_step names ftp g) \<lparr>fieldsets = [], general_fields = [], used = {}\<rparr>
                 (map fname meta_fields)
      in if general_fields st \<noteq> [] then (''General'', general_fields st) # fieldsets st else fieldsets st)"

section \<open>The invariant of the fieldset loop\<close>

text \<open>The fieldsets emitted so far are whole groups, each once, with truthy keys; the general
  fields are distinct names without a group; \<open>used\<close> is exactly what has been emitted.\<close>

definition fs_inv :: "pystr list \<Rightarrow> (pystr, pystr option) pydict \<Rightarrow> fs_state \<Rightarrow> bool" where
  "fs_inv names ftp st \<longleftrightarrow> (\<exists>ks.
     fieldsets st = map (\<lambda>k. (group_title k, filter (\<lambda>n. lookup_prefix ftp n = k) names)) ks \<and>
     distinct ks \<and> (\<forall>k\<in>set ks. truthy_group k) \<and> distinct (general_fields st) \<and>
     (\<forall>n\<in>set (general_fields st). n \<in> set names \<and> \<not> truthy_group (lookup_prefix ftp n)) \<and>
     used st = set (general_fields st) \<union> (\<Union>k\<in>set ks. set (filter (\<lambda>n. lookup_prefix ftp n = k) names)))"

section \<open>The invariant of the fieldset loop: lemmas\<close>

lemma group_get_dict_set [simp]: "group_get (dict_set g k' v) k = (if k = k' then v else group_get g k)"
  by (simp add: group_get_def)

lemma group_get_foldl:
  "group_get (foldl (\<lambda>g name. let k = lookup_prefix ftp name in dict_set g k (group_get g k @ [name])) acc names) k =
   group_get acc k @ filter (\<lambda>n. lookup_prefix ftp n = k) names"
  by (induction names arbitrary: acc) (auto simp: Let_def)

lemma group_get_grouped: "group_get (grouped names ftp) k = filter (\<lambda>n. lookup_prefix ftp n = k) names"
  using group_get_foldl [of ftp "[]" names k] by (simp add: grouped_def) (simp add: group_get_def)

lemma fieldset_step_inv:
  assumes "fs_inv names ftp st"
  shows "fs_inv names ftp (fieldset_step names ftp (grouped names ftp) st n)"
proof -
  obtain ks where ks: "fieldsets st = map (\<lambda>k. (group_title k, filter (\<lambda>n. lookup_prefix ftp n = k) names)) ks"
    "distinct ks" "\<forall>k\<in>set ks. truthy_group k" "distinct (general_fields st)"
    "\<forall>n\<in>set (general_fields st). n \<in> set names \<and> \<not> truthy_group (lookup_prefix ftp n)"
    "used st = set (general_fields st) \<union> (\<Union>k\<in>set ks. set (filter (\<lambda>n. lookup_prefix ftp n = k) names))"
    using assms by (auto simp: fs_inv_def)
  let ?grp = "lookup_prefix ftp n"
  show ?thesis
  proof (cases "n \<notin> set names \<or> n \<in> used st")
    case True
    then show ?thesis
      using assms by (simp add: fieldset_step_def)
  next
    case False
    then have n: "n \<in> set names" "n \<notin> used st"
      by simp_all
    show ?thesis
    proof (cases "truthy_group ?grp")
      case True
      show ?thesis
      proof (cases "hd (group_get (grouped names ftp) ?grp) = n")
        case hd: True
        have "?grp \<notin> set ks"
          using n ks(6) by auto
        with True hd n ks show ?thesis
          unfolding fs_inv_def fieldset_step_def
          by (intro exI [of _ "ks @ [?grp]"]) (auto simp: group_get_grouped Let_def)
      next
        case False
        with True n show ?thesis
          using assms by (simp add: fieldset_step_def)
      qed
    next
      case False
      have "n \<notin> set (general_fields st)"
        using n ks(6) by auto
      with False n ks show ?thesis
        unfolding fs_inv_def fieldset_step_def
        by (intro exI [of _ ks]) (auto simp: Let_def)
    qed
  qed
qed

lemma fieldset_fold_inv:
  "fs_inv names ftp st \<Longrightarrow> fs_inv names ftp (foldl (fieldset_step names ftp (grouped names ftp)) st ms)"
  by (induction ms arbitrary: st) (simp_all add: fieldset_step_inv)

lemma fs_inv_init: "fs_inv names ftp \<lparr>fieldsets = [], general_fields = [], used = {}\<rparr>"
  by (auto simp: fs_inv_def intro: exI [of _ "[]"])

lemma fieldset_step_mono: "used st \<subseteq> used (fieldset_step names ftp g st n)"
  by (auto simp: fieldset_step_def Let_def)

lemma fieldset_fold_mono: "used st \<subseteq> used (foldl (fieldset_step names ftp g) st ms)"
proof (induction ms arbitrary: st)
  case (Cons a ms)
  then show ?case
    using fieldset_step_mono [of st names ftp g a] by (metis foldl_Cons subset_trans)
qed simp

lemma fs_inv_used:
  "fs_inv names ftp st \<Longrightarrow> used st = set (general_fields st @ concat (map snd (fieldsets st)))"
  by (auto simp: fs_inv_def)

lemma fs_inv_distinct:
  assumes "fs_inv names ftp st" "distinct names"
  shows "distinct (general_fields st @ concat (map snd (fieldsets st)))"
proof -
  obtain ks where ks: "fieldsets st = map (\<lambda>k. (group_title k, filter (\<lambda>n. lookup_prefix ftp n = k) names)) ks"
    "distinct ks" "\<forall>k\<in>set ks. truthy_group k" "distinct (general_fields st)"
    "\<forall>n\<in>set (general_fields st). n \<in> set names \<and> \<not> truthy_group (lookup_prefix ftp n)"
    using assms(1) by (auto simp: fs_inv_def)
  have "distinct (concat (map (\<lambda>k. filter (\<lambda>n. lookup_prefix ftp n = k) names) ks))"
    using ks(2) assms(2) by (induction ks) auto
  with ks show ?thesis
    by (auto simp: o_def)
qed

lemma fieldset_step_covers:
  assumes "fs_inv names ftp st" "x \<in> set names"
    "\<not> truthy_group (lookup_prefix ftp x) \<or> hd (filter (\<lambda>n. lookup_prefix ftp n = lookup_prefix ftp x) names) = x"
  shows "x \<in> used (fieldset_step names ftp (grouped names ftp) st x) \<and>
    (truthy_group (lookup_prefix ftp x) \<longrightarrow>
       set (filter (\<lambda>n. lookup_prefix ftp n = lookup_prefix ftp x) names) \<subseteq>
       used (fieldset_step names ftp (grouped names ftp) st x))"
proof (cases "x \<in> used st")
  case True
  obtain ks where ks: "\<forall>n\<in>set (general_fields st). n \<in> set names \<and> \<not> truthy_group (lookup_prefix ftp n)"
    "used st = set (general_fields st) \<union> (\<Union>k\<in>set ks. set (filter (\<lambda>n. lookup_prefix ftp n = k) names))"
    using assms(1) by (auto simp: fs_inv_def)
  have "truthy_group (lookup_prefix ftp x) \<longrightarrow>
      set (filter (\<lambda>n. lookup_prefix ftp n = lookup_prefix ftp x) names) \<subseteq> used st"
    using True ks by auto
  then show ?thesis
    using True fieldset_step_mono [of st names ftp "grouped names ftp" x] by auto
next
  case False
  then show ?thesis
    using assms(2,3) by (auto simp: fieldset_step_def Let_def group_get_grouped)
qed

lemma fieldset_fold_covers:
  assumes "fs_inv names ftp st" "x \<in> set names" "x \<in> set ms"
    "\<not> truthy_group (lookup_prefix ftp x) \<or> hd (filter (\<lambda>n. lookup_prefix ftp n = lookup_prefix ftp x) names) = x"
  shows "x \<in> used (foldl (fieldset_step names ftp (grouped names ftp)) st ms) \<and>
    (truthy_group (lookup_prefix ftp x) \<longrightarrow>
       set (filter (\<lambda>n. lookup_prefix ftp n = lookup_prefix ftp x) names) \<subseteq>
       used (foldl (fieldset_step names ftp (grouped names ftp)) st ms))"
proof -
  obtain m1 m2 where ms: "ms = m1 @ x # m2"
    using assms(3) by (meson split_list)
  let ?st1 = "foldl (fieldset_step names ftp (grouped names ftp)) st m1"
  let ?st2 = "fieldset_step names ftp (grouped names ftp) ?st1 x"
  have "fs_inv names ftp ?st1"
    using assms(1) by (rule fieldset_fold_inv)
  then have c: "x \<in> used ?st2 \<and> (truthy_group (lookup_prefix ftp x) \<longrightarrow>
       set (filter (\<lambda>n. lookup_prefix ftp n = lookup_prefix ftp x) names) \<subseteq> used ?st2)"
    using assms(2,4) by (rule fieldset_step_covers)
  have "used ?st2 \<subseteq> used (foldl (fieldset_step names ftp (grouped names ftp)) ?st2 m2)"
    by (rule fieldset_fold_mono)
  with c show ?thesis
    by (auto simp: ms)
qed

lemma get_fieldsets_fields:
  "concat (map snd (get_fieldsets all_fields meta_fields)) =
   (let names = field_names all_fields; ftp = field_to_prefix names;
        st = foldl (fieldset_step names ftp (grouped names ftp))
               \<lparr>fieldsets = [], general_fields = [], used = {}\<rparr> (map fname meta_fields)
    in general_fields st @ concat (map snd (fieldsets st)))"
  by (simp add: get_fieldsets_def Let_def)

section \<open>Properties\<close>

text \<open>C24. Every field that \<open>get_fieldsets\<close> puts into a fieldset is an editable,
  not auto-created field of the model.\<close>

theorem get_fieldsets_sound:
  "set (concat (map snd (get_fieldsets all_fields meta_fields))) \<subseteq> set (field_names all_fields)"
proof -
  let ?names = "field_names all_fields"
  let ?ftp = "field_to_prefix ?names"
  let ?st = "foldl (fieldset_step ?names ?ftp (grouped ?names ?ftp))
               \<lparr>fieldsets = [], general_fields = [], used = {}\<rparr> (map fname meta_fields)"
  have "fs_inv ?names ?ftp ?st"
    by (intro fieldset_fold_inv fs_inv_init)
  then show ?thesis
    by (auto simp: get_fieldsets_fields Let_def fs_inv_def)
qed

text \<open>C25. When the field names are distinct and every one of them is a concrete field of
  \<open>_meta.fields\<close>, the fieldsets of \<open>get_fieldsets\<close>, the General fieldset included, hold
  every editable field exactly once: their fields are a permutation of the field names.\<close>

theorem get_fieldsets_partition:
  assumes "distinct (field_names all_fields)" "set (field_names all_fields) \<subseteq> set (map fname meta_fields)"
  shows "mset (concat (map snd (get_fieldsets all_fields meta_fields))) = mset (field_names all_fields)"
proof -
  let ?names = "field_names all_fields"
  let ?ftp = "field_to_prefix ?names"
  let ?ms = "map fname meta_fields"
  let ?st = "foldl (fieldset_step ?names ?ftp (grouped ?names ?ftp))
               \<lparr>fieldsets = [], general_fields = [], used = {}\<rparr> ?ms"
  let ?out = "general_fields ?st @ concat (map snd (fieldsets ?st))"
  have inv0: "fs_inv ?names ?ftp \<lparr>fieldsets = [], general_fields = [], used = {}\<rparr>"
    by (rule fs_inv_init)
  have inv: "fs_inv ?names ?ftp ?st"
    using inv0 by (rule fieldset_fold_inv)
  have out: "concat (map snd (get_fieldsets all_fields meta_fields)) = ?out"
    by (simp add: get_fieldsets_fields Let_def)
  have sound: "set ?out \<subseteq> set ?names"
    using inv by (auto simp: fs_inv_def)
  have "n \<in> used ?st" if n: "n \<in> set ?names" for n
  proof (cases "truthy_group (lookup_prefix ?ftp n)")
    case False
    then show ?thesis
      using fieldset_fold_covers [OF inv0 n, of ?ms] n assms(2) by blast
  next
    case True
    let ?G = "filter (\<lambda>m. lookup_prefix ?ftp m = lookup_prefix ?ftp n) ?names"
    have ne: "?G \<noteq> []"
      using n by (auto simp: filter_empty_conv)
    then have h: "hd ?G \<in> set ?names" "lookup_prefix ?ftp (hd ?G) = lookup_prefix ?ftp n"
      using hd_in_set [OF ne] by auto
    have hm: "hd ?G \<in> set ?ms"
      using h(1) assms(2) by blast
    have "set ?G \<subseteq> used ?st"
      using fieldset_fold_covers [OF inv0 h(1) hm] h(2) True by simp
    with n show ?thesis
      by auto
  qed
  then have "set ?names \<subseteq> set ?out"
    using fs_inv_used [OF inv] by auto
  with sound have "set ?out = set ?names"
    by blast
  moreover have "distinct ?out"
    using inv assms(1) by (rule fs_inv_distinct)
  ultimately have "mset ?out = mset ?names"
    using assms(1) set_eq_iff_mset_eq_distinct by blast
  then show ?thesis
    by (simp only: out)
qed

theorem get_fieldsets_partition_witness:
  "distinct (field_names [\<lparr>fname = ''name'', editable = True, auto_created = False\<rparr>, \<lparr>fname = ''address_city'', editable = True, auto_created = False\<rparr>]) \<and> set (field_names [\<lparr>fname = ''name'', editable = True, auto_created = False\<rparr>, \<lparr>fname = ''address_city'', editable = True, auto_created = False\<rparr>]) \<subseteq> set (map fname [\<lparr>fname = ''address_city'', editable = True, auto_created = False\<rparr>, \<lparr>fname = ''name'', editable = True, auto_created = False\<rparr>]) \<and>
   mset (concat (map snd (get_fieldsets [\<lparr>fname = ''name'', editable = True, auto_created = False\<rparr>, \<lparr>fname = ''address_city'', editable = True, auto_created = False\<rparr>] [\<lparr>fname = ''address_city'', editable = True, auto_created = False\<rparr>, \<lparr>fname = ''name'', editable = True, auto_created = False\<rparr>]))) = mset [''name'', ''address_city'']"
proof -
  have h1: "distinct (field_names [\<lparr>fname = ''name'', editable = True, auto_created = False\<rparr>, \<lparr>fname = ''address_city'', editable = True, auto_created = False\<rparr>])"
    by (simp add: field_names_def)
  have h2: "set (field_names [\<lparr>fname = ''name'', editable = True, auto_created = False\<rparr>, \<lparr>fname = ''address_city'', editable = True, auto_created = False\<rparr>]) \<subseteq> set (map fname [\<lparr>fname = ''address_city'', editable = True, auto_created = False\<rparr>, \<lparr>fname = ''name'', editable = True, auto_created = False\<rparr>])"
    by (simp add: field_names_def)
  have n: "field_names [\<lparr>fname = ''name'', editable = True, auto_created = False\<rparr>, \<lparr>fname = ''address_city'', editable = True, auto_created = False\<rparr>] = [''name'', ''address_city'']"
    by (simp add: field_names_def)
  show ?thesis
    using h1 h2 get_fieldsets_partition [OF h1 h2] by (simp only: n)
qed

text \<open>Examples: the General fieldset comes first and a group keeps the order of
  \<open>get_fields()\<close>; a group whose first member is not a concrete field (a many-to-many
  field is in \<open>get_fields()\<close> but not in \<open>_meta.fields\<close>) is never emitted, and its other
  members are lost; the longest valid prefix can leave a group of a single field.\<close>

theorem get_fieldsets_examples: "get_fieldsets
   [\<lparr>fname = ''id'', editable = True, auto_created = True\<rparr>, \<lparr>fname = ''name'', editable = True, auto_created = False\<rparr>,
    \<lparr>fname = ''address_street'', editable = True, auto_created = False\<rparr>,
    \<lparr>fname = ''address_city'', editable = True, auto_created = False\<rparr>,
    \<lparr>fname = ''address_zip'', editable = True, auto_created = False\<rparr>]
   [\<lparr>fname = ''id'', editable = True, auto_created = True\<rparr>, \<lparr>fname = ''address_street'', editable = True, auto_created = False\<rparr>,
    \<lparr>fname = ''name'', editable = True, auto_created = False\<rparr>,
    \<lparr>fname = ''address_city'', editable = True, auto_created = False\<rparr>,
    \<lparr>fname = ''address_zip'', editable = True, auto_created = False\<rparr>] =
   [(''General'', [''name'']), (''Address'', [''address_street'', ''address_city'', ''address_zip''])] \<and>
  get_fieldsets
   [\<lparr>fname = ''tags_a'', editable = True, auto_created = False\<rparr>,
    \<lparr>fname = ''tags_b'', editable = True, auto_created = False\<rparr>,
    \<lparr>fname = ''tags_c'', editable = True, auto_created = False\<rparr>,
    \<lparr>fname = ''name'', editable = True, auto_created = False\<rparr>]
   [\<lparr>fname = ''tags_b'', editable = True, auto_created = False\<rparr>,
    \<lparr>fname = ''tags_c'', editable = True, auto_created = False\<rparr>,
    \<lparr>fname = ''name'', editable = True, auto_created = False\<rparr>] =
   [(''General'', [''name''])] \<and>
  get_fieldsets
   [\<lparr>fname = ''a_b_1'', editable = True, auto_created = False\<rparr>,
    \<lparr>fname = ''a_b_2'', editable = True, auto_created = False\<rparr>,
    \<lparr>fname = ''a_b_3'', editable = True, auto_created = False\<rparr>,
    \<lparr>fname = ''a_c'', editable = True, auto_created = False\<rparr>]
   [\<lparr>fname = ''a_b_1'', editable = True, auto_created = False\<rparr>,
    \<lparr>fname = ''a_b_2'', editable = True, auto_created = False\<rparr>,
    \<lparr>fname = ''a_b_3'', editable = True, auto_created = False\<rparr>,
    \<lparr>fname = ''a_c'', editable = True, auto_created = False\<rparr>] =
   [(''A b'', [''a_b_1'', ''a_b_2'', ''a_b_3'']), (''A'', [''a_c''])]"
  by code_simp
end
