(* ===== verification/AdminLists.thy ===== *)
theory AdminLists
  imports AdminFields
begin

text \<open>
  The rest of src/admin/base.py: the placeholder widget \<open>AutocompleteSelectWithPlaceholder\<close>,
  the logging \<open>admin_action\<close> decorator, and the list methods of \<open>BaseModelAdmin\<close>. The
  \<open>super()\<close> results of Django's \<open>ModelAdmin\<close> enter as arguments. Django's action dict maps
  a name to the tuple \<open>(func, name, description)\<close>; strings are ordered as Python orders them,
  lexicographically by code point (\<open>List_Lexorder\<close> over \<open>Char_ord\<close>).
\<close>

section \<open>AutocompleteSelectWithPlaceholder.build_attrs\<close>

definition build_attrs ::
  "((pystr, pystr) pydict \<Rightarrow> 'x \<Rightarrow> (pystr, pystr) pydict) \<Rightarrow> (pystr, pystr) pydict \<Rightarrow> 'x \<Rightarrow> (pystr, pystr) pydict" where
  "build_attrs super_build_attrs base_attrs extra_attrs =
     (let attrs = super_build_attrs base_attrs extra_attrs in
      case map_of base_attrs ''data-placeholder'' of
        Some p \<Rightarrow> dict_set attrs ''data-placeholder'' p
      | None \<Rightarrow> dict_set attrs ''data-placeholder'' ''Select'')"

section \<open>The admin_action decorator\<close>

text \<open>The wrapper passes the queryset to the action and then iterates it. A Django queryset is
  its filter and its result cache: iterating a queryset whose cache is empty reads the objects
  the filter selects in the current database state and fills the cache; iterating a filled cache
  reads the cache, whatever the database holds now. The action receives the database and the
  cache and returns both, so it may evaluate the queryset (filling the cache), modify the database,
  or clear the cache (as \<open>update()\<close> and \<open>delete()\<close> do). \<open>logger.info\<close> prints a slice of the
  queryset, which Django evaluates on a clone, leaving the cache as it is. An exception of the
  action propagates before anything is logged. \<open>ContentType\<close> and \<open>str(obj)\<close> are parameters;
  \<open>admin.models.CHANGE\<close> is Django's flag 2.\<close>

record log_entry =
  log_user_id :: nat
  log_content_type_id :: nat
  log_object_id :: nat
  log_object_repr :: pystr
  log_action_flag :: nat
  log_change_message :: pystr

definition CHANGE :: nat where
  "CHANGE = 2"

definition action_change_message :: "pystr \<Rightarrow> pystr" where
  "action_change_message name = ''Custom admin action '' @ [CHR 0x27] @ name @ [CHR 0x27] @ '' performed.''"

text \<open>\<open>for obj in queryset\<close>: the objects iterated and the cache afterwards.\<close>

definition queryset_iter ::
  "('db \<Rightarrow> 'o list) \<Rightarrow> ('o \<Rightarrow> bool) \<Rightarrow> 'db \<Rightarrow> 'o list option \<Rightarrow> 'o list \<times> 'o list option" where
  "queryset_iter objects queryset db cache =
     (case cache of
        Some result \<Rightarrow> (result, Some result)
      | None \<Rightarrow> (let result = filter queryset (objects db) in (result, Some result)))"

definition admin_action_wrapper ::
  "pystr \<Rightarrow> ('db \<Rightarrow> 'o list option \<Rightarrow> 'e + 'r \<times> 'db \<times> 'o list option) \<Rightarrow> ('db \<Rightarrow> 'o list) \<Rightarrow>
   ('o \<Rightarrow> nat) \<Rightarrow> ('o \<Rightarrow> nat) \<Rightarrow> ('o \<Rightarrow> pystr) \<Rightarrow> nat \<Rightarrow> ('o \<Rightarrow> bool) \<Rightarrow>
   'db \<times> log_entry list \<times> 'o list option \<Rightarrow> 'e + 'r \<times> ('db \<times> log_entry list \<times> 'o list option)" where
  "admin_action_wrapper func_name func objects content_type_id pk str_of user_id queryset s =
     (case s of (db, log, cache) \<Rightarrow>
       (case func db cache of
          Inl e \<Rightarrow> Inl e
        | Inr (response, db', cache') \<Rightarrow>
            (let (objs, cache'') = queryset_iter objects queryset db' cache' in
             Inr (response, db', log @ map (\<lambda>obj. \<lparr>log_user_id = user_id, log_content_type_id = content_type_id obj,
                    log_object_id = pk obj, log_object_repr = str_of obj, log_action_flag = CHANGE,
                    log_change_message = action_change_message func_name\<rparr>) objs, cache''))))"

section \<open>BaseModelAdmin: the field lists of the change view\<close>

definition get_readonly_fields :: "pystr list \<Rightarrow> field list \<Rightarrow> pystr list" where
  "get_readonly_fields super_readonly meta_fields =
     foldl (\<lambda>ro f. if \<not> editable f \<and> fname f \<notin> set ro then ro @ [fname f] else ro) super_readonly meta_fields
     @ [''id'']"

definition get_exclude :: "pystr list option \<Rightarrow> pystr list" where
  "get_exclude super_exclude = (case super_exclude of None \<Rightarrow> [] | Some xs \<Rightarrow> xs)"

text \<open>\<open>self.fields\<close> is \<open>None\<close> or a list; only a non-empty list is returned as is. \<open>obj\<close> is
  whether an existing record is edited.\<close>

definition py_truthy_list :: "'a list option \<Rightarrow> bool" where
  "py_truthy_list xs \<longleftrightarrow> (case xs of None \<Rightarrow> False | Some ys \<Rightarrow> ys \<noteq> [])"

definition append_missing :: "pystr list \<Rightarrow> pystr list \<Rightarrow> pystr list" where
  "append_missing xs ys = foldl (\<lambda>a y. if y \<notin> set a then a @ [y] else a) xs ys"

definition get_fields ::
  "pystr list option \<Rightarrow> pystr list \<Rightarrow> pystr list \<Rightarrow> field list \<Rightarrow> bool \<Rightarrow> pystr list" where
  "get_fields self_fields excluded_fields readonly_fields all_model_fields obj =
     (if py_truthy_list self_fields then the self_fields
      else (let all_fields =
              (if obj then
                 (let af = [fname f. f \<leftarrow> all_model_fields, \<not> auto_created f];
                      af' = (if ''id'' \<notin> set af then ''id'' # af else af)
                  in append_missing af' readonly_fields)
               else [fname f. f \<leftarrow> all_model_fields, \<not> auto_created f \<and> editable f])
            in [x \<leftarrow> all_fields. x \<notin> set excluded_fields]))"

text \<open>The change view's call: \<open>get_fields\<close> reads \<open>get_exclude\<close> and \<open>get_readonly_fields\<close>.\<close>

definition change_view_fields ::
  "pystr list option \<Rightarrow> pystr list option \<Rightarrow> pystr list \<Rightarrow> field list \<Rightarrow> field list \<Rightarrow> bool \<Rightarrow> pystr list" where
  "change_view_fields self_fields super_exclude super_readonly meta_fields all_model_fields obj =
     get_fields self_fields (get_exclude super_exclude) (get_readonly_fields super_readonly meta_fields)
       all_model_fields obj"

section \<open>BaseModelAdmin.get_actions\<close>

datatype action_tuple = ActionTuple pystr pystr "pystr option"

definition get_action_description :: "action_tuple \<Rightarrow> pystr" where
  "get_action_description t = (case t of ActionTuple func_name name d \<Rightarrow>
     (case d of Some description \<Rightarrow> description | None \<Rightarrow> func_name))"

definition dict_of_list :: "('k \<times> 'v) list \<Rightarrow> ('k, 'v) pydict" where
  "dict_of_list items = dict_update [] items"

definition get_actions :: "(pystr, action_tuple) pydict \<Rightarrow> (pystr, action_tuple) pydict" where
  "get_actions actions = dict_of_list (sort_key (\<lambda>item. get_action_description (snd item)) actions)"

section \<open>BaseModelAdmin: change list\<close>

definition get_change_link :: "(nat \<Rightarrow> pystr) \<Rightarrow> ('o \<Rightarrow> pystr) \<Rightarrow> ('o \<Rightarrow> nat) \<Rightarrow> 'o \<Rightarrow> pystr" where
  "get_change_link reverse str_of pk record =
     ''<a href='' @ [CHR 0x22] @ html_escape (reverse (pk record)) @ [CHR 0x22] @ ''>'' @
     html_escape (str_of record) @ ''</a>''"

definition get_list_display :: "pystr list \<Rightarrow> field list \<Rightarrow> pystr list" where
  "get_list_display list_display all_model_fields =
     (let field_names = map fname all_model_fields in
      if ''id'' \<notin> set list_display \<and> ''id'' \<in> set field_names then ''id'' # list_display else list_display)"

definition get_list_display_links :: "pystr list \<Rightarrow> pystr list" where
  "get_list_display_links list_display =
     (if 2 \<le> length list_display then [list_display ! 0, list_display ! 1]
      else if length list_display = 1 then [list_display ! 0]
      else [])"

section \<open>Lemmas\<close>


lemma html_escape_char_safe: "set (html_escape_char c) \<inter> {CHR ''<'', CHR ''>'', CHR 0x22, CHR 0x27} = {}"
  by (simp add: html_escape_char_def build_attrs_def dict_set_def)

lemma html_escape_safe: "set (html_escape s) \<inter> {CHR ''<'', CHR ''>'', CHR 0x22, CHR 0x27} = {}"
  using html_escape_char_safe by (auto simp: html_escape_def)

lemma set_append_missing [simp]: "set (append_missing xs ys) = set xs \<union> set ys"
  unfolding append_missing_def by (induction ys arbitrary: xs) auto

lemma distinct_append_missing: "distinct xs \<Longrightarrow> distinct (append_missing xs ys)"
  unfolding append_missing_def by (induction ys arbitrary: xs) auto

lemma set_readonly_fold:
  "set (foldl (\<lambda>ro f. if \<not> editable f \<and> fname f \<notin> set ro then ro @ [fname f] else ro) ro0 fs) =
   set ro0 \<union> fname ` {f \<in> set fs. \<not> editable f}"
  by (induction fs arbitrary: ro0) auto

lemma set_get_readonly_fields:
  "set (get_readonly_fields super_readonly meta_fields) =
   insert ''id'' (set super_readonly \<union> fname ` {f \<in> set meta_fields. \<not> editable f})"
  by (auto simp: get_readonly_fields_def set_readonly_fold)

lemma dict_of_list_distinct: "distinct (map fst xs) \<Longrightarrow> dict_of_list xs = xs"
proof -
  have "distinct (map fst (acc @ xs)) \<Longrightarrow> dict_update acc xs = acc @ xs" for acc
    by (induction xs arbitrary: acc) (auto simp: dict_update_def dict_set_def)
  from this [of "[]"] show "distinct (map fst xs) \<Longrightarrow> dict_of_list xs = xs"
    by (simp add: dict_of_list_def)
qed

text \<open>For an action dict (distinct names) get_actions returns the same actions ordered by their descriptions, stably: actions of equal description keep the order Django gave them.\<close>

theorem get_actions_sorted:
  assumes "distinct (map fst actions)"
  shows "sorted (map (\<lambda>item. get_action_description (snd item)) (get_actions actions)) \<and>
    mset (get_actions actions) = mset actions \<and>
    (\<forall>d. filter (\<lambda>item. get_action_description (snd item) = d) (get_actions actions) =
         filter (\<lambda>item. get_action_description (snd item) = d) actions)"
proof -
  let ?f = "\<lambda>item. get_action_description (snd item)"
  have "distinct (map fst (sort_key ?f actions))"
    using assms by (metis distinct_map mset_map mset_sort mset_eq_imp_distinct_iff)
  then have "get_actions actions = sort_key ?f actions"
    by (simp add: get_actions_def dict_of_list_distinct)
  then show ?thesis
    by (simp add: sorted_sort_key sort_key_stable)
qed

text \<open>C28. For an existing record and no self.fields, get_fields lists every non-auto-created field of get_fields(), id and every readonly field, each once, minus the excluded ones.\<close>

theorem get_fields_existing:
  assumes "\<not> py_truthy_list self_fields" "distinct [fname f. f \<leftarrow> all_model_fields, \<not> auto_created f]"
  shows "distinct (get_fields self_fields excluded readonly all_model_fields True) \<and>
    set (get_fields self_fields excluded readonly all_model_fields True) =
    (insert ''id'' (fname ` {f \<in> set all_model_fields. \<not> auto_created f}) \<union> set readonly) - set excluded"
proof -
  let ?af = "[fname f. f \<leftarrow> all_model_fields, \<not> auto_created f]"
  let ?af' = "if ''id'' \<notin> set ?af then ''id'' # ?af else ?af"
  have d: "distinct ?af'"
    using assms(2) by simp
  have "get_fields self_fields excluded readonly all_model_fields True =
        [x \<leftarrow> append_missing ?af' readonly. x \<notin> set excluded]"
    using assms(1) by (simp add: get_fields_def Let_def)
  moreover have "set ?af' = insert ''id'' (fname ` {f \<in> set all_model_fields. \<not> auto_created f})"
    by auto
  ultimately show ?thesis
    using distinct_append_missing [OF d, of readonly] by auto
qed

text \<open>C29. Composed with get_exclude and get_readonly_fields: an existing record shows id, every non-editable concrete field and every readonly field unless excluded; a new record shows exactly the editable non-auto-created fields that are not excluded, in model order.\<close>

theorem change_view_fields_shown:
  "({''id''} \<union> fname ` {f \<in> set meta_fields. \<not> editable f} \<union> set super_readonly) - set (get_exclude super_exclude)
     \<subseteq> set (change_view_fields None super_exclude super_readonly meta_fields all_model_fields True) \<and>
   change_view_fields None super_exclude super_readonly meta_fields all_model_fields False =
     [fname f. f \<leftarrow> all_model_fields, \<not> auto_created f \<and> editable f \<and> fname f \<notin> set (get_exclude super_exclude)]"
proof -
  have "change_view_fields None super_exclude super_readonly meta_fields all_model_fields True =
    [x \<leftarrow> append_missing (if ''id'' \<notin> set [fname f. f \<leftarrow> all_model_fields, \<not> auto_created f]
           then ''id'' # [fname f. f \<leftarrow> all_model_fields, \<not> auto_created f]
           else [fname f. f \<leftarrow> all_model_fields, \<not> auto_created f])
         (get_readonly_fields super_readonly meta_fields). x \<notin> set (get_exclude super_exclude)]"
    by (simp add: change_view_fields_def get_fields_def py_truthy_list_def Let_def)
  then have "set (change_view_fields None super_exclude super_readonly meta_fields all_model_fields True) \<supseteq>
      set (get_readonly_fields super_readonly meta_fields) - set (get_exclude super_exclude)"
    by auto
  then have "({''id''} \<union> fname ` {f \<in> set meta_fields. \<not> editable f} \<union> set super_readonly) - set (get_exclude super_exclude)
     \<subseteq> set (change_view_fields None super_exclude super_readonly meta_fields all_model_fields True)"
    by (simp add: set_get_readonly_fields Un_commute)
  moreover have "change_view_fields None super_exclude super_readonly meta_fields all_model_fields False =
     [fname f. f \<leftarrow> all_model_fields, \<not> auto_created f \<and> editable f \<and> fname f \<notin> set (get_exclude super_exclude)]"
    by (induction all_model_fields) (simp_all add: change_view_fields_def get_fields_def py_truthy_list_def)
  ultimately show ?thesis
    by blast
qed

text \<open>get_list_display_links is the first two columns of the list display: it equals take 2.\<close>

theorem get_list_display_links_take: "get_list_display_links list_display = take 2 list_display"
  by (cases list_display rule: remdups_adj.cases) (auto simp: get_list_display_links_def)

text \<open>C32. get_change_link escapes both the URL and str(record): neither contains a raw angle bracket or quote, unlike the reporter messages.\<close>

theorem get_change_link_escaped:
  "\<exists>u t. get_change_link reverse str_of pk record = ''<a href='' @ [CHR 0x22] @ u @ [CHR 0x22] @ ''>'' @ t @ ''</a>'' \<and>
     set u \<inter> {CHR ''<'', CHR ''>'', CHR 0x22, CHR 0x27} = {} \<and>
     set t \<inter> {CHR ''<'', CHR ''>'', CHR 0x22, CHR 0x27} = {}"
  by (intro exI conjI) (simp add: get_change_link_def, rule html_escape_safe, rule html_escape_safe)

text \<open>When the model has an id field, the list display contains it, and when get_list_display inserted it, the change-list links are id and the first configured column.\<close>

theorem get_list_display_id:
  assumes "''id'' \<in> fname ` set all_model_fields"
  shows "''id'' \<in> set (get_list_display list_display all_model_fields) \<and>
    (''id'' \<notin> set list_display \<longrightarrow>
       get_list_display_links (get_list_display list_display all_model_fields) = ''id'' # take 1 list_display)"
  using assms by (cases list_display) (auto simp: get_list_display_def get_list_display_links_def)

text \<open>A list of log entries is determined by its fields.\<close>

lemma log_entries_by_fields:
  "map log_object_id new = map pk objs \<Longrightarrow> map log_object_repr new = map str_of objs \<Longrightarrow>
   map log_content_type_id new = map content_type_id objs \<Longrightarrow>
   \<forall>entry\<in>set new. log_user_id entry = user_id \<and> log_action_flag entry = flag \<and> log_change_message entry = msg \<Longrightarrow>
   new = map (\<lambda>obj. \<lparr>log_user_id = user_id, log_content_type_id = content_type_id obj, log_object_id = pk obj,
     log_object_repr = str_of obj, log_action_flag = flag, log_change_message = msg\<rparr>) objs"
proof (induction objs arbitrary: new)
  case Nil
  then show ?case by simp
next
  case (Cons obj objs)
  then show ?case by (cases new) auto
qed

text \<open>C33. The admin_action wrapper propagates an exception of the action without logging.
  Otherwise it returns the action's response and appends one CHANGE log entry, with the user
  and the action name, for each object the queryset yields when iterated after the action: the
  objects the action cached if it evaluated the queryset and left the cache filled, else the
  objects the filter selects in the database the action left. The queryset is cached afterwards.\<close>

theorem admin_action_wrapper_log:
  "(func db cache = Inl e \<longrightarrow>
      admin_action_wrapper func_name func objects content_type_id pk str_of user_id queryset (db, log, cache) = Inl e) \<and>
   (func db cache = Inr (response, db', cache') \<longrightarrow>
      (let objs = (case cache' of Some result \<Rightarrow> result | None \<Rightarrow> filter queryset (objects db')) in
       \<exists>new. admin_action_wrapper func_name func objects content_type_id pk str_of user_id queryset (db, log, cache) =
          Inr (response, db', log @ new, Some objs) \<and>
        map log_object_id new = map pk objs \<and> map log_object_repr new = map str_of objs \<and>
        map log_content_type_id new = map content_type_id objs \<and>
        (\<forall>entry\<in>set new. log_user_id entry = user_id \<and> log_action_flag entry = CHANGE \<and>
           log_change_message entry = action_change_message func_name)))"
  by (auto simp: admin_action_wrapper_def queryset_iter_def Let_def comp_def split: option.splits)

text \<open>An action that iterates the queryset and then deletes object 1 logs both objects it saw;
  one that deletes object 1 without evaluating the queryset logs only object 2.\<close>

theorem admin_action_wrapper_log_witness:
  "admin_action_wrapper ''delete_one'' (\<lambda>db c. Inr ((), filter (\<lambda>x. x \<noteq> 1) db, Some db) :: unit + unit \<times> nat list \<times> nat list option) id (\<lambda>_. 7) id
     (\<lambda>x. ''obj'') 5 (\<lambda>_. True) ([1, 2 :: nat], [], None) =
   Inr ((), [2], [\<lparr>log_user_id = 5, log_content_type_id = 7, log_object_id = 1, log_object_repr = ''obj'',
     log_action_flag = CHANGE, log_change_message = action_change_message ''delete_one''\<rparr>,
     \<lparr>log_user_id = 5, log_content_type_id = 7, log_object_id = 2, log_object_repr = ''obj'',
     log_action_flag = CHANGE, log_change_message = action_change_message ''delete_one''\<rparr>], Some [1, 2]) \<and>
   admin_action_wrapper ''delete_one'' (\<lambda>db c. Inr ((), filter (\<lambda>x. x \<noteq> 1) db, c) :: unit + unit \<times> nat list \<times> nat list option) id (\<lambda>_. 7) id
     (\<lambda>x. ''obj'') 5 (\<lambda>_. True) ([1, 2 :: nat], [], None) =
   Inr ((), [2], [\<lparr>log_user_id = 5, log_content_type_id = 7, log_object_id = 2, log_object_repr = ''obj'',
     log_action_flag = CHANGE, log_change_message = action_change_message ''delete_one''\<rparr>], Some [2])"
proof -
  have w1: "\<exists>new. admin_action_wrapper ''delete_one'' (\<lambda>db c. Inr ((), filter (\<lambda>x. x \<noteq> 1) db, Some db) :: unit + unit \<times> nat list \<times> nat list option) id (\<lambda>_. 7) id
     (\<lambda>x. ''obj'') 5 (\<lambda>_. True) ([1, 2 :: nat], [], None) = Inr ((), [2], [] @ new, Some [1, 2]) \<and>
      map log_object_id new = [1, 2] \<and> map log_object_repr new = [''obj'', ''obj''] \<and>
      map log_content_type_id new = [7, 7] \<and>
      (\<forall>entry\<in>set new. log_user_id entry = 5 \<and> log_action_flag entry = CHANGE \<and>
         log_change_message entry = action_change_message ''delete_one'')"
    using admin_action_wrapper_log [of "\<lambda>db c. Inr ((), filter (\<lambda>x. x \<noteq> 1) db, Some db)" "[1, 2 :: nat]" None _
        "''delete_one''" id "\<lambda>_. 7" id "\<lambda>x. ''obj''" 5 "\<lambda>_. True" "[]" "()" "[2]" "Some [1, 2]"]
    unfolding Let_def by simp
  have w2: "\<exists>new. admin_action_wrapper ''delete_one'' (\<lambda>db c. Inr ((), filter (\<lambda>x. x \<noteq> 1) db, c) :: unit + unit \<times> nat list \<times> nat list option) id (\<lambda>_. 7) id
     (\<lambda>x. ''obj'') 5 (\<lambda>_. True) ([1, 2 :: nat], [], None) = Inr ((), [2], [] @ new, Some [2]) \<and>
      map log_object_id new = [2] \<and> map log_object_repr new = [''obj''] \<and>
      map log_content_type_id new = [7] \<and>
      (\<forall>entry\<in>set new. log_user_id entry = 5 \<and> log_action_flag entry = CHANGE \<and>
         log_change_message entry = action_change_message ''delete_one'')"
    using admin_action_wrapper_log [of "\<lambda>db c. Inr ((), filter (\<lambda>x. x \<noteq> 1) db, c)" "[1, 2 :: nat]" None _
        "''delete_one''" id "\<lambda>_. 7" id "\<lambda>x. ''obj''" 5 "\<lambda>_. True" "[]" "()" "[2]" None]
    unfolding Let_def by simp
  from w1 obtain n1 where n1': "admin_action_wrapper ''delete_one'' (\<lambda>db c. Inr ((), filter (\<lambda>x. x \<noteq> 1) db, Some db) :: unit + unit \<times> nat list \<times> nat list option) id
     (\<lambda>_. 7) id (\<lambda>x. ''obj'') 5 (\<lambda>_. True) ([1, 2 :: nat], [], None) = Inr ((), [2], [] @ n1, Some [1, 2])"
    "map log_object_id n1 = [1, 2]" "map log_object_repr n1 = [''obj'', ''obj'']"
    "map log_content_type_id n1 = [7, 7]"
    "\<forall>entry\<in>set n1. log_user_id entry = 5 \<and> log_action_flag entry = CHANGE \<and>
         log_change_message entry = action_change_message ''delete_one''"
    by (elim exE conjE) (rule that)
  have n1: "admin_action_wrapper ''delete_one'' (\<lambda>db c. Inr ((), filter (\<lambda>x. x \<noteq> 1) db, Some db) :: unit + unit \<times> nat list \<times> nat list option) id
     (\<lambda>_. 7) id (\<lambda>x. ''obj'') 5 (\<lambda>_. True) ([1, 2 :: nat], [], None) = Inr ((), [2], n1, Some [1, 2])"
    "n1 = map (\<lambda>n. \<lparr>log_user_id = 5, log_content_type_id = 7, log_object_id = n, log_object_repr = ''obj'',
        log_action_flag = CHANGE, log_change_message = action_change_message ''delete_one''\<rparr>) [1, 2]"
    using n1' log_entries_by_fields [where new = n1 and pk = id and objs = "[1, 2]" and str_of = "\<lambda>_. ''obj''" and content_type_id = "\<lambda>_. 7" and user_id = 5 and flag = CHANGE and msg = "action_change_message ''delete_one''"] by simp_all
  from w2 obtain n2 where n2': "admin_action_wrapper ''delete_one'' (\<lambda>db c. Inr ((), filter (\<lambda>x. x \<noteq> 1) db, c) :: unit + unit \<times> nat list \<times> nat list option) id
     (\<lambda>_. 7) id (\<lambda>x. ''obj'') 5 (\<lambda>_. True) ([1, 2 :: nat], [], None) = Inr ((), [2], [] @ n2, Some [2])"
    "map log_object_id n2 = [2]" "map log_object_repr n2 = [''obj'']"
    "map log_content_type_id n2 = [7]"
    "\<forall>entry\<in>set n2. log_user_id entry = 5 \<and> log_action_flag entry = CHANGE \<and>
         log_change_message entry = action_change_message ''delete_one''"
    by (elim exE conjE) (rule that)
  have n2: "admin_action_wrapper ''delete_one'' (\<lambda>db c. Inr ((), filter (\<lambda>x. x \<noteq> 1) db, c) :: unit + unit \<times> nat list \<times> nat list option) id
     (\<lambda>_. 7) id (\<lambda>x. ''obj'') 5 (\<lambda>_. True) ([1, 2 :: nat], [], None) = Inr ((), [2], n2, Some [2])"
    "n2 = map (\<lambda>n. \<lparr>log_user_id = 5, log_content_type_id = 7, log_object_id = n, log_object_repr = ''obj'',
        log_action_flag = CHANGE, log_change_message = action_change_message ''delete_one''\<rparr>) [2]"
    using n2' log_entries_by_fields [where new = n2 and pk = id and objs = "[2]" and str_of = "\<lambda>_. ''obj''" and content_type_id = "\<lambda>_. 7" and user_id = 5 and flag = CHANGE and msg = "action_change_message ''delete_one''"] by simp_all
  show ?thesis
    using n1 n2 by simp
qed

text \<open>Examples: get_readonly_fields appends id even when it is already there; an empty self.fields counts as unset; actions sort case-sensitively, so an upper-case description comes first; build_attrs adds the Select placeholder; the change link escapes the record text.\<close>

theorem admin_lists_examples:
  "get_readonly_fields [''id''] [\<lparr>fname = ''created'', editable = False, auto_created = False\<rparr>] =
     [''id'', ''created'', ''id''] \<and>
   get_fields (Some []) [] [] [\<lparr>fname = ''name'', editable = True, auto_created = False\<rparr>] False = [''name''] \<and>
   map fst (get_actions [(''archive'', ActionTuple ''archive'' ''archive'' None),
       (''translate_selected_objects'', ActionTuple ''translate_selected_objects'' ''translate_selected_objects''
          (Some ''Translate fields to German''))]) = [''translate_selected_objects'', ''archive''] \<and>
   build_attrs (\<lambda>b e. b) [(''class'', ''x'')] () = [(''class'', ''x''), (''data-placeholder'', ''Select'')] \<and>
   get_change_link (\<lambda>_. ''/admin/x/1/'') (\<lambda>_. ''<b>'') id (1::nat) =
     ''<a href='' @ [CHR 0x22] @ ''/admin/x/1/'' @ [CHR 0x22] @ ''>&lt;b&gt;</a>''"
  by (simp add: get_readonly_fields_def get_fields_def py_truthy_list_def get_actions_def dict_of_list_def
      dict_update_def dict_set_def get_action_description_def get_change_link_def html_escape_def
      html_escape_char_def build_attrs_def dict_set_def)

theorem get_actions_sorted_witness:
  "distinct (map fst [(''b'', ActionTuple ''b'' ''b'' None), (''a'', ActionTuple ''a'' ''a'' None)]) \<and>
   sorted (map (\<lambda>item. get_action_description (snd item))
     (get_actions [(''b'', ActionTuple ''b'' ''b'' None), (''a'', ActionTuple ''a'' ''a'' None)]))"
proof -
  have h: "distinct (map fst [(''b'', ActionTuple ''b'' ''b'' None), (''a'', ActionTuple ''a'' ''a'' None)])"
    by simp
  show ?thesis
    using h get_actions_sorted [OF h] by blast
qed

theorem get_fields_existing_witness:
  "\<not> py_truthy_list (None :: pystr list option) \<and>
   distinct [fname f. f \<leftarrow> [\<lparr>fname = ''name'', editable = True, auto_created = False\<rparr>], \<not> auto_created f] \<and>
   distinct (get_fields None [] [''created''] [\<lparr>fname = ''name'', editable = True, auto_created = False\<rparr>] True)"
proof -
  have h1: "\<not> py_truthy_list (None :: pystr list option)"
    by (simp add: py_truthy_list_def)
  have h2: "distinct [fname f. f \<leftarrow> [\<lparr>fname = ''name'', editable = True, auto_created = False\<rparr>], \<not> auto_created f]"
    by simp
  have d: "distinct (get_fields None [] [''created''] [\<lparr>fname = ''name'', editable = True, auto_created = False\<rparr>] True)"
    using get_fields_existing [OF h1 h2, of "[]" "[''created'']"] by (rule conjunct1)
  show ?thesis
    using h1 h2 d by blast
qed

theorem get_list_display_id_witness:
  "''id'' \<in> fname ` set [\<lparr>fname = ''id'', editable = True, auto_created = True\<rparr>] \<and>
   get_list_display_links (get_list_display [''name'', ''email''] [\<lparr>fname = ''id'', editable = True, auto_created = True\<rparr>]) =
     [''id'', ''name'']"
proof -
  have h: "''id'' \<in> fname ` set [\<lparr>fname = ''id'', editable = True, auto_created = True\<rparr>]"
    by simp
  show ?thesis
    using h get_list_display_id [OF h, of "[''name'', ''email'']"] by simp
qed

end
