(* ===== verification/RequestLog.thy ===== *)
theory RequestLog
  imports Prelude
begin

text \<open>
  Request-scoped logging: the thread-local state of \<open>RequestIDMiddleware\<close>
  (src/middleware.py) and the time column of \<open>CustomRichHandler\<close> (src/logging.py), for one
  worker thread. Times are integers (microseconds, the resolution of \<open>datetime\<close>); the
  formatters of absolute and relative times (\<open>formatTime\<close>, \<open>f"+{ms:.0f}ms"\<close>) are
  parameters. Attributes of \<open>_thread_locals\<close> that were never set read as the \<open>getattr\<close>
  defaults: no request, \<open>None\<close>, \<open>None\<close> and \<open>False\<close>.
\<close>

section \<open>RequestIDMiddleware\<close>

record thread_locals =
  tl_request :: "(pystr \<times> pystr) option"
  tl_request_id :: "pystr option"
  tl_start_time :: "int option"
  tl_first_log_message_sent :: bool

definition locals_init :: thread_locals where
  "locals_init = \<lparr>tl_request = None, tl_request_id = None, tl_start_time = None, tl_first_log_message_sent = False\<rparr>"

text \<open>\<open>__call__\<close>: the request (its method and path) and the two \<open>META\<close> headers.\<close>

definition request_id_call :: "pystr \<times> pystr \<Rightarrow> pystr option \<Rightarrow> int option \<Rightarrow> thread_locals \<Rightarrow> thread_locals" where
  "request_id_call request request_id start_time tls =
     tls\<lparr>tl_request := Some request, tl_request_id := request_id, tl_start_time := start_time,
        tl_first_log_message_sent := False\<rparr>"

definition set_first_log_message_sent :: "thread_locals \<Rightarrow> thread_locals" where
  "set_first_log_message_sent tls = tls\<lparr>tl_first_log_message_sent := True\<rparr>"

definition set_request_start_time :: "int \<Rightarrow> thread_locals \<Rightarrow> thread_locals" where
  "set_request_start_time t tls = tls\<lparr>tl_start_time := Some t\<rparr>"

section \<open>CustomRichHandler.emit: the relative time and the message\<close>

text \<open>\<open>relativeCreated\<close> of a record created at \<open>current_time\<close>, and the start time set by the
  first record of a request whose start time is unset.\<close>

definition emit_relative :: "int \<Rightarrow> thread_locals \<Rightarrow> thread_locals \<times> int" where
  "emit_relative current_time tls =
     (case tl_request_id tls of
        None \<Rightarrow> (tls, 0)
      | Some _ \<Rightarrow> (case tl_start_time tls of
          None \<Rightarrow> (set_request_start_time current_time tls, 0)
        | Some request_start_time \<Rightarrow> (tls, current_time - request_start_time)))"

text \<open>The message rewrite of \<open>emit\<close>: \<open>record.msg\<close> is a string or another object,
  \<open>record.args\<close> a tuple or another object (a dict); \<open>str\<close>, \<open>pretty\<close> and \<open>isinstance(_, list)\<close>
  of the objects are parameters.\<close>

datatype 'v log_msg = MsgStr pystr | MsgObj 'v
datatype 'v log_args = ArgsTuple "'v list" | ArgsOther 'v

definition msg_str :: "('v \<Rightarrow> pystr) \<Rightarrow> 'v log_msg \<Rightarrow> pystr" where
  "msg_str str_of m = (case m of MsgStr s \<Rightarrow> s | MsgObj v \<Rightarrow> str_of v)"

definition emit_message ::
  "('v \<Rightarrow> pystr) \<Rightarrow> ('v \<Rightarrow> pystr) \<Rightarrow> ('v \<Rightarrow> bool) \<Rightarrow> 'v log_msg \<Rightarrow> 'v log_args \<Rightarrow> 'v log_msg \<times> 'v log_args" where
  "emit_message str_of pretty is_list msg args =
     (if (case msg of MsgStr s \<Rightarrow> CHR ''%'' \<notin> set s | MsgObj _ \<Rightarrow> True) then
        (MsgStr (case args of
            ArgsTuple [a] \<Rightarrow> if is_list a then msg_str str_of msg @ pretty a
                             else msg_str str_of msg @ py_join '' '' [str_of a]
          | ArgsTuple xs \<Rightarrow> msg_str str_of msg @ py_join '' '' (map str_of xs)
          | ArgsOther a \<Rightarrow> msg_str str_of msg @ '' '' @ pretty a), ArgsTuple [])
      else (msg, args))"

section \<open>CustomRichHandler: the time column\<close>

text \<open>The handler's own state is \<open>_last_time\<close>; its time column is 8 wide. A cell is the
  bold absolute time, the relative time, or blanks when it repeats the previous cell.\<close>

datatype time_cell = Bold pystr | Plain pystr

definition time_column_width :: nat where
  "time_column_width = 8"

record log_state =
  locals :: thread_locals
  last_time :: "pystr option"

definition custom_log_render ::
  "(int \<Rightarrow> pystr) \<Rightarrow> (int \<Rightarrow> pystr) \<Rightarrow> int \<Rightarrow> int \<Rightarrow> log_state \<Rightarrow> log_state \<times> time_cell" where
  "custom_log_render format_time format_ms created relative_created st =
     (if \<not> tl_first_log_message_sent (locals st) \<or> relative_created = 0 then
        (let time_display = format_time created in
         (st\<lparr>locals := set_first_log_message_sent (locals st), last_time := Some time_display\<rparr>, Bold time_display))
      else
        (let time_display = format_ms relative_created in
         (st\<lparr>last_time := Some time_display\<rparr>,
          if Some time_display = last_time st then Plain (replicate time_column_width CHR '' '')
          else Plain time_display)))"

text \<open>\<open>emit\<close> followed by Rich's call of \<open>render\<close>: a message that is empty after
  \<open>strip()\<close> renders nothing and leaves the state of the time column unchanged.\<close>

definition emit ::
  "(int \<Rightarrow> pystr) \<Rightarrow> (int \<Rightarrow> pystr) \<Rightarrow> int \<Rightarrow> pystr \<Rightarrow> log_state \<Rightarrow> log_state \<times> time_cell option" where
  "emit format_time format_ms created message st =
     (let (tls, relative_created) = emit_relative created (locals st); st' = st\<lparr>locals := tls\<rparr> in
      if py_strip message = [] then (st', None)
      else (let (st'', cell) = custom_log_render format_time format_ms created relative_created st' in
            (st'', Some cell)))"

section \<open>One thread: requests and log records\<close>

datatype log_event = Request "pystr \<times> pystr" "pystr option" "int option" | Log int pystr

fun log_step ::
  "(int \<Rightarrow> pystr) \<Rightarrow> (int \<Rightarrow> pystr) \<Rightarrow> log_state \<Rightarrow> log_event \<Rightarrow> log_state \<times> time_cell option" where
  "log_step format_time format_ms st (Request r rid start) =
     (st\<lparr>locals := request_id_call r rid start (locals st)\<rparr>, None)"
| "log_step format_time format_ms st (Log created message) = emit format_time format_ms created message st"

fun run_log :: "(int \<Rightarrow> pystr) \<Rightarrow> (int \<Rightarrow> pystr) \<Rightarrow> log_state \<Rightarrow> log_event list \<Rightarrow> log_state \<times> time_cell list" where
  "run_log format_time format_ms st [] = (st, [])"
| "run_log format_time format_ms st (e # es) =
     (let (st', c) = log_step format_time format_ms st e; (st'', cs) = run_log format_time format_ms st' es in
      (st'', (case c of None \<Rightarrow> cs | Some cell \<Rightarrow> cell # cs)))"

inductive log_reachable :: "(int \<Rightarrow> pystr) \<Rightarrow> (int \<Rightarrow> pystr) \<Rightarrow> log_state \<Rightarrow> bool" where
  init: "log_reachable format_time format_ms \<lparr>locals = locals_init, last_time = None\<rparr>"
| step: "log_reachable format_time format_ms st \<Longrightarrow>
     log_reachable format_time format_ms (fst (log_step format_time format_ms st e))"

text \<open>The state of a thread inside a request, after its first rendered record.\<close>

definition in_request :: "pystr \<Rightarrow> int \<Rightarrow> log_state \<Rightarrow> bool" where
  "in_request rid t0 st \<longleftrightarrow> tl_request_id (locals st) = Some rid \<and> tl_start_time (locals st) = Some t0 \<and>
     tl_first_log_message_sent (locals st)"

text \<open>What the time column shows for a later record of a request started at \<open>t0\<close>:
  the display is the absolute time for a record of the start instant and the time since the
  start otherwise; a relative display that repeats the previous cell's display is blanked.\<close>

definition request_display :: "(int \<Rightarrow> pystr) \<Rightarrow> (int \<Rightarrow> pystr) \<Rightarrow> int \<Rightarrow> int \<Rightarrow> pystr" where
  "request_display ft fm t0 t = (if t = t0 then ft t else fm (t - t0))"

definition request_cell :: "(int \<Rightarrow> pystr) \<Rightarrow> (int \<Rightarrow> pystr) \<Rightarrow> int \<Rightarrow> pystr \<Rightarrow> int \<Rightarrow> time_cell" where
  "request_cell ft fm t0 prev t =
     (if t = t0 then Bold (ft t)
      else if fm (t - t0) = prev then Plain (replicate time_column_width CHR '' '')
      else Plain (fm (t - t0)))"

section \<open>Lemmas\<close>

lemma emit_in_request:
  assumes "in_request rid t0 st" "py_strip m \<noteq> []" "last_time st = Some prev"
  shows "in_request rid t0 (fst (emit ft fm t m st)) \<and>
    last_time (fst (emit ft fm t m st)) = Some (request_display ft fm t0 t) \<and>
    snd (emit ft fm t m st) = Some (request_cell ft fm t0 prev t)"
  using assms
  by (auto simp: in_request_def emit_def emit_relative_def custom_log_render_def Let_def
      set_first_log_message_sent_def request_display_def request_cell_def)

lemma run_log_Log_Some:
  "emit ft fm t m st = (st', Some c) \<Longrightarrow>
   run_log ft fm st (Log t m # es) = (fst (run_log ft fm st' es), c # snd (run_log ft fm st' es))"
  by (simp split: prod.splits)

lemma run_log_Request:
  "run_log ft fm st (Request r rid start # es) = run_log ft fm (st\<lparr>locals := request_id_call r rid start (locals st)\<rparr>) es"
  by (simp split: prod.splits)

lemma run_log_in_request:
  assumes "in_request rid t0 st" "last_time st = Some prev" "\<forall>(t, m)\<in>set tms. py_strip m \<noteq> []"
  shows "snd (run_log ft fm st (map (\<lambda>(t, m). Log t m) tms)) =
    map2 (request_cell ft fm t0) (prev # map (\<lambda>(t, m). request_display ft fm t0 t) tms) (map fst tms)"
  using assms
proof (induction tms arbitrary: st prev)
  case Nil
  then show ?case by simp
next
  case (Cons tm tms)
  obtain t m where tm: "tm = (t, m)" by fastforce
  have m: "py_strip m \<noteq> []" using Cons.prems(3) tm by auto
  note e = emit_in_request [OF Cons.prems(1) m Cons.prems(2), of ft fm t]
  obtain st' where st': "emit ft fm t m st = (st', Some (request_cell ft fm t0 prev t))"
    using e by (metis prod.collapse)
  have "snd (run_log ft fm st' (map (\<lambda>(t, m). Log t m) tms)) =
    map2 (request_cell ft fm t0) (request_display ft fm t0 t # map (\<lambda>(t, m). request_display ft fm t0 t) tms) (map fst tms)"
    using Cons.IH [of st' "request_display ft fm t0 t"] Cons.prems(3) e st' by auto
  then show ?case
    by (simp del: run_log.simps add: tm run_log_Log_Some [OF st'])
qed

text \<open>C35. In a request whose start time is not set by the WSGI layer, the first rendered log
  record shows its absolute time in bold and becomes the start of the request. Every later
  record shows its absolute time in bold when it was created at that same instant; otherwise
  it shows the time since the start, or blanks exactly when that text equals the display of
  the record before it.\<close>

theorem request_time_column:
  assumes "py_strip m \<noteq> []" "\<forall>(t, m)\<in>set tms. py_strip m \<noteq> []"
  shows "snd (run_log ft fm st (Request r (Some rid) None # Log t0 m # map (\<lambda>(t, m). Log t m) tms)) =
      Bold (ft t0) #
      map2 (\<lambda>prev t. if t = t0 then Bold (ft t)
                      else if fm (t - t0) = prev then Plain (replicate time_column_width CHR '' '')
                      else Plain (fm (t - t0)))
        (ft t0 # map (\<lambda>(t, m). if t = t0 then ft t else fm (t - t0)) tms) (map fst tms)"
proof -
  let ?st1 = "st\<lparr>locals := request_id_call r (Some rid) None (locals st)\<rparr>"
  let ?st2 = "?st1\<lparr>locals := set_first_log_message_sent (set_request_start_time t0 (locals ?st1)),
            last_time := Some (ft t0)\<rparr>"
  have e: "emit ft fm t0 m ?st1 = (?st2, Some (Bold (ft t0)))"
    using assms(1) by (simp add: emit_def emit_relative_def request_id_call_def custom_log_render_def
      set_request_start_time_def set_first_log_message_sent_def Let_def)
  have i: "in_request rid t0 ?st2"
    by (simp add: in_request_def request_id_call_def set_request_start_time_def set_first_log_message_sent_def)
  show ?thesis
    using run_log_in_request [OF i _ assms(2), of "ft t0" ft fm]
    by (simp del: run_log.simps add: run_log_Request run_log_Log_Some [OF e] request_cell_def[abs_def]
      request_display_def[abs_def])
qed

lemma emit_relative_request_id [simp]: "tl_request_id (fst (emit_relative t l)) = tl_request_id l"
  by (simp add: emit_relative_def set_request_start_time_def split: option.splits)

lemma emit_relative_start_time: "tl_request_id l \<noteq> None \<Longrightarrow> tl_start_time (fst (emit_relative t l)) \<noteq> None"
  by (auto simp: emit_relative_def set_request_start_time_def split: option.splits)

lemma emit_locals_fields:
  "tl_request_id (locals (fst (emit ft fm t m st))) = tl_request_id (locals st) \<and>
   tl_start_time (locals (fst (emit ft fm t m st))) = tl_start_time (fst (emit_relative t (locals st)))"
  by (simp add: emit_def custom_log_render_def Let_def case_prod_beta set_first_log_message_sent_def)

text \<open>C2. In every reachable state of a thread, once a record of a request with an id has been
  rendered the request has a start time, so later records get a relative time.\<close>

lemma log_reachable_start_time:
  "log_reachable ft fm st \<Longrightarrow> tl_first_log_message_sent (locals st) \<Longrightarrow> tl_request_id (locals st) \<noteq> None \<Longrightarrow>
    tl_start_time (locals st) \<noteq> None"
proof (induction rule: log_reachable.induct)
  case (init ft fm)
  then show ?case by (simp add: locals_init_def)
next
  case (step ft fm st e)
  then show ?case
  proof (cases e)
    case (Request r rid start)
    then show ?thesis
      using step.prems by (simp add: request_id_call_def)
  next
    case (Log t m)
    then show ?thesis
      using step.prems emit_locals_fields [of ft fm t m st] emit_relative_start_time [of "locals st" t] by simp
  qed
qed

theorem log_reachable_start_time_witness:
  "log_reachable (\<lambda>_. ''t'') (\<lambda>_. ''+0ms'')
     (fst (log_step (\<lambda>_. ''t'') (\<lambda>_. ''+0ms'')
        (fst (log_step (\<lambda>_. ''t'') (\<lambda>_. ''+0ms'') \<lparr>locals = locals_init, last_time = None\<rparr>
           (Request (''GET'', ''/'') (Some ''r1'') None))) (Log 7 ''hello''))) \<and>
   tl_start_time (locals (fst (log_step (\<lambda>_. ''t'') (\<lambda>_. ''+0ms'')
        (fst (log_step (\<lambda>_. ''t'') (\<lambda>_. ''+0ms'') \<lparr>locals = locals_init, last_time = None\<rparr>
           (Request (''GET'', ''/'') (Some ''r1'') None))) (Log 7 ''hello'')))) = Some 7"
proof -
  let ?st = "fst (log_step (\<lambda>_. ''t'') (\<lambda>_. ''+0ms'')
        (fst (log_step (\<lambda>_. ''t'') (\<lambda>_. ''+0ms'') \<lparr>locals = locals_init, last_time = None\<rparr>
           (Request (''GET'', ''/'') (Some ''r1'') None))) (Log 7 ''hello''))"
  have r: "log_reachable (\<lambda>_. ''t'') (\<lambda>_. ''+0ms'') ?st"
    by (intro log_reachable.step log_reachable.init)
  have h: "tl_first_log_message_sent (locals ?st)" "tl_request_id (locals ?st) \<noteq> None"
    by (simp_all add: emit_def emit_relative_def custom_log_render_def request_id_call_def locals_init_def
      set_request_start_time_def set_first_log_message_sent_def Let_def py_strip_def py_isspace_def cp_def)
  have "tl_start_time (locals ?st) \<noteq> None"
    using log_reachable_start_time [OF r h] .
  moreover have "tl_start_time (locals ?st) \<in> {None, Some 7}"
    by (simp add: emit_def emit_relative_def custom_log_render_def request_id_call_def locals_init_def
      set_request_start_time_def set_first_log_message_sent_def Let_def py_strip_def py_isspace_def cp_def)
  ultimately show ?thesis
    using r by auto
qed

theorem request_time_column_witness:
  "py_strip ''hello'' \<noteq> [] \<and>
   list_all (\<lambda>(t, m). py_strip m \<noteq> []) [(3::int, ''a''), (5, ''b''), (0, ''c''), (12, ''d'')] \<and>
   snd (run_log (\<lambda>_. ''12:00:00'') (\<lambda>d. if d < 10 then ''+0ms'' else ''+1ms'') \<lparr>locals = locals_init, last_time = None\<rparr>
        (Request (''GET'', ''/'') (Some ''r1'') None # Log 0 ''hello'' #
         map (\<lambda>(t, m). Log t m) [(3::int, ''a''), (5, ''b''), (0, ''c''), (12, ''d'')])) =
     [Bold ''12:00:00'', Plain ''+0ms'', Plain ''        '', Bold ''12:00:00'', Plain ''+1ms'']"
proof -
  have h1: "py_strip ''hello'' \<noteq> []"
    by (simp add: py_strip_def py_isspace_def cp_def)
  have h2: "\<forall>(t, m)\<in>set [(3::int, ''a''), (5, ''b''), (0, ''c''), (12, ''d'')]. py_strip m \<noteq> []"
    by (simp add: py_strip_def py_isspace_def cp_def)
  have h3: "list_all (\<lambda>(t, m). py_strip m \<noteq> []) [(3::int, ''a''), (5, ''b''), (0, ''c''), (12, ''d'')]"
    using h2 by (simp add: list_all_iff)
  show ?thesis
    using h1 h3 request_time_column [OF h1 h2, of "\<lambda>_. ''12:00:00''" "\<lambda>d. if d < 10 then ''+0ms'' else ''+1ms''"
        "\<lparr>locals = locals_init, last_time = None\<rparr>" "(''GET'', ''/'')" "''r1''"]
    by (simp add: time_column_width_def numeral_eq_Suc)
qed

text \<open>\<open>emit\<close> glues the message and the first argument without a separator.\<close>

lemma emit_message_no_separator:
  "emit_message str_of pretty is_list (MsgStr ''POST data: '') (ArgsTuple [a, b]) =
     (MsgStr (''POST data: '' @ str_of a @ '' '' @ str_of b), ArgsTuple [])"
  by (simp add: emit_message_def msg_str_def)

end
