(* ===== verification/Middleware.thy ===== *)
theory Middleware
  imports AdminLists "HOL-Library.Sublist"
begin

text \<open>
  The middleware of src/middleware.py, the \<open>changelist_view\<close> of \<open>BaseModelAdmin\<close> that reads
  what \<open>AdminActionLoggerMiddleware\<close> stores, and the \<open>MIDDLEWARE\<close> list and the two helper
  functions of src/settings.py. A request is its method, path and POST data; the session is
  its dict of JSON values and its \<open>modified\<close> flag. Django's \<open>apps.get_model\<close>,
  \<open>QueryDict.urlencode\<close> and \<open>QueryDict(data).lists()\<close> are parameters.
\<close>

section \<open>Requests and sessions\<close>

record http_request =
  req_method :: pystr
  req_path :: pystr
  req_post :: "(pystr \<times> pystr list) list"

datatype sess_val = SStr pystr | SDict "(pystr \<times> sess_val) list" | SLists "(pystr \<times> pystr list) list"

record session =
  sess_data :: "(pystr, sess_val) pydict"
  sess_modified :: bool

section \<open>AdminActionLoggerMiddleware\<close>

text \<open>\<open>re.search(r'^/admin/(?P<app_label>\w+)/(?P<model_name>\w+)/', path)\<close>: each \<open>\w+\<close> takes
  the longest run of word characters, and no shorter run can be followed by the slash.\<close>

definition match_admin_path :: "pystr \<Rightarrow> (pystr \<times> pystr) option" where
  "match_admin_path path =
     (if py_startswith path ''/admin/'' then
        (let r = drop 7 path; app_label = takeWhile py_isword r; r' = drop (length app_label) r in
         if app_label \<noteq> [] \<and> take 1 r' = ''/'' then
           (let r'' = drop 1 r'; model_name = takeWhile py_isword r''; r''' = drop (length model_name) r'' in
            if model_name \<noteq> [] \<and> take 1 r''' = ''/'' then Some (app_label, model_name) else None)
         else None)
      else None)"

definition get_model_from_path :: "(pystr \<Rightarrow> pystr \<Rightarrow> bool) \<Rightarrow> pystr \<Rightarrow> pystr option" where
  "get_model_from_path get_model path =
     (case match_admin_path path of
        None \<Rightarrow> None
      | Some (app_label, model_name) \<Rightarrow>
          if get_model app_label model_name then Some (app_label @ ''.'' @ model_name) else None)"

text \<open>\<open>__call__\<close> before \<open>get_response\<close>. Item assignment into a stored value that is not a dict
  raises \<open>TypeError\<close>: the result \<open>None\<close>.\<close>

definition admin_action_logger ::
  "(pystr \<Rightarrow> pystr \<Rightarrow> bool) \<Rightarrow> ((pystr \<times> pystr list) list \<Rightarrow> pystr) \<Rightarrow> http_request \<Rightarrow> session \<Rightarrow> session option" where
  "admin_action_logger get_model urlencode request session =
     (if req_method request = ''POST'' \<and> py_startswith (req_path request) ''/admin/'' \<and>
         ''action'' \<in> fst ` set (req_post request) then
        (case get_model_from_path get_model (req_path request) of
           None \<Rightarrow> Some session
         | Some model \<Rightarrow>
             (let action_data = SDict [(''path'', SStr (req_path request)), (''data'', SStr (urlencode (req_post request)))];
                  data = (if ''last_admin_action'' \<notin> fst ` set (sess_data session)
                          then dict_set (sess_data session) ''last_admin_action'' (SDict [])
                          else sess_data session)
              in case map_of data ''last_admin_action'' of
                   Some (SDict last_action) \<Rightarrow>
                     Some \<lparr>sess_data = dict_set data ''last_admin_action'' (SDict (dict_set last_action model action_data)),
                           sess_modified = True\<rparr>
                 | _ \<Rightarrow> None))
      else Some session)"

section \<open>BaseModelAdmin.changelist_view\<close>

text \<open>The extra context handed to Django's \<open>changelist_view\<close>. The stored action is copied
  before its \<open>data\<close> is replaced, so the session is not changed. A stored value that is not a
  dict fails: \<open>in\<close> on a string is a substring test, and indexing it by a string raises
  \<open>TypeError\<close>; a copy without \<open>data\<close> raises \<open>KeyError\<close>.\<close>

definition changelist_view ::
  "(pystr \<Rightarrow> (pystr \<times> pystr list) list) \<Rightarrow> pystr \<Rightarrow> pystr \<Rightarrow> session \<Rightarrow> (pystr, sess_val) pydict option \<Rightarrow>
   (pystr, sess_val) pydict option" where
  "changelist_view query_dict_lists app_label model_name session extra_context =
     (let extra = (case extra_context of None \<Rightarrow> [] | Some e \<Rightarrow> e);
          last_action = (case map_of (sess_data session) ''last_admin_action'' of None \<Rightarrow> SDict [] | Some v \<Rightarrow> v);
          model = app_label @ ''.'' @ model_name
      in case last_action of
           SDict la \<Rightarrow>
             (case map_of la model of
                None \<Rightarrow> Some extra
              | Some (SDict last_action_copy) \<Rightarrow>
                  (case map_of last_action_copy ''data'' of
                     None \<Rightarrow> None
                   | Some (SStr d) \<Rightarrow>
                       Some (dict_set extra ''last_action''
                         (SDict (dict_set last_action_copy ''data'' (SLists (query_dict_lists d)))))
                   | Some _ \<Rightarrow> Some (dict_set extra ''last_action'' (SDict last_action_copy)))
              | Some _ \<Rightarrow> None)
         | SStr s \<Rightarrow> if sublist model s then None else Some extra
         | SLists _ \<Rightarrow> None)"

section \<open>AdminSessionMiddleware: a process-wide setting written per request\<close>

text \<open>The middleware writes \<open>settings.SESSION_COOKIE_NAME\<close>, one value for the whole process;
  Django's \<open>SessionMiddleware\<close>, later in the chain, reads it when it loads the session and again
  when it sets the cookie. A request is the thread's sequence of these three steps; the threads
  of a server run their steps interleaved.\<close>

definition admin_session_cookie_name :: "pystr \<Rightarrow> pystr" where
  "admin_session_cookie_name path =
     (if py_startswith path ''/admin'' then ''admin_session_id'' else ''api_session_id'')"

datatype cookie_step = SetCookieName pystr | ReadCookieName

definition request_cookie_steps :: "pystr \<Rightarrow> cookie_step list" where
  "request_cookie_steps path = [SetCookieName path, ReadCookieName, ReadCookieName]"

fun run_cookie_steps :: "pystr \<Rightarrow> (nat \<times> cookie_step) list \<Rightarrow> (nat \<times> pystr) list" where
  "run_cookie_steps name [] = []"
| "run_cookie_steps name ((t, SetCookieName path) # ss) = run_cookie_steps (admin_session_cookie_name path) ss"
| "run_cookie_steps name ((t, ReadCookieName) # ss) = (t, name) # run_cookie_steps name ss"

fun interleavings :: "'a list \<Rightarrow> 'a list \<Rightarrow> 'a list list" where
  "interleavings [] ys = [ys]"
| "interleavings xs [] = [xs]"
| "interleavings (x # xs) (y # ys) =
     map (Cons x) (interleavings xs (y # ys)) @ map (Cons y) (interleavings (x # xs) ys)"

section \<open>AdjustSequenceMiddleware.process_exception\<close>

text \<open>The table name: \<open>re.search(r'duplicate key value violates unique constraint "(.*?)_pkey"', str(exception))\<close>.
  The search tries the start positions from the left; at a start the lazy group takes the
  shortest text that is followed by \<open>_pkey"\<close> and holds no newline.\<close>

definition pkey_prefix :: pystr where
  "pkey_prefix = ''duplicate key value violates unique constraint '' @ [CHR 0x22]"

definition pkey_suffix :: pystr where
  "pkey_suffix = ''_pkey'' @ [CHR 0x22]"

definition lazy_table_group :: "pystr \<Rightarrow> pystr option" where
  "lazy_table_group rest =
     (case filter (\<lambda>k. py_startswith (drop k rest) pkey_suffix) [0..<Suc (length rest)] of
        [] \<Rightarrow> None
      | k # _ \<Rightarrow> if CHR ''\<newline>'' \<in> set (take k rest) then None else Some (take k rest))"

fun search_table_name :: "pystr \<Rightarrow> pystr option" where
  "search_table_name [] = None"
| "search_table_name (c # cs) =
     (if py_startswith (c # cs) pkey_prefix then
        (case lazy_table_group (drop (length pkey_prefix) (c # cs)) of
           Some t \<Rightarrow> Some t
         | None \<Rightarrow> search_table_name cs)
      else search_table_name cs)"

text \<open>A PostgreSQL sequence: \<open>nextval\<close> returns \<open>last_value\<close> itself after
  \<open>setval(_, v, false)\<close> and its successor otherwise; \<open>COALESCE(MAX(id), 0)\<close> of the table is
  a parameter of the database state.\<close>

record pg_sequence =
  seq_last_value :: int
  seq_is_called :: bool

definition nextval :: "pg_sequence \<Rightarrow> int \<times> pg_sequence" where
  "nextval sq = (if seq_is_called sq then (seq_last_value sq + 1, \<lparr>seq_last_value = seq_last_value sq + 1, seq_is_called = True\<rparr>)
                 else (seq_last_value sq, sq\<lparr>seq_is_called := True\<rparr>))"

definition setval_false :: "int \<Rightarrow> pg_sequence \<Rightarrow> pg_sequence" where
  "setval_false v sq = \<lparr>seq_last_value = v, seq_is_called = False\<rparr>"

datatype 'r exception_result = NoResponse | Retried 'r

text \<open>The sequences of the database by name, the \<open>MAX(id)\<close> of the tables by name, and the
  retried \<open>get_response\<close>, which draws its id from the sequence.\<close>

definition adjust_sequence_process_exception ::
  "((pystr \<Rightarrow> pg_sequence) \<Rightarrow> 'r) \<Rightarrow> (pystr \<Rightarrow> int) \<Rightarrow> bool \<Rightarrow> pystr \<Rightarrow> (pystr \<Rightarrow> pg_sequence) \<Rightarrow>
   'r exception_result \<times> (pystr \<Rightarrow> pg_sequence)" where
  "adjust_sequence_process_exception get_response max_id is_integrity_error exception seqs =
     (if \<not> is_integrity_error then (NoResponse, seqs)
      else (case search_table_name exception of
        None \<Rightarrow> (NoResponse, seqs)
      | Some table_name \<Rightarrow>
          (let sequence_name = table_name @ ''_id_seq'';
               (current_sequence_value, sq) = nextval (seqs sequence_name);
               seqs' = seqs(sequence_name := sq)
           in if current_sequence_value \<le> max_id table_name then
                (let seqs'' = seqs'(sequence_name := setval_false (max_id table_name + 1) sq)
                 in (Retried (get_response seqs''), seqs''))
              else (NoResponse, seqs'))))"

section \<open>QueryLoggingMiddleware, DevProxyMiddleware, ArtificialDelayMiddleware\<close>

text \<open>A query is its time (in microseconds, \<open>float(query['time']) * 1000\<close> in milliseconds)
  and its SQL; the middleware reports the number of queries, their total time and the slow ones,
  cut to 1000 characters.\<close>

definition query_logging :: "(nat \<times> pystr) list \<Rightarrow> nat \<times> nat \<times> pystr list" where
  "query_logging queries =
     (length queries, foldl (\<lambda>total q. total + fst q) 0 queries,
      [take 1000 (snd q). q \<leftarrow> queries, 10000 < fst q])"

datatype proxy_result = Proxied pystr "(pystr \<times> pystr) list" | ProxyNotFound | PassedOn

definition proxy_headers :: "pystr list" where
  "proxy_headers = [''Content-Type'', ''Content-Length'', ''Last-Modified'', ''Cache-Control'', ''ETag'']"

text \<open>\<open>requests.get\<close> of the dev server: the response headers, or \<open>None\<close> for a
  \<open>RequestException\<close>.\<close>

definition dev_proxy :: "(pystr \<Rightarrow> (pystr \<times> pystr) list option) \<Rightarrow> pystr \<Rightarrow> proxy_result" where
  "dev_proxy requests_get path =
     (if py_startswith path ''/static/frontend/'' then
        (case requests_get (''http://localhost:5173'' @ path) of
           None \<Rightarrow> ProxyNotFound
         | Some headers \<Rightarrow> Proxied (''http://localhost:5173'' @ path) [(k, v) \<leftarrow> headers. k \<in> set proxy_headers])
      else PassedOn)"

text \<open>\<open>ARTIFICIAL_DELAY\<close> as its optional \<open>path\<close> and \<open>delay\<close>; the seconds slept.\<close>

definition artificial_delay :: "pystr option \<Rightarrow> nat option \<Rightarrow> pystr \<Rightarrow> nat" where
  "artificial_delay delay_path_opt delay_opt path =
     (let delay_time = (case delay_opt of None \<Rightarrow> 0 | Some d \<Rightarrow> d) in
      case delay_path_opt of
        Some delay_path \<Rightarrow> if delay_path \<noteq> [] \<and> 0 < delay_time \<and> py_startswith path delay_path then delay_time else 0
      | None \<Rightarrow> 0)"

section \<open>src/settings.py: the middleware chain and two helpers\<close>

datatype middleware = PatchMorsel | RequestID | AdminSession | AdminActionLogger | QueryLogging | DjangoMiddleware pystr

definition MIDDLEWARE :: "middleware list \<Rightarrow> middleware list" where
  "MIDDLEWARE base = [PatchMorsel, RequestID, AdminSession] @ base @ [AdminActionLogger, QueryLogging]"

definition immutable_file_test :: "pystr \<Rightarrow> pystr \<Rightarrow> bool" where
  "immutable_file_test path url =
     (if CHR ''.'' \<notin> set url then False
      else py_lower (rev (takeWhile (\<lambda>c. c \<noteq> CHR ''.'') (rev url))) \<in> {''jpg'', ''svg'', ''png'', ''woff'', ''woff2'', ''txt''})"

definition connect_src_ws :: "pystr \<Rightarrow> pystr" where
  "connect_src_ws frontend_url =
     (if py_startswith frontend_url ''https'' then ''ws'' @ drop 5 frontend_url
      else if py_startswith frontend_url ''http'' then ''ws'' @ drop 4 frontend_url
      else frontend_url)"

section \<open>Lemmas\<close>

lemma py_isword_slash [simp]: "\<not> py_isword (CHR ''/'')"
  by (simp add: py_isword_def py_isalnum_def cp_def)

lemma takeWhile_word_slash: "list_all py_isword a \<Longrightarrow> takeWhile py_isword (a @ CHR ''/'' # r) = a"
  by (induction a) auto

lemma match_admin_path_model:
  assumes "list_all py_isword a" "a \<noteq> []" "list_all py_isword m" "m \<noteq> []"
  shows "match_admin_path (''/admin/'' @ a @ ''/'' @ m @ ''/'' @ r) = Some (a, m)"
  using assms by (simp add: match_admin_path_def py_startswith_def Let_def takeWhile_word_slash)

text \<open>C36. A POST of an admin action to /admin/<app>/<model>/... stores the path and the urlencoded
  POST data under the model in the session; the next changelist_view of that model hands both to
  the template as last_action, the data parsed back by QueryDict, so that the action can be
  repeated with the same POST data whenever parsing inverts urlencode.\<close>

theorem last_action_roundtrip:
  assumes "list_all py_isword a" "a \<noteq> []" "list_all py_isword m" "m \<noteq> []" "get_model a m"
    "''action'' \<in> fst ` set post"
    "map_of (sess_data s) ''last_admin_action'' = None \<or> (\<exists>la. map_of (sess_data s) ''last_admin_action'' = Some (SDict la))"
    "query_dict_lists (urlencode post) = post"
  shows "\<exists>s'. admin_action_logger get_model urlencode
      \<lparr>req_method = ''POST'', req_path = ''/admin/'' @ a @ ''/'' @ m @ ''/'' @ r, req_post = post\<rparr> s = Some s' \<and>
    sess_modified s' \<and>
    changelist_view query_dict_lists a m s' extra_context =
      Some (dict_set (case extra_context of None \<Rightarrow> [] | Some e \<Rightarrow> e) ''last_action''
        (SDict [(''path'', SStr (''/admin/'' @ a @ ''/'' @ m @ ''/'' @ r)), (''data'', SLists post)]))"
proof -
  let ?path = "''/admin/'' @ a @ ''/'' @ m @ ''/'' @ r"
  have mp: "match_admin_path ?path = Some (a, m)"
    by (rule match_admin_path_model [OF assms(1-4)])
  have gm: "get_model_from_path get_model ?path = Some (a @ ''.'' @ m)"
    unfolding get_model_from_path_def using mp assms(5) by simp
  have "\<exists>la. map_of (if ''last_admin_action'' \<notin> fst ` set (sess_data s)
        then dict_set (sess_data s) ''last_admin_action'' (SDict []) else sess_data s) ''last_admin_action'' = Some (SDict la)"
  proof (cases "map_of (sess_data s) ''last_admin_action''")
    case None
    then have "''last_admin_action'' \<notin> fst ` set (sess_data s)"
      by (simp add: map_of_eq_None_iff)
    then show ?thesis
      by simp
  next
    case (Some v)
    then obtain la where "v = SDict la"
      using assms(7) by auto
    moreover have "''last_admin_action'' \<in> fst ` set (sess_data s)"
      using Some by (force dest: map_of_SomeD)
    ultimately show ?thesis
      using Some by auto
  qed
  then obtain la where la: "map_of (if ''last_admin_action'' \<notin> fst ` set (sess_data s)
        then dict_set (sess_data s) ''last_admin_action'' (SDict []) else sess_data s) ''last_admin_action'' = Some (SDict la)"
    by blast
  have ad: "dict_set [(''path'', SStr ?path), (''data'', SStr (urlencode post))] ''data'' (SLists post) =
      [(''path'', SStr ?path), (''data'', SLists post)]"
    by (simp add: dict_set_def)
  show ?thesis
    using assms(6,8) gm la ad
    by (simp add: admin_action_logger_def py_startswith_def changelist_view_def Let_def)
qed

theorem last_action_roundtrip_witness:
  "\<exists>s'. admin_action_logger (\<lambda>_ _. True) (\<lambda>_. ''action=delete'')
      \<lparr>req_method = ''POST'', req_path = ''/admin/'' @ ''app'' @ ''/'' @ ''item'' @ ''/'' @ [], req_post = [(''action'', [''delete''])]\<rparr>
      \<lparr>sess_data = [], sess_modified = False\<rparr> = Some s' \<and>
    sess_modified s' \<and>
    changelist_view (\<lambda>_. [(''action'', [''delete''])]) ''app'' ''item'' s' None =
      Some (dict_set [] ''last_action''
        (SDict [(''path'', SStr (''/admin/'' @ ''app'' @ ''/'' @ ''item'' @ ''/'' @ [])), (''data'', SLists [(''action'', [''delete''])])]))"
proof -
  have w1: "list_all py_isword ''app''" and w2: "list_all py_isword ''item''"
    by (simp_all add: py_isword_def py_isalnum_def cp_def)
  have h: "map_of (sess_data \<lparr>sess_data = [] :: (pystr, sess_val) pydict, sess_modified = False\<rparr>) ''last_admin_action'' = None \<or>
      (\<exists>la. map_of (sess_data \<lparr>sess_data = [] :: (pystr, sess_val) pydict, sess_modified = False\<rparr>) ''last_admin_action'' = Some (SDict la))"
    by simp
  have "\<exists>s'. admin_action_logger (\<lambda>_ _. True) (\<lambda>_. ''action=delete'')
      \<lparr>req_method = ''POST'', req_path = ''/admin/'' @ ''app'' @ ''/'' @ ''item'' @ ''/'' @ [], req_post = [(''action'', [''delete''])]\<rparr>
      \<lparr>sess_data = [], sess_modified = False\<rparr> = Some s' \<and>
    sess_modified s' \<and>
    changelist_view (\<lambda>_. [(''action'', [''delete''])]) ''app'' ''item'' s' None =
      Some (dict_set (case None of None \<Rightarrow> [] | Some e \<Rightarrow> e) ''last_action''
        (SDict [(''path'', SStr (''/admin/'' @ ''app'' @ ''/'' @ ''item'' @ ''/'' @ [])), (''data'', SLists [(''action'', [''delete''])])]))"
    by (rule last_action_roundtrip [OF w1 _ w2 _ _ _ h]) simp_all
  then show ?thesis
    by simp
qed

lemma interleavings_Nil [simp]: "ys \<in> set (interleavings [] ys)" "xs \<in> set (interleavings xs [])"
  by (simp, cases xs) simp_all

lemma interleavings_left: "zs \<in> set (interleavings xs (y # ys)) \<Longrightarrow> x # zs \<in> set (interleavings (x # xs) (y # ys))"
  by simp

lemma interleavings_right: "zs \<in> set (interleavings (x # xs) ys) \<Longrightarrow> y # zs \<in> set (interleavings (x # xs) (y # ys))"
  by simp

text \<open>C37. Run one after the other, an admin request and an API request each read their own session
  cookie name; but the name is a process-wide setting, and some interleaving of the two
  requests' steps makes the admin request load and save its session under the API cookie name.\<close>

theorem admin_session_race:
  assumes "py_startswith pa ''/admin''" "\<not> py_startswith pb ''/admin''"
  shows "run_cookie_steps n (map (Pair ta) (request_cookie_steps pa) @ map (Pair tb) (request_cookie_steps pb)) =
      [(ta, ''admin_session_id''), (ta, ''admin_session_id''), (tb, ''api_session_id''), (tb, ''api_session_id'')] \<and>
    (\<exists>sched. sched \<in> set (interleavings (map (Pair ta) (request_cookie_steps pa)) (map (Pair tb) (request_cookie_steps pb))) \<and>
       run_cookie_steps n sched =
         [(ta, ''api_session_id''), (ta, ''api_session_id''), (tb, ''api_session_id''), (tb, ''api_session_id'')])"
proof -
  let ?s = "[(ta, SetCookieName pa), (tb, SetCookieName pb), (ta, ReadCookieName), (ta, ReadCookieName),
             (tb, ReadCookieName), (tb, ReadCookieName)]"
  have "?s \<in> set (interleavings (map (Pair ta) (request_cookie_steps pa)) (map (Pair tb) (request_cookie_steps pb)))"
    unfolding request_cookie_steps_def list.map
    by (intro interleavings_left interleavings_right interleavings_Nil)
  moreover have "run_cookie_steps n ?s =
      [(ta, ''api_session_id''), (ta, ''api_session_id''), (tb, ''api_session_id''), (tb, ''api_session_id'')]"
    using assms(2) by (simp add: admin_session_cookie_name_def)
  moreover have "run_cookie_steps n (map (Pair ta) (request_cookie_steps pa) @ map (Pair tb) (request_cookie_steps pb)) =
      [(ta, ''admin_session_id''), (ta, ''admin_session_id''), (tb, ''api_session_id''), (tb, ''api_session_id'')]"
    using assms by (simp add: request_cookie_steps_def admin_session_cookie_name_def)
  ultimately show ?thesis
    by blast
qed

theorem admin_session_race_witness:
  "py_startswith ''/admin/x/'' ''/admin'' \<and> \<not> py_startswith ''/api/x/'' ''/admin'' \<and>
   (\<exists>sched. sched \<in> set (interleavings (map (Pair (1::nat)) (request_cookie_steps ''/admin/x/'')) (map (Pair 2) (request_cookie_steps ''/api/x/''))) \<and>
       run_cookie_steps '''' sched =
         [(1, ''api_session_id''), (1, ''api_session_id''), (2, ''api_session_id''), (2, ''api_session_id'')])"
proof -
  have h1: "py_startswith ''/admin/x/'' ''/admin''" and h2: "\<not> py_startswith ''/api/x/'' ''/admin''"
    by (simp_all add: py_startswith_def)
  show ?thesis
    using h1 h2 admin_session_race [OF h1 h2, of "''''" "1::nat" 2] by blast
qed

lemma nextval_after_setval: "fst (nextval (setval_false v sq)) = v"
  by (simp add: nextval_def setval_false_def)

lemma nextval_mono: "fst (nextval sq) < fst (nextval (snd (nextval sq)))"
  by (simp add: nextval_def)

text \<open>C38. Whenever the exception names a table's primary key, process_exception leaves that
  table's sequence so that the next id it hands out is larger than every id in the table; it
  retries the request exactly when the sequence was behind, after resetting it to MAX(id) + 1.\<close>

theorem adjust_sequence_fresh_id:
  assumes "search_table_name exception = Some t"
  shows "max_id t < fst (nextval (snd (adjust_sequence_process_exception get_response max_id True exception seqs)
                         (t @ ''_id_seq''))) \<and>
    (fst (adjust_sequence_process_exception get_response max_id True exception seqs) \<noteq> NoResponse \<longleftrightarrow>
     fst (nextval (seqs (t @ ''_id_seq''))) \<le> max_id t)"
proof (cases "fst (nextval (seqs (t @ ''_id_seq''))) \<le> max_id t")
  case True
  then show ?thesis
    using assms by (simp add: adjust_sequence_process_exception_def Let_def case_prod_beta nextval_after_setval)
next
  case False
  then show ?thesis
    using assms nextval_mono [of "seqs (t @ ''_id_seq'')"]
    by (simp add: adjust_sequence_process_exception_def Let_def case_prod_beta)
qed

lemma search_table_name_example:
  "search_table_name (pkey_prefix @ ''app_item'' @ pkey_suffix @ ''\<newline>DETAIL: Key (id)=(7) already exists.'') = Some ''app_item''"
  by code_simp

theorem adjust_sequence_fresh_id_witness:
  "search_table_name (pkey_prefix @ ''app_item'' @ pkey_suffix @ ''\<newline>DETAIL: Key (id)=(7) already exists.'') = Some ''app_item'' \<and>
   (7::int) < fst (nextval (snd (adjust_sequence_process_exception (\<lambda>_. ()) (\<lambda>_. 7) True
      (pkey_prefix @ ''app_item'' @ pkey_suffix @ ''\<newline>DETAIL: Key (id)=(7) already exists.'')
      (\<lambda>_. \<lparr>seq_last_value = 3, seq_is_called = True\<rparr>)) (''app_item'' @ ''_id_seq'')))"
  using search_table_name_example adjust_sequence_fresh_id [OF search_table_name_example, of "\<lambda>_. 7" "\<lambda>_. ()"
      "\<lambda>_. \<lparr>seq_last_value = 3, seq_is_called = True\<rparr>"] by simp

text \<open>Path matching of the admin logger and the settings helpers on concrete inputs.\<close>

lemma middleware_path_examples: "get_model_from_path (\<lambda>_ _. True) ''/admin/app/item/42/change/'' = Some ''app.item'' \<and>
   get_model_from_path (\<lambda>_ _. True) ''/admin/app/'' = None"
  by (simp add: get_model_from_path_def match_admin_path_def py_startswith_def Let_def py_isword_def py_isalnum_def cp_def)
lemma immutable_file_test_examples: "immutable_file_test '''' ''/static/logo.PNG'' \<and> \<not> immutable_file_test '''' ''/static/app.3f2a.js''"
  by (simp add: immutable_file_test_def py_lower_def)
lemma middleware_examples: "connect_src_ws ''https://app.example.com'' = ''ws://app.example.com'' \<and>
   artificial_delay (Some ''/api/'') (Some 2) ''/api/items'' = 2 \<and> artificial_delay (Some '''') (Some 2) ''/api/items'' = 0 \<and>
   dev_proxy (\<lambda>_. Some [(''content-type'', ''text/javascript''), (''ETag'', ''x'')]) ''/static/frontend/main.js'' =
     Proxied ''http://localhost:5173/static/frontend/main.js'' [(''ETag'', ''x'')] \<and>
   query_logging [(12000, ''SELECT 1''), (3000, ''SELECT 2'')] = (2, 15000, [''SELECT 1''])"
  by (simp add: connect_src_ws_def artificial_delay_def dev_proxy_def proxy_headers_def py_startswith_def query_logging_def)

end
