(* ===== verification/ConfigLoader.thy ===== *)
theory ConfigLoader
  imports Prelude
begin

text \<open>
  \<open>ConfigLoader\<close> of src/utils/config_loader.py: a setting is read from the environment, else
  from the \<open>DEFAULT\<close> section of an INI file that is parsed once per process and kept in the
  class-wide \<open>_config_cache\<close>; the string found is converted by \<open>cast\<close> or by the type of
  \<open>default\<close>. The file system is a map from a path to the parsed \<open>DEFAULT\<close> section of the
  file there (\<open>None\<close>: no file); \<open>configparser\<close> always has a \<open>DEFAULT\<close> section, so the
  \<open>else {}\<close> of line 15 is never taken. Reading an option of a section (\<open>SectionProxy.get\<close>,
  which lower-cases the name) and \<open>float()\<close> are parameters.
\<close>

section \<open>The cache\<close>

datatype 's cached_config = Section 's | EmptyConfig

type_synonym 's config_cache = "(pystr, 's cached_config) pydict"

definition py_truthy_str :: "pystr option \<Rightarrow> bool" where
  "py_truthy_str s \<longleftrightarrow> (case s of None \<Rightarrow> False | Some f \<Rightarrow> f \<noteq> [])"

definition load_config_file :: "(pystr \<Rightarrow> 's option) \<Rightarrow> pystr option \<Rightarrow> 's config_cache \<Rightarrow> 's config_cache" where
  "load_config_file fs config_file cache =
     (if py_truthy_str config_file \<and> the config_file \<notin> fst ` set cache then
        (case fs (the config_file) of
           Some default_section \<Rightarrow> dict_set cache (the config_file) (Section default_section)
         | None \<Rightarrow> dict_set cache (the config_file) EmptyConfig)
      else cache)"

definition cache_get :: "('s \<Rightarrow> pystr \<Rightarrow> pystr option) \<Rightarrow> 's config_cache \<Rightarrow> pystr option \<Rightarrow> pystr \<Rightarrow> pystr option" where
  "cache_get section_get cache config_file name =
     (case config_file of
        None \<Rightarrow> None
      | Some f \<Rightarrow> (case map_of cache f of
          Some (Section s) \<Rightarrow> section_get s name
        | _ \<Rightarrow> None))"

section \<open>Conversion of the value\<close>

text \<open>\<open>int(value)\<close>: blanks around, an optional sign, and ASCII digits with single underscores
  between them.\<close>

definition py_int_parse :: "pystr \<Rightarrow> int option" where
  "py_int_parse value =
     (let s = py_strip value;
          (neg, ds) = (case s of c # cs \<Rightarrow> if c = CHR ''-'' then (True, cs) else if c = CHR ''+'' then (False, cs) else (False, s)
                       | [] \<Rightarrow> (False, []));
          parts = py_split (CHR ''_'') ds
      in if (\<forall>p\<in>set parts. p \<noteq> [] \<and> list_all py_isdigit p)
         then Some ((if neg then -1 else 1) * int (py_int (concat parts))) else None)"

definition bool_strings :: "pystr list" where
  "bool_strings = [''true'', ''True'', ''TRUE'', ''1'', ''yes'', ''Yes'', ''YES'', ''on'', ''On'', ''ON'']"

datatype ('f, 'v) config_default =
  DBool bool | DInt int | DFloat 'f | DList "pystr list" | DStr pystr | DOther 'v

datatype ('f, 'v) config_value =
  CStr pystr | CBool bool | CInt int | CFloat 'f | CList "pystr list" | CDefault "('f, 'v) config_default" | CCast 'v

datatype 'e config_error = ValueError pystr | CastError 'e

definition config_convert_value ::
  "(pystr \<Rightarrow> 'f option) \<Rightarrow> (pystr \<Rightarrow> 'e + 'v) option \<Rightarrow> ('f, 'v) config_default option \<Rightarrow> pystr \<Rightarrow>
   'e config_error + ('f, 'v) config_value" where
  "config_convert_value float_parse cast default_val value =
     (case cast of
        Some c \<Rightarrow> (case c value of Inl e \<Rightarrow> Inl (CastError e) | Inr v \<Rightarrow> Inr (CCast v))
      | None \<Rightarrow> (case default_val of
          None \<Rightarrow> Inr (CStr value)
        | Some (DBool _) \<Rightarrow> Inr (CBool (py_lower value \<in> set bool_strings))
        | Some (DInt _) \<Rightarrow> (case py_int_parse value of
            Some i \<Rightarrow> Inr (CInt i)
          | None \<Rightarrow> Inl (ValueError (''invalid literal for int() with base 10: '' @ value)))
        | Some (DFloat _) \<Rightarrow> (case float_parse value of
            Some x \<Rightarrow> Inr (CFloat x)
          | None \<Rightarrow> Inl (ValueError (''could not convert string to float: '' @ value)))
        | Some (DList _) \<Rightarrow> Inr (CList (map py_strip (py_split (CHR '','') value)))
        | Some _ \<Rightarrow> Inr (CStr value)))"

definition not_set_error :: "pystr \<Rightarrow> pystr" where
  "not_set_error name = ''Environment variable '' @ [CHR 0x27] @ name @ [CHR 0x27] @
     '' is not set, and no default value provided.''"

definition config_result ::
  "(pystr \<Rightarrow> 'f option) \<Rightarrow> (pystr \<Rightarrow> 'e + 'v) option \<Rightarrow> ('f, 'v) config_default option \<Rightarrow> pystr \<Rightarrow> pystr option \<Rightarrow>
   'e config_error + ('f, 'v) config_value" where
  "config_result float_parse cast default_val name value =
     (case value of
        Some v \<Rightarrow> config_convert_value float_parse cast default_val v
      | None \<Rightarrow> (case default_val of Some d \<Rightarrow> Inr (CDefault d) | None \<Rightarrow> Inl (ValueError (not_set_error name))))"

section \<open>ConfigLoader.__call__\<close>

definition config_call ::
  "(pystr \<Rightarrow> pystr option) \<Rightarrow> (pystr \<Rightarrow> 's option) \<Rightarrow> ('s \<Rightarrow> pystr \<Rightarrow> pystr option) \<Rightarrow> (pystr \<Rightarrow> 'f option) \<Rightarrow>
   pystr option \<Rightarrow> pystr \<Rightarrow> ('f, 'v) config_default option \<Rightarrow> (pystr \<Rightarrow> 'e + 'v) option \<Rightarrow> 's config_cache \<Rightarrow>
   ('e config_error + ('f, 'v) config_value) \<times> 's config_cache" where
  "config_call environ fs section_get float_parse config_file name default_val cast cache =
     (case environ name of
        Some value \<Rightarrow> (config_result float_parse cast default_val name (Some value), cache)
      | None \<Rightarrow> (let cache' = load_config_file fs config_file cache in
          (config_result float_parse cast default_val name (cache_get section_get cache' config_file name), cache')))"

section \<open>What a setting is\<close>

text \<open>The setting a loader reads, without the cache: the environment first, then the file.\<close>

definition config_lookup ::
  "(pystr \<Rightarrow> pystr option) \<Rightarrow> (pystr \<Rightarrow> 's option) \<Rightarrow> ('s \<Rightarrow> pystr \<Rightarrow> pystr option) \<Rightarrow> pystr option \<Rightarrow> pystr \<Rightarrow> pystr option" where
  "config_lookup environ fs section_get config_file name =
     (case environ name of
        Some value \<Rightarrow> Some value
      | None \<Rightarrow> if py_truthy_str config_file then
                  (case fs (the config_file) of Some s \<Rightarrow> section_get s name | None \<Rightarrow> None)
                else None)"

text \<open>A cache agrees with the file system when each cached path holds what is there now.\<close>

definition cache_coherent :: "(pystr \<Rightarrow> 's option) \<Rightarrow> 's config_cache \<Rightarrow> bool" where
  "cache_coherent fs cache \<longleftrightarrow>
     (\<forall>(f, c)\<in>set cache. f \<noteq> [] \<and> c = (case fs f of Some s \<Rightarrow> Section s | None \<Rightarrow> EmptyConfig))"

section \<open>Lemmas\<close>

lemma map_of_coherent:
  "cache_coherent fs cache \<Longrightarrow> map_of cache f = Some c \<Longrightarrow>
     f \<noteq> [] \<and> c = (case fs f of Some s \<Rightarrow> Section s | None \<Rightarrow> EmptyConfig)"
  unfolding cache_coherent_def by (drule map_of_SomeD) auto

lemma load_config_file_coherent:
  "cache_coherent fs cache \<Longrightarrow> cache_coherent fs (load_config_file fs config_file cache)"
  by (auto simp: cache_coherent_def load_config_file_def py_truthy_str_def dict_set_def
      split: option.splits if_splits)

lemma cache_get_load:
  assumes "cache_coherent fs cache"
  shows "cache_get section_get (load_config_file fs config_file cache) config_file name =
    (if py_truthy_str config_file then (case fs (the config_file) of Some s \<Rightarrow> section_get s name | None \<Rightarrow> None)
     else None)"
proof (cases config_file)
  case None
  then show ?thesis
    by (simp add: cache_get_def py_truthy_str_def)
next
  case (Some f)
  note cf = this
  show ?thesis
  proof (cases "f = []")
    case True
    have "map_of cache [] = None"
      using map_of_coherent [OF assms] by (cases "map_of cache []") auto
    then show ?thesis
      using cf True by (simp add: cache_get_def py_truthy_str_def load_config_file_def)
  next
    case False
    show ?thesis
    proof (cases "map_of cache f")
      case None
      then have "f \<notin> fst ` set cache"
        by (simp add: map_of_eq_None_iff)
      then show ?thesis
        using cf False by (simp add: cache_get_def py_truthy_str_def load_config_file_def split: option.splits)
    next
      case (Some c)
      note c = this
      then have "f \<in> fst ` set cache"
        by (force dest: map_of_SomeD)
      then show ?thesis
        using cf False c map_of_coherent [OF assms c]
        by (simp add: cache_get_def py_truthy_str_def load_config_file_def split: option.splits)
    qed
  qed
qed

text \<open>C39. Against a cache that agrees with the file system, a call of the loader returns what the
  cache-free lookup (environment first, then the DEFAULT section of the file) prescribes, converted
  by cast or by the type of default, the default or the ValueError when nothing is found; and the
  cache it leaves still agrees.\<close>

theorem config_call_refines:
  assumes "cache_coherent fs cache"
  shows "fst (config_call environ fs section_get float_parse config_file name default_val cast cache) =
      config_result float_parse cast default_val name (config_lookup environ fs section_get config_file name) \<and>
    cache_coherent fs (snd (config_call environ fs section_get float_parse config_file name default_val cast cache))"
  using assms load_config_file_coherent [OF assms] cache_get_load [OF assms]
  by (simp add: config_call_def config_lookup_def Let_def split: option.splits)

theorem config_call_refines_witness:
  "fst (config_call (\<lambda>_. None) (\<lambda>_. Some [(''debug'', ''on'')]) (\<lambda>s n. map_of s (py_lower n)) (\<lambda>_. None :: unit option)
      (Some ''app.ini'') ''DEBUG'' (Some (DBool False)) (None :: (pystr \<Rightarrow> unit + unit) option) []) =
   Inr (CBool True)"
proof -
  have h: "cache_coherent (\<lambda>_. Some [(''debug'', ''on'')]) ([] :: ((pystr \<times> pystr) list) config_cache)"
    by (simp add: cache_coherent_def)
  show ?thesis
    using h config_call_refines [OF h, of "\<lambda>_. None" "\<lambda>s n. map_of s (py_lower n)" "\<lambda>_. None :: unit option"
        "Some ''app.ini''" "''DEBUG''" "Some (DBool False)" "None :: (pystr \<Rightarrow> unit + unit) option"]
    by (simp add: config_lookup_def config_result_def config_convert_value_def py_truthy_str_def py_lower_def bool_strings_def)
qed

text \<open>Conversions: only the listed spellings are true, \<open>int()\<close> takes blanks, a sign and
  underscores, and a list keeps an empty last item.\<close>

lemma config_loader_examples:
  "config_convert_value (\<lambda>_. None :: unit option) None (Some (DBool False)) ''Y'' = (Inr (CBool False) :: unit config_error + (unit, unit) config_value) \<and>
   config_convert_value (\<lambda>_. None :: unit option) None (Some (DInt 0)) '' -1_000 '' = (Inr (CInt (-1000)) :: unit config_error + (unit, unit) config_value) \<and>
   config_convert_value (\<lambda>_. None :: unit option) None (Some (DInt 0)) ''1.5'' =
     (Inl (ValueError ''invalid literal for int() with base 10: 1.5'') :: unit config_error + (unit, unit) config_value) \<and>
   config_convert_value (\<lambda>_. None :: unit option) None (Some (DList [])) ''a, b,'' = (Inr (CList [''a'', ''b'', '''']) :: unit config_error + (unit, unit) config_value)"
  by code_simp

text \<open>The cache is never refreshed: a file missing at the first call is remembered as empty, and a
  setting added to a file created later is not seen.\<close>

lemma config_cache_stale:
  "let cache1 = snd (config_call (\<lambda>_. None) (\<lambda>_. None) (\<lambda>s n. map_of s n) (\<lambda>_. None :: unit option)
                       (Some ''app.ini'') ''DEBUG'' (Some (DStr ''off'')) (None :: (pystr \<Rightarrow> unit + unit) option) [])
   in fst (config_call (\<lambda>_. None) (\<lambda>_. Some [(''DEBUG'', ''on'')]) (\<lambda>s n. map_of s n) (\<lambda>_. None :: unit option)
            (Some ''app.ini'') ''DEBUG'' (Some (DStr ''off'')) (None :: (pystr \<Rightarrow> unit + unit) option) cache1) =
        Inr (CDefault (DStr ''off'')) \<and>
      config_lookup (\<lambda>_. None) (\<lambda>_. Some [(''DEBUG'', ''on'')]) (\<lambda>s n. map_of s n) (Some ''app.ini'') ''DEBUG'' = Some ''on''"
  by (simp add: config_call_def load_config_file_def cache_get_def config_result_def config_lookup_def
      py_truthy_str_def dict_set_def Let_def)

end
