(* ===== verification/JSONField.thy ===== *)
theory JSONField
  imports Prelude
begin

text \<open>
  \<open>DotDict\<close> and \<open>JSONField\<close> of src/fields.py. A Python value is \<open>None\<close>, a bool, an int,
  a str, a list, a tuple, a plain \<open>dict\<close> or a \<open>DotDict\<close>; dicts have string keys in insertion
  order. \<open>DotDict(d)\<close> copies \<open>d\<close> with \<open>dict.__init__\<close> (which does not call the overridden
  \<open>__setitem__\<close>) and then assigns every item again through \<open>__setitem__\<close>, which converts the
  already converted value once more: each value is converted twice.
\<close>

datatype pyval = PNone | PBool bool | PInt int | PStr pystr | PList "pyval list" | PTuple "pyval list"
  | PDict "(pystr \<times> pyval) list" | PDotDict "(pystr \<times> pyval) list"

section \<open>DotDict._convert_value and DotDict.__init__\<close>

text \<open>The size of a value for the termination proof: a plain dict weighs one more than the
  \<open>DotDict\<close> it becomes.\<close>

fun pyval_weight :: "pyval \<Rightarrow> nat" and pydict_weight :: "(pystr \<times> pyval) list \<Rightarrow> nat" where
  "pyval_weight (PList xs) = Suc (sum_list (map pyval_weight xs))"
| "pyval_weight (PTuple xs) = Suc (sum_list (map pyval_weight xs))"
| "pyval_weight (PDict d) = Suc (Suc (pydict_weight d))"
| "pyval_weight (PDotDict d) = Suc (pydict_weight d)"
| "pyval_weight PNone = 1"
| "pyval_weight (PBool b) = 1"
| "pyval_weight (PInt i) = 1"
| "pyval_weight (PStr s) = 1"
| "pydict_weight [] = 0"
| "pydict_weight (kv # d) = Suc (pyval_weight (snd kv) + pydict_weight d)"

function (sequential) convert_value :: "pyval \<Rightarrow> pyval" and dot_dict :: "(pystr \<times> pyval) list \<Rightarrow> pyval" where
  "convert_value (PDict d) = dot_dict d"
| "convert_value (PList xs) = PList (map convert_value xs)"
| "convert_value (PTuple xs) = PTuple (map convert_value xs)"
| "convert_value v = v"
| "dot_dict d = PDotDict (map (\<lambda>kv. (fst kv, convert_value (convert_value (snd kv)))) d)"
  by pat_completeness auto

section \<open>DotDict attribute access\<close>

definition no_attribute :: "pystr \<Rightarrow> pystr" where
  "no_attribute attr = [CHR 0x27] @ ''DotDict'' @ [CHR 0x27] @ '' object has no attribute '' @ [CHR 0x27] @ attr @ [CHR 0x27]"

definition dotdict_getattr :: "(pystr \<times> pyval) list \<Rightarrow> pystr \<Rightarrow> pystr + pyval" where
  "dotdict_getattr d attr = (case map_of d attr of Some v \<Rightarrow> Inr v | None \<Rightarrow> Inl (no_attribute attr))"

text \<open>\<open>__setattr__\<close> converts and calls \<open>__setitem__\<close>, which converts again.\<close>

definition dotdict_setattr :: "(pystr \<times> pyval) list \<Rightarrow> pystr \<Rightarrow> pyval \<Rightarrow> (pystr \<times> pyval) list" where
  "dotdict_setattr d attr value = dict_set d attr (convert_value (convert_value value))"

definition dotdict_delattr :: "(pystr \<times> pyval) list \<Rightarrow> pystr \<Rightarrow> pystr + (pystr \<times> pyval) list" where
  "dotdict_delattr d attr = (if attr \<in> fst ` set d then Inr (dict_del d attr) else Inl (no_attribute attr))"

section \<open>JSONField\<close>

text \<open>The value the database driver hands over: \<open>None\<close>, a JSON string, or an already
  decoded value; \<open>json.loads\<close> is a parameter that may raise.\<close>

datatype db_json = DBNull | DBText pystr | DBDecoded pyval

definition wrap_dict :: "pyval \<Rightarrow> pyval" where
  "wrap_dict v = (case v of PDict d \<Rightarrow> dot_dict d | PDotDict d \<Rightarrow> dot_dict d | _ \<Rightarrow> v)"

definition from_db_value :: "(pystr \<Rightarrow> 'e + pyval) \<Rightarrow> db_json \<Rightarrow> 'e + pyval" where
  "from_db_value json_loads value = (case value of
     DBNull \<Rightarrow> Inr PNone
   | DBText s \<Rightarrow> (case json_loads s of Inl e \<Rightarrow> Inl e | Inr v \<Rightarrow> Inr (wrap_dict v))
   | DBDecoded v \<Rightarrow> Inr (wrap_dict v))"

text \<open>The \<open>default\<close> argument: the callable \<open>dict\<close> (the signature's default) or a value; only
  a value equal to \<open>{}\<close> is replaced by a \<open>DotDict\<close>.\<close>

datatype json_default = DefaultCallable pystr | DefaultValue pyval

definition json_field_default :: "json_default \<Rightarrow> json_default" where
  "json_field_default default_val = (case default_val of
     DefaultValue (PDict []) \<Rightarrow> DefaultValue (dot_dict [])
   | DefaultValue (PDotDict []) \<Rightarrow> DefaultValue (dot_dict [])
   | _ \<Rightarrow> default_val)"

section \<open>Converted values\<close>

text \<open>A value in which every dict, at any depth, is a \<open>DotDict\<close>; the value with every
  \<open>DotDict\<close> read as a plain dict; and a value without \<open>DotDict\<close> (what \<open>json.loads\<close>
  returns).\<close>

fun dotted :: "pyval \<Rightarrow> bool" where
  "dotted (PDict d) = False"
| "dotted (PDotDict d) = (\<forall>kv\<in>set d. dotted (snd kv))"
| "dotted (PList xs) = (\<forall>x\<in>set xs. dotted x)"
| "dotted (PTuple xs) = (\<forall>x\<in>set xs. dotted x)"
| "dotted v = True"

fun erase :: "pyval \<Rightarrow> pyval" where
  "erase (PDict d) = PDict (map (\<lambda>kv. (fst kv, erase (snd kv))) d)"
| "erase (PDotDict d) = PDict (map (\<lambda>kv. (fst kv, erase (snd kv))) d)"
| "erase (PList xs) = PList (map erase xs)"
| "erase (PTuple xs) = PTuple (map erase xs)"
| "erase v = v"

fun plain :: "pyval \<Rightarrow> bool" where
  "plain (PDotDict d) = False"
| "plain (PDict d) = (\<forall>kv\<in>set d. plain (snd kv))"
| "plain (PList xs) = (\<forall>x\<in>set xs. plain x)"
| "plain (PTuple xs) = (\<forall>x\<in>set xs. plain x)"
| "plain v = True"

section \<open>Lemmas\<close>

lemma pydict_weight_mem: "kv \<in> set d \<Longrightarrow> pyval_weight (snd kv) < Suc (pydict_weight d)"
  by (induction d) auto

lemma pyval_weight_mem: "x \<in> set xs \<Longrightarrow> pyval_weight x < Suc (sum_list (map pyval_weight xs))"
  by (induction xs) auto

lemma pydict_weight_map_le:
  "(\<And>kv. kv \<in> set d \<Longrightarrow> pyval_weight (f (snd kv)) \<le> pyval_weight (snd kv)) \<Longrightarrow>
   pydict_weight (map (\<lambda>kv. (fst kv, f (snd kv))) d) \<le> pydict_weight d"
  by (induction d) fastforce+

lemma convert_value_weight:
  "convert_value_dot_dict_dom (Inl v) \<Longrightarrow> pyval_weight (convert_value v) \<le> pyval_weight v"
  "convert_value_dot_dict_dom (Inr d) \<Longrightarrow> pyval_weight (dot_dict d) \<le> Suc (pydict_weight d)"
proof (induction v and d rule: convert_value_dot_dict.pinduct)
  case (1 d)
  then show ?case by (simp add: convert_value.psimps)
next
  case (2 xs)
  then show ?case by (simp add: convert_value.psimps sum_list_mono)
next
  case (3 xs)
  then show ?case by (simp add: convert_value.psimps sum_list_mono)
next
  case (5 d)
  have "\<And>kv. kv \<in> set d \<Longrightarrow> pyval_weight (convert_value (convert_value (snd kv))) \<le> pyval_weight (snd kv)"
    using "5.IH" le_trans by blast
  then have "pydict_weight (map (\<lambda>kv. (fst kv, convert_value (convert_value (snd kv)))) d) \<le> pydict_weight d"
    by (rule pydict_weight_map_le)
  then show ?case
    using "5.hyps" by (simp add: dot_dict.psimps)
qed (simp_all add: convert_value.psimps)

lemma convert_value_total: "All convert_value_dot_dict_dom"
proof (relation "measure (\<lambda>x. case x of Inl v \<Rightarrow> pyval_weight v | Inr d \<Rightarrow> Suc (pydict_weight d))")
  show "wf (measure (\<lambda>x. case x of Inl v \<Rightarrow> pyval_weight v | Inr d \<Rightarrow> Suc (pydict_weight d)))"
    by simp
qed (auto simp: pyval_weight_mem pydict_weight_mem
      intro: le_less_trans [OF convert_value_weight(1) pydict_weight_mem])

termination convert_value
  by (rule convert_value_total)

lemma convert_value_idem: "convert_value (convert_value v) = convert_value v"
  by (induction v) (simp_all add: comp_def)

lemma erase_convert_value: "erase (convert_value v) = erase v"
  by (induction v) (fastforce simp: comp_def convert_value_idem prod_set_simps)+

lemma plain_dotted_convert: "plain v \<Longrightarrow> dotted (convert_value v)"
  by (induction v) (auto simp: convert_value_idem)

section \<open>Properties\<close>

text \<open>C40. The conversion of \<open>DotDict\<close>, whose recursion converts the result of a conversion
  again, terminates on every value (its domain is everything); it only replaces dicts by
  \<open>DotDict\<close>s (erasing them gives the input back), converting twice is converting once, and on
  a value without \<open>DotDict\<close>s (what \<open>json.loads\<close> returns) every dict at any depth, inside lists
  and tuples too, becomes a \<open>DotDict\<close>.\<close>

theorem dotdict_conversion:
  "convert_value_dot_dict_dom (Inl v) \<and> erase (convert_value v) = erase v \<and>
   convert_value (convert_value v) = convert_value v \<and> (plain v \<longrightarrow> dotted (convert_value v))"
  using convert_value_total erase_convert_value convert_value_idem plain_dotted_convert by blast

theorem dotdict_conversion_witness:
  "plain (PDict [(''a'', PList [PDict [(''b'', PInt 1)]])]) \<and>
   dotted (convert_value (PDict [(''a'', PList [PDict [(''b'', PInt 1)]])])) \<and>
   erase (convert_value (PDict [(''a'', PList [PDict [(''b'', PInt 1)]])])) = PDict [(''a'', PList [PDict [(''b'', PInt 1)]])]"
proof -
  have h: "plain (PDict [(''a'', PList [PDict [(''b'', PInt 1)]])])"
    by simp
  show ?thesis
    using h dotdict_conversion [of "PDict [(''a'', PList [PDict [(''b'', PInt 1)]])]"] by simp
qed

text \<open>\<open>from_db_value\<close> converts only a dict at the top: a JSON list of objects keeps plain
  dicts, which have no attribute access; and the signature's \<open>default=dict\<close> is the callable,
  not \<open>{}\<close>, so a new instance holds a plain dict.\<close>

lemma json_field_examples:
  "from_db_value (\<lambda>_. Inr (PList [PDict [(''a'', PInt 1)]]) :: unit + pyval) (DBText ''[{x}]'') =
     Inr (PList [PDict [(''a'', PInt 1)]]) \<and>
   from_db_value (\<lambda>_. Inr (PDict [(''a'', PDict [])]) :: unit + pyval) (DBText ''{x}'') =
     Inr (PDotDict [(''a'', PDotDict [])]) \<and>
   json_field_default (DefaultCallable ''dict'') = DefaultCallable ''dict'' \<and>
   json_field_default (DefaultValue (PDict [])) = DefaultValue (PDotDict []) \<and>
   dotdict_getattr [(''a'', PInt 1)] ''b'' = Inl (no_attribute ''b'') \<and>
   dotdict_setattr [] ''a'' (PDict []) = [(''a'', PDotDict [])]"
  by (simp add: from_db_value_def wrap_dict_def json_field_default_def dotdict_getattr_def dotdict_setattr_def
      dict_set_def)

end
