(* ===== verification/FieldOptions.thy ===== *)
theory FieldOptions
  imports DateField JSONField
begin

text \<open>
  The constructors of the field classes of src/fields.py and the value descriptor of
  \<open>DateField\<close>. Each constructor builds a dict of defaults from \<open>form_blank\<close> and \<open>db_null\<close>
  (\<open>True\<close> when not given) and then applies \<open>defaults.update(kwargs)\<close>, so an explicit
  \<open>blank=\<close>/\<open>null=\<close> keyword overrides them; the result is what reaches Django's constructor.
  \<open>CleanValueDescriptor\<close>, installed by \<open>DateField.contribute_to_class\<close>, parses every
  assigned value with \<open>to_python\<close> before storing it in the instance's \<open>__dict__\<close>.
\<close>

section \<open>Constructor options\<close>

datatype opt_val = OBool bool | ONat nat | OStr pystr | OChoices "(pystr \<times> pystr) list"
  | OJSONDefault json_default | OEncoder pystr | OOther pystr

definition py_default_true :: "bool option \<Rightarrow> bool" where
  "py_default_true b = (case b of None \<Rightarrow> True | Some v \<Rightarrow> v)"

definition blank_null_defaults :: "bool option \<Rightarrow> bool option \<Rightarrow> (pystr, opt_val) pydict" where
  "blank_null_defaults form_blank db_null =
     [(''blank'', OBool (py_default_true form_blank)), (''null'', OBool (py_default_true db_null))]"

definition country_field_options ::
  "(pystr, pystr) pydict option \<Rightarrow> bool option \<Rightarrow> bool option \<Rightarrow> (pystr, opt_val) pydict \<Rightarrow>
   (pystr, pystr) pydict \<times> (pystr, opt_val) pydict" where
  "country_field_options mapping form_blank db_null kwargs =
     ((case mapping of None \<Rightarrow> [] | Some m \<Rightarrow> m), dict_update (blank_null_defaults form_blank db_null) kwargs)"

definition decimal_field_options :: "bool option \<Rightarrow> bool option \<Rightarrow> (pystr, opt_val) pydict \<Rightarrow> (pystr, opt_val) pydict" where
  "decimal_field_options form_blank db_null kwargs = dict_update (blank_null_defaults form_blank db_null) kwargs"

definition advanced_char_field_options :: "(pystr, opt_val) pydict \<Rightarrow> (pystr, opt_val) pydict" where
  "advanced_char_field_options kwargs =
     dict_update [(''max_length'', ONat 255), (''blank'', OBool True), (''null'', OBool False), (''default'', OStr '''')] kwargs"

definition char_field_options :: "bool option \<Rightarrow> bool option \<Rightarrow> (pystr, opt_val) pydict \<Rightarrow> (pystr, opt_val) pydict" where
  "char_field_options form_blank db_null kwargs =
     dict_update ([(''max_length'', ONat 255)] @ blank_null_defaults form_blank db_null @ [(''default'', OStr '''')]) kwargs"

definition date_field_options :: "bool option \<Rightarrow> bool option \<Rightarrow> (pystr, opt_val) pydict \<Rightarrow> (pystr, opt_val) pydict" where
  "date_field_options form_blank db_null kwargs =
     dict_update ([(''max_length'', ONat 255)] @ blank_null_defaults form_blank db_null) kwargs"

definition gender_field_options :: "bool option \<Rightarrow> bool option \<Rightarrow> (pystr, opt_val) pydict \<Rightarrow> (pystr, opt_val) pydict" where
  "gender_field_options form_blank db_null kwargs =
     dict_update ([(''max_length'', ONat 1)] @ blank_null_defaults form_blank db_null @
       [(''choices'', OChoices [(''U'', ''Unknown''), (''M'', ''Male''), (''F'', ''Female''), (''O'', ''Other'')]),
        (''default'', OStr ''U'')]) kwargs"

definition integer_field_options :: "bool option \<Rightarrow> bool option \<Rightarrow> (pystr, opt_val) pydict \<Rightarrow> (pystr, opt_val) pydict" where
  "integer_field_options form_blank db_null kwargs = dict_update (blank_null_defaults form_blank db_null) kwargs"

definition json_field_options ::
  "json_default \<Rightarrow> bool option \<Rightarrow> bool option \<Rightarrow> (pystr, opt_val) pydict \<Rightarrow> (pystr, opt_val) pydict" where
  "json_field_options default_val form_blank db_null kwargs =
     dict_update ([(''default'', OJSONDefault (json_field_default default_val))] @ blank_null_defaults form_blank db_null @
       [(''encoder'', OEncoder ''CustomJSONEncoder'')]) kwargs"

section \<open>CleanValueDescriptor\<close>

text \<open>An instance's \<open>__dict__\<close>; \<open>__get__\<close> on the class (\<open>instance is None\<close>) returns the
  descriptor itself, which is not a field value and is left out.\<close>

definition descriptor_get :: "pystr \<Rightarrow> (pystr, py_value) pydict \<Rightarrow> py_value" where
  "descriptor_get name inst = (case map_of inst name of Some v \<Rightarrow> v | None \<Rightarrow> PyNone)"

definition descriptor_set ::
  "(py_value \<Rightarrow> 'e + py_value) \<Rightarrow> pystr \<Rightarrow> (pystr, py_value) pydict \<Rightarrow> py_value \<Rightarrow> 'e + (pystr, py_value) pydict" where
  "descriptor_set to_python name inst value =
     (case to_python value of Inl e \<Rightarrow> Inl e | Inr parsed \<Rightarrow> Inr (dict_set inst name parsed))"

text \<open>Assigning to a \<open>DateField\<close> attribute of a model instance.\<close>

definition date_field_set :: "pystr \<Rightarrow> (pystr, py_value) pydict \<Rightarrow> py_value \<Rightarrow> field_error + (pystr, py_value) pydict" where
  "date_field_set name inst value = descriptor_set date_to_python name inst value"

section \<open>Lemmas\<close>

text \<open>An explicit \<open>blank\<close> keyword wins over \<open>form_blank\<close> (the code only comments out the
  warning it plans), and without either the field is blank and nullable.\<close>

lemma char_field_blank:
  "map_of (char_field_options form_blank db_null kwargs) ''blank'' =
     (case map_of (rev kwargs) ''blank'' of Some v \<Rightarrow> Some v | None \<Rightarrow> Some (OBool (py_default_true form_blank)))"
  by (simp add: char_field_options_def blank_null_defaults_def map_add_def split: option.splits)

lemma descriptor_set_error: "to_python v = Inl e \<Longrightarrow> descriptor_set to_python name inst v = Inl e"
  by (simp add: descriptor_set_def)

lemma descriptor_set_get:
  "to_python v = Inr p \<Longrightarrow> descriptor_set to_python name inst v = Inr inst' \<Longrightarrow> descriptor_get name inst' = p"
  by (auto simp: descriptor_set_def descriptor_get_def)

text \<open>Assigning a date string stores the parsed date; a string no format accepts raises the
  \<open>ValidationError\<close> at the assignment and the instance keeps its previous value.\<close>

lemma date_field_set_examples:
  "date_field_set ''birthday'' [] (PyStr ''25.10.2019'') = Inr [(''birthday'', PyDate (mk_date 2019 10 25))] \<and>
   date_field_set ''birthday'' [(''birthday'', PyNone)] (PyStr ''banana'') =
     Inl (ValidationError (not_recognized ''BANANA''))"
  by (simp add: date_field_set_def descriptor_set_def run_25_10_2019 run_banana dict_set_def)

lemma field_options_examples:
  "char_field_options None None [(''blank'', OBool False)] =
     [(''max_length'', ONat 255), (''blank'', OBool False), (''null'', OBool True), (''default'', OStr '''')] \<and>
   json_field_options (DefaultCallable ''dict'') None (Some False) [] =
     [(''default'', OJSONDefault (DefaultCallable ''dict'')), (''blank'', OBool True), (''null'', OBool False),
      (''encoder'', OEncoder ''CustomJSONEncoder'')]"
  by (simp add: char_field_options_def json_field_options_def blank_null_defaults_def py_default_true_def
      dict_update_def dict_set_def json_field_default_def)

end
