(* ===== verification/Serializers.thy ===== *)
theory Serializers
  imports Reporter Strptime
begin

text \<open>
  src/serializers.py: the JSON encoder of the session serializer and of \<open>JSONField\<close>, the
  \<open>ModelMethodField\<close> of the API serializers and \<open>DynamicFieldsModelSerializer\<close>. A
  \<open>Decimal\<close> is its sign, coefficient and exponent, as Python's \<open>decimal\<close> module stores it.
\<close>

section \<open>CustomJSONEncoder.default\<close>

record decimal_obj =
  dec_negative :: bool
  dec_coeff :: nat
  dec_exp :: int

text \<open>\<open>format(d, 'f')\<close>: the coefficient's digits with the point \<open>-exp\<close> places from the right
  (zero-padded on the left), or followed by \<open>exp\<close> zeros; a zero with a positive exponent is
  rescaled to exponent 0 first.\<close>

definition format_f :: "decimal_obj \<Rightarrow> pystr" where
  "format_f d =
     (let e = (if dec_coeff d = 0 \<and> 0 < dec_exp d then 0 else dec_exp d);
          ds = nat_str (dec_coeff d);
          sign = (if dec_negative d then ''-'' else '''')
      in if 0 \<le> e then sign @ ds @ replicate (nat e) (CHR ''0'')
         else (let k = nat (- e); ds' = replicate (Suc k - length ds) (CHR ''0'') @ ds in
               sign @ take (length ds' - k) ds' @ ''.'' @ drop (length ds' - k) ds'))"

definition py_rstrip :: "char \<Rightarrow> pystr \<Rightarrow> pystr" where
  "py_rstrip c s = rev (dropWhile (\<lambda>x. x = c) (rev s))"

definition dec_sign :: "decimal_obj \<Rightarrow> pystr" where
  "dec_sign d = (if dec_negative d then ''-'' else '''')"

definition decimal_json :: "decimal_obj \<Rightarrow> pystr" where
  "decimal_json d = py_rstrip (CHR ''.'') (py_rstrip (CHR ''0'') (format_f d))"

definition date_isoformat :: "date \<Rightarrow> pystr" where
  "date_isoformat d = pad_digits 4 (year d) @ ''-'' @ pad_digits 2 (month d) @ ''-'' @ pad_digits 2 (day d)"

text \<open>The objects the encoder is asked about: dates, datetimes (\<open>isoformat\<close> a parameter),
  decimals, model instances (the result of \<open>to_json()\<close> when the model has one, and
  \<open>str(obj)\<close>), and anything else, which goes to \<open>DjangoJSONEncoder.default\<close>.\<close>

datatype ('t, 'j, 'y) json_obj = JDate date | JDateTime 't | JDecimal decimal_obj | JModel "'j option" pystr | JOther 'y

datatype ('j, 'r) encoded = EncStr pystr | EncToJson 'j | EncSuper 'r

definition encoder_default ::
  "('t \<Rightarrow> pystr) \<Rightarrow> ('y \<Rightarrow> 'r) \<Rightarrow> ('t, 'j, 'y) json_obj \<Rightarrow> ('j, 'r) encoded" where
  "encoder_default isoformat super_default obj = (case obj of
     JDate d \<Rightarrow> EncStr (date_isoformat d)
   | JDateTime t \<Rightarrow> EncStr (isoformat t)
   | JDecimal d \<Rightarrow> EncStr (decimal_json d)
   | JModel (Some j) s \<Rightarrow> EncToJson j
   | JModel None s \<Rightarrow> EncStr s
   | JOther y \<Rightarrow> EncSuper (super_default y))"

text \<open>Reading a decimal string back as \<open>Decimal(s)\<close> does: its sign, the integer of its digits
  and the number of digits after the point.\<close>

definition parse_decimal_str :: "pystr \<Rightarrow> bool \<times> nat \<times> nat" where
  "parse_decimal_str s =
     (let neg = (take 1 s = ''-''); b = (if neg then drop 1 s else s);
          ip = takeWhile (\<lambda>c. c \<noteq> CHR ''.'') b; fp = drop 1 (dropWhile (\<lambda>c. c \<noteq> CHR ''.'') b)
      in (neg, py_int (ip @ fp), length fp))"

section \<open>Lemmas: digits, \<open>py_int\<close> and \<open>rstrip\<close>\<close>

lemma py_int_append:
  "py_int (s @ t) = py_int s * 10 ^ length (filter py_isdigit t) + py_int t"
proof (induction t rule: rev_induct)
  case (snoc c t)
  then show ?case
    by (cases "py_isdigit c") (simp_all add: py_int_def algebra_simps)
qed (simp add: py_int_def)

lemma py_int_zeros_only: "py_int (replicate n (CHR ''0'')) = 0"
  by (induction n) (simp_all add: py_int_def py_isdigit_def cp_def)

lemma py_int_zeros [simp]: "py_int (replicate n (CHR ''0'') @ s) = py_int s"
  by (simp add: py_int_append py_int_zeros_only)

lemma nat_str_digits: "c \<in> set (nat_str n) \<Longrightarrow> py_isdigit c"
  by (induction n rule: nat_str.induct) (subst (asm) nat_str.simps; auto split: if_splits)

lemma nat_str_ne [simp]: "nat_str n \<noteq> []"
  by (subst nat_str.simps) simp

lemma py_int_nat_str [simp]: "py_int (nat_str n) = n"
  by (induction n rule: nat_str.induct) (subst nat_str.simps; simp add: py_int_snoc_digit py_int_def)

lemma nat_str_times_10: "0 < n \<Longrightarrow> nat_str (n * 10) = nat_str n @ ''0''"
  by (subst nat_str.simps) simp

lemma nat_str_pow10:
  "0 < n \<Longrightarrow> nat_str (n * 10 ^ k) = nat_str n @ replicate k (CHR ''0'')"
proof (induction k)
  case (Suc k)
  have "nat_str (n * 10 ^ Suc k) = nat_str (n * 10 ^ k * 10)" by (simp add: ac_simps)
  also have "\<dots> = nat_str (n * 10 ^ k) @ ''0''" using Suc.prems by (simp add: nat_str_times_10)
  finally show ?case using Suc by (simp add: replicate_append_same[symmetric])
qed simp

lemma py_rstrip_snoc_same [simp]: "py_rstrip c (s @ [c]) = py_rstrip c s"
  by (simp add: py_rstrip_def)

lemma py_rstrip_replicate [simp]: "py_rstrip c (s @ replicate n c) = py_rstrip c s"
  by (induction n) (simp_all add: replicate_append_same[symmetric] append_assoc[symmetric] del: append_assoc)

lemma py_rstrip_snoc_other: "x \<noteq> c \<Longrightarrow> py_rstrip c (s @ [x]) = s @ [x]"
  by (simp add: py_rstrip_def)

lemma py_rstrip_no_char: "c \<notin> set s \<Longrightarrow> py_rstrip c s = s"
  by (induction s rule: rev_induct) (auto simp: py_rstrip_def)

lemma py_rstrip_append_other:
  "py_rstrip c t \<noteq> [] \<Longrightarrow> py_rstrip c (s @ t) = s @ py_rstrip c t"
  by (induction t rule: rev_induct) (auto simp: py_rstrip_def)

lemma py_rstrip_split: "\<exists>n. s = py_rstrip c s @ replicate n c"
proof (induction s rule: rev_induct)
  case (snoc x s)
  then show ?case
  proof (cases "x = c")
    case True
    with snoc obtain n where "s = py_rstrip c s @ replicate n c" by blast
    then have "s @ [x] = py_rstrip c (s @ [x]) @ replicate (Suc n) c"
      using True by (simp add: replicate_append_same[symmetric])
    then show ?thesis by blast
  qed (auto simp: py_rstrip_snoc_other intro: exI[of _ 0])
qed (simp add: py_rstrip_def)

lemma py_rstrip_nonempty: "0 < py_int s \<Longrightarrow> py_rstrip (CHR ''0'') s \<noteq> []"
  using py_rstrip_split[of s "CHR ''0''"] by (metis append_Nil py_int_zeros_only neq0_conv)

lemma py_int_append_zeros: "py_int (s @ replicate n (CHR ''0'')) = py_int s * 10 ^ n"
  by (simp add: py_int_append py_int_zeros_only py_isdigit_def cp_def)

lemma digits_no_point: "(\<And>c. c \<in> set s \<Longrightarrow> py_isdigit c) \<Longrightarrow> CHR ''.'' \<notin> set s"
proof
  assume "\<And>c. c \<in> set s \<Longrightarrow> py_isdigit c" "CHR ''.'' \<in> set s"
  then have "py_isdigit (CHR ''.'')" by blast
  then show False by (simp add: py_isdigit_def cp_def)
qed

lemma py_rstrip_subset: "set (py_rstrip c s) \<subseteq> set s"
  by (metis py_rstrip_split set_append sup_ge1)

lemma nat_str_no_point: "CHR ''.'' \<notin> set (nat_str n)"
  by (rule digits_no_point) (rule nat_str_digits)

lemma dec_sign_no_digit: "CHR ''0'' \<notin> set (dec_sign d)" "CHR ''.'' \<notin> set (dec_sign d)"
  by (simp_all add: dec_sign_def)

lemma format_f_integral:
  assumes "0 \<le> dec_exp d" "0 < dec_coeff d"
  shows "format_f d = dec_sign d @ nat_str (dec_coeff d * 10 ^ nat (dec_exp d))"
  using assms by (simp add: format_f_def dec_sign_def nat_str_pow10 Let_def)

lemma format_f_fraction:
  assumes "dec_exp d < 0"
  defines "k \<equiv> nat (- dec_exp d)"
  defines "ds \<equiv> replicate (Suc k - length (nat_str (dec_coeff d))) (CHR ''0'') @ nat_str (dec_coeff d)"
  shows "format_f d = dec_sign d @ take (length ds - k) ds @ ''.'' @ drop (length ds - k) ds"
  using assms by (simp add: format_f_def dec_sign_def Let_def)

lemma nat_str_zero: "nat_str 0 = ''0''"
  by (simp add: nat_str.simps)

lemma format_f_zero:
  "dec_coeff d = 0 \<Longrightarrow> 0 \<le> dec_exp d \<Longrightarrow> format_f d = dec_sign d @ ''0''"
  by (simp add: format_f_def dec_sign_def Let_def nat_str_zero)

lemma decimal_json_fraction_shape:
  assumes "dec_exp d < 0"
  obtains ip fp where "ip \<noteq> []" "list_all py_isdigit ip" "list_all py_isdigit fp"
    "decimal_json d = dec_sign d @ ip @ (if fp = [] then [] else CHR ''.'' # fp)"
    "length fp \<le> nat (- dec_exp d)"
    "py_int (ip @ fp) * 10 ^ (nat (- dec_exp d) - length fp) = dec_coeff d"
proof -
  define k where "k = nat (- dec_exp d)"
  define ds where "ds = replicate (Suc k - length (nat_str (dec_coeff d))) (CHR ''0'') @ nat_str (dec_coeff d)"
  define ip where "ip = take (length ds - k) ds"
  define fp where "fp = drop (length ds - k) ds"
  define fp' where "fp' = py_rstrip (CHR ''0'') fp"
  have len: "Suc k \<le> length ds" by (simp add: ds_def)
  have dig: "list_all py_isdigit ds"
    by (auto simp: ds_def list_all_iff py_isdigit_def cp_def dest: nat_str_digits)
  have ip: "ip \<noteq> []" "list_all py_isdigit ip"
    using len dig by (auto simp: ip_def list_all_iff dest: in_set_takeD)
  have fp: "list_all py_isdigit fp" "length fp = k"
    using len dig by (auto simp: fp_def list_all_iff dest: in_set_dropD)
  have fp': "list_all py_isdigit fp'"
    using fp py_rstrip_subset[of "CHR ''0''" fp] by (auto simp: fp'_def list_all_iff)
  obtain n where split: "fp = fp' @ replicate n (CHR ''0'')"
    using py_rstrip_split unfolding fp'_def by blast
  have ipdot: "CHR ''.'' \<notin> set ip" "CHR ''.'' \<notin> set fp'"
    using ip fp' digits_no_point by (auto simp: list_all_iff)
  have fmt: "format_f d = dec_sign d @ ip @ ''.'' @ fp"
    using format_f_fraction[OF assms] by (simp add: ip_def fp_def ds_def k_def)
  have js: "decimal_json d = dec_sign d @ ip @ (if fp' = [] then [] else CHR ''.'' # fp')"
  proof (cases "fp' = []")
    case True
    then have "format_f d = (dec_sign d @ ip @ ''.'') @ replicate n (CHR ''0'')"
      using split fmt by simp
    then have "py_rstrip (CHR ''0'') (format_f d) = dec_sign d @ ip @ ''.''"
      by (simp only: py_rstrip_replicate) (simp add: py_rstrip_def)
    then show ?thesis
      using True ipdot dec_sign_no_digit[of d] py_rstrip_snoc_same[of "CHR ''.''" "dec_sign d @ ip"]
      by (simp add: decimal_json_def py_rstrip_no_char)
  next
    case False
    then have "py_rstrip (CHR ''0'') (format_f d) = dec_sign d @ ip @ ''.'' @ fp'"
      using fmt by (simp add: fp'_def py_rstrip_append_other[of _ fp "dec_sign d @ ip @ ''.''", simplified])
    moreover have "py_rstrip (CHR ''.'') fp' = fp'" using ipdot by (simp add: py_rstrip_no_char)
    ultimately show ?thesis
      using False by (simp add: decimal_json_def py_rstrip_append_other[of _ fp' "dec_sign d @ ip @ ''.''", simplified])
  qed
  have "py_int (ip @ fp') * 10 ^ (k - length fp') = dec_coeff d"
  proof -
    have "py_int (ip @ fp) = py_int ds" by (simp add: ip_def fp_def)
    also have "\<dots> = dec_coeff d" by (simp add: ds_def)
    finally have "py_int (ip @ fp) = dec_coeff d" .
    moreover have "k - length fp' = n" using split fp by simp
    ultimately show ?thesis
      using split by (simp add: py_int_append_zeros append_assoc[symmetric] del: append_assoc)
  qed
  then show ?thesis
    using that[OF ip fp' js] fp split by (simp add: k_def)
qed

lemma parse_decimal_str_digits:
  assumes "ip \<noteq> []" "list_all py_isdigit ip" "list_all py_isdigit fp"
  shows "parse_decimal_str (dec_sign d @ ip @ (if fp = [] then [] else CHR ''.'' # fp))
           = (dec_negative d, py_int (ip @ fp), length fp)"
proof -
  have nodot: "\<forall>c\<in>set ip. c \<noteq> CHR ''.''" using assms(2) digits_no_point[of ip]
    by (auto simp: list_all_iff)
  obtain x xs where ip: "ip = x # xs" using assms(1) by (cases ip) auto
  have "x \<noteq> CHR ''-''" using assms(2) ip by (auto simp: py_isdigit_def cp_def)
  then show ?thesis
    using nodot ip by (simp add: parse_decimal_str_def dec_sign_def takeWhile_append2 dropWhile_append2)
qed

text \<open>C12. An integral \<open>Decimal\<close> is encoded as the digits of its value with every trailing zero
  stripped: \<open>Decimal('100')\<close> and \<open>Decimal('1E+2')\<close> both become \<open>"1"\<close>, and zero becomes the
  empty string.\<close>

theorem decimal_json_integral:
  assumes "0 \<le> dec_exp d"
  shows "decimal_json d = dec_sign d @ py_rstrip (CHR ''0'') (nat_str (dec_coeff d * 10 ^ nat (dec_exp d)))"
proof (cases "dec_coeff d = 0")
  case True
  then show ?thesis
    using assms dec_sign_no_digit[of d] py_rstrip_snoc_same[of "CHR ''0''" "dec_sign d"]
    by (simp add: decimal_json_def format_f_zero nat_str_zero py_rstrip_no_char)
       (simp add: py_rstrip_def)
next
  case False
  define s where "s = py_rstrip (CHR ''0'') (nat_str (dec_coeff d * 10 ^ nat (dec_exp d)))"
  have "s \<noteq> []" using False by (simp add: s_def py_rstrip_nonempty)
  moreover have "CHR ''.'' \<notin> set s"
    using py_rstrip_subset nat_str_no_point unfolding s_def by blast
  ultimately show ?thesis
    using assms False dec_sign_no_digit[of d]
    by (simp add: decimal_json_def format_f_integral py_rstrip_append_other py_rstrip_no_char s_def[symmetric])
qed

text \<open>C14. A decimal with a fractional part keeps its sign and its value through the encoder:
  \<open>Decimal\<close> reads the string back as a coefficient with at most as many places.\<close>

theorem decimal_json_fraction:
  assumes "dec_exp d < 0" "parse_decimal_str (decimal_json d) = (neg, c, k)"
  shows "neg = dec_negative d \<and> k \<le> nat (- dec_exp d)
           \<and> c * 10 ^ nat (- dec_exp d) = dec_coeff d * 10 ^ k"
proof -
  obtain ip fp where ip: "ip \<noteq> []" "list_all py_isdigit ip" and fp: "list_all py_isdigit fp"
    and js: "decimal_json d = dec_sign d @ ip @ (if fp = [] then [] else CHR ''.'' # fp)"
    and len: "length fp \<le> nat (- dec_exp d)"
    and val: "py_int (ip @ fp) * 10 ^ (nat (- dec_exp d) - length fp) = dec_coeff d"
    using decimal_json_fraction_shape[OF assms(1)] by blast
  have p: "neg = dec_negative d" "c = py_int (ip @ fp)" "k = length fp"
    using assms(2) parse_decimal_str_digits[OF ip fp, of d] js by simp_all
  have "c * 10 ^ nat (- dec_exp d) = c * 10 ^ (nat (- dec_exp d) - k) * 10 ^ k"
    using len p(3) by (simp add: power_add[symmetric])
  then show ?thesis using p val len by simp
qed

theorem decimal_json_integral_witness:
  "decimal_json \<lparr>dec_negative = False, dec_coeff = 100, dec_exp = 0\<rparr>
     = dec_sign \<lparr>dec_negative = False, dec_coeff = 100, dec_exp = 0\<rparr>
       @ py_rstrip (CHR ''0'') (nat_str (100 * 10 ^ nat 0))
   \<and> dec_sign \<lparr>dec_negative = False, dec_coeff = 100, dec_exp = 0\<rparr>
       @ py_rstrip (CHR ''0'') (nat_str (100 * 10 ^ nat 0)) = ''1''"
proof
  show "decimal_json \<lparr>dec_negative = False, dec_coeff = 100, dec_exp = 0\<rparr>
     = dec_sign \<lparr>dec_negative = False, dec_coeff = 100, dec_exp = 0\<rparr>
       @ py_rstrip (CHR ''0'') (nat_str (100 * 10 ^ nat 0))"
    using decimal_json_integral[of "\<lparr>dec_negative = False, dec_coeff = 100, dec_exp = 0\<rparr>"] by simp
  show "dec_sign \<lparr>dec_negative = False, dec_coeff = 100, dec_exp = 0\<rparr>
       @ py_rstrip (CHR ''0'') (nat_str (100 * 10 ^ nat 0)) = ''1''"
    by (simp add: dec_sign_def py_rstrip_def nat_str.simps)
qed

theorem decimal_json_fraction_witness:
  "dec_exp \<lparr>dec_negative = True, dec_coeff = 12340, dec_exp = -3\<rparr> < 0
   \<and> parse_decimal_str (decimal_json \<lparr>dec_negative = True, dec_coeff = 12340, dec_exp = -3\<rparr>)
       = (True, 1234, 2)
   \<and> 1234 * 10 ^ nat (- dec_exp \<lparr>dec_negative = True, dec_coeff = 12340, dec_exp = -3\<rparr>)
       = dec_coeff \<lparr>dec_negative = True, dec_coeff = 12340, dec_exp = -3\<rparr> * 10 ^ 2"
proof -
  have p: "parse_decimal_str (decimal_json \<lparr>dec_negative = True, dec_coeff = 12340, dec_exp = -3\<rparr>)
       = (True, 1234, 2)"
    by (simp add: decimal_json_def format_f_def py_rstrip_def nat_str.simps parse_decimal_str_def
        py_int_def py_isdigit_def cp_def digit_val_def)
  show ?thesis using decimal_json_fraction[OF _ p] p by simp
qed

end
