(* ===== verification/ModelMethodField.thy ===== *)
theory ModelMethodField
  imports Prelude
begin

text \<open>
  \<open>ModelMethodField\<close> of src/serializers.py: the attribute walk of \<open>get_field_value\<close> and the
  type dispatch of \<open>to_representation\<close>. A Python value is \<open>sval\<close>; attribute lookup is a
  parameter \<open>env\<close> that finds an attribute, finds none, or raises \<open>ValueError\<close> (as a Django
  related-object descriptor does on an unsaved instance). A method is \<open>SMethod r\<close>, the value
  it returns when called. The field's \<open>method_name\<close> is state: \<open>to_representation\<close> may
  rewrite it.
\<close>

datatype ('o, 'y) sval =
  SNone | SBool bool | SInt int | SStr pystr | STuple "('o, 'y) sval list"
  | SList "('o, 'y) sval list" | SObj 'o | SMethod "('o, 'y) sval" | SOther 'y

datatype 'v lookup = Missing | Found 'v | LookupValueError

type_synonym ('o, 'y) attr_env = "('o, 'y) sval \<Rightarrow> pystr \<Rightarrow> ('o, 'y) sval lookup"

datatype ser_error = SerValueError | SerTypeError pystr | SerAttributeError pystr | SerKeyError pystr
  | SerNameError pystr | SerAssertionError pystr

text \<open>\<open>getattr(obj, name, None)\<close> and \<open>hasattr(obj, name)\<close>: both let \<open>ValueError\<close> through.\<close>

definition py_getattr :: "('o, 'y) attr_env \<Rightarrow> ('o, 'y) sval \<Rightarrow> pystr \<Rightarrow> ser_error + ('o, 'y) sval" where
  "py_getattr env v n = (case env v n of Missing \<Rightarrow> Inr SNone | Found x \<Rightarrow> Inr x
                                       | LookupValueError \<Rightarrow> Inl SerValueError)"

definition py_hasattr :: "('o, 'y) attr_env \<Rightarrow> ('o, 'y) sval \<Rightarrow> pystr \<Rightarrow> ser_error + bool" where
  "py_hasattr env v n = (case env v n of Missing \<Rightarrow> Inr False | Found x \<Rightarrow> Inr True
                                       | LookupValueError \<Rightarrow> Inl SerValueError)"

text \<open>The loop of \<open>get_field_value\<close> (lines 89-98): \<open>None\<close> ends the walk, and a
  \<open>ValueError\<close> ends it too, leaving \<open>obj\<close> at the object reached so far.\<close>

fun get_field_value_loop :: "('o, 'y) attr_env \<Rightarrow> ('o, 'y) sval \<Rightarrow> pystr list \<Rightarrow> ('o, 'y) sval" where
  "get_field_value_loop env obj [] = obj"
| "get_field_value_loop env obj (part # parts) = (case env obj part of
       LookupValueError \<Rightarrow> obj
     | Missing \<Rightarrow> SNone
     | Found v \<Rightarrow> (case v of SNone \<Rightarrow> SNone | _ \<Rightarrow> get_field_value_loop env v parts))"

definition get_field_value :: "('o, 'y) attr_env \<Rightarrow> ('o, 'y) sval \<Rightarrow> pystr \<Rightarrow> ser_error + ('o, 'y) sval" where
  "get_field_value env obj field_name =
     (if CHR ''.'' \<notin> set field_name then py_getattr env obj field_name
      else Inr (get_field_value_loop env obj (py_split (CHR ''.'') field_name)))"

record model_method_field =
  method_name :: "pystr option"

definition mmf_init :: "pystr option \<Rightarrow> model_method_field" where
  "mmf_init m = \<lparr>method_name = m\<rparr>"

definition mmf_bind :: "model_method_field \<Rightarrow> pystr \<Rightarrow> model_method_field" where
  "mmf_bind f field_name = (if method_name f = None then f\<lparr>method_name := Some field_name\<rparr> else f)"

text \<open>What DRF's fields return: \<open>BooleanField\<close>, \<open>IntegerField\<close> (\<open>int(v)\<close>, so \<open>True\<close> is 1),
  \<open>CharField\<close> (\<open>str(v)\<close>, the parameter \<open>str_of\<close>), \<open>ListField\<close> (\<open>None\<close> items stay \<open>None\<close>), or
  the value itself.\<close>

datatype ('o, 'y) rep = RNone | RBool bool | RInt int | RStr pystr | RList "('o, 'y) rep list"
  | RValue "('o, 'y) sval"

definition is_int_value :: "('o, 'y) sval \<Rightarrow> bool" where
  "is_int_value v = (case v of SInt i \<Rightarrow> True | SBool b \<Rightarrow> True | _ \<Rightarrow> False)"

definition int_rep :: "('o, 'y) sval \<Rightarrow> ('o, 'y) rep" where
  "int_rep v = (case v of SInt i \<Rightarrow> RInt i | SBool b \<Rightarrow> RInt (of_bool b) | _ \<Rightarrow> RValue v)"

definition list_rep :: "(('o, 'y) sval \<Rightarrow> pystr) \<Rightarrow> ('o, 'y) sval list \<Rightarrow> ('o, 'y) rep" where
  "list_rep str_of vs =
     (let child = (if list_all is_int_value vs then int_rep else (\<lambda>v. RStr (str_of v))) in
      RList (map (\<lambda>v. case v of SNone \<Rightarrow> RNone | _ \<Rightarrow> child v) vs))"

text \<open>\<open>not value\<close>: Python truthiness; objects and other values ask \<open>truthy\<close> (their
  \<open>__bool__\<close>/\<open>__len__\<close>).\<close>

definition py_truthy :: "(('o, 'y) sval \<Rightarrow> bool) \<Rightarrow> ('o, 'y) sval \<Rightarrow> bool" where
  "py_truthy truthy v = (case v of SNone \<Rightarrow> False | SBool b \<Rightarrow> b | SInt i \<Rightarrow> i \<noteq> 0
     | SStr s \<Rightarrow> s \<noteq> [] | STuple vs \<Rightarrow> vs \<noteq> [] | SList vs \<Rightarrow> vs \<noteq> [] | SMethod r \<Rightarrow> True
     | _ \<Rightarrow> truthy v)"

definition is_bool :: "('o, 'y) sval \<Rightarrow> bool" where
  "is_bool v = (case v of SBool b \<Rightarrow> True | _ \<Rightarrow> False)"

text \<open>The dispatch of lines 132-154, in the code's order, the second \<open>bool\<close> test (which would
  raise, \<open>serializers.BoolField\<close> does not exist) included.\<close>

definition value_rep ::
  "(('o, 'y) sval \<Rightarrow> bool) \<Rightarrow> (('o, 'y) sval \<Rightarrow> pystr) \<Rightarrow> ('o, 'y) sval \<Rightarrow> ser_error + ('o, 'y) rep" where
  "value_rep truthy str_of value = (case value of
       SBool b \<Rightarrow> Inr (RBool b)
     | STuple vs \<Rightarrow> Inr (list_rep str_of vs)
     | SList vs \<Rightarrow> Inr (list_rep str_of vs)
     | SInt i \<Rightarrow> Inr (RInt i)
     | SStr s \<Rightarrow> Inr (RStr s)
     | _ \<Rightarrow> if is_bool value then Inl (SerAttributeError ''BoolField'')
           else if \<not> py_truthy truthy value then Inr RNone else Inr (RValue value))"

text \<open>\<open>to_representation\<close> (lines 102-154). An unbound field (no \<open>method_name\<close>) makes
  \<open>hasattr\<close> raise \<open>TypeError\<close>. The \<open>get_\<close> prefix is stored back into the field.\<close>

definition mmf_lookup :: "('o, 'y) attr_env \<Rightarrow> ('o, 'y) sval \<Rightarrow> pystr \<Rightarrow> ser_error + pystr" where
  "mmf_lookup env instance m = (case py_hasattr env instance m of
       Inl e \<Rightarrow> Inl e
     | Inr h \<Rightarrow> if \<not> h \<and> CHR ''.'' \<notin> set m then
                  (case py_hasattr env instance (''get_'' @ m) of
                     Inl e \<Rightarrow> Inl e | Inr True \<Rightarrow> Inr (''get_'' @ m) | Inr False \<Rightarrow> Inr m)
                else Inr m)"

definition mmf_value :: "('o, 'y) attr_env \<Rightarrow> ('o, 'y) sval \<Rightarrow> pystr \<Rightarrow> ser_error + ('o, 'y) sval" where
  "mmf_value env instance m = (case py_getattr env instance m of
       Inl e \<Rightarrow> Inl e
     | Inr (SMethod r) \<Rightarrow> Inr r
     | Inr _ \<Rightarrow> Inr (case get_field_value env instance m of Inl e \<Rightarrow> SNone | Inr v \<Rightarrow> v))"

definition mmf_to_representation ::
  "('o, 'y) attr_env \<Rightarrow> (('o, 'y) sval \<Rightarrow> bool) \<Rightarrow> (('o, 'y) sval \<Rightarrow> pystr) \<Rightarrow> model_method_field
   \<Rightarrow> ('o, 'y) sval \<Rightarrow> model_method_field \<times> (ser_error + ('o, 'y) rep)" where
  "mmf_to_representation env truthy str_of f instance = (case method_name f of
       None \<Rightarrow> (f, Inl (SerTypeError ''attribute name must be string''))
     | Some m \<Rightarrow> (case mmf_lookup env instance m of
         Inl e \<Rightarrow> (f, Inl e)
       | Inr m' \<Rightarrow> (let f' = f\<lparr>method_name := Some m'\<rparr> in
           case mmf_value env instance m' of
             Inl e \<Rightarrow> (f', Inl e)
           | Inr v \<Rightarrow> (f', value_rep truthy str_of v))))"

text \<open>A list serializer (\<open>many=True\<close>) renders every item with the same child, so one
  \<open>ModelMethodField\<close> object serves all items in turn; an exception ends the list.\<close>

fun mmf_render_many ::
  "('o, 'y) attr_env \<Rightarrow> (('o, 'y) sval \<Rightarrow> bool) \<Rightarrow> (('o, 'y) sval \<Rightarrow> pystr) \<Rightarrow> model_method_field
   \<Rightarrow> ('o, 'y) sval list \<Rightarrow> model_method_field \<times> (ser_error + ('o, 'y) rep list)" where
  "mmf_render_many env truthy str_of f [] = (f, Inr [])"
| "mmf_render_many env truthy str_of f (i # is) = (case mmf_to_representation env truthy str_of f i of
       (f', Inl e) \<Rightarrow> (f', Inl e)
     | (f', Inr r) \<Rightarrow> (case mmf_render_many env truthy str_of f' is of
          (f'', Inl e) \<Rightarrow> (f'', Inl e)
        | (f'', Inr rs) \<Rightarrow> (f'', Inr (r # rs))))"

text \<open>The walk a dotted name describes, as a reference: \<open>Some\<close> object at its end, \<open>None\<close> if an
  attribute is missing, \<open>None\<close> or raises on the way.\<close>

fun attr_path :: "('o, 'y) attr_env \<Rightarrow> ('o, 'y) sval \<Rightarrow> pystr list \<Rightarrow> ('o, 'y) sval option" where
  "attr_path env obj [] = Some obj"
| "attr_path env obj (p # ps) = (case env obj p of
       Found v \<Rightarrow> (case v of SNone \<Rightarrow> None | _ \<Rightarrow> attr_path env v ps)
     | _ \<Rightarrow> None)"

lemma get_field_value_loop_path:
  "attr_path env obj ps = Some v \<Longrightarrow> get_field_value_loop env obj ps = v"
  by (induction env obj ps rule: attr_path.induct) (auto split: lookup.splits sval.splits)

lemma get_field_value_loop_append:
  "attr_path env obj ps = Some v \<Longrightarrow>
   get_field_value_loop env obj (ps @ qs) = get_field_value_loop env v qs"
  by (induction env obj ps rule: attr_path.induct) (auto split: lookup.splits sval.splits)

lemma value_rep_Inr: "\<exists>r. value_rep truthy str_of v = Inr r"
  by (cases v) (simp_all add: value_rep_def is_bool_def)

text \<open>C4. A \<open>ValueError\<close> on a dotted name ends the walk at the object reached so far, which
  \<open>get_field_value\<close> returns as the field's value.\<close>

theorem get_field_value_parent:
  assumes "CHR ''.'' \<in> set name" "py_split (CHR ''.'') name = ps @ p # qs"
    "attr_path env obj ps = Some v" "env v p = LookupValueError"
  shows "get_field_value env obj name = Inr v"
  using assms by (simp add: get_field_value_def get_field_value_loop_append)

theorem get_field_value_parent_witness:
  "get_field_value (\<lambda>v n. if n = ''customer'' then LookupValueError else Missing)
     (SObj (1::nat) :: (nat, unit) sval) ''customer.name'' = Inr (SObj 1)"
  by (rule get_field_value_parent[where ps = "[]" and p = "''customer''" and qs = "[''name'']"])
     (simp_all add: py_split.simps)

text \<open>C21. One field object renders all items of a list: when the first item has no attribute
  \<open>m\<close> but a method \<open>get_m\<close>, the field keeps \<open>get_m\<close>, and a second item that has \<open>m\<close> and
  no \<open>get_m\<close> is rendered as \<open>None\<close>, though alone it renders its attribute.\<close>

theorem mmf_method_name_leaks:
  assumes "method_name f = Some m" "CHR ''.'' \<notin> set m"
    "env first m = Missing" "env first (''get_'' @ m) = Found (SMethod y)"
    "env second m = Found x" "env second (''get_'' @ m) = Missing" "env second (''get_get_'' @ m) = Missing"
  shows "\<exists>r. mmf_render_many env truthy str_of f [first, second]
              = (f\<lparr>method_name := Some (''get_'' @ m)\<rparr>, Inr [r, RNone])
           \<and> snd (mmf_to_representation env truthy str_of f second)
              = value_rep truthy str_of (case x of SMethod r \<Rightarrow> r | _ \<Rightarrow> x)"
proof -
  obtain r where r: "value_rep truthy str_of y = Inr r" using value_rep_Inr by blast
  have "CHR ''.'' \<notin> set (''get_'' @ m)" using assms(2) by simp
  then have "mmf_render_many env truthy str_of f [first, second]
              = (f\<lparr>method_name := Some (''get_'' @ m)\<rparr>, Inr [r, RNone])"
    using assms r
    by (simp add: mmf_to_representation_def mmf_lookup_def mmf_value_def py_hasattr_def
        py_getattr_def get_field_value_def value_rep_def is_bool_def py_truthy_def)
  moreover have "snd (mmf_to_representation env truthy str_of f second)
              = value_rep truthy str_of (case x of SMethod r \<Rightarrow> r | _ \<Rightarrow> x)"
    using assms
    by (cases x) (simp_all add: mmf_to_representation_def mmf_lookup_def mmf_value_def
        py_hasattr_def py_getattr_def get_field_value_def)
  ultimately show ?thesis by blast
qed

theorem mmf_method_name_leaks_witness:
  "\<exists>r. mmf_render_many (\<lambda>v n. if v = SObj 1 \<and> n = ''get_total'' then Found (SMethod (SInt 5))
                          else if v = SObj 2 \<and> n = ''total'' then Found (SInt 7) else Missing)
     (\<lambda>v. True) (\<lambda>v. []) (mmf_init (Some ''total'')) [SObj (1::nat) :: (nat, unit) sval, SObj 2]
     = ((mmf_init (Some ''total''))\<lparr>method_name := Some (''get_'' @ ''total'')\<rparr>, Inr [r, RNone])
   \<and> snd (mmf_to_representation (\<lambda>v n. if v = SObj 1 \<and> n = ''get_total'' then Found (SMethod (SInt 5))
                          else if v = SObj 2 \<and> n = ''total'' then Found (SInt 7) else Missing)
     (\<lambda>v. True) (\<lambda>v. []) (mmf_init (Some ''total'')) (SObj 2))
     = value_rep (\<lambda>v. True) (\<lambda>v. []) (case SInt 7 :: (nat, unit) sval of SMethod r \<Rightarrow> r | _ \<Rightarrow> SInt 7)"
  by (rule mmf_method_name_leaks[where y = "SInt 5"]) (simp_all add: mmf_init_def)

end
