(* ===== verification/DynamicSerializer.thy ===== *)
theory DynamicSerializer
  imports ModelMethodField "HOL-Library.Sublist"
begin

text \<open>
  \<open>DynamicFieldsModelSerializer\<close> of src/serializers.py and \<open>create_custom_subclass\<close>. The
  keyword arguments, the \<open>context\<close> and the model's \<open>serializer_defaults\<close> are dicts of
  parameter values \<open>sparam\<close>. \<open>Meta.model\<close> is a class attribute: the store \<open>meta\<close> maps a class
  name to the model its \<open>Meta\<close> holds, shared by every instance of the class. \<open>self.fields\<close>
  is computed on first access from the model the class's \<open>Meta\<close> holds at that moment
  (\<open>model_fields\<close> gives the model's field names), then cached in the instance.
\<close>

datatype dyn_entry = DynName pystr | DynPair pystr pystr

datatype 'm sparam = PModel 'm | PStr pystr | PList "dyn_entry list" | PDict "(pystr \<times> 'm sparam) list"
  | PNone

type_synonym 'm pdict = "(pystr, 'm sparam) pydict"

datatype 'm sfield = ModelField pystr | MethodField model_method_field
  | NestedSerializer pystr "'m sparam" "'m pdict"

record 'm dyn_ser =
  ds_class :: pystr
  ds_late_init :: bool
  ds_context :: "'m pdict"
  ds_fields :: "'m sparam"
  ds_dynamic :: "'m sparam"
  ds_exclude :: "'m sparam"
  ds_relations :: "'m sparam"
  ds_methods :: "'m sparam"
  ds_field_map :: "(pystr, 'm sfield) pydict option"

definition dict_get :: "('k, 'v) pydict \<Rightarrow> 'k \<Rightarrow> 'v \<Rightarrow> 'v" where
  "dict_get d k dflt = (case map_of d k of Some v \<Rightarrow> v | None \<Rightarrow> dflt)"

text \<open>The local \<open>get_param\<close> (lines 164-168): it reads the context when the context is not
  empty, and otherwise pops the keyword argument.\<close>

definition get_param ::
  "'m pdict \<Rightarrow> 'm pdict \<Rightarrow> 'm pdict \<Rightarrow> pystr \<Rightarrow> 'm sparam \<Rightarrow> 'm pdict \<times> 'm sparam" where
  "get_param context defaults kwargs name dflt =
     (if context \<noteq> [] then (kwargs, dict_get context name (dict_get defaults name dflt))
      else (dict_del kwargs name, dict_get kwargs name (dict_get defaults name dflt)))"

text \<open>The keyword arguments \<open>BaseSerializer.__init__\<close> and \<open>Field.__init__\<close> accept; any other
  raises \<open>TypeError\<close>.\<close>

definition serializer_kwargs :: "pystr list" where
  "serializer_kwargs = [''instance'', ''data'', ''partial'', ''context'', ''many'', ''read_only'',
     ''write_only'', ''required'', ''default'', ''initial'', ''source'', ''label'', ''help_text'',
     ''style'', ''error_messages'', ''validators'', ''allow_null'']"

definition super_init_check :: "'m pdict \<Rightarrow> ser_error option" where
  "super_init_check kwargs = (case filter (\<lambda>k. k \<notin> set serializer_kwargs) (map fst kwargs) of
       [] \<Rightarrow> None | k # ks \<Rightarrow> Some (SerTypeError (''unexpected keyword argument '' @ k)))"

definition pdict_of :: "'m sparam \<Rightarrow> 'm pdict" where
  "pdict_of v = (case v of PDict d \<Rightarrow> d | _ \<Rightarrow> [])"

text \<open>Truthiness of a parameter value (\<open>if not model\<close>, \<open>if model\<close>).\<close>

definition sparam_truthy :: "'m sparam \<Rightarrow> bool" where
  "sparam_truthy v = (case v of PModel m \<Rightarrow> True | PStr s \<Rightarrow> s \<noteq> [] | PList es \<Rightarrow> es \<noteq> []
     | PDict d \<Rightarrow> d \<noteq> [] | PNone \<Rightarrow> False)"

text \<open>Lines 181-188: the remaining parameters, then \<open>super().__init__\<close>.\<close>

definition dyn_init_rest :: "'m pdict \<Rightarrow> 'm pdict \<Rightarrow> 'm pdict \<Rightarrow> pystr \<Rightarrow> ser_error + 'm dyn_ser" where
  "dyn_init_rest context defaults kw1 cls =
     (let (kw2, fields) = get_param context defaults kw1 ''fields'' (PList []);
          (kw3, dynamic) = get_param context defaults kw2 ''dynamic'' (PList []);
          (kw4, exclude) = get_param context defaults kw3 ''exclude'' (PList []);
          (kw5, relations) = get_param context defaults kw4 ''relations'' (PDict []);
          (kw6, methods) = get_param context defaults kw5 ''methods'' (PDict [])
      in case super_init_check kw6 of
           Some e \<Rightarrow> Inl e
         | None \<Rightarrow> Inr \<lparr>ds_class = cls, ds_late_init = False, ds_context = context,
                       ds_fields = fields, ds_dynamic = dynamic, ds_exclude = exclude,
                       ds_relations = relations, ds_methods = methods, ds_field_map = None\<rparr>)"

text \<open>\<open>__init__\<close> (lines 157-188). \<open>first_arg\<close> is the class of \<open>args[0]\<close> when that is a model
  instance; \<open>serializer_defaults\<close> is \<open>model._meta.serializer_defaults\<close> where it exists.\<close>

definition dyn_init ::
  "(pystr \<Rightarrow> 'm sparam option) \<Rightarrow> pystr \<Rightarrow> ('m \<Rightarrow> 'm pdict option) \<Rightarrow> 'm option \<Rightarrow> 'm pdict
   \<Rightarrow> (pystr \<Rightarrow> 'm sparam option) \<times> (ser_error + 'm dyn_ser)" where
  "dyn_init meta cls serializer_defaults first_arg kwargs =
     (let context = pdict_of (dict_get kwargs ''context'' (PDict []));
          (kw1, mv) = get_param context [] kwargs ''model'' PNone;
          model = (if \<not> sparam_truthy mv \<and> context = []
                   then (case first_arg of Some m \<Rightarrow> PModel m | None \<Rightarrow> mv) else mv)
      in if sparam_truthy model then
           (case model of
              PModel m \<Rightarrow> (meta(cls := Some model),
                 dyn_init_rest context (case serializer_defaults m of Some d \<Rightarrow> d | None \<Rightarrow> []) kw1 cls)
            | _ \<Rightarrow> (meta(cls := Some model), Inl (SerAttributeError ''_meta'')))
         else (meta, dyn_init_rest context [] kw1 cls))"

text \<open>\<open>self.fields\<close>: built from the class's \<open>Meta.model\<close> on first access (\<open>ModelSerializer\<close>
  asserts the model is set), then the cached dict.\<close>

definition dyn_get_fields ::
  "('m \<Rightarrow> pystr list) \<Rightarrow> (pystr \<Rightarrow> 'm sparam option) \<Rightarrow> 'm dyn_ser
   \<Rightarrow> ser_error + (pystr, 'm sfield) pydict" where
  "dyn_get_fields model_fields meta s = (case ds_field_map s of
       Some fm \<Rightarrow> Inr fm
     | None \<Rightarrow> (case meta (ds_class s) of
         None \<Rightarrow> Inl (SerAssertionError ''Class Meta missing model attribute'')
       | Some (PModel m) \<Rightarrow> Inr (map (\<lambda>n. (n, ModelField n)) (model_fields m))
       | Some v \<Rightarrow> Inl (SerAttributeError ''_meta'')))"

text \<open>Iterating a parameter: a list gives its items, a string its characters, a dict its keys;
  \<open>None\<close> is not iterable.\<close>

definition py_iter :: "'m sparam \<Rightarrow> ser_error + dyn_entry list" where
  "py_iter v = (case v of PList es \<Rightarrow> Inr es | PStr s \<Rightarrow> Inr (map (\<lambda>c. DynName [c]) s)
     | PDict d \<Rightarrow> Inr (map (DynName \<circ> fst) d) | PModel m \<Rightarrow> Inl (SerTypeError ''not iterable'')
     | PNone \<Rightarrow> Inl (SerTypeError ''not iterable''))"

definition pop_entry :: "(pystr, 'f) pydict \<Rightarrow> dyn_entry \<Rightarrow> (pystr, 'f) pydict" where
  "pop_entry fm e = (case e of DynName n \<Rightarrow> dict_del fm n | DynPair a b \<Rightarrow> fm)"

definition dyn_names :: "dyn_entry \<Rightarrow> pystr \<times> pystr" where
  "dyn_names e = (case e of DynName n \<Rightarrow> (n, n) | DynPair f m \<Rightarrow> (f, m))"

text \<open>\<open>create_custom_subclass(DynamicFieldsModelSerializer, model, name_suffix)\<close>: the class name.\<close>

definition custom_subclass_name :: "pystr \<Rightarrow> pystr" where
  "custom_subclass_name name_suffix = ''DynamicFieldsModelSerializer_'' @ name_suffix"

text \<open>The inner loop (lines 224-235): \<open>relation_info['model']\<close> for every relation.\<close>

fun install_relations ::
  "(pystr, 'm sfield) pydict \<Rightarrow> 'm pdict \<Rightarrow> (pystr, 'm sfield) pydict \<times> ser_error option" where
  "install_relations fm [] = (fm, None)"
| "install_relations fm ((rn, info) # rs) = (case info of
       PDict d \<Rightarrow> (case map_of d ''model'' of
           Some v \<Rightarrow> (case v of
               PModel m \<Rightarrow> install_relations (dict_set fm rn (NestedSerializer (custom_subclass_name rn) v d)) rs
             | _ \<Rightarrow> if sparam_truthy v then (fm, Some (SerAttributeError ''_meta''))
                    else install_relations (dict_set fm rn (NestedSerializer (custom_subclass_name rn) v d)) rs)
         | None \<Rightarrow> (fm, Some (SerKeyError ''model'')))
     | _ \<Rightarrow> (fm, Some (SerTypeError ''relation info is not a dict'')))"

text \<open>The outer loop (lines 212-235): the relations loop is inside it.\<close>

fun install_dynamic ::
  "'m sparam \<Rightarrow> (pystr, 'm sfield) pydict \<Rightarrow> dyn_entry list
   \<Rightarrow> (pystr, 'm sfield) pydict \<times> ser_error option" where
  "install_dynamic rels fm [] = (fm, None)"
| "install_dynamic rels fm (e # es) =
     (let (fname, mname) = dyn_names e;
          fm1 = dict_set fm fname (MethodField (mmf_init (Some mname)))
      in case rels of
           PDict d \<Rightarrow> (case install_relations fm1 d of
               (fm2, None) \<Rightarrow> install_dynamic rels fm2 es
             | (fm2, Some err) \<Rightarrow> (fm2, Some err))
         | _ \<Rightarrow> (fm1, Some (SerAttributeError ''items'')))"

definition dyn_access ::
  "('m \<Rightarrow> pystr list) \<Rightarrow> (pystr \<Rightarrow> 'm sparam option) \<Rightarrow> 'm dyn_ser
   \<Rightarrow> ser_error + 'm dyn_ser \<times> (pystr, 'm sfield) pydict" where
  "dyn_access model_fields meta s = (case dyn_get_fields model_fields meta s of
       Inl e \<Rightarrow> Inl e | Inr fm \<Rightarrow> Inr (s\<lparr>ds_field_map := Some fm\<rparr>, fm))"

text \<open>Lines 202-210: with \<open>'__all__'\<close> pop the excluded names, otherwise pop every field not
  named in \<open>_fields\<close> or \<open>_dynamic\<close>. \<open>self.fields\<close> is first read by the first \<open>pop\<close>.\<close>

definition prune_fields ::
  "('m \<Rightarrow> pystr list) \<Rightarrow> (pystr \<Rightarrow> 'm sparam option) \<Rightarrow> 'm dyn_ser \<Rightarrow> 'm dyn_ser \<times> ser_error option" where
  "prune_fields model_fields meta s =
     (if ds_fields s = PStr ''__all__'' then
        (case py_iter (ds_exclude s) of
           Inl e \<Rightarrow> (s, Some e)
         | Inr [] \<Rightarrow> (s, None)
         | Inr ex \<Rightarrow> (case dyn_access model_fields meta s of
             Inl e \<Rightarrow> (s, Some e)
           | Inr (s', fm) \<Rightarrow> (s'\<lparr>ds_field_map := Some (foldl pop_entry fm ex)\<rparr>, None)))
      else (case py_iter (ds_fields s) of
           Inl e \<Rightarrow> (s, Some e)
         | Inr fs \<Rightarrow> (case py_iter (ds_dynamic s) of
             Inl e \<Rightarrow> (s, Some e)
           | Inr ds \<Rightarrow> (case dyn_access model_fields meta s of
               Inl e \<Rightarrow> (s, Some e)
             | Inr (s', fm) \<Rightarrow>
                 (s'\<lparr>ds_field_map := Some (filter (\<lambda>(n, f). DynName n \<in> set fs \<union> set ds) fm)\<rparr>,
                  None)))))"

definition add_dynamic_fields ::
  "('m \<Rightarrow> pystr list) \<Rightarrow> (pystr \<Rightarrow> 'm sparam option) \<Rightarrow> 'm dyn_ser \<Rightarrow> 'm dyn_ser \<times> ser_error option" where
  "add_dynamic_fields model_fields meta s = (case py_iter (ds_dynamic s) of
       Inl e \<Rightarrow> (s, Some e)
     | Inr [] \<Rightarrow> (s, None)
     | Inr ds \<Rightarrow> (case dyn_access model_fields meta s of
         Inl e \<Rightarrow> (s, Some e)
       | Inr (s', fm) \<Rightarrow> (case install_dynamic (ds_relations s) fm ds of
           (fm', err) \<Rightarrow> (s'\<lparr>ds_field_map := Some fm'\<rparr>, err))))"

text \<open>\<open>late_init\<close> (lines 190-235). The flag is set before any work, so a late_init that
  raises leaves the flag set and the fields as far as it got.\<close>

definition late_init ::
  "('m \<Rightarrow> pystr list) \<Rightarrow> (pystr \<Rightarrow> 'm sparam option) \<Rightarrow> 'm dyn_ser \<Rightarrow> 'm dyn_ser \<times> ser_error option" where
  "late_init model_fields meta s =
     (if ds_late_init s then (s, None) else
      case prune_fields model_fields meta (s\<lparr>ds_late_init := True\<rparr>) of
        (s', Some e) \<Rightarrow> (s', Some e)
      | (s', None) \<Rightarrow> add_dynamic_fields model_fields meta s')"

text \<open>The loop of \<open>to_representation\<close> over \<open>self._context['relations']\<close> (lines 249-268):
  a relation with a \<open>'method'\<close> key is rendered from the method's result by the field of the
  same name. \<open>call_method\<close> gives the method's result, \<open>None\<close> when it is not callable.\<close>

fun relation_methods ::
  "('i \<Rightarrow> pystr \<Rightarrow> 'a option) \<Rightarrow> ('m sfield \<Rightarrow> 'a \<Rightarrow> 'x) \<Rightarrow> (pystr, 'm sfield) pydict \<Rightarrow> 'i
   \<Rightarrow> (pystr, 'x) pydict \<Rightarrow> 'm pdict \<Rightarrow> ser_error + (pystr, 'x) pydict" where
  "relation_methods call_method field_rep fm instance rep [] = Inr rep"
| "relation_methods call_method field_rep fm instance rep ((fname, info) # rs) = (case info of
       PDict d \<Rightarrow> (case map_of d ''method'' of
           None \<Rightarrow> relation_methods call_method field_rep fm instance rep rs
         | Some (PStr mname) \<Rightarrow> (case call_method instance mname of
             None \<Rightarrow> relation_methods call_method field_rep fm instance rep rs
           | Some value \<Rightarrow> (case map_of fm fname of
               None \<Rightarrow> Inl (SerKeyError fname)
             | Some field \<Rightarrow> relation_methods call_method field_rep fm instance
                               (dict_set rep fname (field_rep field value)) rs))
         | Some v \<Rightarrow> Inl (SerTypeError ''attribute name must be string''))
     | PList es \<Rightarrow> if DynName ''method'' \<in> set es then Inl (SerTypeError ''list indices must be integers'')
                    else relation_methods call_method field_rep fm instance rep rs
     | PStr s \<Rightarrow> if sublist ''method'' s then Inl (SerTypeError ''string indices must be integers'')
                  else relation_methods call_method field_rep fm instance rep rs
     | _ \<Rightarrow> Inl (SerTypeError ''argument is not iterable''))"

text \<open>Line 271: the dict comprehension renaming every key, in order.\<close>

definition underscore_keys :: "(pystr, 'x) pydict \<Rightarrow> (pystr, 'x) pydict" where
  "underscore_keys rep = dict_update [] (map (\<lambda>(k, v). (str_replace ''.'' ''_'' k, v)) rep)"

text \<open>\<open>to_representation\<close> (lines 238-271). \<open>super_rep\<close> is \<open>ModelSerializer.to_representation\<close>
  over the fields; it may update the fields (a \<open>ModelMethodField\<close> stores its method name).\<close>

definition dyn_to_representation ::
  "('m \<Rightarrow> pystr list) \<Rightarrow> (pystr \<Rightarrow> 'm sparam option)
   \<Rightarrow> ((pystr, 'm sfield) pydict \<Rightarrow> 'i \<Rightarrow> (pystr, 'm sfield) pydict \<times> (ser_error + (pystr, 'x) pydict))
   \<Rightarrow> ('i \<Rightarrow> pystr \<Rightarrow> 'a option) \<Rightarrow> ('m sfield \<Rightarrow> 'a \<Rightarrow> 'x) \<Rightarrow> 'm dyn_ser \<Rightarrow> 'i
   \<Rightarrow> 'm dyn_ser \<times> (ser_error + (pystr, 'x) pydict)" where
  "dyn_to_representation model_fields meta super_rep call_method field_rep s instance =
     (case late_init model_fields meta s of
        (s1, Some e) \<Rightarrow> (s1, Inl e)
      | (s1, None) \<Rightarrow> (case dyn_access model_fields meta s1 of
          Inl e \<Rightarrow> (s1, Inl e)
        | Inr (s2, fm) \<Rightarrow> (case super_rep fm instance of
            (fm', Inl e) \<Rightarrow> (s2\<lparr>ds_field_map := Some fm'\<rparr>, Inl e)
          | (fm', Inr rep) \<Rightarrow> (s2\<lparr>ds_field_map := Some fm'\<rparr>,
              case dict_get (ds_context s2) ''relations'' (PDict []) of
                PDict rels \<Rightarrow> (case relation_methods call_method field_rep fm' instance rep rels of
                    Inl e \<Rightarrow> Inl e | Inr rep' \<Rightarrow> Inr (underscore_keys rep'))
              | _ \<Rightarrow> Inl (SerAttributeError ''items'')))))"

text \<open>\<open>NoPagination\<close> (lines 278-286): \<open>Response\<close> is not imported in src/serializers.py.\<close>

definition paginate_queryset :: "'q \<Rightarrow> 'q" where
  "paginate_queryset queryset = queryset"

definition get_paginated_response :: "'d list \<Rightarrow> ser_error + nat \<times> 'd list" where
  "get_paginated_response data = Inl (SerNameError ''Response'')"

section \<open>Lemmas\<close>

lemma get_param_no_context:
  "get_param [] defaults kwargs name dflt
     = (dict_del kwargs name, dict_get kwargs name (dict_get defaults name dflt))"
  by (simp add: get_param_def)


lemma dict_get_Nil [simp]: "dict_get [] k dflt = dflt"
  by (simp add: dict_get_def)

lemma dict_get_del: "k \<noteq> k' \<Longrightarrow> dict_get (dict_del d k') k dflt = dict_get d k dflt"
  by (simp add: dict_get_def)

text \<open>With an empty context \<open>__init__\<close> stores the model given as keyword argument in the
  class's \<open>Meta\<close>.\<close>

lemma dyn_init_meta:
  assumes "pdict_of (dict_get kw ''context'' (PDict [])) = []"
    "dict_get kw ''model'' PNone = PModel b"
  shows "fst (dyn_init meta cls sd fa kw) = meta(cls := Some (PModel b))"
  using assms by (simp add: dyn_init_def get_param_no_context sparam_truthy_def Let_def split_def)



lemma set_foldl_pop_entry: "set (foldl pop_entry fm es) \<subseteq> set fm"
proof (induction es arbitrary: fm)
  case (Cons e es)
  have "set (pop_entry fm e) \<subseteq> set fm" by (cases e) (auto simp: pop_entry_def dict_del_def)
  with Cons show ?case by auto
qed simp

lemma dyn_access_fields:
  "dyn_access mf meta s = Inr (s', fm) \<Longrightarrow> ds_field_map s = None \<Longrightarrow>
   list_all (\<lambda>(n, f). f = ModelField n) fm \<and> s' = s\<lparr>ds_field_map := Some fm\<rparr>"
  by (auto simp: dyn_access_def dyn_get_fields_def list_all_iff split: sum.splits option.splits sparam.splits)

lemma prune_fields_subset:
  assumes "prune_fields mf meta s = (s', err)"
  shows "ds_field_map s' = ds_field_map s \<or>
    (\<exists>s0 fm0 fm. dyn_access mf meta s = Inr (s0, fm0) \<and> ds_field_map s' = Some fm \<and> set fm \<subseteq> set fm0)"
proof (cases "ds_fields s = PStr ''__all__''")
  case True
  then show ?thesis
    using assms
    by (auto simp: prune_fields_def simp del: foldl_Cons split: sum.splits list.splits prod.splits
        intro: set_foldl_pop_entry[THEN subsetD])
next
  case False
  then show ?thesis
    using assms by (auto simp: prune_fields_def split: sum.splits prod.splits)
qed

lemma late_init_done: "ds_late_init (fst (late_init mf meta s))"
  by (auto simp: late_init_def prune_fields_def add_dynamic_fields_def dyn_access_def
      split: prod.splits option.splits sum.splits list.splits)

text \<open>The guard of line 197: a second \<open>late_init\<close> changes nothing.\<close>

lemma late_init_idem:
  "late_init mf meta (fst (late_init mf meta s)) = (fst (late_init mf meta s), None)"
  using late_init_done[of mf meta s] by (simp add: late_init_def)

text \<open>C23. The relations loop is nested in the loop over \<open>_dynamic\<close>: a serializer without dynamic
  fields installs none of its relations, and its fields are the model's own.\<close>

theorem late_init_relations_need_dynamic:
  assumes "ds_dynamic s = PList []" "ds_field_map s = None"
    "late_init mf meta s = (s', err)" "ds_field_map s' = Some fm"
  shows "list_all (\<lambda>(n, f). f = ModelField n) fm"
proof (cases "ds_late_init s")
  case True
  then show ?thesis using assms by (simp add: late_init_def)
next
  case False
  obtain s1 e1 where p: "prune_fields mf meta (s\<lparr>ds_late_init := True\<rparr>) = (s1, e1)"
    by (cases "prune_fields mf meta (s\<lparr>ds_late_init := True\<rparr>)")
  have "ds_dynamic s1 = PList []"
    using p assms(1) by (auto simp: prune_fields_def dyn_access_def split: if_splits sum.splits list.splits prod.splits)
  then have "s' = s1"
    using False p assms(3) by (auto simp: late_init_def add_dynamic_fields_def py_iter_def split: option.splits)
  then show ?thesis
    using prune_fields_subset[OF p] assms(2,4) dyn_access_fields[of mf meta "s\<lparr>ds_late_init := True\<rparr>"]
    by (fastforce simp: list_all_iff)
qed

text \<open>C17. \<open>Meta.model\<close> belongs to the class: a serializer whose fields are not yet built gets
  them from the model of the latest \<open>__init__\<close> of its class, whatever model it was created
  for.\<close>

theorem meta_model_shared:
  assumes "dyn_init meta cls sd fa kw = (meta', r)"
    "pdict_of (dict_get kw ''context'' (PDict [])) = []" "dict_get kw ''model'' PNone = PModel b"
    "ds_class s = cls" "ds_field_map s = None"
  shows "dyn_get_fields mf meta' s = Inr (map (\<lambda>n. (n, ModelField n)) (mf b))"
proof -
  have "meta' = meta(cls := Some (PModel b))"
    using dyn_init_meta[OF assms(2,3), of meta cls sd fa] assms(1) by simp
  then show ?thesis using assms(4,5) by (simp add: dyn_get_fields_def)
qed



theorem late_init_relations_need_dynamic_witness:
  "ds_field_map (fst (late_init (\<lambda>m. if m = 1 then [''name'', ''total''] else [''id''])
     (\<lambda>c. if c = ''S'' then Some (PModel (1::nat)) else None)
     \<lparr>ds_class = ''S'', ds_late_init = False, ds_context = [], ds_fields = PList [DynName ''name''],
      ds_dynamic = PList [], ds_exclude = PList [],
      ds_relations = PDict [(''orders'', PDict [(''model'', PModel 2)])], ds_methods = PDict [],
      ds_field_map = None\<rparr>)) = Some [(''name'', ModelField ''name'')]
   \<and> list_all (\<lambda>(n, f). f = ModelField n) [(''name'', ModelField ''name'' :: nat sfield)]"
proof -
  have A: "ds_field_map (fst (late_init (\<lambda>m. if m = 1 then [''name'', ''total''] else [''id''])
     (\<lambda>c. if c = ''S'' then Some (PModel (1::nat)) else None)
     \<lparr>ds_class = ''S'', ds_late_init = False, ds_context = [], ds_fields = PList [DynName ''name''],
      ds_dynamic = PList [], ds_exclude = PList [],
      ds_relations = PDict [(''orders'', PDict [(''model'', PModel 2)])], ds_methods = PDict [],
      ds_field_map = None\<rparr>)) = Some [(''name'', ModelField ''name'')]"
    by (simp add: late_init_def prune_fields_def add_dynamic_fields_def py_iter_def dyn_access_def
        dyn_get_fields_def)
  show ?thesis
    by (intro conjI A, rule late_init_relations_need_dynamic[OF _ _ prod.collapse[symmetric] A]) simp_all
qed

theorem meta_model_shared_witness:
  "snd (dyn_init (\<lambda>c. None) ''S'' (\<lambda>m. None) None [(''model'', PModel (1::nat))])
     = Inr \<lparr>ds_class = ''S'', ds_late_init = False, ds_context = [], ds_fields = PList [],
            ds_dynamic = PList [], ds_exclude = PList [], ds_relations = PDict [],
            ds_methods = PDict [], ds_field_map = None\<rparr>
   \<and> dyn_get_fields (\<lambda>m. if m = 1 then [''name''] else [''total''])
       (fst (dyn_init (fst (dyn_init (\<lambda>c. None) ''S'' (\<lambda>m. None) None [(''model'', PModel (1::nat))]))
          ''S'' (\<lambda>m. None) None [(''model'', PModel 2)]))
       \<lparr>ds_class = ''S'', ds_late_init = False, ds_context = [], ds_fields = PList [],
        ds_dynamic = PList [], ds_exclude = PList [], ds_relations = PDict [],
        ds_methods = PDict [], ds_field_map = None\<rparr>
     = Inr [(''total'', ModelField ''total'')]"
proof
  show "snd (dyn_init (\<lambda>c. None) ''S'' (\<lambda>m. None) None [(''model'', PModel (1::nat))])
     = Inr \<lparr>ds_class = ''S'', ds_late_init = False, ds_context = [], ds_fields = PList [],
            ds_dynamic = PList [], ds_exclude = PList [], ds_relations = PDict [],
            ds_methods = PDict [], ds_field_map = None\<rparr>"
    by (simp add: dyn_init_def dyn_init_rest_def get_param_def dict_get_def dict_del_def pdict_of_def
        sparam_truthy_def super_init_check_def)
  show "dyn_get_fields (\<lambda>m. if m = 1 then [''name''] else [''total''])
       (fst (dyn_init (fst (dyn_init (\<lambda>c. None) ''S'' (\<lambda>m. None) None [(''model'', PModel (1::nat))]))
          ''S'' (\<lambda>m. None) None [(''model'', PModel 2)]))
       \<lparr>ds_class = ''S'', ds_late_init = False, ds_context = [], ds_fields = PList [],
        ds_dynamic = PList [], ds_exclude = PList [], ds_relations = PDict [],
        ds_methods = PDict [], ds_field_map = None\<rparr>
     = Inr [(''total'', ModelField ''total'')]"
    by (rule meta_model_shared[OF prod.collapse[symmetric], THEN trans])
       (auto simp: dict_get_def pdict_of_def sparam_truthy_def)
qed


lemma underscore_keys_collision:
  "underscore_keys [(''a.b'', 1::nat), (''a_b'', 2)] = [(''a_b'', 2)]"
  by (simp add: underscore_keys_def dict_update_def dict_set_def str_replace_def lit_match_def)

end
