(* ===== verification/BaseModel.thy ===== *)
theory BaseModel
  imports AdminLists
begin

text \<open>
  \<open>BaseQuerySet\<close>, \<open>BaseModel.get_admin_url\<close>, \<open>admin_link\<close> and \<open>to_dict\<close> of src/base.py.
  The database is a list of rows; a queryset is a filter on it, evaluated when iterated. A
  model's \<open>delete\<close> method is a parameter acting on the database: Django's default removes
  the row, an override may do anything else (mark the row deleted, archive it).
\<close>

section \<open>BaseQuerySet.delete\<close>

text \<open>Lines 42-54: the loop iterates the rows the queryset selects, calls each instance's
  \<open>delete\<close> when it has one, then \<open>QuerySet.delete\<close> deletes whatever the filter selects
  now. The method returns \<open>None\<close>, dropping the count \<open>QuerySet.delete\<close> returns.\<close>

definition queryset_bulk_delete :: "('r \<Rightarrow> bool) \<Rightarrow> 'r list \<Rightarrow> 'r list \<times> nat" where
  "queryset_bulk_delete q db = (filter (\<lambda>r. \<not> q r) db, length (filter q db))"

definition base_queryset_delete ::
  "('r \<Rightarrow> bool) \<Rightarrow> ('r \<Rightarrow> bool) \<Rightarrow> ('r \<Rightarrow> 'r list \<Rightarrow> 'r list) \<Rightarrow> 'r list \<Rightarrow> 'r list \<times> unit" where
  "base_queryset_delete q has_delete instance_delete db =
     (let db1 = foldl (\<lambda>d r. if has_delete r then instance_delete r d else d) db (filter q db)
      in (fst (queryset_bulk_delete q db1), ()))"

section \<open>BaseModel\<close>

definition get_admin_url :: "(pystr \<Rightarrow> nat list \<Rightarrow> pystr) \<Rightarrow> pystr \<Rightarrow> pystr \<Rightarrow> nat \<Rightarrow> pystr" where
  "get_admin_url reverse app_label model_name pk =
     reverse (''admin:'' @ app_label @ ''_'' @ model_name @ ''_change'') [pk]"

text \<open>\<open>format_html\<close> escapes the URL; \<open>escape(...)\<close> returns a safe string, which
  \<open>format_html\<close> leaves as it is.\<close>

definition admin_link :: "pystr \<Rightarrow> pystr \<Rightarrow> pystr option \<Rightarrow> pystr" where
  "admin_link url self_str link_text =
     ''<a href='' @ [CHR 0x22] @ html_escape url @ [CHR 0x22] @ ''>''
     @ html_escape (case link_text of None \<Rightarrow> self_str | Some t \<Rightarrow> t) @ ''</a>''"

text \<open>\<open>to_dict\<close> (lines 78-95). An entry of the loop is a field object (its name) or, from
  \<open>include\<close>, a string; \<open>attr\<close> is \<open>getattr(self, name)\<close> (\<open>None\<close> when it raises
  \<open>AttributeError\<close>), \<open>value_from\<close> is \<open>Field.value_from_object\<close>. \<open>fields\<close> and \<open>exclude\<close> act
  only when they are non-empty.\<close>

datatype dict_entry = EField pystr | EName pystr

fun to_dict_loop ::
  "(pystr \<Rightarrow> 'v option) \<Rightarrow> (pystr \<Rightarrow> 'v) \<Rightarrow> pystr list \<Rightarrow> pystr list \<Rightarrow> (pystr, 'v) pydict
   \<Rightarrow> dict_entry list \<Rightarrow> pystr + (pystr, 'v) pydict" where
  "to_dict_loop attr value_from fields_param exclude data [] = Inr data"
| "to_dict_loop attr value_from fields_param exclude data (EName n # es) = (case attr n of
       None \<Rightarrow> Inl n
     | Some v \<Rightarrow> to_dict_loop attr value_from fields_param exclude (dict_set data n v) es)"
| "to_dict_loop attr value_from fields_param exclude data (EField n # es) =
     (if fields_param \<noteq> [] \<and> n \<notin> set fields_param then to_dict_loop attr value_from fields_param exclude data es
      else if exclude \<noteq> [] \<and> n \<in> set exclude then to_dict_loop attr value_from fields_param exclude data es
      else to_dict_loop attr value_from fields_param exclude (dict_set data n (value_from n)) es)"

definition to_dict ::
  "(pystr \<Rightarrow> 'v option) \<Rightarrow> (pystr \<Rightarrow> 'v) \<Rightarrow> pystr list \<Rightarrow> pystr list option \<Rightarrow> pystr list
   \<Rightarrow> pystr list \<Rightarrow> dict_entry list \<Rightarrow> pystr + (pystr, 'v) pydict" where
  "to_dict attr value_from dict_exclude_fields exclude fields_param concrete_fields include =
     to_dict_loop attr value_from fields_param
       (case exclude of None \<Rightarrow> dict_exclude_fields | Some e \<Rightarrow> e) []
       (map EField concrete_fields @ include)"

section \<open>Lemmas\<close>

lemma foldl_remove1_filter:
  "list_all q rs \<Longrightarrow> filter (\<lambda>r. \<not> q r) (foldl (\<lambda>d r. remove1 r d) db rs) = filter (\<lambda>r. \<not> q r) db"
proof (induction rs arbitrary: db)
  case (Cons r rs)
  have "filter (\<lambda>r. \<not> q r) (remove1 r db) = filter (\<lambda>r. \<not> q r) db"
    using Cons.prems by (induction db) auto
  with Cons show ?case by simp
qed simp

text \<open>With Django's own \<open>Model.delete\<close> (which removes the instance's row) on every row,
  \<open>BaseQuerySet.delete\<close> leaves the database \<open>QuerySet.delete\<close> leaves.\<close>

theorem base_queryset_delete_default:
  "fst (base_queryset_delete q (\<lambda>r. True) (\<lambda>r d. remove1 r d) db) = fst (queryset_bulk_delete q db)"
  by (simp add: base_queryset_delete_def queryset_bulk_delete_def foldl_remove1_filter list_all_iff)

text \<open>An overriding \<open>delete\<close> does not keep its row: whatever it does, the bulk delete that
  follows removes every row the queryset still selects. A soft delete that only marks the row
  (and leaves it selected) is undone.\<close>

lemma base_queryset_delete_soft:
  assumes "\<And>r d. r \<in> set d \<Longrightarrow> set (instance_delete r d) = insert (mark r) (set d - {r})"
    "\<And>r. q (mark r) = q r" "r \<in> set db" "q r"
  shows "mark r \<notin> set (fst (base_queryset_delete q (\<lambda>r. True) instance_delete db))
         \<and> r \<notin> set (fst (base_queryset_delete q (\<lambda>r. True) instance_delete db))"
  using assms(2,4) by (simp add: base_queryset_delete_def queryset_bulk_delete_def)

lemma foldl_archive:
  "foldl (\<lambda>d r. if has_delete r then d @ [archive r] else d) db rs = db @ map archive (filter has_delete rs)"
  by (induction rs arbitrary: db) simp_all

text \<open>C30. Each selected row that has its own \<open>delete\<close> has it called once, in the queryset's
  order, and the bulk delete then removes every row the queryset still selects. With an
  override that only files an archived copy of the row (one the queryset does not select) and
  keeps the row, the database ends with the rows the queryset did not select followed by one
  archive per selected row with a \<open>delete\<close> method, in order.\<close>

theorem base_queryset_delete_archive:
  assumes "\<And>r. \<not> q (archive r)"
  shows "fst (base_queryset_delete q has_delete (\<lambda>r d. d @ [archive r]) db) =
    filter (\<lambda>r. \<not> q r) db @ map archive (filter (\<lambda>r. q r \<and> has_delete r) db)"
proof -
  have "filter (\<lambda>r. \<not> q r) (map archive xs) = map archive xs" for xs
    using assms by (induction xs) simp_all
  then show ?thesis
    by (simp add: base_queryset_delete_def queryset_bulk_delete_def foldl_archive filter_filter)
qed

theorem base_queryset_delete_archive_witness:
  "fst (base_queryset_delete (\<lambda>(i, a). \<not> a \<and> i < (3::nat)) (\<lambda>(i, a). i \<noteq> 2) (\<lambda>r d. d @ [(fst r, True)])
      [(1, False), (2, False), (5, False)]) = [(5, False), (1, True)]"
  using base_queryset_delete_archive [of "\<lambda>(i, a). \<not> a \<and> i < (3::nat)" "\<lambda>r. (fst r, True)"
      "\<lambda>(i, a). i \<noteq> 2" "[(1, False), (2, False), (5, False)]"]
  by simp

lemma admin_link_change_link:
  "admin_link (reverse (pk record)) (str_of record) None = get_change_link reverse str_of pk record"
  by (simp add: admin_link_def get_change_link_def)

lemma to_dict_loop_fields:
  "to_dict_loop attr vf fp ex data (map EField cs @ es)
     = to_dict_loop attr vf fp ex
         (foldl (\<lambda>d n. dict_set d n (vf n)) data
            (filter (\<lambda>n. (fp = [] \<or> n \<in> set fp) \<and> (ex = [] \<or> n \<notin> set ex)) cs)) es"
  by (induction cs arbitrary: data) auto

lemma to_dict_loop_names:
  "list_all (\<lambda>n. attr n \<noteq> None) ns \<Longrightarrow>
   \<exists>data'. to_dict_loop attr vf fp ex data (map EName ns) = Inr data'
     \<and> fst ` set data' = fst ` set data \<union> set ns"
proof (induction ns arbitrary: data)
  case (Cons a ns)
  then obtain y where "attr a = Some y" by auto
  with Cons.IH[of "dict_set data a y"] Cons.prems show ?case by auto
qed simp

lemma keys_foldl_dict_set:
  "fst ` set (foldl (\<lambda>d n. dict_set d n (f n)) data ns) = fst ` set data \<union> set ns"
  by (induction ns arbitrary: data) auto

text \<open>C26. The keys of \<open>to_dict\<close>: the concrete fields \<open>fields\<close> names (all of them when \<open>fields\<close> is
  empty or \<open>None\<close>) and \<open>exclude\<close> does not, then every \<open>include\<close> name, which neither filter
  applies to.\<close>

theorem to_dict_keys:
  assumes "list_all (\<lambda>n. attr n \<noteq> None) ns"
  shows "\<exists>data. to_dict attr vf dict_exclude_fields exclude fp cs (map EName ns) = Inr data
           \<and> fst ` set data = {n \<in> set cs. (fp = [] \<or> n \<in> set fp)
                 \<and> (let ex = (case exclude of None \<Rightarrow> dict_exclude_fields | Some e \<Rightarrow> e)
                    in ex = [] \<or> n \<notin> set ex)} \<union> set ns"
proof -
  let ?ex = "case exclude of None \<Rightarrow> dict_exclude_fields | Some e \<Rightarrow> e"
  let ?d0 = "foldl (\<lambda>d n. dict_set d n (vf n)) []
               (filter (\<lambda>n. (fp = [] \<or> n \<in> set fp) \<and> (?ex = [] \<or> n \<notin> set ?ex)) cs)"
  obtain data where "to_dict_loop attr vf fp ?ex ?d0 (map EName ns) = Inr data"
    and "fst ` set data = fst ` set ?d0 \<union> set ns"
    using to_dict_loop_names[OF assms(1)] by blast
  then show ?thesis
    unfolding to_dict_def Let_def by (auto simp: to_dict_loop_fields keys_foldl_dict_set)
qed

theorem to_dict_keys_witness:
  "\<exists>data. to_dict (\<lambda>n. if n = ''customer'' then Some (7::nat) else None) (\<lambda>n. length n)
      [''secret''] None [] [''id'', ''name'', ''secret''] (map EName [''customer'']) = Inr data
    \<and> fst ` set data = {''id'', ''name'', ''customer''}"
proof -
  obtain data where "to_dict (\<lambda>n. if n = ''customer'' then Some (7::nat) else None) (\<lambda>n. length n)
      [''secret''] None [] [''id'', ''name'', ''secret''] (map EName [''customer'']) = Inr data"
    and k: "fst ` set data = {n \<in> set [''id'', ''name'', ''secret'']. ([] = [] \<or> n \<in> set [])
                 \<and> (let ex = (case None of None \<Rightarrow> [''secret''] | Some e \<Rightarrow> e) in ex = [] \<or> n \<notin> set ex)}
               \<union> set [''customer'']"
    using to_dict_keys[of "\<lambda>n. if n = ''customer'' then Some (7::nat) else None" "[''customer'']"
        "\<lambda>n. length n" "[''secret'']" None "[]" "[''id'', ''name'', ''secret'']"] by auto
  moreover have "fst ` set data = {''id'', ''name'', ''customer''}" using k by auto
  ultimately show ?thesis by blast
qed

end
