(* ===== verification/DevTools.thy ===== *)
theory DevTools
  imports Prelude
begin

text \<open>
  The system checks of src/checks.py and the \<open>dev\<close> management command of
  src/management/commands/dev.py. Environment variables and \<open>sys.path\<close> are explicit state.
  The \<open>dev\<close> command is a process model: the server process forks a worker, serves, and its
  \<open>finally\<close> block kills and reaps the worker; Django's autoreloader restarts the serving child
  with \<open>RUN_MAIN=true\<close>, and each restart runs \<open>handle\<close> again.
\<close>

section \<open>src/checks.py\<close>

datatype check_msg = CheckWarning pystr pystr

definition check_debug_and_allowed_hosts :: "bool \<Rightarrow> pystr list \<Rightarrow> check_msg list \<times> pystr list" where
  "check_debug_and_allowed_hosts debug allowed_hosts =
     ([], [''DEBUG setting: '' @ (if debug then ''True'' else ''False'')])"

text \<open>\<open>check_vendor_in_sys_path\<close> (lines 27-40): insert the vendor directory at the front of
  \<open>sys.path\<close> unless it is there.\<close>

definition check_vendor_in_sys_path :: "pystr \<Rightarrow> pystr list \<Rightarrow> check_msg list \<times> pystr list" where
  "check_vendor_in_sys_path vendor_path sys_path =
     ([], if vendor_path \<notin> set sys_path then vendor_path # sys_path else sys_path)"

definition DJANGO_AUTORELOAD_ENV :: pystr where
  "DJANGO_AUTORELOAD_ENV = ''RUN_MAIN''"

definition statreloader_warning :: check_msg where
  "statreloader_warning = CheckWarning
     ''Django is about to use StatReloader, which polls the filesystem with `os.stat()` and is considerably slower than native watchers.''
     ''Install watchman for a faster, inotify-based file system watcher''"

text \<open>\<open>check_statreloader_usage\<close> (lines 43-70). \<open>reloader_name\<close> is the class name of
  \<open>get_reloader()\<close>; \<open>watchman_available\<close> is \<open>WatchmanReloader.check_availability()\<close>, \<open>None\<close>
  when it raises (then an error is logged). Its result is stored and never read.\<close>

definition check_statreloader_usage ::
  "(pystr, pystr) pydict \<Rightarrow> pystr \<Rightarrow> bool option \<Rightarrow> check_msg list \<times> pystr list" where
  "check_statreloader_usage environ reloader_name watchman_available =
     (if map_of environ DJANGO_AUTORELOAD_ENV \<noteq> Some ''true'' then ([], []) else
      let logs = (if reloader_name \<noteq> ''WatchmanReloader'' \<and> watchman_available = None
                  then [''Cannot use Watchman reloader: ''] else [])
      in (if reloader_name = ''StatReloader'' then [statreloader_warning] else [], logs))"

section \<open>The dev command\<close>

text \<open>\<open>handle\<close> (lines 16-44): the environment update, then the choice between plain
  \<open>runserver\<close> (which starts the autoreloader) and forking the worker.\<close>

definition dev_environ :: "(pystr, pystr) pydict \<Rightarrow> (pystr, pystr) pydict" where
  "dev_environ environ =
     (if ''DJANGO_RUNSERVER_HIDE_WARNING'' \<notin> fst ` set environ
      then dict_set environ ''DJANGO_RUNSERVER_HIDE_WARNING'' ''true'' else environ)"

datatype dev_mode = DelegateRunserver | ForkWorker

definition dev_handle_mode :: "bool \<Rightarrow> (pystr, pystr) pydict \<Rightarrow> dev_mode" where
  "dev_handle_mode use_reloader environ =
     (let is_main = (map_of environ DJANGO_AUTORELOAD_ENV = Some ''true'') in
      if use_reloader \<and> \<not> is_main then DelegateRunserver else ForkWorker)"

text \<open>The processes of one \<open>dev\<close> run. \<open>dp_server\<close> is the pid of the process serving in
  \<open>super().handle()\<close> with its worker's pid; \<open>dp_workers\<close> the worker processes alive or not yet
  reaped; \<open>dp_reloader\<close> whether the autoreloader parent is running.\<close>

record dev_procs =
  dp_next_pid :: nat
  dp_server :: "(nat \<times> nat) option"
  dp_workers :: "nat list"
  dp_reloader :: bool

datatype dev_event =
  RunHandle bool "(pystr, pystr) pydict"
  | ServerExits
  | WorkerExits nat
  | ReloaderSpawns

text \<open>\<open>RunHandle\<close>: \<open>handle\<close> in a fresh process. In fork mode it forks (the child runs the
  worker, the parent serves); in delegate mode it becomes the autoreloader, whose child runs
  \<open>handle\<close> again with \<open>RUN_MAIN=true\<close> (\<open>ReloaderSpawns\<close>). \<open>ServerExits\<close>: the serving
  process leaves \<open>super().handle()\<close> (Ctrl-C, or exit code 3 on a code change); its \<open>finally\<close>
  sends SIGTERM to the worker and waits for it. A worker may end on its own; it stays listed
  until its parent reaps it.\<close>

definition dev_fork :: "dev_procs \<Rightarrow> dev_procs" where
  "dev_fork p = (let pid = dp_next_pid p in
     p\<lparr>dp_next_pid := pid + 2, dp_server := Some (pid + 1, pid), dp_workers := pid # dp_workers p\<rparr>)"

fun dev_step :: "dev_procs \<Rightarrow> dev_event \<Rightarrow> dev_procs option" where
  "dev_step p (RunHandle use_reloader environ) =
     (if dp_server p \<noteq> None \<or> dp_reloader p then None
      else case dev_handle_mode use_reloader (dev_environ environ) of
             DelegateRunserver \<Rightarrow> Some (p\<lparr>dp_reloader := True\<rparr>)
           | ForkWorker \<Rightarrow> Some (dev_fork p))"
| "dev_step p ReloaderSpawns =
     (if dp_reloader p \<and> dp_server p = None then Some (dev_fork p) else None)"
| "dev_step p ServerExits = (case dp_server p of
       None \<Rightarrow> None
     | Some (spid, wpid) \<Rightarrow> Some (p\<lparr>dp_server := None, dp_workers := removeAll wpid (dp_workers p)\<rparr>))"
| "dev_step p (WorkerExits w) = (if w \<in> set (dp_workers p) then Some p else None)"

definition dev_init :: dev_procs where
  "dev_init = \<lparr>dp_next_pid = 1, dp_server = None, dp_workers = [], dp_reloader = False\<rparr>"

inductive dev_reachable :: "dev_procs \<Rightarrow> bool" where
  init: "dev_reachable dev_init"
| step: "dev_reachable p \<Longrightarrow> dev_step p e = Some p' \<Longrightarrow> dev_reachable p'"

fun dev_run :: "dev_procs \<Rightarrow> dev_event list \<Rightarrow> dev_procs option" where
  "dev_run p [] = Some p"
| "dev_run p (e # es) = (case dev_step p e of None \<Rightarrow> None | Some p' \<Rightarrow> dev_run p' es)"

section \<open>Lemmas\<close>

lemma dev_run_reachable: "dev_reachable p \<Longrightarrow> dev_run p es = Some p' \<Longrightarrow> dev_reachable p'"
  by (induction p es rule: dev_run.induct)
     (auto intro: dev_reachable.step split: option.splits)


lemma check_vendor_in_sys_path_idem:
  "check_vendor_in_sys_path v (snd (check_vendor_in_sys_path v path)) = ([], snd (check_vendor_in_sys_path v path))"
  by (simp add: check_vendor_in_sys_path_def)

lemma check_vendor_in_sys_path_front:
  "vendor_path \<in> set (snd (check_vendor_in_sys_path vendor_path path))
   \<and> set (snd (check_vendor_in_sys_path vendor_path path)) = insert vendor_path (set path)"
  by (auto simp: check_vendor_in_sys_path_def)

text \<open>The check warns exactly when the autoreloader child runs with the \<open>StatReloader\<close>; whether
  watchman is available only decides whether an error is logged.\<close>

lemma check_statreloader_usage_warns:
  "fst (check_statreloader_usage environ reloader_name wa) =
     (if map_of environ ''RUN_MAIN'' = Some ''true'' \<and> reloader_name = ''StatReloader''
      then [statreloader_warning] else [])"
  by (simp add: check_statreloader_usage_def DJANGO_AUTORELOAD_ENV_def Let_def)

lemma dev_step_workers:
  "dev_step p e = Some p' \<Longrightarrow>
   dp_workers p = (case dp_server p of None \<Rightarrow> [] | Some (s, w) \<Rightarrow> [w]) \<Longrightarrow>
   dp_workers p' = (case dp_server p' of None \<Rightarrow> [] | Some (s, w) \<Rightarrow> [w])"
  by (cases e) (auto simp: dev_fork_def Let_def split: if_splits dev_mode.splits option.splits)

text \<open>C34. In every state a \<open>dev\<close> run reaches, the only worker process is the one the serving
  process forked, and none is left once no process serves: the \<open>finally\<close> block reaps it, and
  the autoreloader parent never forks a worker of its own.\<close>

theorem dev_one_worker:
  "dev_reachable p \<Longrightarrow> dp_workers p = (case dp_server p of None \<Rightarrow> [] | Some (s, w) \<Rightarrow> [w])"
proof (induction rule: dev_reachable.induct)
  case init
  then show ?case by (simp add: dev_init_def)
next
  case (step p e p')
  then show ?case using dev_step_workers by blast
qed

text \<open>A run with the reloader: \<open>handle\<close> without \<open>RUN_MAIN\<close> becomes the reloader, each
  spawned child forks one worker, and a code change ends the child and its worker.\<close>

lemma dev_reloader_run:
  "dev_step dev_init (RunHandle True []) = Some (dev_init\<lparr>dp_reloader := True\<rparr>)"
  "dev_step (dev_init\<lparr>dp_reloader := True\<rparr>) ReloaderSpawns
     = Some \<lparr>dp_next_pid = 3, dp_server = Some (2, 1), dp_workers = [1], dp_reloader = True\<rparr>"
  "dev_step \<lparr>dp_next_pid = 3, dp_server = Some (2, 1), dp_workers = [1], dp_reloader = True\<rparr> ServerExits
     = Some \<lparr>dp_next_pid = 3, dp_server = None, dp_workers = [], dp_reloader = True\<rparr>"
  by (simp_all add: dev_init_def dev_handle_mode_def dev_environ_def dict_set_def
      DJANGO_AUTORELOAD_ENV_def dev_fork_def)

theorem dev_one_worker_witness:
  "dev_run dev_init [RunHandle True [], ReloaderSpawns]
     = Some \<lparr>dp_next_pid = 3, dp_server = Some (2, 1), dp_workers = [1], dp_reloader = True\<rparr>
   \<and> dp_workers \<lparr>dp_next_pid = 3, dp_server = Some (2, 1), dp_workers = [1], dp_reloader = True\<rparr>
     = (case dp_server \<lparr>dp_next_pid = 3, dp_server = Some (2, 1), dp_workers = [1], dp_reloader = True\<rparr> of
          None \<Rightarrow> [] | Some (s, w) \<Rightarrow> [w])"
proof -
  have r: "dev_run dev_init [RunHandle True [], ReloaderSpawns]
     = Some \<lparr>dp_next_pid = 3, dp_server = Some (2, 1), dp_workers = [1], dp_reloader = True\<rparr>"
    using dev_reloader_run(1,2) by simp
  show ?thesis
    using r dev_one_worker[OF dev_run_reachable[OF dev_reachable.init r]] by simp
qed

end
