(* ===== verification/Cookies.thy ===== *)
theory Cookies
  imports Reporter "HOL-Library.List_Lexorder" "HOL-Library.Char_ord"
begin

text \<open>
  \<open>PatchMorselMiddleware\<close> of src/middleware.py and the part of Python's \<open>http.cookies\<close> it
  patches (CPython 3.11). \<open>Morsel._reserved\<close> and \<open>Morsel._flags\<close> are class attributes, so the
  module state \<open>cookie_module\<close> holds them together with the class the name
  \<open>http.cookies.Morsel\<close> is bound to. A morsel is its key, value and attribute dict.
\<close>

record cookie_module =
  cm_reserved :: "(pystr, pystr) pydict"
  cm_flags :: "pystr list"
  cm_morsel_patched :: bool

definition cookies_init :: cookie_module where
  "cookies_init = \<lparr>cm_reserved = [(''expires'', ''expires''), (''path'', ''Path''),
       (''comment'', ''Comment''), (''domain'', ''Domain''), (''max-age'', ''Max-Age''),
       (''secure'', ''Secure''), (''httponly'', ''HttpOnly''), (''version'', ''Version''),
       (''samesite'', ''SameSite'')],
     cm_flags = [''secure'', ''httponly''], cm_morsel_patched = False\<rparr>"

datatype mval = MStr pystr | MInt int | MBool bool

record morsel =
  mo_key :: pystr
  mo_value :: pystr
  mo_attrs :: "(pystr, mval) pydict"

text \<open>\<open>PatchMorselMiddleware.__init__\<close> and \<open>patch_morsel\<close> (lines 199-213): the module's
  \<open>Morsel\<close> name is rebound to \<open>PatchedMorsel\<close>.\<close>

definition patch_morsel :: "cookie_module \<Rightarrow> cookie_module" where
  "patch_morsel cm = cm\<lparr>cm_morsel_patched := True\<rparr>"

text \<open>\<open>Morsel()\<close> as \<open>SimpleCookie\<close> calls it: \<open>Morsel.__init__\<close> sets every reserved attribute
  to the empty string; \<open>PatchedMorsel.__init__\<close> (lines 206-210) then adds \<open>partitioned\<close> to the
  class-level \<open>_reserved\<close> and \<open>_flags\<close> and sets it to \<open>True\<close>.\<close>

definition new_morsel :: "cookie_module \<Rightarrow> cookie_module \<times> (pystr, mval) pydict" where
  "new_morsel cm =
     (let attrs = map (\<lambda>(k, n). (k, MStr [])) (cm_reserved cm) in
      if cm_morsel_patched cm then
        (let cm' = cm\<lparr>cm_reserved := dict_set (cm_reserved cm) ''partitioned'' ''Partitioned'',
                      cm_flags := (if ''partitioned'' \<in> set (cm_flags cm) then cm_flags cm
                                   else cm_flags cm @ [''partitioned''])\<rparr>
         in (cm', dict_set attrs ''partitioned'' (MBool True)))
      else (cm, attrs))"

text \<open>\<open>Morsel.__setitem__\<close>: the key is lower-cased and must be reserved (\<open>CookieError\<close>).\<close>

definition morsel_set :: "cookie_module \<Rightarrow> morsel \<Rightarrow> pystr \<Rightarrow> mval \<Rightarrow> morsel option" where
  "morsel_set cm m k v = (let k' = py_lower k in
     if k' \<in> fst ` set (cm_reserved cm) then Some (m\<lparr>mo_attrs := dict_set (mo_attrs m) k' v\<rparr>) else None)"

text \<open>\<open>SimpleCookie.__setitem__\<close> for a new key, then the attribute assignments of Django's
  \<open>set_cookie\<close> in their order.\<close>

definition set_cookie ::
  "cookie_module \<Rightarrow> pystr \<Rightarrow> pystr \<Rightarrow> (pystr \<times> mval) list \<Rightarrow> cookie_module \<times> morsel option" where
  "set_cookie cm key value attrs =
     (let (cm', a) = new_morsel cm in
      (cm', foldl (\<lambda>mo (k, v). case mo of None \<Rightarrow> None | Some m \<Rightarrow> morsel_set cm' m k v)
              (Some \<lparr>mo_key = key, mo_value = value, mo_attrs = a\<rparr>) attrs))"

definition int_str :: "int \<Rightarrow> pystr" where
  "int_str i = (if i < 0 then ''-'' @ nat_str (nat (- i)) else nat_str (nat i))"

definition mval_truthy :: "mval \<Rightarrow> bool" where
  "mval_truthy v = (case v of MStr s \<Rightarrow> s \<noteq> [] | MInt i \<Rightarrow> i \<noteq> 0 | MBool b \<Rightarrow> b)"

definition mval_str :: "mval \<Rightarrow> pystr" where
  "mval_str v = (case v of MStr s \<Rightarrow> s | MInt i \<Rightarrow> int_str i
     | MBool b \<Rightarrow> if b then ''True'' else ''False'')"

text \<open>One attribute of \<open>Morsel.OutputString\<close>: empty values and unknown keys are skipped, an
  integer \<open>expires\<close> is a date (\<open>http_date\<close>, a parameter), an integer \<open>max-age\<close> is written as
  a number, a \<open>comment\<close> is quoted, a flag is its name when true.\<close>

definition attr_part ::
  "cookie_module \<Rightarrow> (int \<Rightarrow> pystr) \<Rightarrow> (pystr \<Rightarrow> pystr) \<Rightarrow> pystr \<times> mval \<Rightarrow> pystr list" where
  "attr_part cm http_date quote kv = (case kv of (k, v) \<Rightarrow>
     (case map_of (cm_reserved cm) k of
        None \<Rightarrow> []
      | Some name \<Rightarrow>
          if v = MStr [] then []
          else (case (k, v) of
            (''expires'', MInt t) \<Rightarrow> [name @ ''='' @ http_date t]
          | (''max-age'', MInt n) \<Rightarrow> [name @ ''='' @ int_str n]
          | (''comment'', MStr c) \<Rightarrow> [name @ ''='' @ quote c]
          | _ \<Rightarrow> if k \<in> set (cm_flags cm) then (if mval_truthy v then [name] else [])
                 else [name @ ''='' @ mval_str v])))"

definition output_parts ::
  "cookie_module \<Rightarrow> (int \<Rightarrow> pystr) \<Rightarrow> (pystr \<Rightarrow> pystr) \<Rightarrow> morsel \<Rightarrow> pystr list" where
  "output_parts cm http_date quote m =
     (mo_key m @ ''='' @ mo_value m) # concat (map (attr_part cm http_date quote) (sort_key fst (mo_attrs m)))"

definition output_string ::
  "cookie_module \<Rightarrow> (int \<Rightarrow> pystr) \<Rightarrow> (pystr \<Rightarrow> pystr) \<Rightarrow> morsel \<Rightarrow> pystr" where
  "output_string cm http_date quote m = py_join ''; '' (output_parts cm http_date quote m)"

section \<open>Lemmas\<close>

lemma foldl_morsel_set_keep:
  assumes "list_all (\<lambda>(k, v). py_lower k \<noteq> x) attrs"
    "foldl (\<lambda>mo (k, v). case mo of None \<Rightarrow> None | Some m \<Rightarrow> morsel_set cm m k v) (Some m0) attrs = Some m"
  shows "map_of (mo_attrs m) x = map_of (mo_attrs m0) x"
  using assms
proof (induction attrs arbitrary: m0)
  case Nil
  then show ?case by simp
next
  case (Cons kv attrs)
  obtain k v where kv: "kv = (k, v)" by (cases kv)
  have nn: "foldl (\<lambda>mo (k, v). case mo of None \<Rightarrow> None | Some m \<Rightarrow> morsel_set cm m k v) None attrs = None"
    by (induction attrs) auto
  from Cons.prems kv obtain m1 where m1: "morsel_set cm m0 k v = Some m1"
    by (cases "morsel_set cm m0 k v") (simp_all add: nn)
  then have "map_of (mo_attrs m1) x = map_of (mo_attrs m0) x"
    using Cons.prems(1) kv by (auto simp: morsel_set_def Let_def split: if_splits)
  with Cons.IH[of m1] Cons.prems kv m1 show ?case by simp
qed

text \<open>C27. Once the middleware has run, every cookie \<open>set_cookie\<close> creates carries the
  \<open>Partitioned\<close> flag in its header, whatever its other attributes, \<open>Secure\<close> or not.\<close>

theorem patched_cookie_partitioned:
  assumes "cm_morsel_patched cm" "list_all (\<lambda>(k, v). py_lower k \<noteq> ''partitioned'') attrs"
    "set_cookie cm key value attrs = (cm', Some m)"
  shows "''Partitioned'' \<in> set (output_parts cm' http_date quote m)"
proof -
  obtain a where nm: "new_morsel cm = (cm', a)"
    and fo: "foldl (\<lambda>mo (k, v). case mo of None \<Rightarrow> None | Some m \<Rightarrow> morsel_set cm' m k v)
               (Some \<lparr>mo_key = key, mo_value = value, mo_attrs = a\<rparr>) attrs = Some m"
    using assms(3) by (auto simp: set_cookie_def split: prod.splits)
  have a: "map_of a ''partitioned'' = Some (MBool True)"
    and r: "map_of (cm_reserved cm') ''partitioned'' = Some ''Partitioned''"
    and f: "''partitioned'' \<in> set (cm_flags cm')"
    using nm assms(1) by (auto simp: new_morsel_def Let_def)
  have "(''partitioned'', MBool True) \<in> set (sort_key fst (mo_attrs m))"
    using foldl_morsel_set_keep[OF assms(2) fo] a by (simp add: map_of_SomeD)
  moreover have "attr_part cm' http_date quote (''partitioned'', MBool True) = [''Partitioned'']"
    using r f by (simp add: attr_part_def mval_truthy_def)
  ultimately show ?thesis
    by (force simp: output_parts_def)
qed

text \<open>Django's session cookie after the patch: \<open>Partitioned\<close> without \<open>Secure\<close>.\<close>

theorem patched_cookie_partitioned_witness:
  "set_cookie (patch_morsel cookies_init) ''sessionid'' ''abc''
     [(''max-age'', MInt 1209600), (''path'', MStr ''/''), (''httponly'', MBool True), (''samesite'', MStr ''Lax'')]
   = (patch_morsel cookies_init\<lparr>cm_reserved := cm_reserved cookies_init @ [(''partitioned'', ''Partitioned'')],
        cm_flags := [''secure'', ''httponly'', ''partitioned'']\<rparr>,
      Some \<lparr>mo_key = ''sessionid'', mo_value = ''abc'',
        mo_attrs = [(''expires'', MStr []), (''path'', MStr ''/''), (''comment'', MStr []), (''domain'', MStr []),
          (''max-age'', MInt 1209600), (''secure'', MStr []), (''httponly'', MBool True), (''version'', MStr []),
          (''samesite'', MStr ''Lax''), (''partitioned'', MBool True)]\<rparr>)
   \<and> ''Partitioned'' \<in> set (output_parts
       (patch_morsel cookies_init\<lparr>cm_reserved := cm_reserved cookies_init @ [(''partitioned'', ''Partitioned'')],
          cm_flags := [''secure'', ''httponly'', ''partitioned'']\<rparr>) (\<lambda>t. []) id
       \<lparr>mo_key = ''sessionid'', mo_value = ''abc'',
        mo_attrs = [(''expires'', MStr []), (''path'', MStr ''/''), (''comment'', MStr []), (''domain'', MStr []),
          (''max-age'', MInt 1209600), (''secure'', MStr []), (''httponly'', MBool True), (''version'', MStr []),
          (''samesite'', MStr ''Lax''), (''partitioned'', MBool True)]\<rparr>)"
proof -
  have s: "set_cookie (patch_morsel cookies_init) ''sessionid'' ''abc''
     [(''max-age'', MInt 1209600), (''path'', MStr ''/''), (''httponly'', MBool True), (''samesite'', MStr ''Lax'')]
   = (patch_morsel cookies_init\<lparr>cm_reserved := cm_reserved cookies_init @ [(''partitioned'', ''Partitioned'')],
        cm_flags := [''secure'', ''httponly'', ''partitioned'']\<rparr>,
      Some \<lparr>mo_key = ''sessionid'', mo_value = ''abc'',
        mo_attrs = [(''expires'', MStr []), (''path'', MStr ''/''), (''comment'', MStr []), (''domain'', MStr []),
          (''max-age'', MInt 1209600), (''secure'', MStr []), (''httponly'', MBool True), (''version'', MStr []),
          (''samesite'', MStr ''Lax''), (''partitioned'', MBool True)]\<rparr>)"
    by code_simp
  have l: "list_all (\<lambda>(k, v). py_lower k \<noteq> ''partitioned'')
     [(''max-age'', MInt 1209600), (''path'', MStr ''/''), (''httponly'', MBool True), (''samesite'', MStr ''Lax'')]"
    by code_simp
  show ?thesis
    using s patched_cookie_partitioned[OF _ l s] by (simp add: patch_morsel_def)
qed

lemma patched_session_cookie_header:
  "output_string
     (patch_morsel cookies_init\<lparr>cm_reserved := cm_reserved cookies_init @ [(''partitioned'', ''Partitioned'')],
        cm_flags := [''secure'', ''httponly'', ''partitioned'']\<rparr>) (\<lambda>t. []) id
     \<lparr>mo_key = ''sessionid'', mo_value = ''abc'',
      mo_attrs = [(''expires'', MStr []), (''path'', MStr ''/''), (''comment'', MStr []), (''domain'', MStr []),
        (''max-age'', MInt 1209600), (''secure'', MStr []), (''httponly'', MBool True), (''version'', MStr []),
        (''samesite'', MStr ''Lax''), (''partitioned'', MBool True)]\<rparr>
   = ''sessionid=abc; HttpOnly; Max-Age=1209600; Partitioned; Path=/; SameSite=Lax''"
proof -
  have "sort_key fst [(''expires'', MStr []), (''path'', MStr ''/''), (''comment'', MStr []), (''domain'', MStr []),
        (''max-age'', MInt 1209600), (''secure'', MStr []), (''httponly'', MBool True), (''version'', MStr []),
        (''samesite'', MStr ''Lax''), (''partitioned'', MBool True)]
    = [(''comment'', MStr []), (''domain'', MStr []), (''expires'', MStr []), (''httponly'', MBool True),
       (''max-age'', MInt 1209600), (''partitioned'', MBool True), (''path'', MStr ''/''),
       (''samesite'', MStr ''Lax''), (''secure'', MStr []), (''version'', MStr [])]"
    by code_simp
  then show ?thesis
    by (simp add: output_string_def output_parts_def attr_part_def patch_morsel_def cookies_init_def
        mval_truthy_def mval_str_def int_str_def nat_str.simps)
qed

end
