(* ===== verification/LogRender.thy ===== *)
theory LogRender
  imports RequestLog Reporter "HOL-Library.Sublist"
begin

text \<open>
  The rest of \<open>CustomRichHandler\<close> (src/logging.py): the level style, the row
  \<open>custom_log_render\<close> builds, \<open>render\<close> with and without a traceback (two calls of the log
  renderer sharing the time-column state), the terminal width read at construction, and
  \<open>RainbowHighlighter\<close>; and, of \<open>RequestIDMiddleware.__call__\<close>, the request line it logs and
  the CSP nonce it stores. Rich's \<open>Text\<close> and \<open>Table\<close> are their contents: a string with a
  style, a list of rows.
\<close>

definition LEVEL_STYLES :: "(pystr, pystr) pydict" where
  "LEVEL_STYLES = [(''DEBUG'', ''dim white''), (''INFO'', ''cyan''), (''WARNING'', ''yellow''),
     (''ERROR'', ''bold red''), (''CRITICAL'', ''bold underline red'')]"

definition get_level_text :: "pystr \<Rightarrow> pystr \<times> pystr" where
  "get_level_text levelname =
     (levelname, case map_of LEVEL_STYLES levelname of Some st \<Rightarrow> st | None \<Rightarrow> ''log.level'')"

record log_record =
  lr_name :: pystr
  lr_levelname :: pystr
  lr_lineno :: nat
  lr_pathname :: pystr
  lr_created :: int
  lr_relative :: int

datatype 'tb row_body = MessageCells pystr "pystr \<times> pystr" | TracebackCell 'tb

text \<open>The path cell (lines 161-163): \<open>name:lineno\<close>, linked to the file when there is a path.\<close>

definition path_text :: "log_record \<Rightarrow> pystr \<times> pystr" where
  "path_text r = (lr_name r @ '':'' @ nat_str (lr_lineno r),
     if lr_pathname r \<noteq> [] then ''link file://'' @ lr_pathname r @ ''#'' @ nat_str (lr_lineno r) else [])"

text \<open>\<open>custom_log_render\<close> (lines 116-169) as the row it adds: the time cell (from
  \<open>RequestLog.custom_log_render\<close>), the level, then the message and the path, or the traceback
  alone.\<close>

definition log_render_row ::
  "(int \<Rightarrow> pystr) \<Rightarrow> (int \<Rightarrow> pystr) \<Rightarrow> log_record \<Rightarrow> 'tb option \<Rightarrow> pystr \<Rightarrow> log_state
   \<Rightarrow> log_state \<times> (time_cell \<times> (pystr \<times> pystr) \<times> 'tb row_body)" where
  "log_render_row format_time format_ms r traceback message st =
     (let (st', cell) = custom_log_render format_time format_ms (lr_created r) (lr_relative r) st in
      (st', (cell, get_level_text (lr_levelname r),
             case traceback of Some tb \<Rightarrow> TracebackCell tb | None \<Rightarrow> MessageCells message (path_text r))))"

datatype 'tb rendered = Nothing | LogTable "time_cell \<times> (pystr \<times> pystr) \<times> 'tb row_body"
  | Grid "time_cell \<times> (pystr \<times> pystr) \<times> 'tb row_body" "time_cell \<times> (pystr \<times> pystr) \<times> 'tb row_body"

text \<open>\<open>render\<close> (lines 177-190).\<close>

definition render ::
  "(int \<Rightarrow> pystr) \<Rightarrow> (int \<Rightarrow> pystr) \<Rightarrow> log_record \<Rightarrow> 'tb option \<Rightarrow> pystr \<Rightarrow> log_state
   \<Rightarrow> log_state \<times> 'tb rendered" where
  "render format_time format_ms r traceback message st =
     (let m = py_strip message in
      if m = [] then (st, Nothing) else
      let (st1, row1) = log_render_row format_time format_ms r None m st in
      case traceback of
        None \<Rightarrow> (st1, LogTable row1)
      | Some tb \<Rightarrow> (let (st2, row2) = log_render_row format_time format_ms r (Some tb) m st1 in
                    (st2, Grid row1 row2)))"

text \<open>\<open>int(s)\<close> on a string: optional whitespace and sign, digits with single underscores
  between them.\<close>

fun double_underscore :: "pystr \<Rightarrow> bool" where
  "double_underscore (a # b # cs) = (a = CHR ''_'' \<and> b = CHR ''_'' \<or> double_underscore (b # cs))"
| "double_underscore cs = False"

definition py_int_parse :: "pystr \<Rightarrow> int option" where
  "py_int_parse s = (let t = py_strip s;
       (neg, ds) = (case t of c # cs \<Rightarrow> if c = CHR ''-'' then (True, cs) else if c = CHR ''+'' then (False, cs)
                                       else (False, t) | [] \<Rightarrow> (False, []))
     in if ds \<noteq> [] \<and> py_isdigit (hd ds) \<and> py_isdigit (last ds)
           \<and> list_all (\<lambda>c. py_isdigit c \<or> c = CHR ''_'') ds
           \<and> \<not> double_underscore ds
        then Some ((if neg then -1 else 1) * int (py_int ds)) else None)"

text \<open>\<open>shutil.get_terminal_size(fallback)\<close>: a positive \<open>COLUMNS\<close>, else the terminal's width,
  else the fallback; it catches its own errors.\<close>

definition get_terminal_size :: "(pystr, pystr) pydict \<Rightarrow> nat option \<Rightarrow> int \<Rightarrow> int" where
  "get_terminal_size environ tty fallback =
     (case Option.bind (map_of environ ''COLUMNS'') py_int_parse of
        Some c \<Rightarrow> if 0 < c then c else (case tty of Some w \<Rightarrow> if 0 < w then int w else fallback | None \<Rightarrow> fallback)
      | None \<Rightarrow> (case tty of Some w \<Rightarrow> if 0 < w then int w else fallback | None \<Rightarrow> fallback))"

text \<open>\<open>get_terminal_width\<close> (lines 75-81): the \<open>int()\<close> of \<open>DEFAULT_TERMINAL_COLUMNS\<close> is outside
  the \<open>try\<close>; the \<open>except OSError\<close> is never reached.\<close>

definition get_terminal_width :: "(pystr, pystr) pydict \<Rightarrow> nat option \<Rightarrow> pystr + int" where
  "get_terminal_width environ tty =
     (let dflt = (case map_of environ ''DEFAULT_TERMINAL_COLUMNS'' of None \<Rightarrow> Some 80 | Some s \<Rightarrow> py_int_parse s) in
      case dflt of
        None \<Rightarrow> Inl ''ValueError''
      | Some d \<Rightarrow> Inr (get_terminal_size environ tty d))"

text \<open>\<open>CustomRichHandler.__init__\<close> (lines 61-72): the width, then an empty time column; the
  thread-local request state is the middleware's.\<close>

definition handler_init :: "(pystr, pystr) pydict \<Rightarrow> nat option \<Rightarrow> thread_locals \<Rightarrow> pystr + int \<times> log_state" where
  "handler_init environ tty tls = (case get_terminal_width environ tty of
       Inl e \<Rightarrow> Inl e | Inr w \<Rightarrow> Inr (w, \<lparr>locals = tls, last_time = None\<rparr>))"

text \<open>\<open>RainbowHighlighter.highlight\<close> (lines 18-20): \<open>randint\<close> is never imported.\<close>

definition rainbow_highlight :: "pystr \<Rightarrow> pystr + unit" where
  "rainbow_highlight text = (if text = [] then Inr () else Inl ''NameError: randint'')"

text \<open>\<open>RequestIDMiddleware.__call__\<close> (src/middleware.py, lines 23-41), the parts the thread
  locals of \<open>RequestLog\<close> leave out: the request line it logs and the CSP nonce it stores on the
  request. django-csp uses \<open>request._csp_nonce\<close> when it is set and draws a random nonce only
  when it is empty.\<close>

definition request_log_line :: "pystr \<times> pystr \<Rightarrow> pystr option \<Rightarrow> pystr" where
  "request_log_line request request_id =
     ''<Request> '' @ [CHR 0x22] @ fst request @ '' '' @ snd request @ [CHR 0x22] @ '' id=''
     @ (case request_id of None \<Rightarrow> ''None'' | Some r \<Rightarrow> r)"

definition request_csp_nonce :: "pystr option \<Rightarrow> pystr option" where
  "request_csp_nonce request_id = request_id"

definition csp_nonce_used :: "pystr option \<Rightarrow> pystr \<Rightarrow> pystr" where
  "csp_nonce_used stored random = (case stored of Some n \<Rightarrow> if n = [] then random else n | None \<Rightarrow> random)"

section \<open>Lemmas\<close>

text \<open>C19. With a traceback, \<open>render\<close> calls the log renderer twice for one record. The second
  row's time cell repeats the bold clock time when the record is at the start of a request, and
  otherwise shows the relative time only when the first row showed the clock, and blanks
  otherwise.\<close>

lemma render_traceback_rows:
  assumes "py_strip message \<noteq> []"
  shows "\<exists>st' c1 c2. render format_time format_ms r (Some tb) message st
     = (st', Grid (c1, get_level_text (lr_levelname r), MessageCells (py_strip message) (path_text r))
                  (c2, get_level_text (lr_levelname r), TracebackCell tb))
     \<and> (if lr_relative r = 0 then c1 = Bold (format_time (lr_created r)) \<and> c2 = c1
        else if \<not> tl_first_log_message_sent (locals st)
        then c1 = Bold (format_time (lr_created r))
             \<and> c2 = (if format_ms (lr_relative r) = format_time (lr_created r)
                    then Plain (replicate time_column_width CHR '' '') else Plain (format_ms (lr_relative r)))
        else c2 = Plain (replicate time_column_width CHR '' ''))"
  using assms
  by (auto simp: render_def log_render_row_def custom_log_render_def set_first_log_message_sent_def Let_def)

theorem render_traceback_rows_witness:
  "render (\<lambda>_. ''12:00:00'') (\<lambda>_. ''+5ms'')
     \<lparr>lr_name = ''app'', lr_levelname = ''ERROR'', lr_lineno = 3, lr_pathname = [], lr_created = 7, lr_relative = 5\<rparr>
     (Some ()) '' boom '' \<lparr>locals = locals_init, last_time = None\<rparr> =
   (\<lparr>locals = locals_init\<lparr>tl_first_log_message_sent := True\<rparr>, last_time = Some ''+5ms''\<rparr>,
    Grid (Bold ''12:00:00'', get_level_text ''ERROR'', MessageCells ''boom'' (path_text
            \<lparr>lr_name = ''app'', lr_levelname = ''ERROR'', lr_lineno = 3, lr_pathname = [], lr_created = 7, lr_relative = 5\<rparr>))
         (Plain ''+5ms'', get_level_text ''ERROR'', TracebackCell ()))"
proof -
  have m: "py_strip '' boom '' \<noteq> []"
    by (simp add: py_strip_def py_isspace_def cp_def)
  obtain st' c1 c2 where r: "render (\<lambda>_. ''12:00:00'') (\<lambda>_. ''+5ms'')
     \<lparr>lr_name = ''app'', lr_levelname = ''ERROR'', lr_lineno = 3, lr_pathname = [], lr_created = 7, lr_relative = 5\<rparr>
     (Some ()) '' boom '' \<lparr>locals = locals_init, last_time = None\<rparr> =
     (st', Grid (c1, get_level_text ''ERROR'', MessageCells (py_strip '' boom '') (path_text
            \<lparr>lr_name = ''app'', lr_levelname = ''ERROR'', lr_lineno = 3, lr_pathname = [], lr_created = 7, lr_relative = 5\<rparr>))
         (c2, get_level_text ''ERROR'', TracebackCell ()))"
    "c1 = Bold ''12:00:00''" "c2 = Plain ''+5ms''"
    using render_traceback_rows [OF m, of "\<lambda>_. ''12:00:00''" "\<lambda>_. ''+5ms''"
        "\<lparr>lr_name = ''app'', lr_levelname = ''ERROR'', lr_lineno = 3, lr_pathname = [], lr_created = 7, lr_relative = 5\<rparr>"
        "()" "\<lparr>locals = locals_init, last_time = None\<rparr>"]
    by (auto simp: locals_init_def)
  have "st' = \<lparr>locals = locals_init\<lparr>tl_first_log_message_sent := True\<rparr>, last_time = Some ''+5ms''\<rparr>"
    using r(1) by (simp add: render_def log_render_row_def custom_log_render_def set_first_log_message_sent_def
      locals_init_def Let_def py_strip_def py_isspace_def cp_def)
  then show ?thesis
    using r by (simp add: py_strip_def py_isspace_def cp_def)
qed

lemma log_render_examples:
  "get_level_text ''WARNING'' = (''WARNING'', ''yellow'')"
  "get_level_text ''TRACE'' = (''TRACE'', ''log.level'')"
  "get_terminal_width [(''DEFAULT_TERMINAL_COLUMNS'', ''wide'')] (Some 120) = Inl ''ValueError''"
  "get_terminal_width [(''DEFAULT_TERMINAL_COLUMNS'', '' 1_00 '')] None = Inr 100"
  "get_terminal_width [(''DEFAULT_TERMINAL_COLUMNS'', ''-5'')] None = Inr (-5)"
  "get_terminal_width [(''COLUMNS'', ''132'')] (Some 80) = Inr 132"
  "rainbow_highlight ''x'' = Inl ''NameError: randint''"
  by (simp_all add: get_level_text_def LEVEL_STYLES_def get_terminal_width_def get_terminal_size_def
      py_int_parse_def py_strip_def py_isspace_def py_isdigit_def cp_def py_int_def digit_val_def
      rainbow_highlight_def)

text \<open>The nonce of every response to a request that carries an \<open>X-Request-ID\<close> is that id,
  which the middleware also writes to the log.\<close>

lemma csp_nonce_is_logged_request_id:
  assumes "request_id = Some r" "r \<noteq> []"
  shows "csp_nonce_used (request_csp_nonce request_id) random = r
         \<and> suffix r (request_log_line request request_id)"
  using assms by (simp add: csp_nonce_used_def request_csp_nonce_def request_log_line_def suffix_def)

end
