(* ===== verification/Settings.thy ===== *)
theory Settings
  imports Middleware JSONField
begin

text \<open>
  The configuration of src/settings.py that is data: \<open>LOGGING\<close>, the static and media paths
  and \<open>CONTENT_SECURITY_POLICY\<close> (\<open>MIDDLEWARE\<close>, \<open>immutable_file_test\<close> and the connect-src
  rewrite are in \<open>Middleware\<close>). \<open>DEBUG\<close>, \<open>LOG_LEVEL\<close>, \<open>BASE_DIR\<close> and \<open>FRONTEND_URL\<close> come
  from the project's settings and are parameters. The \<open>LOGGING\<close> dict is a Python value; how
  \<open>logging\<close> reads it (logger hierarchy, effective level, handler level) is modelled from the
  library's documentation.
\<close>

section \<open>LOGGING\<close>

definition LOGGING :: "bool \<Rightarrow> pystr \<Rightarrow> pyval" where
  "LOGGING debug log_level = PDict [
     (''version'', PInt 1),
     (''disable_existing_loggers'', PBool False),
     (''loggers'', PDict [
        (''django'', PDict [(''level'', PStr ''DEBUG'')]),
        (''django.utils.autoreload'', PDict [(''level'', PStr ''INFO'')]),
        (''django.db.backends'', PDict [(''level'', PStr ''INFO'')]),
        (''django.template'', PDict [(''level'', PStr ''INFO'')])]),
     (''root'', PDict [(''handlers'', PList [PStr ''console'']), (''level'', PStr ''INFO'')]),
     (''formatters'', PDict [(''rich'', PDict [(''datefmt'', PStr ''%X''), (''format'', PStr ''%(message)s'')])]),
     (''handlers'', PDict [(''console'', PDict [
        (''class'', PStr ''djultra.logging.CustomRichHandler''),
        (''formatter'', PStr ''rich''),
        (''level'', PStr (if debug then ''DEBUG'' else log_level)),
        (''rich_tracebacks'', PBool True),
        (''tracebacks_show_locals'', PBool False),
        (''tracebacks_suppress'', PList [PStr ''venv'', PStr ''/usr/lib'']),
        (''markup'', PBool False)])])]"

definition pv_get :: "pyval \<Rightarrow> pystr \<Rightarrow> pyval option" where
  "pv_get v k = (case v of PDict d \<Rightarrow> map_of d k | _ \<Rightarrow> None)"

definition level_no :: "pystr \<Rightarrow> nat option" where
  "level_no n = map_of [(''DEBUG'', 10), (''INFO'', 20), (''WARNING'', 30), (''ERROR'', 40),
     (''CRITICAL'', 50)] n"

definition cfg_level :: "pyval option \<Rightarrow> nat option" where
  "cfg_level v = (case v of Some d \<Rightarrow> (case pv_get d ''level'' of Some (PStr l) \<Rightarrow> level_no l | _ \<Rightarrow> None)
                  | None \<Rightarrow> None)"

text \<open>A logger's name and its ancestors, nearest first: \<open>a.b.c\<close>, \<open>a.b\<close>, \<open>a\<close>.\<close>

definition logger_ancestors :: "pystr \<Rightarrow> pystr list" where
  "logger_ancestors name = (let ps = py_split (CHR ''.'') name in
     map (\<lambda>n. py_join ''.'' (take n ps)) (rev [1..<Suc (length ps)]))"

text \<open>\<open>Logger.getEffectiveLevel\<close>: the level of the nearest configured ancestor, else root's.\<close>

definition effective_level :: "pyval \<Rightarrow> pystr \<Rightarrow> nat option" where
  "effective_level cfg name =
     (let loggers = (case pv_get cfg ''loggers'' of Some l \<Rightarrow> l | None \<Rightarrow> PDict []) in
      case filter (\<lambda>a. cfg_level (pv_get loggers a) \<noteq> None) (logger_ancestors name) of
        a # as \<Rightarrow> cfg_level (pv_get loggers a)
      | [] \<Rightarrow> cfg_level (pv_get cfg ''root''))"

text \<open>A record reaches the console when its level passes the logger's effective level and the
  console handler's level (it propagates to root, whose only handler is the console).\<close>

definition console_shows :: "bool \<Rightarrow> pystr \<Rightarrow> pystr \<Rightarrow> pystr \<Rightarrow> bool" where
  "console_shows debug log_level logger level =
     (let cfg = LOGGING debug log_level;
          h = Option.bind (pv_get cfg ''handlers'') (\<lambda>hs. pv_get hs ''console'') in
      case (level_no level, effective_level cfg logger, cfg_level h) of
        (Some l, Some e, Some hl) \<Rightarrow> e \<le> l \<and> hl \<le> l
      | _ \<Rightarrow> False)"

section \<open>Static and media paths\<close>

definition path_div :: "pystr \<Rightarrow> pystr \<Rightarrow> pystr" where
  "path_div p q = p @ ''/'' @ q"

record static_settings =
  STATIC_URL :: pystr
  STATIC_ROOT :: pystr
  STATICFILES_DIRS :: "(pystr option \<times> pystr) list"
  DJANGO_VITE_ASSETS_PATH :: pystr
  DJANGO_VITE_MANIFEST_PATH :: pystr
  MEDIA_URL :: pystr
  MEDIA_ROOT :: pystr
  TEMP_ROOT :: pystr

definition static_paths :: "bool \<Rightarrow> pystr \<Rightarrow> static_settings" where
  "static_paths debug base_dir =
     (let static_root = path_div base_dir ''static/collected'';
          media_root = path_div base_dir ''media'' in
      \<lparr>STATIC_URL = ''/static/'', STATIC_ROOT = static_root,
       STATICFILES_DIRS = (if debug then [(None, path_div base_dir ''static/src''),
            (None, path_div base_dir ''static/frontend''),
            (Some ''src/assets'', path_div base_dir ''frontend/src/assets'')] else []),
       DJANGO_VITE_ASSETS_PATH = (if debug then path_div (path_div base_dir ''static'') ''frontend'' else static_root),
       DJANGO_VITE_MANIFEST_PATH = (if debug then path_div base_dir ''static/frontend/manifest.json''
                                    else path_div static_root ''manifest.json''),
       MEDIA_URL = ''media/'', MEDIA_ROOT = media_root, TEMP_ROOT = path_div media_root ''temp''\<rparr>)"

section \<open>CONTENT_SECURITY_POLICY\<close>

datatype csp_source = CSelf | CNonce | CNone | CUnsafeInline | CStrictDynamic | CHost pystr

definition CSP_EXTRA_HOST :: pystr where
  "CSP_EXTRA_HOST = []"

definition CONTENT_SECURITY_POLICY :: "pystr \<Rightarrow> (pystr \<times> csp_source list) list" where
  "CONTENT_SECURITY_POLICY frontend_url = [
     (''default-src'', [CSelf, CHost frontend_url, CNonce, CHost CSP_EXTRA_HOST]),
     (''style-src'', [CSelf, CHost frontend_url, CHost CSP_EXTRA_HOST, CHost ''https://sign.relonee.com'', CUnsafeInline]),
     (''frame-src'', [CSelf, CHost frontend_url, CHost CSP_EXTRA_HOST, CHost ''https://www.recaptcha.net'',
                      CHost ''https://sign.relonee.com'', CHost ''blob:'']),
     (''img-src'', [CSelf, CHost frontend_url, CHost CSP_EXTRA_HOST, CHost ''blob:'', CHost ''data:'']),
     (''connect-src'', [CSelf, CHost (connect_src_ws frontend_url), CHost frontend_url,
                        CHost ''http://localhost:3000'', CHost ''https://localhost:3000'', CHost ''https://www.recaptcha.net'']),
     (''worker-src'', [CSelf, CNonce, CHost ''blob:'']),
     (''object-src'', [CNone]),
     (''base-uri'', [CSelf])]"

section \<open>Lemmas\<close>

lemma prefix_join_take: "prefix (py_join sep (take n xs)) (py_join sep xs)"
proof (induction sep xs arbitrary: n rule: py_join.induct)
  case (2 sep x)
  then show ?case by (cases n) auto
next
  case (3 sep x y ys)
  then show ?case
  proof (cases n)
    case (Suc m)
    with 3[of m] show ?thesis by (cases m) auto
  qed simp
qed simp

lemma logger_ancestors_prefix: "a \<in> set (logger_ancestors name) \<Longrightarrow> prefix a name"
proof -
  assume "a \<in> set (logger_ancestors name)"
  then obtain n where "a = py_join ''.'' (take n (py_split (CHR ''.'') name))"
    by (auto simp: logger_ancestors_def Let_def)
  then show ?thesis
    using prefix_join_take[of "''.''" n "py_split (CHR ''.'') name"] py_join_split[of "CHR ''.''" name]
    by simp
qed

lemma effective_level_root:
  assumes "\<not> prefix ''django'' name"
  shows "effective_level (LOGGING debug log_level) name = Some 20"
proof -
  have "filter (\<lambda>a. cfg_level (pv_get (PDict [
        (''django'', PDict [(''level'', PStr ''DEBUG'')]),
        (''django.utils.autoreload'', PDict [(''level'', PStr ''INFO'')]),
        (''django.db.backends'', PDict [(''level'', PStr ''INFO'')]),
        (''django.template'', PDict [(''level'', PStr ''INFO'')])]) a) \<noteq> None) (logger_ancestors name) = []"
  proof (rule filter_False, rule ballI)
    fix a assume "a \<in> set (logger_ancestors name)"
    then have p: "prefix a name" by (rule logger_ancestors_prefix)
    show "\<not> cfg_level (pv_get (PDict [
        (''django'', PDict [(''level'', PStr ''DEBUG'')]),
        (''django.utils.autoreload'', PDict [(''level'', PStr ''INFO'')]),
        (''django.db.backends'', PDict [(''level'', PStr ''INFO'')]),
        (''django.template'', PDict [(''level'', PStr ''INFO'')])]) a) \<noteq> None"
    proof
      assume "cfg_level (pv_get (PDict [
        (''django'', PDict [(''level'', PStr ''DEBUG'')]),
        (''django.utils.autoreload'', PDict [(''level'', PStr ''INFO'')]),
        (''django.db.backends'', PDict [(''level'', PStr ''INFO'')]),
        (''django.template'', PDict [(''level'', PStr ''INFO'')])]) a) \<noteq> None"
      then have "prefix ''django'' a"
        by (auto simp: cfg_level_def pv_get_def split: if_splits option.splits)
      with p assms show False using prefix_order.trans by blast
    qed
  qed
  then show ?thesis
    by (simp add: effective_level_def LOGGING_def pv_get_def cfg_level_def level_no_def)
qed

text \<open>C13. No \<open>logger.debug\<close> call outside Django's own loggers reaches the console, even with
  \<open>DEBUG\<close>: the handler's level is \<open>DEBUG\<close> then, but those loggers inherit root's \<open>INFO\<close>.\<close>

lemma console_hides_app_debug:
  "\<not> prefix ''django'' name \<Longrightarrow> \<not> console_shows debug log_level name ''DEBUG''"
  by (simp add: console_shows_def effective_level_root level_no_def split: option.splits)

theorem console_hides_app_debug_witness:
  "\<not> console_shows True ''DEBUG'' ''djultra.middleware'' ''DEBUG''"
proof -
  have "\<not> prefix ''django'' ''djultra.middleware''"
    by simp
  then show ?thesis
    by (rule console_hides_app_debug)
qed

lemma console_shows_examples:
  "console_shows True ''WARNING'' ''django.request'' ''DEBUG''"
  "\<not> console_shows True ''WARNING'' ''django.db.backends'' ''DEBUG''"
  "console_shows True ''WARNING'' ''django.db.backends'' ''INFO''"
  "\<not> console_shows False ''WARNING'' ''django.request'' ''INFO''"
  "console_shows False ''WARNING'' ''djultra.middleware'' ''WARNING''"
  by (simp_all add: console_shows_def effective_level_def LOGGING_def pv_get_def cfg_level_def
      level_no_def logger_ancestors_def py_split.simps upt_rec)

text \<open>The policy: \<open>'unsafe-inline'\<close> only for styles; no \<open>script-src\<close>, so scripts fall back to
  \<open>default-src\<close> (self, the frontend, the nonce, and the empty \<open>CSP_EXTRA_HOST\<close>); \<open>object-src\<close>
  is \<open>'none'\<close>; every other directive allows \<open>'self'\<close>.\<close>

lemma csp_policy:
  "list_all (\<lambda>(d, srcs). (CUnsafeInline \<in> set srcs \<longleftrightarrow> d = ''style-src'')
                          \<and> (CSelf \<in> set srcs \<longleftrightarrow> d \<noteq> ''object-src'')) (CONTENT_SECURITY_POLICY fu)"
  "''script-src'' \<notin> fst ` set (CONTENT_SECURITY_POLICY fu)"
  "map_of (CONTENT_SECURITY_POLICY fu) ''default-src'' = Some [CSelf, CHost fu, CNonce, CHost []]"
  "map_of (CONTENT_SECURITY_POLICY fu) ''object-src'' = Some [CNone]"
  by (simp_all add: CONTENT_SECURITY_POLICY_def CSP_EXTRA_HOST_def)

lemma vite_manifest_in_assets:
  "DJANGO_VITE_MANIFEST_PATH (static_paths debug base)
     = path_div (DJANGO_VITE_ASSETS_PATH (static_paths debug base)) ''manifest.json''"
  by (simp add: static_paths_def path_div_def Let_def)

end
