(* ===== verification/Spec2Isabelle.thy ===== *)
theory Spec2Isabelle
  imports DateRoundtrip TextFields DecimalField AdminInstall AdminLists RequestLog Middleware ConfigLoader FieldOptions
    Serializers DynamicSerializer BaseModel DevTools Cookies LogRender Settings
begin

text \<open>
  \<^bold>\<open>A verification development of djultra.\<close> djultra (src/) extends a Django project with
  model field types, a generated admin, request-scoped logging, middleware and a settings
  loader. This development is a shallow embedding of that code in Isabelle/HOL. Each function
  or method becomes a HOL definition that computes, and the theorems are about those
  definitions. Django, the database, \<open>requests\<close>, \<open>rich\<close> and the standard library functions the
  code only calls enter as function parameters, or are modelled from their documented
  behaviour where the claim depends on it: \<open>datetime.strptime\<close>, \<open>re.sub\<close>/\<open>re.search\<close>,
  \<open>str\<close> methods, \<open>configparser\<close>'s DEFAULT section, and PostgreSQL \<open>nextval\<close>/\<open>setval\<close>.

  \<^bold>\<open>How the parts interact.\<close> A model's fields parse user input: \<open>DateField\<close>, \<open>DecimalField\<close>,
  the text fields. \<open>admin/install.py\<close> registers an admin class for every model. It takes the
  class from \<open>BaseModelAdmin\<close> and \<open>AutoFieldsetsMixin\<close> (\<open>admin/base.py\<close>) and turns every model
  method marked by \<open>base.admin_action\<close> into an admin action. The action reports through
  \<open>ActionResultReporter\<close>. At run time, \<open>AdminActionLoggerMiddleware\<close> stores the last action
  POST in the session and \<open>changelist_view\<close> reads it back. \<open>RequestIDMiddleware\<close> keeps
  per-thread request state, and \<open>CustomRichHandler\<close> reads it for its time column.
  \<open>ConfigLoader\<close> reads settings. The API serializers render models through
  \<open>DynamicFieldsModelSerializer\<close> and its \<open>ModelMethodField\<close>s; the session serializer encodes
  values with \<open>CustomJSONEncoder\<close>. \<open>BaseModel\<close> and \<open>BaseQuerySet\<close> are the base of the models;
  the system checks and the \<open>dev\<close> command run at start-up.

  \<^bold>\<open>Theories, and which code each models.\<close>
  \<^item> \<open>Prelude\<close>: the Python vocabulary. Characters are Latin-1 code points; \<open>str.isspace\<close>,
    \<open>isalnum\<close>, \<open>\w\<close> and \<open>\b\<close> follow CPython on that range. Also \<open>strip\<close>, \<open>lower\<close>, \<open>upper\<close>,
    \<open>split\<close>, \<open>join\<close> and \<open>replace\<close>, dicts as association lists in insertion order
    (\<open>dict_set\<close>, \<open>dict_update\<close>), and \<open>re_sub\<close>. \<open>re_sub\<close> is the left-to-right scan of
    \<open>re.sub\<close> with a matcher per pattern. It is a \<open>function\<close> whose termination is proved: every
    step consumes at least one character.
  \<^item> \<open>DateNormalize\<close>, \<open>Strptime\<close>, \<open>DateField\<close> and \<open>DateRoundtrip\<close> model
    \<open>DateField.to_python\<close> in src/fields.py:
    \<^item> every rewrite of the raw string, in order;
    \<^item> the thirteen formats;
    \<^item> CPython's \<open>_strptime\<close>: the regex it compiles from a format, a backtracking matcher that
      lists the matches in the engine's priority order, the \<open>%y\<close> pivot, and the range checks;
    \<^item> the first-match loop.
    Properties C1, C3 and C6-C10: the first match, the error, the \<open>%y\<close> pivot, and round trips
    of ISO, dotted, slashed and six-digit \<open>YYMMDD\<close> dates. Runs on the spec's scenarios are
    lemmas of \<open>DateField\<close>.
  \<^item> \<open>TextFields\<close> models the quote and parenthesis stripping, \<open>GenderField.to_python\<close> and
    \<open>CountryField.clean\<close> (C11). \<open>DecimalField\<close> models the German and English number
    formats of \<open>DecimalField.to_python\<close>, with the backtracking of their greedy groups (C15,
    C16).
  \<^item> \<open>Reporter\<close> models \<open>ActionResultReporter\<close> and \<open>admin/install.make_action\<close>: the three
    record lists, the loop over the queryset, and the messages (C18, C20).
  \<^item> \<open>AdminInstall\<close> models \<open>install()\<close> and \<open>base.admin_action\<close>. Python's list objects are an
    explicit store, so the aliasing of the inherited \<open>BaseModelAdmin.actions\<close> list is visible
    (C22).
  \<^item> \<open>AdminFields\<close> models \<open>AutoFieldsetsMixin.get_fieldsets\<close>, with a loop invariant on its
    fold over \<open>_meta.fields\<close> (C24, C25).
  \<^item> \<open>AdminLists\<close> models the list methods of \<open>BaseModelAdmin\<close>, the logging \<open>admin_action\<close>
    wrapper of \<open>admin/base.py\<close>, and \<open>AutocompleteSelectWithPlaceholder.build_attrs\<close>. The wrapper
    runs on an explicit database state and the queryset's result cache, which the action may
    fill or clear: the log loop reads the cache when it is filled and re-evaluates the filter
    on the database the action left otherwise (C28, C29, C32, C33).
  \<^item> \<open>RequestLog\<close> models the thread-local state of \<open>RequestIDMiddleware\<close> together with
    \<open>CustomRichHandler.emit\<close> and \<open>custom_log_render\<close> (src/logging.py). One thread is a sequence
    of requests and log calls, given as the step function \<open>log_step\<close>. Its reachable states are
    an inductive predicate, with an invariant proved by rule induction (C2). The time column of
    a whole request is computed exactly: bold clock at the start, then the relative time,
    blanked when it repeats the previous display (C35).
  \<^item> \<open>LogRender\<close> models the rest of \<open>CustomRichHandler\<close>: the level styles, the row
    \<open>custom_log_render\<close> builds, \<open>render\<close> (a traceback renders a second row through the same
    time-column state), the terminal width read at construction, \<open>RainbowHighlighter\<close>, and
    the request line and CSP nonce of \<open>RequestIDMiddleware\<close> (C19).
  \<^item> \<open>Middleware\<close> models src/middleware.py: \<open>AdminActionLoggerMiddleware\<close> composed with
    \<open>changelist_view\<close>, \<open>AdminSessionMiddleware\<close> under interleaved requests, and
    \<open>AdjustSequenceMiddleware\<close> on a model of PostgreSQL sequences. It also holds
    \<open>QueryLogging\<close>, \<open>DevProxy\<close> and \<open>ArtificialDelay\<close>, and, from src/settings.py, the
    \<open>MIDDLEWARE\<close> chain, \<open>immutable_file_test\<close> and the connect-src rewrite (C36-C38).
  \<^item> \<open>Settings\<close> models the data of src/settings.py: \<open>LOGGING\<close> as a Python value with the
    logger hierarchy that reads it (no \<open>logger.debug\<close> outside Django's loggers reaches the
    console, C13), the static and media paths, and \<open>CONTENT_SECURITY_POLICY\<close>.
  \<^item> \<open>ConfigLoader\<close> models src/utils/config_loader.py. The process-wide cache is explicit state.
    A refinement theorem compares it with a lookup that has no cache (C39).
  \<^item> \<open>JSONField\<close> models \<open>DotDict\<close> and \<open>JSONField.from_db_value\<close>. A Python value is a
    datatype. The conversion converts every value twice (once itself, once more through
    \<open>__setitem__\<close>), so it is a nested recursion: a \<open>function\<close> whose termination is proved with
    a weight measure and a lemma, proved by \<open>pinduct\<close>, that conversion does not add weight
    (C40).
  \<^item> \<open>FieldOptions\<close> models the constructors of the field classes, as the option dicts they pass
    to Django, and \<open>CleanValueDescriptor\<close> composed with \<open>DateField.to_python\<close>.
  \<^item> \<open>Serializers\<close> models \<open>CustomJSONEncoder.default\<close> of src/serializers.py. A \<open>Decimal\<close> is
    its sign, coefficient and exponent; \<open>format(obj, 'f')\<close> and the two \<open>rstrip\<close> calls are
    written out. Integral decimals lose their trailing zeros (C12); fractional ones keep their
    value (C14).
  \<^item> \<open>ModelMethodField\<close> models the field of that name: attribute lookup is a parameter
    that may raise \<open>ValueError\<close>; \<open>get_field_value\<close>'s dotted walk, which returns the parent
    object on a \<open>ValueError\<close> (C4); \<open>to_representation\<close>,
    which stores the \<open>get_\<close> prefix in the field, so one field rendering a list carries the
    choice from item to item (C21).
  \<^item> \<open>DynamicSerializer\<close> models \<open>DynamicFieldsModelSerializer\<close>: \<open>__init__\<close> with \<open>get_param\<close>
    (a non-empty context leaves the keyword arguments for \<open>super().__init__\<close>, C5),
    the class-level \<open>Meta.model\<close> as a store shared by the instances of a class (C17),
    \<open>self.fields\<close> built on first access, \<open>late_init\<close> with the relations loop nested in the
    dynamic loop (C23), \<open>to_representation\<close> with \<open>super()\<close> as a parameter and its key
    renaming (C31), and \<open>NoPagination\<close>.
  \<^item> \<open>BaseModel\<close> models src/base.py: \<open>BaseQuerySet.delete\<close> on a list of rows with each
    instance's \<open>delete\<close> a parameter; an override that archives the row shows both the
    per-row calls and the final bulk delete (C30); \<open>get_admin_url\<close>, \<open>admin_link\<close> and \<open>to_dict\<close>
    (C26).
  \<^item> \<open>Cookies\<close> models \<open>PatchMorselMiddleware\<close> together with the part of CPython's
    \<open>http.cookies\<close> it patches: the class-level \<open>_reserved\<close> and \<open>_flags\<close>, \<open>Morsel()\<close>,
    \<open>__setitem__\<close> and \<open>OutputString\<close>. Every cookie set after the patch is \<open>Partitioned\<close>
    (C27).
  \<^item> \<open>DevTools\<close> models src/checks.py and the \<open>dev\<close> command. The command's processes are a
    step function (fork, serve, the \<open>finally\<close> that kills and reaps the worker, reloader
    restarts) with an inductive reachability predicate and an invariant proved by rule
    induction (C34).
  \<^item> This theory holds properties across components: a date stored by the JSON encoder is read
    back by \<open>DateField.to_python\<close>, and \<open>admin_link\<close> renders \<open>get_change_link\<close>'s anchor.

  \<^bold>\<open>Kinds of result.\<close>
  \<^item> Functional behaviour of each operation on every branch, errors included as \<open>Inl\<close>/\<open>None\<close>.
  \<^item> Invariants: the fieldset loop, the reporter partition, the reachable logging states, the
    worker processes of the \<open>dev\<close> command.
  \<^item> Equivalences (lemmas): \<open>get_list_display_links = take 2\<close>; \<open>BaseQuerySet.delete\<close> with
    Django's own \<open>Model.delete\<close> is \<open>QuerySet.delete\<close>.
  \<^item> Refinement: the reporter fold and the config cache.
  \<^item> Termination of the nested recursion of \<open>DotDict\<close>.
  \<^item> Round trips: dates, the last-action session entry, and fractional decimals through the
    JSON encoder.
  \<^item> Safety: escaping, no application DEBUG record on the console, the shared actions list, the cookie race, and
    the state shared between serializer instances (\<open>Meta.model\<close>, the stored method name).
  \<^item> Liveness-style results: the next sequence value is fresh; the clock starts at the first
    record of a request.
  Each claim with a hypothesis has a witness that applies it at a concrete input.

  \<^bold>\<open>Bounds and loops.\<close>
  \<^item> No fuel is used. Every loop of the code is a structural \<open>fun\<close> or a \<open>foldl\<close> over a finite
    list. \<open>re_sub\<close>, \<open>compile_format\<close> and the \<open>DotDict\<close> conversion are \<open>function\<close>s with
    measure termination proofs.
  \<^item> Times are integers (microseconds); sequence values and ids are \<open>int\<close>. Python's ints are
    unbounded, so nothing wraps.
  \<^item> Only Latin-1 characters are modelled. Inputs outside that range are outside the theorems.

  \<^bold>\<open>Not modelled, and why.\<close>
  \<^item> Django's ORM, forms and admin machinery: only their results enter, as parameters.
  \<^item> The regexes of \<open>CustomHighlighter\<close> and Rich's drawing of tables and styles in
    src/logging.py; the rows are modelled as their cells.
  \<^item> src/apps.py: \<open>ready\<close> only imports the checks.
  \<^item> \<open>CustomJSONSerializer.dumps/loads\<close> (calls of \<open>json.dumps\<close>/\<open>json.loads\<close>),
    \<open>BaseManager.get_queryset\<close> (it only constructs the queryset class), the DRF list serializer
    and \<open>ModelSerializer.to_representation\<close> (parameters), and the worker and runserver the
    \<open>dev\<close> command starts.
  \<^item> A process killed without running its \<open>finally\<close> block (SIGKILL) is outside the process
    model of the \<open>dev\<close> command.
  The components of PROJECT.json record the status of each part.
\<close>

section \<open>Properties across components\<close>

text \<open>A date stored through \<open>CustomJSONEncoder\<close> (the session serializer) is the ISO string
  \<open>DateField.to_python\<close> reads back as the same date.\<close>

lemma session_date_roundtrip:
  assumes "valid_date y m d"
  shows "encoder_default isoformat super_default (JDate (mk_date y m d))
           = EncStr (iso_date y m d)
         \<and> date_to_python (PyStr (iso_date y m d)) = Inr (PyDate (mk_date y m d))"
proof
  show "encoder_default isoformat super_default (JDate (mk_date y m d)) = EncStr (iso_date y m d)"
    by (simp add: encoder_default_def date_isoformat_def mk_date_def iso_date_def)
  show "date_to_python (PyStr (iso_date y m d)) = Inr (PyDate (mk_date y m d))"
    using iso_date_parse [OF assms] by (simp add: date_to_python_PyStr normalize_iso_date)
qed

text \<open>\<open>BaseModel.admin_link\<close> without a link text renders the same anchor as
  \<open>BaseModelAdmin.get_change_link\<close> when both reverse the same change URL.\<close>

lemma admin_link_is_change_link:
  "admin_link (get_admin_url reverse app model (pk record)) (str_of record) None
     = get_change_link (\<lambda>n. get_admin_url reverse app model n) str_of pk record"
  by (rule admin_link_change_link)

end
